(* ===== verification/Prelude.thy ===== *)
theory Prelude
  imports Main "HOL-Library.Word" "HOL-Library.Sublist"
begin

text \<open>
  Shared vocabulary of the development: the types that stand for Go's strings, times and
  durations, error results as sums, the pieces of Go's standard library the sources use on
  strings (\<open>strings.TrimSpace\<close>, \<open>strings.ToLower\<close>, \<open>strconv.Itoa\<close>), and the collections of
  rewrite rules the component theories extend.

  A Go string is a sequence of bytes and so is HOL's \<^typ>\<open>string\<close>; \<open>len(s)\<close> is \<^const>\<open>length\<close>.
\<close>

section \<open>Types and rule collections\<close>

text \<open>A \<open>time.Time\<close> is its number of nanoseconds since the epoch; a \<open>time.Duration\<close> is a
  signed 64-bit count of nanoseconds and wraps around.\<close>

type_synonym Time = int
type_synonym Duration = "64 word"

named_theorems go_defs \<open>definitions of the standard library helpers\<close>
named_theorems domain_defs \<open>definitions of the domain layer\<close>
named_theorems usecase_defs \<open>definitions of the use cases\<close>
named_theorems adapter_defs \<open>definitions of the adapters\<close>

definition time_Add :: "Time \<Rightarrow> Duration \<Rightarrow> Time" where
  "time_Add t d = t + sint d"

section \<open>Error results\<close>

text \<open>The Go idiom \<open>x, err := f(); if err != nil { return err }\<close> on a sum type.\<close>

definition bind_res :: "'e + 'a \<Rightarrow> ('a \<Rightarrow> 'e + 'b) \<Rightarrow> 'e + 'b" where
  "bind_res r f = (case r of Inl e \<Rightarrow> Inl e | Inr a \<Rightarrow> f a)"

lemma bind_res_simps [simp]:
  "bind_res (Inl e) f = Inl e"
  "bind_res (Inr a) f = f a"
  by (simp_all add: bind_res_def)

lemma bind_res_eq_Inr:
  "bind_res r f = Inr b \<longleftrightarrow> (\<exists>a. r = Inr a \<and> f a = Inr b)"
  by (cases r) auto

lemma bind_res_eq_Inl:
  "bind_res r f = Inl e \<longleftrightarrow> r = Inl e \<or> (\<exists>a. r = Inr a \<and> f a = Inl e)"
  by (cases r) auto

section \<open>Strings\<close>

subsection \<open>\<open>strings.TrimSpace\<close>\<close>

text \<open>The UTF-8 encodings of the runes \<open>unicode.IsSpace\<close> accepts: the six ASCII spaces,
  U+0085, U+00A0, U+1680, U+2000 to U+200A, U+2028, U+2029, U+202F, U+205F and U+3000.
  None of them is a proper prefix or suffix of another, and a decoder that walks the
  string from either end meets them exactly where they match.\<close>

definition ascii_spaces :: "char list" where
  "ascii_spaces = [CHR 0x09, CHR 0x0A, CHR 0x0B, CHR 0x0C, CHR 0x0D, CHR 0x20]"

definition wide_spaces :: "string list" where
  "wide_spaces =
     [[CHR 0xC2, CHR 0x85], [CHR 0xC2, CHR 0xA0], [CHR 0xE1, CHR 0x9A, CHR 0x80]] @
     map (\<lambda>c. [CHR 0xE2, CHR 0x80, c])
       [CHR 0x80, CHR 0x81, CHR 0x82, CHR 0x83, CHR 0x84, CHR 0x85, CHR 0x86, CHR 0x87,
        CHR 0x88, CHR 0x89, CHR 0x8A, CHR 0xA8, CHR 0xA9, CHR 0xAF] @
     [[CHR 0xE2, CHR 0x81, CHR 0x9F], [CHR 0xE3, CHR 0x80, CHR 0x80]]"

definition space_runes :: "string list" where
  "space_runes = map (\<lambda>c. [c]) ascii_spaces @ wide_spaces"

definition is_ascii :: "char \<Rightarrow> bool" where
  "is_ascii c \<longleftrightarrow> (of_char c :: nat) < 128"

lemma wide_spaces_bytes: "list_all (\<lambda>p. p \<noteq> [] \<and> list_all (\<lambda>c. \<not> is_ascii c) p) wide_spaces"
  by (simp add: wide_spaces_def is_ascii_def)

lemma ascii_spaces_ascii: "list_all is_ascii ascii_spaces"
  by (simp add: ascii_spaces_def is_ascii_def)

lemma space_runes_nonempty: "p \<in> set space_runes \<Longrightarrow> p \<noteq> []"
  using wide_spaces_bytes by (auto simp: space_runes_def list_all_iff)

lemma find_space_rune_shorter:
  assumes "find (\<lambda>p. prefix p s) space_runes = Some p"
  shows "length (drop (length p) s) < length s"
proof -
  from assms have "prefix p s" and "p \<in> set space_runes"
    by (auto simp: find_Some_iff)
  moreover from this have "p \<noteq> []" by (auto dest: space_runes_nonempty)
  ultimately show ?thesis
    by (cases s; cases p) auto
qed

function trim_left :: "string \<Rightarrow> string" where
  "trim_left s = (case find (\<lambda>p. prefix p s) space_runes of
                    None \<Rightarrow> s
                  | Some p \<Rightarrow> trim_left (drop (length p) s))"
  by pat_completeness auto
termination
  by (relation "measure length") (auto dest: find_space_rune_shorter)

declare trim_left.simps [simp del]

lemma find_suffix_rune_shorter:
  assumes "find (\<lambda>p. suffix p s) space_runes = Some p"
  shows "length (take (length s - length p) s) < length s"
proof -
  from assms have "suffix p s" and "p \<in> set space_runes"
    by (auto simp: find_Some_iff)
  moreover from this have "p \<noteq> []" by (auto dest: space_runes_nonempty)
  ultimately have "0 < length p" and "length p \<le> length s"
    by (auto dest: suffix_length_le)
  then have "length s - length p < length s" by arith
  then show ?thesis by simp
qed

function trim_right :: "string \<Rightarrow> string" where
  "trim_right s = (case find (\<lambda>p. suffix p s) space_runes of
                     None \<Rightarrow> s
                   | Some p \<Rightarrow> trim_right (take (length s - length p) s))"
  by pat_completeness auto
termination
  by (relation "measure length") (use find_suffix_rune_shorter in auto)

declare trim_right.simps [simp del]

definition strings_TrimSpace :: "string \<Rightarrow> string" where
  "strings_TrimSpace s = trim_right (trim_left s)"

text \<open>ASCII spaces around a string are trimmed away.\<close>

lemma find_single_prefix:
  "c \<in> set cs \<Longrightarrow> find (\<lambda>p. prefix p (c # s)) (map (\<lambda>c. [c]) cs @ ps) = Some [c]"
  by (induction cs) auto

lemma find_single_suffix:
  "c \<in> set cs \<Longrightarrow> find (\<lambda>p. suffix p (s @ [c])) (map (\<lambda>c. [c]) cs @ ps) = Some [c]"
  by (induction cs) auto

lemmas ascii_space_rune = find_single_prefix [of _ ascii_spaces _ wide_spaces, folded space_runes_def]
lemmas ascii_space_suffix_rune =
  find_single_suffix [of _ ascii_spaces _ wide_spaces, folded space_runes_def]

lemma trim_left_space: "set ws \<subseteq> set ascii_spaces \<Longrightarrow> trim_left (ws @ s) = trim_left s"
  by (induction ws) (simp, simp add: trim_left.simps [of "_ # _"] ascii_space_rune)

lemma trim_right_space: "set ws \<subseteq> set ascii_spaces \<Longrightarrow> trim_right (s @ ws) = trim_right s"
proof (induction ws rule: rev_induct)
  case (snoc c ws)
  then have "find (\<lambda>p. suffix p (s @ ws @ [c])) space_runes = Some [c]"
    using ascii_space_suffix_rune [of c "s @ ws"] by simp
  then have "trim_right (s @ ws @ [c]) = trim_right (s @ ws)"
    by (simp add: trim_right.simps [of "s @ ws @ [c]"])
  with snoc show ?case by simp
qed simp

lemma long_rune_not_ascii:
  "p \<in> set space_runes \<Longrightarrow> length p \<noteq> 1 \<Longrightarrow> c \<in> set p \<Longrightarrow> c \<notin> set ascii_spaces"
  using wide_spaces_bytes ascii_spaces_ascii by (auto simp: space_runes_def list_all_iff)

lemma prefix_space_append:
  assumes "p \<in> set space_runes" and "s \<noteq> []" and "set ws \<subseteq> set ascii_spaces"
  shows "prefix p (s @ ws) \<longleftrightarrow> prefix p s"
proof (cases "length p = 1")
  case True
  with assms(2) show ?thesis by (cases s) (auto simp: length_Suc_conv)
next
  case False
  show ?thesis
  proof
    assume "prefix p (s @ ws)"
    then consider "prefix p s" | zs where "p = s @ zs" "prefix zs ws"
      by (auto simp: prefix_append)
    then show "prefix p s"
    proof cases
      case 2
      then have "set zs \<subseteq> set ascii_spaces" using assms(3) by (meson set_mono_prefix subset_trans)
      with 2 False assms(1) have "zs = []"
        using long_rune_not_ascii [of p "hd zs"] by (cases zs) auto
      with 2 show ?thesis by simp
    qed simp
  qed (simp add: prefix_append)
qed

lemma trim_left_Nil [simp]: "trim_left [] = []"
proof -
  have "find (\<lambda>p. prefix p ([] :: string)) space_runes = None"
    by (auto simp: find_None_iff dest: space_runes_nonempty)
  then show ?thesis by (simp add: trim_left.simps [of "[]"])
qed

lemma trim_left_append_space:
  assumes "set ws \<subseteq> set ascii_spaces"
  shows "trim_left (s @ ws) = (if trim_left s = [] then [] else trim_left s @ ws)"
proof (induction s rule: trim_left.induct)
  case (1 s)
  show ?case
  proof (cases "s = []")
    case True
    then show ?thesis using trim_left_space [OF assms, of "[]"] by simp
  next
    case False
    then have same: "find (\<lambda>p. prefix p (s @ ws)) space_runes = find (\<lambda>p. prefix p s) space_runes"
      using assms prefix_space_append [OF _ False assms] by (intro find_cong) auto
    show ?thesis
    proof (cases "find (\<lambda>p. prefix p s) space_runes")
      case None
      with False show ?thesis by (simp add: trim_left.simps [of s] trim_left.simps [of "s @ ws"] same)
    next
      case (Some p)
      then have "prefix p s" by (auto simp: find_Some_iff)
      then have "drop (length p) (s @ ws) = drop (length p) s @ ws"
        by (simp add: prefix_length_le)
      with Some "1" show ?thesis
        by (simp add: trim_left.simps [of s] trim_left.simps [of "s @ ws"] same)
    qed
  qed
qed

lemma TrimSpace_surrounding:
  assumes "set ws \<subseteq> set ascii_spaces" and "set ws' \<subseteq> set ascii_spaces"
  shows "strings_TrimSpace (ws @ s @ ws') = strings_TrimSpace s"
  using assms
  by (simp add: strings_TrimSpace_def trim_left_space trim_left_append_space trim_right_space)

text \<open>An ASCII string whose ends are not spaces is left alone.\<close>

lemma ascii_rune_hd:
  assumes "p \<in> set space_runes" and "is_ascii (hd p)" shows "hd p \<in> set ascii_spaces"
  using assms wide_spaces_bytes hd_in_set [of p] by (auto simp: space_runes_def list_all_iff)

lemma ascii_rune_last:
  assumes "p \<in> set space_runes" and "is_ascii (last p)" shows "last p \<in> set ascii_spaces"
  using assms wide_spaces_bytes last_in_set [of p] by (auto simp: space_runes_def list_all_iff)

lemma TrimSpace_ascii_id:
  assumes "list_all is_ascii v" and "v \<noteq> []"
    and "hd v \<notin> set ascii_spaces" and "last v \<notin> set ascii_spaces"
  shows "strings_TrimSpace v = v"
proof -
  have "\<not> prefix p v" if p: "p \<in> set space_runes" for p
  proof
    assume "prefix p v"
    with space_runes_nonempty [OF p] have "hd p = hd v" by (auto elim!: prefixE)
    with ascii_rune_hd [OF p] assms show False by (cases v) auto
  qed
  then have "find (\<lambda>p. prefix p v) space_runes = None" by (simp add: find_None_iff)
  moreover have "\<not> suffix p v" if p: "p \<in> set space_runes" for p
  proof
    assume "suffix p v"
    with space_runes_nonempty [OF p] have "last p = last v" by (auto elim!: suffixE)
    with ascii_rune_last [OF p] assms show False by (cases v rule: rev_cases) auto
  qed
  then have "find (\<lambda>p. suffix p v) space_runes = None" by (simp add: find_None_iff)
  ultimately show ?thesis
    by (simp add: strings_TrimSpace_def trim_left.simps [of v] trim_right.simps [of v])
qed

subsection \<open>\<open>strings.ToLower\<close>\<close>

text \<open>ASCII letters are shifted. Outside ASCII exactly two runes have an ASCII lower case:
  U+0130 (\<open>i\<close>) and U+212A (\<open>k\<close>). Every other rune outside ASCII is mapped to a rune
  outside ASCII; it is kept as it is here, which the callers, who compare the
  result with ASCII constants only, cannot observe.\<close>

definition lower_byte :: "char \<Rightarrow> char" where
  "lower_byte c = (if 65 \<le> (of_char c :: nat) \<and> (of_char c :: nat) \<le> 90
                   then char_of ((of_char c :: nat) + 32) else c)"

fun strings_ToLower :: "string \<Rightarrow> string" where
  "strings_ToLower [] = []"
| "strings_ToLower (c # s) =
     (if c = CHR 0xC4 \<and> prefix [CHR 0xB0] s then CHR ''i'' # strings_ToLower (drop 1 s)
      else if c = CHR 0xE2 \<and> prefix [CHR 0x84, CHR 0xAA] s
      then CHR ''k'' # strings_ToLower (drop 2 s)
      else lower_byte c # strings_ToLower s)"

lemma ToLower_ascii: "list_all is_ascii s \<Longrightarrow> strings_ToLower s = map lower_byte s"
proof (induction s)
  case (Cons c s)
  then have "c \<noteq> CHR 0xC4" and "c \<noteq> CHR 0xE2" by (auto simp: is_ascii_def)
  with Cons show ?case by simp
qed simp

text \<open>The normalisation every parser of the domain layer starts with.\<close>

definition normalise :: "string \<Rightarrow> string" where
  "normalise s = strings_ToLower (strings_TrimSpace s)"

lemma normalise_surrounding:
  "set ws \<subseteq> set ascii_spaces \<Longrightarrow> set ws' \<subseteq> set ascii_spaces \<Longrightarrow>
   normalise (ws @ s @ ws') = normalise s"
  by (simp add: normalise_def TrimSpace_surrounding)

subsection \<open>\<open>strconv.Itoa\<close>, hexadecimal digits and quoting\<close>

fun nat_digits :: "nat \<Rightarrow> string" where
  "nat_digits n = (if n < 10 then [char_of (48 + n)]
                   else nat_digits (n div 10) @ [char_of (48 + n mod 10)])"

declare nat_digits.simps [simp del]

definition strconv_Itoa :: "int \<Rightarrow> string" where
  "strconv_Itoa i = (if i < 0 then ''-'' @ nat_digits (nat (- i)) else nat_digits (nat i))"

definition hex_digit :: "nat \<Rightarrow> char" where
  "hex_digit n = (if n < 10 then char_of (48 + n) else char_of (87 + n))"

text \<open>The verb \<open>%q\<close> of \<open>fmt\<close>; bytes above the ASCII range are kept as they are.\<close>

definition escape :: "char \<Rightarrow> string" where
  "escape c =
     (let n = (of_char c :: nat) in
      if n = 34 \<or> n = 92 then [CHR 0x5C, c]
      else if n = 7 then [CHR 0x5C, CHR ''a''] else if n = 8 then [CHR 0x5C, CHR ''b'']
      else if n = 9 then [CHR 0x5C, CHR ''t''] else if n = 10 then [CHR 0x5C, CHR ''n'']
      else if n = 11 then [CHR 0x5C, CHR ''v''] else if n = 12 then [CHR 0x5C, CHR ''f'']
      else if n = 13 then [CHR 0x5C, CHR ''r'']
      else if n < 32 \<or> n = 127
      then [CHR 0x5C, CHR ''x'', hex_digit (n div 16), hex_digit (n mod 16)]
      else [c])"

definition quoted :: "string \<Rightarrow> string" where
  "quoted s = [CHR 0x22] @ concat (map escape s) @ [CHR 0x22]"

end
