(* ===== verification/Go_Errors.thy ===== *)
theory Go_Errors
  imports Prelude
begin

text \<open>
  Go error values: the sentinels declared in \<open>internal/domain/errors.go\<close>,
  \<open>internal/ports/ports.go\<close>, \<open>internal/application\<close> and the HTTP adapter, the two typed domain
  errors, and wrapping with \<open>fmt.Errorf("...%w...")\<close>. A wrapped error keeps the format string
  and its string arguments; \<open>errors.Is\<close> and \<open>errors.As\<close> walk the chain.
\<close>

datatype sentinel =
    ErrInvalidChannel | ErrInvalidPriority | ErrInvalidStatus | ErrInvalidLogEvent
  | ErrInvalidNotificationID | ErrInvalidCorrelationID | ErrInvalidBatchID
  | ErrInvalidTemplateID | ErrInvalidLogID
  | ErrInvalidRecipient | ErrInvalidContent
  | ErrInvalidTransition
  | ErrInvalidBatchSize | ErrBatchInconsistentCorrelation
  | ErrInvalidTemplateName | ErrInvalidTemplateBody | ErrTemplateRenderFailed
  | ErrNotFound | ErrAlreadyClaimed | ErrConcurrentUpdate
  | ErrProviderTransient | ErrOutboundRateLimited | ErrScheduledInPast
  | ErrNotImplemented | ErrIdempotencyBodyTooLarge
  | ErrNoRows \<comment> \<open>\<open>pgx.ErrNoRows\<close>\<close>
  | ErrTaskNotFound | ErrQueueNotFound \<comment> \<open>\<open>asynq\<close>'s inspector\<close>
  | ErrOpenState | ErrTooManyRequests \<comment> \<open>\<open>gobreaker\<close>\<close>
  | ErrUnexpectedEOF \<comment> \<open>\<open>io\<close>\<close>
  | SyntaxError | UnmarshalTypeError \<comment> \<open>the error types of \<open>encoding/json\<close>\<close>

text \<open>\<open>ValidationError\<close> carries its field, reason and wrapped error (possibly nil);
  \<open>TransitionError\<close> the two statuses. \<open>Opaque\<close> is an error of a dependency, or one the
  sources build without wrapping.\<close>

datatype gerror =
    Sent sentinel
  | Errorf string "string list" gerror
  | ValidationError string string "gerror option"
  | TransitionError string string
  | Opaque string

fun ValidationError_Unwrap :: "gerror \<Rightarrow> gerror option" where
  "ValidationError_Unwrap (ValidationError _ _ e) = e"
| "ValidationError_Unwrap _ = None"

fun TransitionError_Is :: "gerror \<Rightarrow> sentinel \<Rightarrow> bool" where
  "TransitionError_Is (TransitionError _ _) target = (target = ErrInvalidTransition)"
| "TransitionError_Is _ _ = False"

fun errors_Is :: "gerror \<Rightarrow> sentinel \<Rightarrow> bool" where
  "errors_Is (Sent s) target = (s = target)"
| "errors_Is (Errorf _ _ e) target = errors_Is e target"
| "errors_Is (ValidationError f r w) target =
     (case w of None \<Rightarrow> False | Some e \<Rightarrow> errors_Is e target)"
| "errors_Is (TransitionError a b) target = TransitionError_Is (TransitionError a b) target"
| "errors_Is (Opaque _) target = False"

text \<open>\<open>errors.As\<close> with a \<open>*ValidationError\<close> and a \<open>*TransitionError\<close> target.\<close>

fun errors_As_Validation :: "gerror \<Rightarrow> (string \<times> string) option" where
  "errors_As_Validation (ValidationError f r w) = Some (f, r)"
| "errors_As_Validation (Errorf _ _ e) = errors_As_Validation e"
| "errors_As_Validation _ = None"

fun errors_As_Transition :: "gerror \<Rightarrow> (string \<times> string) option" where
  "errors_As_Transition (TransitionError a b) = Some (a, b)"
| "errors_As_Transition (Errorf _ _ e) = errors_As_Transition e"
| "errors_As_Transition (ValidationError f r w) =
     (case w of None \<Rightarrow> None | Some e \<Rightarrow> errors_As_Transition e)"
| "errors_As_Transition _ = None"

text \<open>The message of a \<open>ValidationError\<close>.\<close>

definition ValidationError_Error :: "string \<Rightarrow> string \<Rightarrow> string" where
  "ValidationError_Error field reason =
     (if field = [] \<and> reason = [] then ''validation error''
      else if field = [] then ''validation error: '' @ reason
      else if reason = [] then ''validation error: field='' @ field
      else ''validation error: field='' @ field @ '': '' @ reason)"

text \<open>The root of a chain: the error the outermost wraps end in.\<close>

fun root_error :: "gerror \<Rightarrow> gerror" where
  "root_error (Errorf _ _ e) = root_error e"
| "root_error e = e"

text \<open>Wrapping an optional error, the shape of \<open>if err != nil { return fmt.Errorf(...) }\<close>.\<close>

definition wrap_opt :: "string \<Rightarrow> string list \<Rightarrow> gerror option \<Rightarrow> gerror option" where
  "wrap_opt fmt args e = map_option (Errorf fmt args) e"

definition wrap_res :: "string \<Rightarrow> string list \<Rightarrow> gerror + 'a \<Rightarrow> gerror + 'a" where
  "wrap_res fmt args r = (case r of Inl e \<Rightarrow> Inl (Errorf fmt args e) | Inr a \<Rightarrow> Inr a)"

lemma wrap_res_simps [simp]:
  "wrap_res f a (Inl e) = Inl (Errorf f a e)"
  "wrap_res f a (Inr x) = Inr x"
  by (simp_all add: wrap_res_def)

lemma wrap_opt_simps [simp]:
  "wrap_opt f a None = None"
  "wrap_opt f a (Some e) = Some (Errorf f a e)"
  by (simp_all add: wrap_opt_def)

text \<open>A chain that no typed error ends matches at most one sentinel, so the first match
  of a translation table is the only one.\<close>

lemma errors_Is_unique: "errors_Is e s \<Longrightarrow> errors_Is e t \<Longrightarrow> s = t"
  by (induction e s rule: errors_Is.induct) (auto split: option.splits)

lemma errors_Is_root: "errors_Is e s \<longleftrightarrow> errors_Is (root_error e) s"
  by (induction e rule: root_error.induct) auto

lemma errors_As_Transition_Is: "errors_As_Transition e = Some p \<Longrightarrow> errors_Is e ErrInvalidTransition"
  by (induction e rule: errors_As_Transition.induct) (auto split: option.splits)

end
