(* ===== verification/Value_Objects.thy ===== *)
theory Value_Objects
  imports Go_Errors
begin

text \<open>
  The value objects of \<open>internal/domain\<close>: \<open>Status\<close> with its state machine
  (\<open>status.go\<close>), \<open>Channel\<close>, \<open>Priority\<close> and \<open>LogEvent\<close>. Each is a Go string type with named
  constants, a strict predicate \<open>IsValid\<close> and a lenient parser; the parsers share one
  interface, the locale \<open>value_object\<close>, interpreted on each of the four. The state machine is
  refined to an abstract one over a datatype of lifecycle stages.
\<close>

type_synonym Status = string
type_synonym Channel = string
type_synonym Priority = string
type_synonym LogEvent = string

section \<open>Status and its state machine\<close>

definition StatusPending :: Status where [simp]: "StatusPending = ''pending''"
definition StatusQueued :: Status where [simp]: "StatusQueued = ''queued''"
definition StatusProcessing :: Status where [simp]: "StatusProcessing = ''processing''"
definition StatusDelivered :: Status where [simp]: "StatusDelivered = ''delivered''"
definition StatusFailed :: Status where [simp]: "StatusFailed = ''failed''"
definition StatusRetrying :: Status where [simp]: "StatusRetrying = ''retrying''"
definition StatusCancelled :: Status where [simp]: "StatusCancelled = ''cancelled''"

definition validTransitions :: "Status \<rightharpoonup> Status list" where
  "validTransitions = map_of
     [(StatusPending, [StatusQueued, StatusCancelled]),
      (StatusQueued, [StatusProcessing, StatusCancelled]),
      (StatusProcessing, [StatusDelivered, StatusFailed, StatusRetrying]),
      (StatusRetrying, [StatusProcessing, StatusCancelled])]"

definition Status_IsValid :: "Status \<Rightarrow> bool" where
  "Status_IsValid s \<longleftrightarrow>
     s \<in> set [StatusPending, StatusQueued, StatusProcessing,
              StatusDelivered, StatusFailed, StatusRetrying, StatusCancelled]"

definition Status_IsTerminal :: "Status \<Rightarrow> bool" where
  "Status_IsTerminal s \<longleftrightarrow> s \<in> set [StatusDelivered, StatusFailed, StatusCancelled]"

definition NewStatus :: "string \<Rightarrow> gerror + Status" where
  "NewStatus s =
     (let candidate = strings_ToLower (strings_TrimSpace s)
      in if Status_IsValid candidate then Inr candidate else Inl (Sent ErrInvalidStatus))"

definition Status_String :: "Status \<Rightarrow> string" where
  "Status_String s = s"

definition CanTransitionTo :: "Status \<Rightarrow> Status \<Rightarrow> bool" where
  "CanTransitionTo s next =
     (case validTransitions s of
        None \<Rightarrow> False
      | Some allowed \<Rightarrow>
          if \<not> Status_IsValid next then False else list_ex (\<lambda>candidate. candidate = next) allowed)"

section \<open>Channel, priority, log event\<close>

definition ChannelSMS :: Channel where [simp]: "ChannelSMS = ''sms''"
definition ChannelEmail :: Channel where [simp]: "ChannelEmail = ''email''"
definition ChannelPush :: Channel where [simp]: "ChannelPush = ''push''"

definition NewChannel :: "string \<Rightarrow> gerror + Channel" where
  "NewChannel s =
     (let normalised = strings_ToLower (strings_TrimSpace s)
      in if normalised \<in> set [ChannelSMS, ChannelEmail, ChannelPush] then Inr normalised
         else Inl (Sent ErrInvalidChannel))"

definition Channel_IsValid :: "Channel \<Rightarrow> bool" where
  "Channel_IsValid c \<longleftrightarrow> c \<in> set [ChannelSMS, ChannelEmail, ChannelPush]"

definition PriorityLow :: Priority where [simp]: "PriorityLow = ''low''"
definition PriorityNormal :: Priority where [simp]: "PriorityNormal = ''normal''"
definition PriorityHigh :: Priority where [simp]: "PriorityHigh = ''high''"

definition NewPriority :: "string \<Rightarrow> gerror + Priority" where
  "NewPriority s =
     (let normalised = strings_ToLower (strings_TrimSpace s)
      in if normalised \<in> set [PriorityLow, PriorityNormal, PriorityHigh] then Inr normalised
         else Inl (Sent ErrInvalidPriority))"

definition Priority_IsValid :: "Priority \<Rightarrow> bool" where
  "Priority_IsValid p \<longleftrightarrow> p \<in> set [PriorityLow, PriorityNormal, PriorityHigh]"

definition LogEventCreated :: LogEvent where [simp]: "LogEventCreated = ''created''"
definition LogEventQueued :: LogEvent where [simp]: "LogEventQueued = ''queued''"
definition LogEventProcessing :: LogEvent where [simp]: "LogEventProcessing = ''processing''"
definition LogEventDelivered :: LogEvent where [simp]: "LogEventDelivered = ''delivered''"
definition LogEventRetrying :: LogEvent where [simp]: "LogEventRetrying = ''retrying''"
definition LogEventFailed :: LogEvent where [simp]: "LogEventFailed = ''failed''"
definition LogEventCancelled :: LogEvent where [simp]: "LogEventCancelled = ''cancelled''"

definition LogEvent_IsValid :: "LogEvent \<Rightarrow> bool" where
  "LogEvent_IsValid e \<longleftrightarrow>
     e \<in> set [LogEventCreated, LogEventQueued, LogEventProcessing,
              LogEventDelivered, LogEventRetrying, LogEventFailed, LogEventCancelled]"

definition NewLogEvent :: "string \<Rightarrow> gerror + LogEvent" where
  "NewLogEvent s =
     (let candidate = strings_ToLower (strings_TrimSpace s)
      in if LogEvent_IsValid candidate then Inr candidate else Inl (Sent ErrInvalidLogEvent))"

lemmas validity_defs = Status_IsValid_def Channel_IsValid_def Priority_IsValid_def LogEvent_IsValid_def
lemmas parser_defs = NewStatus_def NewChannel_def NewPriority_def NewLogEvent_def

section \<open>The parser interface\<close>

definition canonical_word :: "string \<Rightarrow> bool" where
  "canonical_word c \<longleftrightarrow> list_all is_ascii c \<and> map lower_byte c = c \<and>
     c \<noteq> [] \<and> hd c \<notin> set ascii_spaces \<and> last c \<notin> set ascii_spaces"

lemma canonical_words [simp]:
  "canonical_word ''pending''" "canonical_word ''queued''" "canonical_word ''processing''"
  "canonical_word ''delivered''" "canonical_word ''failed''" "canonical_word ''retrying''"
  "canonical_word ''cancelled''" "canonical_word ''created''" "canonical_word ''sms''"
  "canonical_word ''email''" "canonical_word ''push''" "canonical_word ''low''"
  "canonical_word ''normal''" "canonical_word ''high''"
  by code_simp+

text \<open>What a client of a value object relies on: the parser accepts exactly the strings
  that normalise to a valid constant, and the constants are canonical ASCII words.\<close>

locale value_object =
  fixes parse :: "string \<Rightarrow> gerror + string"
    and is_valid :: "string \<Rightarrow> bool"
    and err :: sentinel
  assumes parse_eq: "parse s = (if is_valid (normalise s) then Inr (normalise s) else Inl (Sent err))"
    and canonical: "is_valid c \<Longrightarrow> canonical_word c"
begin

lemma edges: "is_valid c \<Longrightarrow> c \<noteq> [] \<and> hd c \<notin> set ascii_spaces \<and> last c \<notin> set ascii_spaces"
  using canonical by (auto simp: canonical_word_def)

lemma parse_valid: "parse s = Inr c \<Longrightarrow> is_valid c"
  by (auto simp: parse_eq split: if_splits)

lemma parse_error: "parse s = Inl e \<Longrightarrow> e = Sent err"
  by (auto simp: parse_eq split: if_splits)

text \<open>Letter case and surrounding ASCII space do not matter.\<close>

lemma parse_lenient:
  assumes c: "is_valid c" and v: "list_all is_ascii v" "map lower_byte v = c"
    and ws: "set ws \<subseteq> set ascii_spaces" "set ws' \<subseteq> set ascii_spaces"
  shows "parse (ws @ v @ ws') = Inr c"
proof -
  have keep: "lower_byte x = x" if "x \<in> set ascii_spaces" for x
    using that by (auto simp: ascii_spaces_def lower_byte_def)
  from v(2) edges [OF c] have "v \<noteq> []" by auto
  with v(2) have "hd c = lower_byte (hd v)" and "last c = lower_byte (last v)"
    by (auto simp: hd_map last_map)
  with edges [OF c] keep have "hd v \<notin> set ascii_spaces" and "last v \<notin> set ascii_spaces"
    by auto
  with v \<open>v \<noteq> []\<close> have "normalise v = c"
    by (simp add: normalise_def TrimSpace_ascii_id ToLower_ascii)
  with c show ?thesis by (simp add: parse_eq normalise_surrounding [OF ws])
qed

lemma parse_canonical: "is_valid c \<Longrightarrow> parse c = Inr c"
  using parse_lenient [of c c "[]" "[]"] canonical [of c] by (simp add: canonical_word_def)

lemma parse_idempotent: "parse s = Inr c \<Longrightarrow> parse c = Inr c"
  by (blast dest: parse_valid intro: parse_canonical)

lemma parser_contract:
  "set ws \<subseteq> set ascii_spaces \<Longrightarrow> set ws' \<subseteq> set ascii_spaces \<Longrightarrow> list_all is_ascii v \<Longrightarrow>
   is_valid (map lower_byte v) \<Longrightarrow>
   parse (ws @ v @ ws') = Inr (map lower_byte v) \<and>
   (\<forall>s c. parse s = Inr c \<longrightarrow> is_valid c \<and> parse c = Inr c)"
  by (blast intro: parse_lenient dest: parse_valid parse_idempotent)

end

interpretation status: value_object NewStatus Status_IsValid ErrInvalidStatus
proof
  show "NewStatus s = (if Status_IsValid (normalise s) then Inr (normalise s) else Inl (Sent ErrInvalidStatus))" for s
    by (simp add: NewStatus_def Status_IsValid_def normalise_def Let_def)
  show "canonical_word c" if "Status_IsValid c" for c
    using that by (auto simp: Status_IsValid_def)
qed

interpretation channel: value_object NewChannel Channel_IsValid ErrInvalidChannel
proof
  show "NewChannel s = (if Channel_IsValid (normalise s) then Inr (normalise s) else Inl (Sent ErrInvalidChannel))" for s
    by (simp add: NewChannel_def Channel_IsValid_def normalise_def Let_def)
  show "canonical_word c" if "Channel_IsValid c" for c
    using that by (auto simp: Channel_IsValid_def)
qed

interpretation priority: value_object NewPriority Priority_IsValid ErrInvalidPriority
proof
  show "NewPriority s = (if Priority_IsValid (normalise s) then Inr (normalise s) else Inl (Sent ErrInvalidPriority))" for s
    by (simp add: NewPriority_def Priority_IsValid_def normalise_def Let_def)
  show "canonical_word c" if "Priority_IsValid c" for c
    using that by (auto simp: Priority_IsValid_def)
qed

interpretation logevent: value_object NewLogEvent LogEvent_IsValid ErrInvalidLogEvent
proof
  show "NewLogEvent s = (if LogEvent_IsValid (normalise s) then Inr (normalise s) else Inl (Sent ErrInvalidLogEvent))" for s
    by (simp add: NewLogEvent_def LogEvent_IsValid_def normalise_def Let_def)
  show "canonical_word c" if "LogEvent_IsValid c" for c
    using that by (auto simp: LogEvent_IsValid_def)
qed

section \<open>The state machine against an abstract lifecycle\<close>

text \<open>The lifecycle the comment of \<open>status.go\<close> draws, over a datatype of stages.\<close>

datatype stage = Pending | Queued | Processing | Delivered | Failed | Retrying | Cancelled

fun label :: "stage \<Rightarrow> Status" where
  "label Pending = StatusPending"
| "label Queued = StatusQueued"
| "label Processing = StatusProcessing"
| "label Delivered = StatusDelivered"
| "label Failed = StatusFailed"
| "label Retrying = StatusRetrying"
| "label Cancelled = StatusCancelled"

inductive stage_step :: "stage \<Rightarrow> stage \<Rightarrow> bool" where
  enqueue: "stage_step Pending Queued"
| claim: "s \<in> {Queued, Retrying} \<Longrightarrow> stage_step s Processing"
| finish: "t \<in> {Delivered, Failed, Retrying} \<Longrightarrow> stage_step Processing t"
| cancel: "s \<in> {Pending, Queued, Retrying} \<Longrightarrow> stage_step s Cancelled"

inductive_simps stage_step_simps: "stage_step s t"

lemma CanTransitionTo_iff:
  "CanTransitionTo s t \<longleftrightarrow>
     s = ''pending'' \<and> (t = ''queued'' \<or> t = ''cancelled'') \<or>
     s = ''queued'' \<and> (t = ''processing'' \<or> t = ''cancelled'') \<or>
     s = ''processing'' \<and> (t = ''delivered'' \<or> t = ''failed'' \<or> t = ''retrying'') \<or>
     s = ''retrying'' \<and> (t = ''processing'' \<or> t = ''cancelled'')"
  by (simp add: CanTransitionTo_def validTransitions_def Status_IsValid_def)

lemma label_inj: "label a = label b \<Longrightarrow> a = b"
  by (cases a; cases b) simp_all

lemma label_valid: "Status_IsValid s \<longleftrightarrow> (\<exists>a. s = label a)"
proof
  assume "Status_IsValid s"
  then show "\<exists>a. s = label a"
    using label.simps [unfolded StatusPending_def StatusQueued_def StatusProcessing_def
        StatusDelivered_def StatusFailed_def StatusRetrying_def StatusCancelled_def, symmetric]
    unfolding Status_IsValid_def by (simp del: label.simps) blast
next
  assume "\<exists>a. s = label a"
  then obtain a where "s = label a" ..
  then show "Status_IsValid s" by (cases a) (simp_all add: Status_IsValid_def)
qed

lemma CanTransitionTo_label: "CanTransitionTo (label a) (label b) \<longleftrightarrow> stage_step a b"
  by (cases a; cases b) (simp_all add: CanTransitionTo_iff stage_step_simps)

lemma CanTransitionTo_valid:
  "CanTransitionTo s t \<Longrightarrow> Status_IsValid s \<and> Status_IsValid t"
  by (auto simp: CanTransitionTo_iff Status_IsValid_def)

text \<open>C28: The transition check on status strings implements the abstract lifecycle: a move is
  allowed exactly when both strings are the names of stages joined by a lifecycle step, so
  unknown strings never move and nothing moves to an unknown string.\<close>

theorem status_fsm_refines_lifecycle:
  "CanTransitionTo s t \<longleftrightarrow> (\<exists>a b. s = label a \<and> t = label b \<and> stage_step a b)"
proof
  assume st: "CanTransitionTo s t"
  then obtain a b where "s = label a" "t = label b"
    using CanTransitionTo_valid label_valid by blast
  with st show "\<exists>a b. s = label a \<and> t = label b \<and> stage_step a b"
    using CanTransitionTo_label by blast
qed (auto simp: CanTransitionTo_label)

lemma pending_reaches:
  "CanTransitionTo\<^sup>*\<^sup>* ''pending'' ''pending''" "CanTransitionTo\<^sup>*\<^sup>* ''pending'' ''queued''"
  "CanTransitionTo\<^sup>*\<^sup>* ''pending'' ''cancelled''" "CanTransitionTo\<^sup>*\<^sup>* ''pending'' ''processing''"
  "CanTransitionTo\<^sup>*\<^sup>* ''pending'' ''delivered''" "CanTransitionTo\<^sup>*\<^sup>* ''pending'' ''failed''"
  "CanTransitionTo\<^sup>*\<^sup>* ''pending'' ''retrying''"
proof -
  have e: "CanTransitionTo ''pending'' ''queued''" "CanTransitionTo ''pending'' ''cancelled''"
    "CanTransitionTo ''queued'' ''processing''" "CanTransitionTo ''processing'' ''delivered''"
    "CanTransitionTo ''processing'' ''failed''" "CanTransitionTo ''processing'' ''retrying''"
    by (simp_all add: CanTransitionTo_iff)
  show "CanTransitionTo\<^sup>*\<^sup>* ''pending'' ''pending''" by simp
  show q: "CanTransitionTo\<^sup>*\<^sup>* ''pending'' ''queued''" and
    "CanTransitionTo\<^sup>*\<^sup>* ''pending'' ''cancelled''" using e by blast+
  show p: "CanTransitionTo\<^sup>*\<^sup>* ''pending'' ''processing''"
    using q e(3) by (rule rtranclp.rtrancl_into_rtrancl)
  show "CanTransitionTo\<^sup>*\<^sup>* ''pending'' ''delivered''" "CanTransitionTo\<^sup>*\<^sup>* ''pending'' ''failed''"
    "CanTransitionTo\<^sup>*\<^sup>* ''pending'' ''retrying''"
    using p e by (blast intro: rtranclp.rtrancl_into_rtrancl)+
qed

text \<open>The terminal statuses are exactly the valid ones without an outgoing transition, and
  a status is valid exactly when it can be reached from pending by allowed transitions.\<close>

theorem status_terminal_and_reachable:
  "(Status_IsTerminal s \<longleftrightarrow> Status_IsValid s \<and> (\<forall>t. \<not> CanTransitionTo s t)) \<and>
   (CanTransitionTo\<^sup>*\<^sup>* StatusPending s \<longleftrightarrow> Status_IsValid s)"
proof (intro conjI iffI)
  show "Status_IsTerminal s \<Longrightarrow> Status_IsValid s" and
    "Status_IsTerminal s \<Longrightarrow> \<forall>t. \<not> CanTransitionTo s t"
    by (auto simp: Status_IsTerminal_def Status_IsValid_def CanTransitionTo_iff)
  show "Status_IsTerminal s" if "Status_IsValid s \<and> (\<forall>t. \<not> CanTransitionTo s t)"
  proof -
    from that have "\<not> CanTransitionTo s ''cancelled''" "\<not> CanTransitionTo s ''failed''" by simp_all
    with that show ?thesis
      by (auto simp: Status_IsTerminal_def Status_IsValid_def CanTransitionTo_iff)
  qed
  show "Status_IsValid s" if "CanTransitionTo\<^sup>*\<^sup>* StatusPending s"
    using that
    by (induction rule: rtranclp_induct)
      (simp add: Status_IsValid_def, blast dest: CanTransitionTo_valid)
  show "CanTransitionTo\<^sup>*\<^sup>* StatusPending s" if "Status_IsValid s"
    using that unfolding Status_IsValid_def by (auto intro: pending_reaches)
qed

text \<open>Parsing is lenient and canonical for all four value objects: any ASCII spelling that
  differs from a valid constant in letter case, with ASCII space around it, parses to that
  constant, and whatever a parser returns is valid and parses to itself.\<close>

theorem parsers_lenient_and_canonical:
  assumes "(parse, valid) \<in> {(NewStatus, Status_IsValid), (NewChannel, Channel_IsValid),
                              (NewPriority, Priority_IsValid), (NewLogEvent, LogEvent_IsValid)}"
    and "set ws \<subseteq> set ascii_spaces" and "set ws' \<subseteq> set ascii_spaces"
    and "list_all is_ascii v" and "valid (map lower_byte v)"
  shows "parse (ws @ v @ ws') = Inr (map lower_byte v) \<and>
         (\<forall>s c. parse s = Inr c \<longrightarrow> valid c \<and> parse c = Inr c)"
proof -
  from assms(1) consider "parse = NewStatus" "valid = Status_IsValid"
    | "parse = NewChannel" "valid = Channel_IsValid"
    | "parse = NewPriority" "valid = Priority_IsValid"
    | "parse = NewLogEvent" "valid = LogEvent_IsValid" by auto
  then show ?thesis
  proof cases
    case 1 show ?thesis unfolding 1 by (rule status.parser_contract [OF assms(2-5) [unfolded 1]])
  next
    case 2 show ?thesis unfolding 2 by (rule channel.parser_contract [OF assms(2-5) [unfolded 2]])
  next
    case 3 show ?thesis unfolding 3 by (rule priority.parser_contract [OF assms(2-5) [unfolded 3]])
  next
    case 4 show ?thesis unfolding 4 by (rule logevent.parser_contract [OF assms(2-5) [unfolded 4]])
  qed
qed

theorem parsers_lenient_and_canonical_witness:
  "NewPriority ('' '' @ ''High'' @ '' '') = Inr ''high'' \<and> NewPriority ''high'' = Inr ''high''"
proof -
  have low: "map lower_byte ''High'' = ''high''" by code_simp
  have h: "list_all is_ascii ''High''" "Priority_IsValid (map lower_byte ''High'')"
    "set '' '' \<subseteq> set ascii_spaces" by code_simp+
  have "(NewPriority, Priority_IsValid) \<in>
      {(NewStatus, Status_IsValid), (NewChannel, Channel_IsValid),
       (NewPriority, Priority_IsValid), (NewLogEvent, LogEvent_IsValid)}" by simp
  from parsers_lenient_and_canonical [OF this h(3) h(3) h(1,2), unfolded low]
  show ?thesis by blast
qed

end
