(* ===== verification/Regex.thy ===== *)
theory Regex
  imports Prelude
begin

text \<open>
  The fragment of RE2 syntax the validation patterns of \<open>internal/domain/notification.go\<close>
  use, with an executable matcher by derivatives and its language. The patterns are anchored
  (\<open>^\<close> and \<open>$\<close> without the multi-line flag), so matching means that the whole string is in
  the language. Classes are over bytes: a negated class accepts every byte of a
  multi-byte rune, as RE2's rune-wise negated class accepts the rune.
\<close>

datatype re =
    Empty
  | Eps
  | Cls "char \<Rightarrow> bool"
  | Alt re re
  | Cat re re
  | Star re

definition Plus :: "re \<Rightarrow> re" where
  "Plus r = Cat r (Star r)"

fun upto_times :: "nat \<Rightarrow> re \<Rightarrow> re" where
  "upto_times 0 r = Eps"
| "upto_times (Suc n) r = Alt Eps (Cat r (upto_times n r))"

text \<open>\<open>r{m,n}\<close>\<close>

fun Rep :: "nat \<Rightarrow> nat \<Rightarrow> re \<Rightarrow> re" where
  "Rep 0 n r = upto_times n r"
| "Rep (Suc m) n r = Cat r (Rep m (n - 1) r)"

fun nullable :: "re \<Rightarrow> bool" where
  "nullable Empty = False"
| "nullable Eps = True"
| "nullable (Cls p) = False"
| "nullable (Alt r s) = (nullable r \<or> nullable s)"
| "nullable (Cat r s) = (nullable r \<and> nullable s)"
| "nullable (Star r) = True"

fun deriv :: "char \<Rightarrow> re \<Rightarrow> re" where
  "deriv c Empty = Empty"
| "deriv c Eps = Empty"
| "deriv c (Cls p) = (if p c then Eps else Empty)"
| "deriv c (Alt r s) = Alt (deriv c r) (deriv c s)"
| "deriv c (Cat r s) =
     (if nullable r then Alt (Cat (deriv c r) s) (deriv c s) else Cat (deriv c r) s)"
| "deriv c (Star r) = Cat (deriv c r) (Star r)"

fun MatchString :: "re \<Rightarrow> string \<Rightarrow> bool" where
  "MatchString r [] = nullable r"
| "MatchString r (c # s) = MatchString (deriv c r) s"

section \<open>Language and correctness of the matcher\<close>

inductive_set star_lang :: "string set \<Rightarrow> string set" for L where
  star_nil: "[] \<in> star_lang L"
| star_app: "u \<in> L \<Longrightarrow> v \<in> star_lang L \<Longrightarrow> u @ v \<in> star_lang L"

fun lang :: "re \<Rightarrow> string set" where
  "lang Empty = {}"
| "lang Eps = {[]}"
| "lang (Cls p) = {[c] |c. p c}"
| "lang (Alt r s) = lang r \<union> lang s"
| "lang (Cat r s) = {u @ v |u v. u \<in> lang r \<and> v \<in> lang s}"
| "lang (Star r) = star_lang (lang r)"

lemma star_lang_Cons:
  "w \<in> star_lang L \<Longrightarrow> w = c # s \<Longrightarrow> \<exists>u v. s = u @ v \<and> c # u \<in> L \<and> v \<in> star_lang L"
proof (induction arbitrary: c s rule: star_lang.induct)
  case (star_app u v)
  then show ?case by (cases u) auto
qed simp

lemma star_lang_Cons_iff:
  "c # s \<in> star_lang L \<longleftrightarrow> (\<exists>u v. s = u @ v \<and> c # u \<in> L \<and> v \<in> star_lang L)"
proof
  assume "\<exists>u v. s = u @ v \<and> c # u \<in> L \<and> v \<in> star_lang L"
  then obtain u v where "s = u @ v" "c # u \<in> L" "v \<in> star_lang L" by blast
  then have "(c # u) @ v \<in> star_lang L" by (intro star_lang.star_app)
  then show "c # s \<in> star_lang L" by (simp add: \<open>s = u @ v\<close>)
qed (blast dest: star_lang_Cons)

lemma nullable_iff: "nullable r \<longleftrightarrow> [] \<in> lang r"
  by (induction r) (auto intro: star_lang.star_nil)

lemma deriv_iff: "s \<in> lang (deriv c r) \<longleftrightarrow> c # s \<in> lang r"
proof (induction r arbitrary: s)
  case (Cat r1 r2)
  then show ?case by (auto simp: nullable_iff Cons_eq_append_conv)
qed (auto simp: star_lang_Cons_iff)

theorem MatchString_lang: "MatchString r s \<longleftrightarrow> s \<in> lang r"
  by (induction s arbitrary: r) (auto simp: nullable_iff deriv_iff)

lemma star_cls: "star_lang {[c] |c. p c} = {s. list_all p s}"
proof (rule set_eqI)
  fix s
  show "s \<in> star_lang {[c] |c. p c} \<longleftrightarrow> s \<in> {s. list_all p s}"
    by (induction s) (auto simp: star_lang.star_nil star_lang_Cons_iff)
qed

lemma in_Cat_Cls: "s \<in> lang (Cat (Cls p) r) \<longleftrightarrow> (\<exists>c t. s = c # t \<and> p c \<and> t \<in> lang r)"
proof
  assume "\<exists>c t. s = c # t \<and> p c \<and> t \<in> lang r"
  then obtain c t where "s = [c] @ t" "[c] \<in> lang (Cls p)" "t \<in> lang r" by auto
  then show "s \<in> lang (Cat (Cls p) r)" unfolding lang.simps(5) by blast
qed auto

lemma lang_Plus_Cls: "lang (Plus (Cls p)) = {s. s \<noteq> [] \<and> list_all p s}"
proof (rule set_eqI)
  fix s
  show "s \<in> lang (Plus (Cls p)) \<longleftrightarrow> s \<in> {s. s \<noteq> [] \<and> list_all p s}"
    unfolding Plus_def in_Cat_Cls by (cases s) (auto simp: star_cls)
qed

lemma lang_upto_times_Cls: "lang (upto_times n (Cls p)) = {s. length s \<le> n \<and> list_all p s}"
proof (induction n)
  case (Suc n)
  show ?case
  proof (rule set_eqI)
    fix s
    show "s \<in> lang (upto_times (Suc n) (Cls p)) \<longleftrightarrow> s \<in> {s. length s \<le> Suc n \<and> list_all p s}"
      unfolding upto_times.simps lang.simps(4) Un_iff in_Cat_Cls Suc by (cases s) auto
  qed
qed auto

lemma lang_Rep_Cls:
  "m \<le> n \<Longrightarrow> lang (Rep m n (Cls p)) = {s. m \<le> length s \<and> length s \<le> n \<and> list_all p s}"
proof (induction m arbitrary: n)
  case 0
  then show ?case by (simp add: lang_upto_times_Cls)
next
  case (Suc m)
  then have IH: "lang (Rep m (n - 1) (Cls p)) =
      {s. m \<le> length s \<and> length s \<le> n - 1 \<and> list_all p s}" by auto
  show ?case
  proof (rule set_eqI)
    fix s
    show "s \<in> lang (Rep (Suc m) n (Cls p)) \<longleftrightarrow>
        s \<in> {s. Suc m \<le> length s \<and> length s \<le> n \<and> list_all p s}"
      unfolding Rep.simps in_Cat_Cls IH using Suc.prems by (cases s) auto
  qed
qed

end
