(* ===== verification/Notification_Entity.thy ===== *)
theory Notification_Entity
  imports Value_Objects Regex
begin

text \<open>
  The central entity, \<open>internal/domain/notification.go\<close>: construction with validation and the
  \<open>Mark*\<close> methods that move it through the state machine. A method that mutates the entity
  and returns an error is a function returning the error (if any) and the entity.
\<close>

type_synonym NotificationID = string
type_synonym BatchID = string

record Notification =
  n_ID :: NotificationID
  n_BatchID :: "BatchID option"
  n_IdempotencyKey :: string
  n_CorrelationID :: string
  n_Channel :: Channel
  n_Priority :: Priority
  n_Recipient :: string
  n_Content :: string
  n_Status :: Status
  n_Attempts :: int
  n_LastError :: string
  n_NextRetryAt :: "Time option"
  n_ScheduledAt :: "Time option"
  n_TemplateID :: "string option"
  n_CreatedAt :: Time
  n_UpdatedAt :: Time

record NewNotificationInput =
  ni_ID :: NotificationID
  ni_BatchID :: "BatchID option"
  ni_IdempotencyKey :: string
  ni_CorrelationID :: string
  ni_Channel :: Channel
  ni_Priority :: Priority
  ni_Recipient :: string
  ni_Content :: string
  ni_ScheduledAt :: "Time option"
  ni_TemplateID :: "string option"

section \<open>Validation\<close>

definition contentLimits :: "Channel \<rightharpoonup> int" where
  "contentLimits = map_of [(ChannelSMS, 160), (ChannelEmail, 10000), (ChannelPush, 500)]"

definition is_digit :: "char \<Rightarrow> bool" where
  "is_digit c \<longleftrightarrow> 48 \<le> (of_char c :: nat) \<and> (of_char c :: nat) \<le> 57"

definition is_nonzero_digit :: "char \<Rightarrow> bool" where
  "is_nonzero_digit c \<longleftrightarrow> 49 \<le> (of_char c :: nat) \<and> (of_char c :: nat) \<le> 57"

text \<open>\<open>^\+[1-9]\d{1,14}$\<close>\<close>

definition e164Pattern :: re where
  "e164Pattern =
     Cat (Cls (\<lambda>c. c = CHR ''+'')) (Cat (Cls is_nonzero_digit) (Rep 1 14 (Cls is_digit)))"

text \<open>\<open>[^@\s]\<close>: RE2's \<open>\s\<close> is tab, newline, form feed, carriage return and space.\<close>

definition email_char :: "char \<Rightarrow> bool" where
  "email_char c \<longleftrightarrow>
     c \<notin> set [CHR ''@'', CHR 0x09, CHR 0x0A, CHR 0x0C, CHR 0x0D, CHR '' '']"

text \<open>\<open>^[^@\s]+@[^@\s]+\.[^@\s]+$\<close>\<close>

definition emailPattern :: re where
  "emailPattern =
     Cat (Plus (Cls email_char)) (Cat (Cls (\<lambda>c. c = CHR ''@''))
       (Cat (Plus (Cls email_char)) (Cat (Cls (\<lambda>c. c = CHR ''.'')) (Plus (Cls email_char)))))"

definition validateRecipient :: "Channel \<Rightarrow> string \<Rightarrow> gerror option" where
  "validateRecipient channel recipient =
     (if recipient = [] then Some (Sent ErrInvalidRecipient)
      else if channel = ChannelSMS then
        (if \<not> MatchString e164Pattern recipient
         then Some (Errorf ''%w: not an E.164 phone number'' [] (Sent ErrInvalidRecipient))
         else None)
      else if channel = ChannelEmail then
        (if \<not> MatchString emailPattern recipient
         then Some (Errorf ''%w: not a valid email address'' [] (Sent ErrInvalidRecipient))
         else None)
      else None)"

definition validateContent :: "Channel \<Rightarrow> string \<Rightarrow> gerror option" where
  "validateContent channel content =
     (if content = [] then Some (Errorf ''%w: empty'' [] (Sent ErrInvalidContent))
      else case contentLimits channel of
        None \<Rightarrow> Some (Sent ErrInvalidChannel)
      | Some limit \<Rightarrow>
          if int (length content) > limit
          then Some (Errorf ''%w: %d exceeds limit %d for channel %s''
                 [strconv_Itoa (int (length content)), strconv_Itoa limit, channel]
                 (Sent ErrInvalidContent))
          else None)"

definition NewNotification :: "NewNotificationInput \<Rightarrow> Time \<Rightarrow> gerror + Notification" where
  "NewNotification i now =
     (if ni_ID i = [] then Inl (Sent ErrInvalidNotificationID)
      else if ni_CorrelationID i = [] then Inl (Sent ErrInvalidCorrelationID)
      else if \<not> Channel_IsValid (ni_Channel i) then Inl (Sent ErrInvalidChannel)
      else if \<not> Priority_IsValid (ni_Priority i) then Inl (Sent ErrInvalidPriority)
      else case validateRecipient (ni_Channel i) (ni_Recipient i) of
        Some err \<Rightarrow> Inl err
      | None \<Rightarrow>
        (case validateContent (ni_Channel i) (ni_Content i) of
           Some err \<Rightarrow> Inl err
         | None \<Rightarrow> Inr
             \<lparr>n_ID = ni_ID i, n_BatchID = ni_BatchID i,
              n_IdempotencyKey = ni_IdempotencyKey i, n_CorrelationID = ni_CorrelationID i,
              n_Channel = ni_Channel i, n_Priority = ni_Priority i,
              n_Recipient = ni_Recipient i, n_Content = ni_Content i,
              n_Status = StatusPending, n_Attempts = 0, n_LastError = [], n_NextRetryAt = None,
              n_ScheduledAt = ni_ScheduledAt i, n_TemplateID = ni_TemplateID i,
              n_CreatedAt = now, n_UpdatedAt = now\<rparr>))"

section \<open>Transitions\<close>

definition transition ::
  "Notification \<Rightarrow> Status \<Rightarrow> Time \<Rightarrow> (Notification \<Rightarrow> Notification) \<Rightarrow> gerror option \<times> Notification"
where
  "transition n target now sideEffect =
     (if \<not> CanTransitionTo (n_Status n) target
      then (Some (Errorf (''%w: %s '' @ [CHR 0xE2, CHR 0x86, CHR 0x92] @ '' %s'') [n_Status n, target] (Sent ErrInvalidTransition)), n)
      else (None, sideEffect (n\<lparr>n_Status := target, n_UpdatedAt := now\<rparr>)))"

definition MarkQueued :: "Notification \<Rightarrow> Time \<Rightarrow> gerror option \<times> Notification" where
  "MarkQueued n now = transition n StatusQueued now (\<lambda>n. n)"

definition MarkProcessing :: "Notification \<Rightarrow> Time \<Rightarrow> gerror option \<times> Notification" where
  "MarkProcessing n now =
     transition n StatusProcessing now (\<lambda>n. n\<lparr>n_Attempts := n_Attempts n + 1\<rparr>)"

definition MarkDelivered :: "Notification \<Rightarrow> Time \<Rightarrow> gerror option \<times> Notification" where
  "MarkDelivered n now = transition n StatusDelivered now (\<lambda>n. n\<lparr>n_LastError := []\<rparr>)"

definition MarkFailed :: "Notification \<Rightarrow> Time \<Rightarrow> string \<Rightarrow> gerror option \<times> Notification" where
  "MarkFailed n now reason = transition n StatusFailed now (\<lambda>n. n\<lparr>n_LastError := reason\<rparr>)"

definition MarkRetrying ::
  "Notification \<Rightarrow> Time \<Rightarrow> string \<Rightarrow> Time \<Rightarrow> gerror option \<times> Notification"
where
  "MarkRetrying n now reason nextRetryAt =
     transition n StatusRetrying now
       (\<lambda>n. n\<lparr>n_LastError := reason, n_NextRetryAt := Some nextRetryAt\<rparr>)"

definition Cancel :: "Notification \<Rightarrow> Time \<Rightarrow> gerror option \<times> Notification" where
  "Cancel n now = transition n StatusCancelled now (\<lambda>n. n)"

lemmas mark_defs =
  MarkQueued_def MarkProcessing_def MarkDelivered_def MarkFailed_def MarkRetrying_def Cancel_def

section \<open>Validation facts\<close>

text \<open>The two patterns, read as descriptions of the strings they accept.\<close>

definition e164_shape :: "string \<Rightarrow> bool" where
  "e164_shape s \<longleftrightarrow>
     (\<exists>d ds. s = CHR ''+'' # d # ds \<and> is_nonzero_digit d \<and> list_all is_digit ds \<and>
             1 \<le> length ds \<and> length ds \<le> 14)"

definition email_shape :: "string \<Rightarrow> bool" where
  "email_shape s \<longleftrightarrow>
     (\<exists>local dom tld. s = local @ ''@'' @ dom @ ''.'' @ tld \<and>
        (local \<noteq> [] \<and> dom \<noteq> [] \<and> tld \<noteq> []) \<and>
        (list_all email_char local \<and> list_all email_char dom \<and> list_all email_char tld))"

lemma match_e164: "MatchString e164Pattern s \<longleftrightarrow> e164_shape s"
proof -
  have "lang (Rep 1 14 (Cls is_digit)) = {s. 1 \<le> length s \<and> length s \<le> 14 \<and> list_all is_digit s}"
    by (rule lang_Rep_Cls) simp
  then show ?thesis
    unfolding MatchString_lang e164Pattern_def in_Cat_Cls e164_shape_def by auto
qed

lemma in_Cat_Plus_Cls:
  "s \<in> lang (Cat (Plus (Cls p)) r) \<longleftrightarrow>
     (\<exists>u v. s = u @ v \<and> u \<noteq> [] \<and> list_all p u \<and> v \<in> lang r)"
  unfolding lang.simps(5) lang_Plus_Cls by blast

lemma match_email: "MatchString emailPattern s \<longleftrightarrow> email_shape s"
  unfolding MatchString_lang emailPattern_def email_shape_def in_Cat_Plus_Cls in_Cat_Cls
    lang_Plus_Cls
  by (simp; blast)

text \<open>What the constructor requires of a channel's recipient and content.\<close>

definition recipient_ok :: "Channel \<Rightarrow> string \<Rightarrow> bool" where
  "recipient_ok channel r \<longleftrightarrow>
     channel = ChannelSMS \<and> e164_shape r \<or>
     channel = ChannelEmail \<and> email_shape r \<or>
     channel = ChannelPush \<and> r \<noteq> []"

definition content_ok :: "Channel \<Rightarrow> string \<Rightarrow> bool" where
  "content_ok channel c \<longleftrightarrow>
     c \<noteq> [] \<and> (channel = ChannelSMS \<and> length c \<le> 160 \<or>
               channel = ChannelEmail \<and> length c \<le> 10000 \<or>
               channel = ChannelPush \<and> length c \<le> 500)"

lemma shape_nonempty: "e164_shape s \<Longrightarrow> s \<noteq> []" "email_shape s \<Longrightarrow> s \<noteq> []"
  by (auto simp: e164_shape_def email_shape_def)

lemma validateRecipient_None:
  "Channel_IsValid ch \<Longrightarrow> validateRecipient ch r = None \<longleftrightarrow> recipient_ok ch r"
  by (auto simp: validateRecipient_def Channel_IsValid_def recipient_ok_def match_e164 match_email
      shape_nonempty)

lemma validateContent_None:
  "validateContent ch c = None \<longleftrightarrow> content_ok ch c"
  by (auto simp: validateContent_def content_ok_def contentLimits_def split: if_splits)

lemma validateRecipient_error:
  "validateRecipient ch r = Some e \<Longrightarrow> errors_Is e ErrInvalidRecipient"
  by (auto simp: validateRecipient_def split: if_splits)

lemma validateContent_error:
  "Channel_IsValid ch \<Longrightarrow> validateContent ch c = Some e \<Longrightarrow> errors_Is e ErrInvalidContent"
  by (auto simp: validateContent_def Channel_IsValid_def contentLimits_def split: if_splits)

section \<open>The entity invariant\<close>

definition wf_notification :: "Notification \<Rightarrow> bool" where
  "wf_notification n \<longleftrightarrow>
     n_ID n \<noteq> [] \<and> n_CorrelationID n \<noteq> [] \<and> Channel_IsValid (n_Channel n) \<and>
     Priority_IsValid (n_Priority n) \<and> recipient_ok (n_Channel n) (n_Recipient n) \<and>
     content_ok (n_Channel n) (n_Content n) \<and> Status_IsValid (n_Status n) \<and>
     0 \<le> n_Attempts n \<and> (n_Status n = StatusRetrying \<longrightarrow> n_NextRetryAt n \<noteq> None)"

lemma NewNotification_Inr:
  assumes "NewNotification i now = Inr n"
  shows "wf_notification n" "n_Status n = StatusPending" "n_Attempts n = 0" "n_ID n = ni_ID i"
    "n_CorrelationID n = ni_CorrelationID i" "n_Channel n = ni_Channel i"
    "n_Priority n = ni_Priority i" "n_IdempotencyKey n = ni_IdempotencyKey i"
    "n_ScheduledAt n = ni_ScheduledAt i" "n_CreatedAt n = now" "n_UpdatedAt n = now"
    "n_Recipient n = ni_Recipient i" "n_Content n = ni_Content i"
    "n_BatchID n = ni_BatchID i" "n_TemplateID n = ni_TemplateID i"
    "n_LastError n = []" "n_NextRetryAt n = None"
  using assms
  by (auto simp: NewNotification_def wf_notification_def validateRecipient_None
      validateContent_None Status_IsValid_def split: if_splits option.splits)


text \<open>C30: Every rejection names its cause: the error matches the sentinel of the first check the
  input fails, in the order of the constructor.\<close>

theorem NewNotification_error_cause:
  "NewNotification i now = Inl e \<Longrightarrow>
   errors_Is e
     (if ni_ID i = [] then ErrInvalidNotificationID
      else if ni_CorrelationID i = [] then ErrInvalidCorrelationID
      else if \<not> Channel_IsValid (ni_Channel i) then ErrInvalidChannel
      else if \<not> Priority_IsValid (ni_Priority i) then ErrInvalidPriority
      else if \<not> recipient_ok (ni_Channel i) (ni_Recipient i) then ErrInvalidRecipient
      else ErrInvalidContent)"
  by (auto simp: NewNotification_def validateRecipient_None [symmetric]
      dest: validateRecipient_error validateContent_error split: if_splits option.splits)

theorem NewNotification_error_cause_witness:
  "\<exists>e. errors_Is e ErrInvalidRecipient \<and>
       NewNotification \<lparr>ni_ID = ''n1'', ni_BatchID = None, ni_IdempotencyKey = [],
         ni_CorrelationID = ''c'', ni_Channel = ''sms'', ni_Priority = ''low'',
         ni_Recipient = ''123'', ni_Content = ''hi'', ni_ScheduledAt = None,
         ni_TemplateID = None\<rparr> 7 = Inl e"
proof -
  let ?i = "\<lparr>ni_ID = ''n1'', ni_BatchID = None, ni_IdempotencyKey = [],
         ni_CorrelationID = ''c'', ni_Channel = ''sms'', ni_Priority = ''low'',
         ni_Recipient = ''123'', ni_Content = ''hi'', ni_ScheduledAt = None,
         ni_TemplateID = None\<rparr>"
  have bad: "\<not> recipient_ok ''sms'' ''123''" by (simp add: recipient_ok_def e164_shape_def)
  obtain e where e: "NewNotification ?i 7 = Inl e"
    using NewNotification_Inr(1) [of ?i 7] NewNotification_Inr(6,12) [of ?i 7] bad
    by (cases "NewNotification ?i 7") (auto simp: wf_notification_def)
  from NewNotification_error_cause [OF e] e bad show ?thesis
    by (auto simp: Channel_IsValid_def Priority_IsValid_def)
qed

section \<open>Sequences of mark calls\<close>

text \<open>A caller's life with an entity: any sequence of calls of the exported methods.\<close>

datatype mark =
    CallMarkQueued Time
  | CallMarkProcessing Time
  | CallMarkDelivered Time
  | CallMarkFailed Time string
  | CallMarkRetrying Time string Time
  | CallCancel Time

fun apply_mark :: "Notification \<Rightarrow> mark \<Rightarrow> gerror option \<times> Notification" where
  "apply_mark n (CallMarkQueued now) = MarkQueued n now"
| "apply_mark n (CallMarkProcessing now) = MarkProcessing n now"
| "apply_mark n (CallMarkDelivered now) = MarkDelivered n now"
| "apply_mark n (CallMarkFailed now reason) = MarkFailed n now reason"
| "apply_mark n (CallMarkRetrying now reason at) = MarkRetrying n now reason at"
| "apply_mark n (CallCancel now) = Cancel n now"

fun mark_target :: "mark \<Rightarrow> Status" where
  "mark_target (CallMarkQueued _) = StatusQueued"
| "mark_target (CallMarkProcessing _) = StatusProcessing"
| "mark_target (CallMarkDelivered _) = StatusDelivered"
| "mark_target (CallMarkFailed _ _) = StatusFailed"
| "mark_target (CallMarkRetrying _ _ _) = StatusRetrying"
| "mark_target (CallCancel _) = StatusCancelled"

fun run_marks :: "Notification \<Rightarrow> mark list \<Rightarrow> Notification" where
  "run_marks n [] = n"
| "run_marks n (m # ms) = run_marks (snd (apply_mark n m)) ms"

fun processing_entries :: "Notification \<Rightarrow> mark list \<Rightarrow> nat" where
  "processing_entries n [] = 0"
| "processing_entries n (m # ms) =
     (if fst (apply_mark n m) = None \<and> mark_target m = StatusProcessing then 1 else 0) +
     processing_entries (snd (apply_mark n m)) ms"

lemma transition_fail_iff:
  "fst (transition n t now f) = None \<longleftrightarrow> CanTransitionTo (n_Status n) t"
  by (simp add: transition_def)

lemma apply_mark_spec:
  "if CanTransitionTo (n_Status n) (mark_target m)
   then fst (apply_mark n m) = None \<and> n_Status (snd (apply_mark n m)) = mark_target m \<and>
        n_Attempts (snd (apply_mark n m)) =
          n_Attempts n + (if mark_target m = StatusProcessing then 1 else 0)
   else (\<exists>e. fst (apply_mark n m) = Some e \<and> errors_Is e ErrInvalidTransition) \<and>
        snd (apply_mark n m) = n"
  by (cases m) (auto simp: mark_defs transition_def)

text \<open>What no mark call touches.\<close>

definition same_payload :: "Notification \<Rightarrow> Notification \<Rightarrow> bool" where
  "same_payload n n' \<longleftrightarrow>
     n_ID n' = n_ID n \<and> n_BatchID n' = n_BatchID n \<and> n_IdempotencyKey n' = n_IdempotencyKey n \<and>
     n_CorrelationID n' = n_CorrelationID n \<and> n_Channel n' = n_Channel n \<and>
     n_Priority n' = n_Priority n \<and> n_Recipient n' = n_Recipient n \<and>
     n_Content n' = n_Content n \<and> n_ScheduledAt n' = n_ScheduledAt n \<and>
     n_TemplateID n' = n_TemplateID n \<and> n_CreatedAt n' = n_CreatedAt n"

lemma same_payload_trans:
  "same_payload a b \<Longrightarrow> same_payload b c \<Longrightarrow> same_payload a c"
  by (simp add: same_payload_def)

lemma same_payload_refl [simp]: "same_payload n n"
  by (simp add: same_payload_def)

lemma apply_mark_payload: "same_payload n (snd (apply_mark n m))"
  by (cases m) (auto simp: mark_defs transition_def same_payload_def)

lemma apply_mark_wf: "wf_notification n \<Longrightarrow> wf_notification (snd (apply_mark n m))"
  by (cases m)
    (auto simp: mark_defs transition_def wf_notification_def dest: CanTransitionTo_valid)

lemma apply_mark_step:
  "CanTransitionTo\<^sup>*\<^sup>* (n_Status n) (n_Status (snd (apply_mark n m)))"
  using apply_mark_spec [of n m] by (auto split: if_splits)

text \<open>Whatever sequence of mark calls an entity goes through, it stays well-formed, keeps its
  payload, its status moves along allowed transitions only, and its attempt counter grows by
  exactly the number of successful moves into processing.\<close>

theorem mark_calls_follow_fsm:
  "wf_notification n \<Longrightarrow>
   wf_notification (run_marks n ms) \<and> same_payload n (run_marks n ms) \<and>
   CanTransitionTo\<^sup>*\<^sup>* (n_Status n) (n_Status (run_marks n ms)) \<and>
   n_Attempts (run_marks n ms) = n_Attempts n + int (processing_entries n ms)"
proof (induction ms arbitrary: n)
  case (Cons m ms)
  let ?n = "snd (apply_mark n m)"
  from Cons.IH [OF apply_mark_wf [OF Cons.prems, of m]]
  have IH: "wf_notification (run_marks ?n ms)" "same_payload ?n (run_marks ?n ms)"
    "CanTransitionTo\<^sup>*\<^sup>* (n_Status ?n) (n_Status (run_marks ?n ms))"
    "n_Attempts (run_marks ?n ms) = n_Attempts ?n + int (processing_entries ?n ms)" by auto
  have "n_Attempts ?n = n_Attempts n +
      (if fst (apply_mark n m) = None \<and> mark_target m = StatusProcessing then 1 else 0)"
    using apply_mark_spec [of n m] by (auto split: if_splits)
  with IH same_payload_trans [OF apply_mark_payload IH(2)] rtranclp_trans [OF apply_mark_step IH(3)]
  show ?case by simp
qed simp

theorem mark_calls_follow_fsm_witness:
  "\<exists>n. wf_notification n \<and>
     n_Attempts (run_marks n [CallMarkQueued 1, CallMarkProcessing 2, CallMarkQueued 3,
       CallMarkRetrying 4 ''e'' 9, CallMarkProcessing 10]) = 2"
proof -
  let ?n = "\<lparr>n_ID = ''n1'', n_BatchID = None, n_IdempotencyKey = [], n_CorrelationID = ''c'',
    n_Channel = ''push'', n_Priority = ''low'', n_Recipient = ''tok'', n_Content = ''hi'',
    n_Status = ''pending'', n_Attempts = 0, n_LastError = [], n_NextRetryAt = None,
    n_ScheduledAt = None, n_TemplateID = None, n_CreatedAt = 0, n_UpdatedAt = 0\<rparr>"
  let ?ms = "[CallMarkQueued 1, CallMarkProcessing 2, CallMarkQueued 3,
       CallMarkRetrying 4 ''e'' 9, CallMarkProcessing 10]"
  have wf: "wf_notification ?n"
    by (simp add: wf_notification_def recipient_ok_def content_ok_def validity_defs)
  have "processing_entries ?n ?ms = 2"
    by (simp add: mark_defs transition_def CanTransitionTo_iff)
  with mark_calls_follow_fsm [OF wf, of ?ms] wf show ?thesis
    by (intro exI [of _ ?n]) (simp del: run_marks.simps)
qed

text \<open>A terminal entity is frozen: every mark call fails with the invalid-transition error and
  leaves every field as it was.\<close>

theorem terminal_entity_frozen:
  "Status_IsTerminal (n_Status n) \<Longrightarrow>
   snd (apply_mark n m) = n \<and>
   (\<exists>e. fst (apply_mark n m) = Some e \<and> errors_Is e ErrInvalidTransition) \<and>
   run_marks n ms = n"
proof -
  assume t: "Status_IsTerminal (n_Status n)"
  then have no: "\<not> CanTransitionTo (n_Status n) s" for s
    by (auto simp: Status_IsTerminal_def CanTransitionTo_iff)
  have "run_marks n ms = n"
    by (induction ms) (use apply_mark_spec [of n] no in auto)
  with apply_mark_spec [of n m] no show ?thesis by simp
qed

theorem terminal_entity_frozen_witness:
  "\<exists>n. n_Status n = ''cancelled'' \<and> run_marks n [CallMarkQueued 1, CallMarkProcessing 2] = n"
proof -
  obtain n :: Notification where n: "n_Status n = ''cancelled''"
    by (rule that [of "undefined\<lparr>n_Status := ''cancelled''\<rparr>"]) simp
  then have "Status_IsTerminal (n_Status n)" by (simp add: Status_IsTerminal_def)
  from terminal_entity_frozen [OF this, of _ "[CallMarkQueued 1, CallMarkProcessing 2]"] n
  show ?thesis by blast
qed

end
