(* ===== verification/Entities.thy ===== *)
theory Entities
  imports Notification_Entity
begin

text \<open>
  The remaining entities of \<open>internal/domain\<close>: the audit-log row (\<open>notification_log.go\<close>),
  batches with their status summary (\<open>batch.go\<close>), message templates (\<open>template.go\<close>) and the
  provider's delivery result (\<open>delivery_result.go\<close>). Go's \<open>text/template\<close> is a parameter: a
  record with its parse check and its execution under \<open>missingkey=error\<close>.
\<close>

type_synonym LogID = string
type_synonym TemplateID = string

text \<open>Values of Go's type \<open>any\<close>, which the sources pass through without looking inside.\<close>

typedecl go_any

section \<open>Audit-log rows\<close>

record NotificationLog =
  l_ID :: LogID
  l_NotificationID :: NotificationID
  l_CorrelationID :: string
  l_Event :: LogEvent
  l_Details :: "(string \<rightharpoonup> go_any) option"
  l_CreatedAt :: Time

record NewNotificationLogInput =
  li_ID :: LogID
  li_NotificationID :: NotificationID
  li_CorrelationID :: string
  li_Event :: LogEvent
  li_Details :: "(string \<rightharpoonup> go_any) option"

definition NewNotificationLog :: "NewNotificationLogInput \<Rightarrow> Time \<Rightarrow> gerror + NotificationLog" where
  "NewNotificationLog i now =
     (if li_ID i = [] then Inl (Sent ErrInvalidLogID)
      else if li_NotificationID i = [] then Inl (Sent ErrInvalidNotificationID)
      else if li_CorrelationID i = [] then Inl (Sent ErrInvalidCorrelationID)
      else if \<not> LogEvent_IsValid (li_Event i) then Inl (Sent ErrInvalidLogEvent)
      else Inr \<lparr>l_ID = li_ID i, l_NotificationID = li_NotificationID i,
                l_CorrelationID = li_CorrelationID i, l_Event = li_Event i,
                l_Details = li_Details i, l_CreatedAt = now\<rparr>)"

section \<open>Batches\<close>

definition MinBatchSize :: int where [simp]: "MinBatchSize = 1"
definition MaxBatchSize :: int where [simp]: "MaxBatchSize = 1000"

record Batch =
  b_ID :: BatchID
  b_CorrelationID :: string
  b_Notifications :: "Notification list"
  b_CreatedAt :: Time

record NewBatchInput =
  bi_ID :: BatchID
  bi_CorrelationID :: string
  bi_Notifications :: "Notification list"

definition NewBatch :: "NewBatchInput \<Rightarrow> Time \<Rightarrow> gerror + Batch" where
  "NewBatch i now =
     (if bi_ID i = [] then Inl (Sent ErrInvalidBatchID)
      else if bi_CorrelationID i = [] then Inl (Sent ErrInvalidCorrelationID)
      else if int (length (bi_Notifications i)) < MinBatchSize \<or>
              int (length (bi_Notifications i)) > MaxBatchSize
      then Inl (Sent ErrInvalidBatchSize)
      else if list_ex (\<lambda>n. n_CorrelationID n \<noteq> bi_CorrelationID i) (bi_Notifications i)
      then Inl (Sent ErrBatchInconsistentCorrelation)
      else Inr \<lparr>b_ID = bi_ID i, b_CorrelationID = bi_CorrelationID i,
                b_Notifications =
                  map (\<lambda>n. n\<lparr>n_BatchID := Some (bi_ID i)\<rparr>) (bi_Notifications i),
                b_CreatedAt = now\<rparr>)"

definition Batch_Size :: "Batch \<Rightarrow> int" where
  "Batch_Size b = int (length (b_Notifications b))"

record BatchStatusSummary =
  s_Total :: int
  s_Pending :: int
  s_Queued :: int
  s_Processing :: int
  s_Delivered :: int
  s_Failed :: int
  s_Retrying :: int
  s_Cancelled :: int

definition count_status :: "Notification \<Rightarrow> BatchStatusSummary \<Rightarrow> BatchStatusSummary" where
  "count_status n s =
     (if n_Status n = StatusPending then s\<lparr>s_Pending := s_Pending s + 1\<rparr>
      else if n_Status n = StatusQueued then s\<lparr>s_Queued := s_Queued s + 1\<rparr>
      else if n_Status n = StatusProcessing then s\<lparr>s_Processing := s_Processing s + 1\<rparr>
      else if n_Status n = StatusDelivered then s\<lparr>s_Delivered := s_Delivered s + 1\<rparr>
      else if n_Status n = StatusFailed then s\<lparr>s_Failed := s_Failed s + 1\<rparr>
      else if n_Status n = StatusRetrying then s\<lparr>s_Retrying := s_Retrying s + 1\<rparr>
      else if n_Status n = StatusCancelled then s\<lparr>s_Cancelled := s_Cancelled s + 1\<rparr>
      else s)"

definition StatusSummary :: "Batch \<Rightarrow> BatchStatusSummary" where
  "StatusSummary b =
     fold count_status (b_Notifications b)
       \<lparr>s_Total = int (length (b_Notifications b)), s_Pending = 0, s_Queued = 0,
        s_Processing = 0, s_Delivered = 0, s_Failed = 0, s_Retrying = 0, s_Cancelled = 0\<rparr>"

section \<open>Templates\<close>

text \<open>\<open>te_parse name body\<close> is the message of \<open>template.New(name).Parse(body)\<close>'s error, if any;
  \<open>te_execute name body vars\<close> the rendered text or the message of \<open>Execute\<close>'s error.\<close>

record template_engine =
  te_parse :: "string \<Rightarrow> string \<Rightarrow> string option"
  te_execute :: "string \<Rightarrow> string \<Rightarrow> (string \<rightharpoonup> go_any) \<Rightarrow> string + string"

record Template =
  t_ID :: TemplateID
  t_Name :: string
  t_Channel :: Channel
  t_Body :: string
  t_CreatedAt :: Time
  t_UpdatedAt :: Time

record NewTemplateInput =
  ti_ID :: TemplateID
  ti_Name :: string
  ti_Channel :: Channel
  ti_Body :: string

definition NewTemplate :: "template_engine \<Rightarrow> NewTemplateInput \<Rightarrow> Time \<Rightarrow> gerror + Template" where
  "NewTemplate E i now =
     (if ti_ID i = [] then Inl (Sent ErrInvalidTemplateID)
      else if ti_Name i = [] then Inl (Sent ErrInvalidTemplateName)
      else if \<not> Channel_IsValid (ti_Channel i) then Inl (Sent ErrInvalidChannel)
      else if ti_Body i = [] then Inl (Errorf ''%w: empty'' [] (Sent ErrInvalidTemplateBody))
      else case te_parse E (ti_ID i) (ti_Body i) of
        Some msg \<Rightarrow> Inl (Errorf ''%w: %v'' [msg] (Sent ErrInvalidTemplateBody))
      | None \<Rightarrow> Inr \<lparr>t_ID = ti_ID i, t_Name = ti_Name i, t_Channel = ti_Channel i,
                     t_Body = ti_Body i, t_CreatedAt = now, t_UpdatedAt = now\<rparr>)"

definition Render :: "template_engine \<Rightarrow> Template \<Rightarrow> (string \<rightharpoonup> go_any) \<Rightarrow> gerror + string" where
  "Render E t vars =
     (case te_parse E (t_ID t) (t_Body t) of
        Some msg \<Rightarrow> Inl (Errorf ''%w: parse: %v'' [msg] (Sent ErrTemplateRenderFailed))
      | None \<Rightarrow>
          (case te_execute E (t_ID t) (t_Body t) vars of
             Inl msg \<Rightarrow> Inl (Errorf ''%w: %v'' [msg] (Sent ErrTemplateRenderFailed))
           | Inr out \<Rightarrow> Inr out))"

section \<open>Delivery results\<close>

record DeliveryResult =
  d_Success :: bool
  d_MessageID :: string
  d_Retryable :: bool
  d_Reason :: string
  d_ProviderCode :: int
  d_Latency :: Duration

definition DeliveredResult :: "string \<Rightarrow> Duration \<Rightarrow> DeliveryResult" where
  "DeliveredResult messageID latency =
     \<lparr>d_Success = True, d_MessageID = messageID, d_Retryable = False, d_Reason = [],
      d_ProviderCode = 0, d_Latency = latency\<rparr>"

definition PermanentFailureResult :: "string \<Rightarrow> int \<Rightarrow> Duration \<Rightarrow> DeliveryResult" where
  "PermanentFailureResult reason providerCode latency =
     \<lparr>d_Success = False, d_MessageID = [], d_Retryable = False, d_Reason = reason,
      d_ProviderCode = providerCode, d_Latency = latency\<rparr>"

definition TransientFailureResult :: "string \<Rightarrow> int \<Rightarrow> Duration \<Rightarrow> DeliveryResult" where
  "TransientFailureResult reason providerCode latency =
     \<lparr>d_Success = False, d_MessageID = [], d_Retryable = True, d_Reason = reason,
      d_ProviderCode = providerCode, d_Latency = latency\<rparr>"

lemmas delivery_defs = DeliveredResult_def PermanentFailureResult_def TransientFailureResult_def

section \<open>Facts\<close>

lemma NewNotificationLog_ok:
  "i \<noteq> [] \<Longrightarrow> m \<noteq> [] \<Longrightarrow> c \<noteq> [] \<Longrightarrow> LogEvent_IsValid e \<Longrightarrow>
   NewNotificationLog \<lparr>li_ID = i, li_NotificationID = m, li_CorrelationID = c, li_Event = e,
     li_Details = d\<rparr> now =
   Inr \<lparr>l_ID = i, l_NotificationID = m, l_CorrelationID = c, l_Event = e, l_Details = d,
     l_CreatedAt = now\<rparr>"
  by (simp add: NewNotificationLog_def)

definition status_sum :: "BatchStatusSummary \<Rightarrow> int" where
  "status_sum s = s_Pending s + s_Queued s + s_Processing s + s_Delivered s + s_Failed s +
     s_Retrying s + s_Cancelled s"

lemma count_status_sum:
  "status_sum (count_status n s) = status_sum s + (if Status_IsValid (n_Status n) then 1 else 0)"
  "s_Total (count_status n s) = s_Total s"
  by (auto simp: count_status_def status_sum_def Status_IsValid_def)

lemma fold_count_status_sum:
  "status_sum (fold count_status ns s) =
     status_sum s + int (length (filter (\<lambda>n. Status_IsValid (n_Status n)) ns))"
  "s_Total (fold count_status ns s) = s_Total s"
  by (induction ns arbitrary: s) (auto simp: count_status_sum)

lemma fold_count_terminal:
  "s_Delivered (fold count_status ns s) + s_Failed (fold count_status ns s) +
     s_Cancelled (fold count_status ns s) =
   s_Delivered s + s_Failed s + s_Cancelled s +
     int (length (filter (\<lambda>n. Status_IsTerminal (n_Status n)) ns))"
  by (induction ns arbitrary: s) (auto simp: count_status_def Status_IsTerminal_def)

lemma list_all_length_filter: "list_all P xs \<longleftrightarrow> length (filter P xs) = length xs"
  by (metis filter_id_conv length_filter_less list_all_iff nat_neq_iff)



text \<open>The summary's counters add up to the number of members with a valid status, hence to
  the total when every status is valid, and the three terminal counters to the number of
  members in a terminal status.\<close>

theorem StatusSummary_adds_up:
  "status_sum (StatusSummary b) =
     int (length (filter (\<lambda>n. Status_IsValid (n_Status n)) (b_Notifications b))) \<and>
   s_Total (StatusSummary b) = Batch_Size b \<and>
   s_Delivered (StatusSummary b) + s_Failed (StatusSummary b) + s_Cancelled (StatusSummary b) =
     int (length (filter (\<lambda>n. Status_IsTerminal (n_Status n)) (b_Notifications b))) \<and>
   (list_all (\<lambda>n. Status_IsValid (n_Status n)) (b_Notifications b) \<longleftrightarrow>
      status_sum (StatusSummary b) = s_Total (StatusSummary b))"
proof -
  let ?ns = "b_Notifications b"
  have sum: "status_sum (StatusSummary b) =
      int (length (filter (\<lambda>n. Status_IsValid (n_Status n)) ?ns))"
    unfolding StatusSummary_def fold_count_status_sum by (simp add: status_sum_def)
  moreover have tot: "s_Total (StatusSummary b) = Batch_Size b"
    unfolding StatusSummary_def fold_count_status_sum by (simp add: Batch_Size_def)
  moreover have "s_Delivered (StatusSummary b) + s_Failed (StatusSummary b) +
      s_Cancelled (StatusSummary b) =
      int (length (filter (\<lambda>n. Status_IsTerminal (n_Status n)) ?ns))"
    unfolding StatusSummary_def fold_count_terminal by simp
  moreover have "list_all (\<lambda>n. Status_IsValid (n_Status n)) ?ns \<longleftrightarrow>
      length (filter (\<lambda>n. Status_IsValid (n_Status n)) ?ns) = length ?ns"
    by (rule list_all_length_filter)
  ultimately show ?thesis by (simp add: Batch_Size_def)
qed

end
