(* ===== verification/Effects.thy ===== *)
theory Effects
  imports Entities "HOL-Library.List_Lexorder" "HOL-Library.Product_Lexorder"
begin

text \<open>
  Programs with effects. A method that talks to PostgreSQL, Redis, the task queue, the clock
  or a provider is a value of type \<open>'r prog\<close>: a tree whose nodes are the calls that leave the
  process, in the order the source makes them, each with the continuation that receives the
  answer. Nothing in a tree fixes what the outside world does: \<open>Sql\<close> gives the statements
  their meaning, everything else is answered by an environment that is a parameter.

  The statements and row types are those of the query catalogue
  \<open>internal/adapters/postgres/sqlc/queries\<close> and its generated models.
\<close>

section \<open>Rows and statements\<close>

text \<open>A \<open>pgtype.UUID\<close>: its 16 bytes, or \<open>None\<close> when not \<open>Valid\<close> (SQL NULL).\<close>

type_synonym uuid = "8 word list"
type_synonym pgUUID = "uuid option"
type_synonym int32 = "32 word"

record NotificationRow =
  r_id :: pgUUID
  r_batch_id :: pgUUID
  r_idempotency_key :: "string option"
  r_correlation_id :: string
  r_channel :: string
  r_priority :: string
  r_recipient :: string
  r_content :: string
  r_status :: string
  r_attempts :: int32
  r_last_error :: string
  r_next_retry_at :: "Time option"
  r_scheduled_at :: "Time option"
  r_template_id :: pgUUID
  r_created_at :: Time
  r_updated_at :: Time

record BatchRow =
  br_id :: pgUUID
  br_correlation_id :: string
  br_created_at :: Time

record TemplateRow =
  tr_id :: pgUUID
  tr_name :: string
  tr_channel :: string
  tr_body :: string
  tr_created_at :: Time
  tr_updated_at :: Time

record NotificationLogRow =
  lr_id :: pgUUID
  lr_notification_id :: pgUUID
  lr_correlation_id :: string
  lr_event :: string
  lr_details :: "string option"
  lr_created_at :: Time

record UpdateNotificationStatusParams =
  u_id :: pgUUID
  u_new_status :: string
  u_attempts :: int32
  u_last_error :: string
  u_next_retry_at :: "Time option"
  u_updated_at :: Time
  u_expected_source :: string

record ListNotificationsParams =
  q_status :: "string option"
  q_channel :: "string option"
  q_batch_id :: pgUUID
  q_created_after :: "Time option"
  q_created_before :: "Time option"
  q_cursor_created_at :: "Time option"
  q_cursor_id :: pgUUID
  q_row_limit :: int32

datatype exec_stmt =
    Q_CreateNotification NotificationRow
  | Q_UpdateNotificationStatus UpdateNotificationStatusParams
  | Q_CreateBatch BatchRow
  | Q_AppendNotificationLog NotificationLogRow
  | Q_CreateTemplate TemplateRow
  | Q_UpdateTemplate pgUUID string string string
  | Q_DeleteTemplate pgUUID

datatype notification_query =
    Q_GetNotification pgUUID
  | Q_ClaimForProcessing pgUUID Time
  | Q_ListNotificationsByBatch pgUUID
  | Q_ListNotifications ListNotificationsParams
  | Q_FindOrphanedPending Time int32
  | Q_FindStuckProcessing Time int32
  | Q_FindOverdueRetrying Time int32
  | Q_FindStuckQueued Time int32

datatype template_query =
    Q_GetTemplate pgUUID
  | Q_GetTemplateByName string
  | Q_ListTemplates int32

section \<open>The other calls\<close>

datatype id_kind = KNotification | KBatch | KTemplate | KLog | KCorrelation

text \<open>An \<open>asynq.Task\<close> with the options it is enqueued with. The payload's only field is the
  notification id.\<close>

record asynq_task =
  k_type :: string
  k_notification_id :: string
  k_queue :: string
  k_max_retry :: int
  k_task_id :: string
  k_unique :: "Duration option"
  k_process_at :: "Time option"

record http_request =
  hq_url :: string
  hq_to :: string
  hq_channel :: string
  hq_content :: string

text \<open>The answer of the HTTP client is the text of its error, or a response: status code, status text, the body or the error of reading it, and the
  message id of the body where it decodes as JSON.\<close>

record http_response =
  hr_code :: int
  hr_status :: string
  hr_body :: "string option"
  hr_message_id :: string

text \<open>Metrics, log lines and spans: output nobody reads back.\<close>

datatype observation =
    M_NotificationCreated string string
  | M_NotificationDelivered string
  | M_NotificationFailed string string
  | M_NotificationAttempt string string
  | M_ObserveProcessing string Duration
  | M_OutboundRateLimitHit string
  | M_InboundRateLimitHit string
  | M_HTTPRequest string string string
  | M_ObserveHTTPRequest string string Duration
  | Slog_ProcessedNotification string "(string \<times> string) list"
  | Slog string string "(string \<times> string) list"
  | Span_Start string
  | Span_StringAttr string string
  | Span_BoolAttr string bool
  | Span_End

text \<open>A transaction's body: statements with the wrap of their error, and conversion errors that
  abort it where they occur.\<close>

type_synonym tx_item = "gerror + exec_stmt \<times> string \<times> string list"

datatype 'r prog =
    Ret 'r
  | Exec exec_stmt "gerror + int \<Rightarrow> 'r prog"
  | Tx "tx_item list" "gerror option \<Rightarrow> 'r prog"
  | QueryN notification_query "gerror + NotificationRow list \<Rightarrow> 'r prog"
  | QueryB pgUUID "gerror + BatchRow list \<Rightarrow> 'r prog"
  | QueryT template_query "gerror + TemplateRow list \<Rightarrow> 'r prog"
  | QueryL pgUUID "gerror + NotificationLogRow list \<Rightarrow> 'r prog"
  | Clock_Now "Time \<Rightarrow> 'r prog"
  | New_ID id_kind "string \<Rightarrow> 'r prog"
  | Asynq_Enqueue asynq_task "gerror option \<Rightarrow> 'r prog"
  | Asynq_DeleteTask string string "gerror option \<Rightarrow> 'r prog"
  | Redis_RunScript string int int "gerror + (int \<times> int) option \<Rightarrow> 'r prog"
  | Redis_Publish string string string "gerror option \<Rightarrow> 'r prog"
  | Redis_Get string "gerror + string option \<Rightarrow> 'r prog"
  | Redis_Set string string Duration "gerror option \<Rightarrow> 'r prog"
  | Http_Do http_request "string + http_response \<Rightarrow> 'r prog"
  | Breaker_Before "gerror + nat \<Rightarrow> 'r prog"
  | Breaker_After nat bool "'r prog"
  | Emit observation "'r prog"

section \<open>Sequencing\<close>

primrec bind :: "'a prog \<Rightarrow> ('a \<Rightarrow> 'b prog) \<Rightarrow> 'b prog" where
  "bind (Ret r) f = f r"
| "bind (Exec s k) f = Exec s (\<lambda>a. bind (k a) f)"
| "bind (Tx ss k) f = Tx ss (\<lambda>a. bind (k a) f)"
| "bind (QueryN q k) f = QueryN q (\<lambda>a. bind (k a) f)"
| "bind (QueryB q k) f = QueryB q (\<lambda>a. bind (k a) f)"
| "bind (QueryT q k) f = QueryT q (\<lambda>a. bind (k a) f)"
| "bind (QueryL q k) f = QueryL q (\<lambda>a. bind (k a) f)"
| "bind (Clock_Now k) f = Clock_Now (\<lambda>a. bind (k a) f)"
| "bind (New_ID i k) f = New_ID i (\<lambda>a. bind (k a) f)"
| "bind (Asynq_Enqueue t k) f = Asynq_Enqueue t (\<lambda>a. bind (k a) f)"
| "bind (Asynq_DeleteTask q t k) f = Asynq_DeleteTask q t (\<lambda>a. bind (k a) f)"
| "bind (Redis_RunScript b l w k) f = Redis_RunScript b l w (\<lambda>a. bind (k a) f)"
| "bind (Redis_Publish c n s k) f = Redis_Publish c n s (\<lambda>a. bind (k a) f)"
| "bind (Redis_Get key k) f = Redis_Get key (\<lambda>a. bind (k a) f)"
| "bind (Redis_Set key v ttl k) f = Redis_Set key v ttl (\<lambda>a. bind (k a) f)"
| "bind (Http_Do q k) f = Http_Do q (\<lambda>a. bind (k a) f)"
| "bind (Breaker_Before k) f = Breaker_Before (\<lambda>a. bind (k a) f)"
| "bind (Breaker_After g b k) f = Breaker_After g b (bind k f)"
| "bind (Emit e k) f = Emit e (bind k f)"

lemma bind_Ret [simp]: "bind p Ret = p"
  by (induction p) simp_all

lemma bind_assoc [simp]: "bind (bind p f) g = bind p (\<lambda>x. bind (f x) g)"
  by (induction p) simp_all

text \<open>The two shapes of Go error handling: \<open>if err != nil { return ... }\<close> after a call that
  returns an error, and after one that returns a value and an error.\<close>

definition on_err :: "gerror option prog \<Rightarrow> (gerror \<Rightarrow> 'r) \<Rightarrow> 'r prog \<Rightarrow> 'r prog" where
  "on_err p fail k = bind p (\<lambda>e. case e of Some err \<Rightarrow> Ret (fail err) | None \<Rightarrow> k)"

definition try_val :: "(gerror + 'a) prog \<Rightarrow> (gerror \<Rightarrow> 'r) \<Rightarrow> ('a \<Rightarrow> 'r prog) \<Rightarrow> 'r prog" where
  "try_val p fail k = bind p (\<lambda>r. case r of Inl err \<Rightarrow> Ret (fail err) | Inr a \<Rightarrow> k a)"

definition check_err :: "gerror option \<Rightarrow> (gerror \<Rightarrow> 'r) \<Rightarrow> 'r prog \<Rightarrow> 'r prog" where
  "check_err e fail k = (case e of Some err \<Rightarrow> Ret (fail err) | None \<Rightarrow> k)"

definition check_val :: "gerror + 'a \<Rightarrow> (gerror \<Rightarrow> 'r) \<Rightarrow> ('a \<Rightarrow> 'r prog) \<Rightarrow> 'r prog" where
  "check_val r fail k = (case r of Inl err \<Rightarrow> Ret (fail err) | Inr a \<Rightarrow> k a)"

text \<open>An optional metrics recorder or tracer: nil, or a no-op tracer, skips the emit.\<close>

definition emit_if :: "bool \<Rightarrow> observation \<Rightarrow> 'r prog \<Rightarrow> 'r prog" where
  "emit_if m e k = (if m then Emit e k else k)"

text \<open>\<open>for _, x := range xs { if err := f(x); err != nil { return err } }\<close>\<close>

primrec for_each :: "('a \<Rightarrow> gerror option prog) \<Rightarrow> 'a list \<Rightarrow> gerror option prog" where
  "for_each f [] = Ret None"
| "for_each f (x # xs) = on_err (f x) Some (for_each f xs)"

lemma check_err_simps [simp]:
  "check_err None f k = k" "check_err (Some e) f k = Ret (f e)"
  by (simp_all add: check_err_def)

lemma check_val_simps [simp]:
  "check_val (Inr a) f h = h a" "check_val (Inl e) f h = Ret (f e)"
  by (simp_all add: check_val_def)

end
