(* ===== verification/Ports.thy ===== *)
theory Ports
  imports Effects
begin

text \<open>
  The interfaces of \<open>internal/ports/ports.go\<close> and \<open>internal/application/metrics.go\<close>, one record
  per interface with one field per method. A use case holds such records the way its Go
  struct holds the interface values; the adapters build them.
\<close>

section \<open>Persistence\<close>

record NotificationFilter =
  f_Status :: "Status option"
  f_Channel :: "Channel option"
  f_CreatedAfter :: "Time option"
  f_CreatedBefore :: "Time option"
  f_BatchID :: "BatchID option"

record NotificationRepository =
  Repo_Create :: "Notification \<Rightarrow> gerror option prog"
  Repo_Get :: "NotificationID \<Rightarrow> (gerror + Notification) prog"
  Repo_ClaimForProcessing :: "NotificationID \<Rightarrow> Time \<Rightarrow> (gerror + Notification) prog"
  Repo_UpdateStatus :: "Notification \<Rightarrow> Status \<Rightarrow> gerror option prog"
  Repo_List :: "NotificationFilter \<Rightarrow> string \<Rightarrow> int \<Rightarrow> (gerror + Notification list \<times> string) prog"
  Repo_FindOrphanedPending :: "Time \<Rightarrow> int \<Rightarrow> (gerror + Notification list) prog"
  Repo_FindStuckProcessing :: "Time \<Rightarrow> int \<Rightarrow> (gerror + Notification list) prog"
  Repo_FindOverdueRetrying :: "Time \<Rightarrow> int \<Rightarrow> (gerror + Notification list) prog"
  Repo_FindStuckQueued :: "Time \<Rightarrow> int \<Rightarrow> (gerror + Notification list) prog"

record BatchRepository =
  BatchRepo_Create :: "Batch \<Rightarrow> gerror option prog"
  BatchRepo_Get :: "BatchID \<Rightarrow> (gerror + Batch) prog"

record TemplateRepository =
  TmplRepo_Create :: "Template \<Rightarrow> gerror option prog"
  TmplRepo_Get :: "TemplateID \<Rightarrow> (gerror + Template) prog"
  TmplRepo_GetByName :: "string \<Rightarrow> (gerror + Template) prog"
  TmplRepo_List :: "int \<Rightarrow> (gerror + Template list) prog"
  TmplRepo_Update :: "Template \<Rightarrow> gerror option prog"
  TmplRepo_Delete :: "TemplateID \<Rightarrow> gerror option prog"

record NotificationLogRepository =
  LogRepo_Append :: "NotificationLog \<Rightarrow> gerror option prog"
  LogRepo_List :: "NotificationID \<Rightarrow> (gerror + NotificationLog list) prog"

section \<open>Asynchronous processing, delivery, limits and fan-out\<close>

record Queue =
  Queue_Enqueue :: "NotificationID \<Rightarrow> Priority \<Rightarrow> string \<Rightarrow> gerror option prog"
  Queue_EnqueueScheduled :: "NotificationID \<Rightarrow> Priority \<Rightarrow> Time \<Rightarrow> gerror option prog"
  Queue_Cancel :: "NotificationID \<Rightarrow> gerror option prog"

record Provider =
  Provider_Send :: "Channel \<Rightarrow> string \<Rightarrow> string \<Rightarrow> DeliveryResult prog"

text \<open>\<open>Allow\<close> returns allowed and retryAfter.\<close>

record RateLimiter =
  RateLimiter_Allow :: "string \<Rightarrow> (gerror + bool \<times> Duration) prog"

record StatusBroadcaster =
  Broadcaster_Publish :: "NotificationID \<Rightarrow> Status \<Rightarrow> gerror option prog"

section \<open>Identifiers and time\<close>

record IDGenerator =
  IDGen_NewNotificationID :: "NotificationID prog"
  IDGen_NewBatchID :: "BatchID prog"
  IDGen_NewTemplateID :: "TemplateID prog"
  IDGen_NewLogID :: "LogID prog"
  IDGen_NewCorrelationID :: "string prog"

record Clock =
  Clk_Now :: "Time prog"

text \<open>\<open>time.Time.Sub\<close> saturates at the largest and smallest duration;
  \<open>Duration.Milliseconds\<close> truncates toward zero.\<close>

definition time_Sub :: "Time \<Rightarrow> Time \<Rightarrow> Duration" where
  "time_Sub t u =
     (if t - u > 2 ^ 63 - 1 then word_of_int (2 ^ 63 - 1)
      else if t - u < - (2 ^ 63) then word_of_int (- (2 ^ 63))
      else word_of_int (t - u))"

definition Duration_Milliseconds :: "Duration \<Rightarrow> int" where
  "Duration_Milliseconds d =
     (if sint d < 0 then - ((- sint d) div 1000000) else sint d div 1000000)"

definition Second :: Duration where "Second = 1000000000"
definition Minute :: Duration where "Minute = 60 * Second"

end
