(* ===== verification/Base64.thy ===== *)
theory Base64
  imports Prelude
begin

text \<open>
  The padded encodings of \<open>encoding/base64\<close>: \<open>URLEncoding\<close>, in which the list cursor is written,
  and \<open>StdEncoding\<close>, in which \<open>encoding/json\<close> writes byte slices. An encoding is its alphabet.
\<close>

section \<open>Encoder and decoder\<close>

definition URLEncoding :: string where
  "URLEncoding = ''ABCDEFGHIJKLMNOPQRSTUVWXYZabcdefghijklmnopqrstuvwxyz0123456789-_''"

definition StdEncoding :: string where
  "StdEncoding = ''ABCDEFGHIJKLMNOPQRSTUVWXYZabcdefghijklmnopqrstuvwxyz0123456789+/''"

definition b64 :: "string \<Rightarrow> nat \<Rightarrow> char" where "b64 A n = A ! (n mod 64)"

text \<open>Groups of three bytes, padded with \<open>=\<close>.\<close>

fun encode_groups :: "string \<Rightarrow> nat list \<Rightarrow> string" where
  "encode_groups A (a # b # c # xs) =
     [b64 A (a div 4), b64 A ((a mod 4) * 16 + b div 16), b64 A ((b mod 16) * 4 + c div 64), b64 A (c mod 64)] @
     encode_groups A xs"
| "encode_groups A [a, b] =
     [b64 A (a div 4), b64 A ((a mod 4) * 16 + b div 16), b64 A ((b mod 16) * 4), CHR ''='']"
| "encode_groups A [a] = [b64 A (a div 4), b64 A ((a mod 4) * 16), CHR ''='', CHR ''='']"
| "encode_groups A [] = []"

fun index_of :: "'a \<Rightarrow> 'a list \<Rightarrow> nat option" where
  "index_of x [] = None"
| "index_of x (y # ys) = (if x = y then Some 0 else map_option Suc (index_of x ys))"

text \<open>The decoder skips line breaks, needs whole groups, allows padding at the very end only,
  and does not look at the spare bits of a padded group.\<close>

fun decode_groups :: "string \<Rightarrow> string \<Rightarrow> nat list option" where
  "decode_groups A [] = Some []"
| "decode_groups A (w # x # y # z # cs) =
     (case (index_of w A, index_of x A) of
        (Some p, Some q) \<Rightarrow>
          (if y = CHR ''='' \<and> z = CHR ''='' \<and> cs = [] then Some [p * 4 + q div 16]
           else case index_of y A of
             None \<Rightarrow> None
           | Some r \<Rightarrow>
               (if z = CHR ''='' \<and> cs = [] then Some [p * 4 + q div 16, (q mod 16) * 16 + r div 4]
                else case index_of z A of
                  None \<Rightarrow> None
                | Some s \<Rightarrow> map_option (\<lambda>bs.
                    [p * 4 + q div 16, (q mod 16) * 16 + r div 4, (r mod 4) * 64 + s] @ bs)
                    (decode_groups A cs)))
      | _ \<Rightarrow> None)"
| "decode_groups A _ = None"

definition base64_EncodeToString :: "string \<Rightarrow> string \<Rightarrow> string" where
  "base64_EncodeToString A s = encode_groups A (map of_char s)"

definition base64_DecodeString :: "string \<Rightarrow> string \<Rightarrow> string option" where
  "base64_DecodeString A s =
     map_option (map char_of) (decode_groups A (filter (\<lambda>c. c \<noteq> CHR 0x0A \<and> c \<noteq> CHR 0x0D) s))"

section \<open>The round trip\<close>

lemma index_of_nth: "distinct xs \<Longrightarrow> k < length xs \<Longrightarrow> index_of (xs ! k) xs = Some k"
  by (induction xs arbitrary: k) (auto simp: nth_Cons split: nat.splits)

text \<open>The six-bit digits of a group of three bytes, and the bytes put together from them.\<close>

lemma positional: "(y :: nat) < m \<Longrightarrow> (x * m + y) div m = x" "y < m \<Longrightarrow> (x * m + y) mod m = y"
  by simp_all

lemma nibbles: "(b :: nat) < 256 \<Longrightarrow> b div 16 < 16" "c < 256 \<Longrightarrow> c div 64 < (4 :: nat)" "a < 256 \<Longrightarrow> a div 4 < (64 :: nat)"
  by (simp_all add: less_mult_imp_div_less)

lemma digit_bounds:
  "b < 256 \<Longrightarrow> a mod 4 * 16 + b div 16 < (64 :: nat)" "c < 256 \<Longrightarrow> b mod 16 * 4 + c div 64 < (64 :: nat)"
  "a mod 4 * 16 < (64 :: nat)" "b mod 16 * 4 < (64 :: nat)"
  using nibbles(1) [of b] nibbles(2) [of c] mod_less_divisor [of 4 a] mod_less_divisor [of 16 b] by linarith+

lemma encode_groups_induct [case_names group two one nil]:
  assumes "\<And>a b c xs. P xs \<Longrightarrow> P (a # b # c # xs)" "\<And>a b. P [a, b]" "\<And>a. P [a]" "P []"
  shows "P (bs :: nat list)"
  using assms by (rule encode_groups.induct [of "\<lambda>_. P"])

text \<open>What an alphabet has to satisfy.\<close>

locale encoding =
  fixes A :: string
  assumes size: "length A = 64" and dist: "distinct A"
    and no_pad: "CHR ''='' \<notin> set A" and no_break: "CHR 0x0A \<notin> set A" "CHR 0x0D \<notin> set A"
begin

lemma b64_mem: "b64 A n \<in> set A"
  using size by (simp add: b64_def)

lemma b64_no_pad: "b64 A n \<noteq> CHR ''=''"
  using b64_mem no_pad by metis

lemma index_b64: "n < 64 \<Longrightarrow> index_of (b64 A n) A = Some n"
  using index_of_nth [OF dist] size by (simp add: b64_def)

lemma decode_encode_groups: "\<forall>b \<in> set bs. b < 256 \<Longrightarrow> decode_groups A (encode_groups A bs) = Some bs"
  by (induction bs rule: encode_groups_induct)
    (simp_all add: index_b64 digit_bounds nibbles positional b64_no_pad mult_div_mod_eq)

lemma encoded_chars: "set (encode_groups A bs) \<subseteq> insert (CHR ''='') (set A)"
  by (induction bs rule: encode_groups_induct) (auto simp: b64_mem)

lemma round_trip: "base64_DecodeString A (base64_EncodeToString A s) = Some s"
proof -
  have "filter (\<lambda>c. c \<noteq> CHR 0x0A \<and> c \<noteq> CHR 0x0D) (encode_groups A (map of_char s)) = encode_groups A (map of_char s)"
    using encoded_chars [of "map of_char s"] no_break by (auto intro!: filter_True)
  moreover have "decode_groups A (encode_groups A (map of_char s)) = Some (map of_char s)"
    by (rule decode_encode_groups) auto
  ultimately show ?thesis by (simp add: base64_DecodeString_def base64_EncodeToString_def comp_def)
qed

lemma not_empty: "s \<noteq> [] \<Longrightarrow> base64_EncodeToString A s \<noteq> []"
  using round_trip [of s] by (auto simp: base64_DecodeString_def)

end

interpretation url: encoding URLEncoding
  by unfold_locales (simp_all add: URLEncoding_def)

interpretation std: encoding StdEncoding
  by unfold_locales (simp_all add: StdEncoding_def)

end
