(* ===== verification/Json.thy ===== *)
theory Json
  imports Base64 "HOL-Library.Char_ord"
begin

text \<open>
  The parts of \<open>encoding/json\<close> the sources use: the text of a value, with the escapes of
  \<open>json.Marshal\<close>, and the scanner behind \<open>json.Unmarshal\<close> with its nesting limit and the decoding
  of strings. Values are kept as trees; a struct is the object of its fields in declaration
  order.
\<close>

section \<open>Values and UTF-8\<close>

datatype json = JNull | JBool bool | JNumber string | JString string | JArray "json list" | JObject "(string \<times> json) list"

abbreviation byte :: "char \<Rightarrow> nat" where "byte \<equiv> of_char"

definition continues :: "nat \<Rightarrow> nat \<Rightarrow> char \<Rightarrow> bool" where
  "continues lo hi c \<longleftrightarrow> lo \<le> byte c \<and> byte c \<le> hi"

text \<open>The number of bytes of the rune at the start of a string, 0 when it is not valid UTF-8.\<close>

fun rune_len :: "string \<Rightarrow> nat" where
  "rune_len [] = 0"
| "rune_len (a # s) =
     (let n = byte a; tail = list_all (continues 0x80 0xBF) in
      if n < 0x80 then 1
      else if 0xC2 \<le> n \<and> n \<le> 0xDF then (case s of b # _ \<Rightarrow> if continues 0x80 0xBF b then 2 else 0 | _ \<Rightarrow> 0)
      else if 0xE0 \<le> n \<and> n \<le> 0xEF then
        (case s of b # c # _ \<Rightarrow>
           if continues (if n = 0xE0 then 0xA0 else 0x80) (if n = 0xED then 0x9F else 0xBF) b \<and> tail [c] then 3 else 0
         | _ \<Rightarrow> 0)
      else if 0xF0 \<le> n \<and> n \<le> 0xF4 then
        (case s of b # c # d # _ \<Rightarrow>
           if continues (if n = 0xF0 then 0x90 else 0x80) (if n = 0xF4 then 0x8F else 0xBF) b \<and> tail [c, d] then 4 else 0
         | _ \<Rightarrow> 0)
      else 0)"

definition RuneError :: string where "RuneError = [CHR 0xEF, CHR 0xBF, CHR 0xBD]"

definition encode_rune :: "nat \<Rightarrow> string" where
  "encode_rune r = map char_of
     (if r < 0x80 then [r]
      else if r < 0x800 then [0xC0 + r div 64, 0x80 + r mod 64]
      else if r < 0x10000 then [0xE0 + r div 4096, 0x80 + r div 64 mod 64, 0x80 + r mod 64]
      else [0xF0 + r div 262144, 0x80 + r div 4096 mod 64, 0x80 + r div 64 mod 64, 0x80 + r mod 64])"

section \<open>Marshal\<close>

definition backslash :: char where "backslash = CHR 0x5C"
definition dquote :: char where "dquote = CHR 0x22"

definition short_escapes :: "(char \<times> char) list" where
  "short_escapes = [(dquote, dquote), (backslash, backslash), (CHR 0x08, CHR ''b''), (CHR 0x0C, CHR ''f''),
     (CHR 0x0A, CHR ''n''), (CHR 0x0D, CHR ''r''), (CHR 0x09, CHR ''t'')]"

definition unicode_escape :: "nat \<Rightarrow> string" where
  "unicode_escape r = [backslash, CHR ''u'', hex_digit (r div 4096 mod 16), hex_digit (r div 256 mod 16),
     hex_digit (r div 16 mod 16), hex_digit (r mod 16)]"

definition quote_ascii :: "char \<Rightarrow> string" where
  "quote_ascii c =
     (case map_of short_escapes c of Some e \<Rightarrow> [backslash, e]
      | None \<Rightarrow> if byte c < 0x20 \<or> c \<in> {CHR ''<'', CHR ''>'', CHR 0x26} then unicode_escape (byte c) else [c])"

text \<open>The skip count passes over the bytes of a rune already written.\<close>

fun quote_from :: "nat \<Rightarrow> string \<Rightarrow> string" where
  "quote_from k [] = []"
| "quote_from (Suc k) (c # s) = quote_from k s"
| "quote_from 0 (c # s) =
     (let n = rune_len (c # s); rune = take n (c # s) in
      if is_ascii c then quote_ascii c @ quote_from 0 s
      else if n = 0 then unicode_escape 0xFFFD @ quote_from 0 s
      else if rune = [CHR 0xE2, CHR 0x80, CHR 0xA8] then unicode_escape 0x2028 @ quote_from (n - 1) s
      else if rune = [CHR 0xE2, CHR 0x80, CHR 0xA9] then unicode_escape 0x2029 @ quote_from (n - 1) s
      else rune @ quote_from (n - 1) s)"

definition quote_json :: "string \<Rightarrow> string" where
  "quote_json s = dquote # quote_from 0 s @ [dquote]"

fun comma_separated :: "string list \<Rightarrow> string" where
  "comma_separated [] = []"
| "comma_separated [x] = x"
| "comma_separated (x # xs) = x @ '','' @ comma_separated xs"

fun json_text :: "json \<Rightarrow> string" where
  "json_text JNull = ''null''"
| "json_text (JBool b) = (if b then ''true'' else ''false'')"
| "json_text (JNumber n) = n"
| "json_text (JString s) = quote_json s"
| "json_text (JArray vs) = ''['' @ comma_separated (map json_text vs) @ '']''"
| "json_text (JObject ms) = ''{'' @ comma_separated (map (\<lambda>(k, v). quote_json k @ '':'' @ json_text v) ms) @ ''}''"

text \<open>Fields: a byte slice is base64 text or null, \<open>omitempty\<close> drops the empty value.\<close>

definition json_bytes :: "string \<Rightarrow> json" where
  "json_bytes bs = (if bs = [] then JNull else JString (base64_EncodeToString StdEncoding bs))"

definition omitempty :: "string \<Rightarrow> string \<Rightarrow> json \<Rightarrow> (string \<times> json) list" where
  "omitempty name v j = (if v = [] then [] else [(name, j)])"

section \<open>Unmarshal\<close>

definition skip_space :: "string \<Rightarrow> string" where
  "skip_space s = dropWhile (\<lambda>c. c \<in> {CHR '' '', CHR 0x09, CHR 0x0A, CHR 0x0D}) s"

definition hex_value :: "char \<Rightarrow> nat option" where
  "hex_value c =
     (if CHR ''0'' \<le> c \<and> c \<le> CHR ''9'' then Some (byte c - 48)
      else if CHR ''a'' \<le> c \<and> c \<le> CHR ''f'' then Some (byte c - 87)
      else if CHR ''A'' \<le> c \<and> c \<le> CHR ''F'' then Some (byte c - 55) else None)"

fun getu4 :: "string \<Rightarrow> (nat \<times> string) option" where
  "getu4 (a # b # c # d # s) =
     (case (hex_value a, hex_value b, hex_value c, hex_value d) of
        (Some p, Some q, Some r, Some t) \<Rightarrow> Some (((p * 16 + q) * 16 + r) * 16 + t, s)
      | _ \<Rightarrow> None)"
| "getu4 _ = None"

text \<open>A \<open>\u\<close> escape: a surrogate pair makes one rune, a lone surrogate the replacement character.\<close>

definition unicode_unescape :: "string \<Rightarrow> (string \<times> string) option" where
  "unicode_unescape s =
     (case getu4 s of None \<Rightarrow> None
      | Some (r, s) \<Rightarrow>
          if 0xD800 \<le> r \<and> r < 0xE000 then
            (case s of
               b # u # s' \<Rightarrow>
                 (case (if b = backslash \<and> u = CHR ''u'' then getu4 s' else None) of
                    Some (r', rest) \<Rightarrow>
                      if r < 0xDC00 \<and> 0xDC00 \<le> r' \<and> r' < 0xE000
                      then Some (encode_rune ((r - 0xD800) * 1024 + (r' - 0xDC00) + 0x10000), rest)
                      else Some (RuneError, s)
                  | None \<Rightarrow> Some (RuneError, s))
             | _ \<Rightarrow> Some (RuneError, s))
          else Some (encode_rune r, s))"

definition short_unescapes :: "(char \<times> char) list" where
  "short_unescapes = (CHR ''/'', CHR ''/'') # map (\<lambda>(c, e). (e, c)) short_escapes"

text \<open>One character of a string literal: its decoded bytes and what follows.\<close>

fun string_item :: "string \<Rightarrow> (string \<times> string) option" where
  "string_item [] = None"
| "string_item (c # s) =
     (if c = backslash then
        (case s of [] \<Rightarrow> None
         | e # s' \<Rightarrow>
             if e = CHR ''u'' then unicode_unescape s'
             else map_option (\<lambda>d. ([d], s')) (map_of short_unescapes e))
      else if byte c < 0x20 then None
      else if rune_len (c # s) = 0 then Some (RuneError, s)
      else Some (take (rune_len (c # s)) (c # s), drop (rune_len (c # s)) (c # s)))"

text \<open>The rest of a literal after its opening quote; every item consumes input, so the length is
  enough fuel.\<close>

fun string_rest :: "nat \<Rightarrow> string \<Rightarrow> (string \<times> string) option" where
  "string_rest 0 s = None"
| "string_rest (Suc n) s =
     (if s \<noteq> [] \<and> hd s = dquote then Some ([], tl s)
      else case string_item s of None \<Rightarrow> None
        | Some (d, s) \<Rightarrow> map_option (\<lambda>(ds, s). (d @ ds, s)) (string_rest n s))"

definition parse_string :: "string \<Rightarrow> (string \<times> string) option" where
  "parse_string s = (case s of [] \<Rightarrow> None | c # s' \<Rightarrow> if c = dquote then string_rest (length s) s' else None)"

text \<open>Number literals: sign, integer part without leading zeros, fraction, exponent.\<close>

definition is_digit :: "char \<Rightarrow> bool" where
  "is_digit c \<longleftrightarrow> CHR ''0'' \<le> c \<and> c \<le> CHR ''9''"

definition digits1 :: "string \<Rightarrow> (string \<times> string) option" where
  "digits1 s = (case takeWhile is_digit s of [] \<Rightarrow> None | ds \<Rightarrow> Some (ds, dropWhile is_digit s))"

definition int_part :: "string \<Rightarrow> (string \<times> string) option" where
  "int_part s = (case s of c # s' \<Rightarrow> if c = CHR ''0'' then Some (''0'', s') else digits1 s | [] \<Rightarrow> None)"

definition fraction :: "string \<Rightarrow> (string \<times> string) option" where
  "fraction s = (case s of c # s' \<Rightarrow>
       if c = CHR ''.'' then map_option (\<lambda>(ds, r). (c # ds, r)) (digits1 s') else Some ([], s)
     | [] \<Rightarrow> Some ([], s))"

definition exponent :: "string \<Rightarrow> (string \<times> string) option" where
  "exponent s = (case s of c # s' \<Rightarrow>
       if c \<in> {CHR ''e'', CHR ''E''} then
         (case s' of g # s'' \<Rightarrow>
            if g \<in> {CHR ''+'', CHR ''-''} then map_option (\<lambda>(ds, r). (c # g # ds, r)) (digits1 s'')
            else map_option (\<lambda>(ds, r). (c # ds, r)) (digits1 s')
          | [] \<Rightarrow> None)
       else Some ([], s)
     | [] \<Rightarrow> Some ([], s))"

definition parse_number :: "string \<Rightarrow> (string \<times> string) option" where
  "parse_number s =
     (let (sign, s) = (if prefix ''-'' s then (''-'', tl s) else ([], s)) in
      case int_part s of None \<Rightarrow> None
      | Some (i, s) \<Rightarrow> case fraction s of None \<Rightarrow> None
        | Some (f, s) \<Rightarrow> map_option (\<lambda>(e, s). (sign @ i @ f @ e, s)) (exponent s))"

definition expect :: "string \<Rightarrow> 'a \<Rightarrow> string \<Rightarrow> ('a \<times> string) option" where
  "expect w a s = (if prefix w s then Some (a, drop (length w) s) else None)"

definition maxNestingDepth :: nat where "maxNestingDepth = 10000"

text \<open>The first argument is fuel (every call consumes input), the second the nesting depth.\<close>

fun parse_value :: "nat \<Rightarrow> nat \<Rightarrow> string \<Rightarrow> (json \<times> string) option"
and parse_elements :: "nat \<Rightarrow> nat \<Rightarrow> string \<Rightarrow> (json list \<times> string) option"
and parse_members :: "nat \<Rightarrow> nat \<Rightarrow> string \<Rightarrow> ((string \<times> json) list \<times> string) option"
where
  "parse_value 0 d s = None"
| "parse_value (Suc n) d s =
     (case skip_space s of [] \<Rightarrow> None
      | c # s' \<Rightarrow>
          if c = CHR ''{'' then
            (if maxNestingDepth \<le> d then None
             else case skip_space s' of
                 c' # s'' \<Rightarrow> if c' = CHR ''}'' then Some (JObject [], s'')
                   else map_option (\<lambda>(ms, r). (JObject ms, r)) (parse_members n (Suc d) s')
               | [] \<Rightarrow> None)
          else if c = CHR ''['' then
            (if maxNestingDepth \<le> d then None
             else case skip_space s' of
                 c' # s'' \<Rightarrow> if c' = CHR '']'' then Some (JArray [], s'')
                   else map_option (\<lambda>(vs, r). (JArray vs, r)) (parse_elements n (Suc d) s')
               | [] \<Rightarrow> None)
          else if c = dquote then map_option (\<lambda>(t, r). (JString t, r)) (parse_string (c # s'))
          else if c = CHR ''n'' then expect ''null'' JNull (c # s')
          else if c = CHR ''t'' then expect ''true'' (JBool True) (c # s')
          else if c = CHR ''f'' then expect ''false'' (JBool False) (c # s')
          else map_option (\<lambda>(t, r). (JNumber t, r)) (parse_number (c # s')))"
| "parse_elements 0 d s = None"
| "parse_elements (Suc n) d s =
     (case parse_value n d s of None \<Rightarrow> None
      | Some (v, s) \<Rightarrow>
          (case skip_space s of
             c # s' \<Rightarrow>
               if c = CHR '']'' then Some ([v], s')
               else if c = CHR '','' then map_option (\<lambda>(vs, r). (v # vs, r)) (parse_elements n d s')
               else None
           | [] \<Rightarrow> None))"
| "parse_members 0 d s = None"
| "parse_members (Suc n) d s =
     (case parse_string (skip_space s) of None \<Rightarrow> None
      | Some (k, s) \<Rightarrow>
          (case skip_space s of
             c # s' \<Rightarrow>
               if c \<noteq> CHR '':'' then None
               else (case parse_value n d s' of None \<Rightarrow> None
                 | Some (v, s) \<Rightarrow>
                     (case skip_space s of
                        c # s' \<Rightarrow>
                          if c = CHR ''}'' then Some ([(k, v)], s')
                          else if c = CHR '','' then map_option (\<lambda>(ms, r). ((k, v) # ms, r)) (parse_members n d s')
                          else None
                      | [] \<Rightarrow> None))
           | [] \<Rightarrow> None))"

definition json_parse :: "string \<Rightarrow> json option" where
  "json_parse s = (case parse_value (2 * length s + 2) 0 s of None \<Rightarrow> None
     | Some (v, r) \<Rightarrow> if skip_space r = [] then Some v else None)"

text \<open>Decoding into fields. A key matches a field by its name or by its name up to case folding
  (\<open>foldName\<close> folds the long s and the Kelvin sign too).\<close>

fun fold_from :: "nat \<Rightarrow> string \<Rightarrow> string" where
  "fold_from k [] = []"
| "fold_from (Suc k) (c # s) = fold_from k s"
| "fold_from 0 (c # s) =
     (if prefix [CHR 0xC5, CHR 0xBF] (c # s) then CHR ''S'' # fold_from 1 s
      else if prefix [CHR 0xE2, CHR 0x84, CHR 0xAA] (c # s) then CHR ''K'' # fold_from 2 s
      else (if CHR ''a'' \<le> c \<and> c \<le> CHR ''z'' then char_of (byte c - 32) else c) # fold_from 0 s)"

definition names_field :: "string \<Rightarrow> string \<Rightarrow> bool" where
  "names_field field key \<longleftrightarrow> fold_from 0 key = fold_from 0 field"

definition decode_string :: "json \<Rightarrow> string \<Rightarrow> string option" where
  "decode_string j old = (case j of JNull \<Rightarrow> Some old | JString s \<Rightarrow> Some s | _ \<Rightarrow> None)"

definition decode_uint8 :: "json \<Rightarrow> char option" where
  "decode_uint8 j =
     (case j of JNull \<Rightarrow> Some (CHR 0x00)
      | JNumber s \<Rightarrow>
          (let n = foldl (\<lambda>v c. 10 * v + (byte c - 48)) 0 s in
           if s \<noteq> [] \<and> list_all is_digit s \<and> n < 256 then Some (char_of n) else None)
      | _ \<Rightarrow> None)"

fun decode_uint8s :: "json list \<Rightarrow> string option" where
  "decode_uint8s [] = Some []"
| "decode_uint8s (j # js) =
     (case (decode_uint8 j, decode_uint8s js) of (Some c, Some cs) \<Rightarrow> Some (c # cs) | _ \<Rightarrow> None)"

definition decode_bytes :: "json \<Rightarrow> string option" where
  "decode_bytes j =
     (case j of JNull \<Rightarrow> Some [] | JString s \<Rightarrow> base64_DecodeString StdEncoding s | JArray js \<Rightarrow> decode_uint8s js | _ \<Rightarrow> None)"

section \<open>What is written reads back\<close>

abbreviation ascii :: "string \<Rightarrow> bool" where "ascii \<equiv> list_all is_ascii"

lemma byte_le: "c \<le> d \<longleftrightarrow> byte c \<le> byte d"
  by (simp add: less_eq_char_def)

lemma hex_value_digit: "n < 16 \<Longrightarrow> hex_value (hex_digit n) = Some n"
  by (auto simp: hex_value_def hex_digit_def byte_le)

lemma unescape_ascii: "is_ascii c \<Longrightarrow> string_item (unicode_escape (byte c) @ s) = Some ([c], s)"
proof -
  assume "is_ascii c"
  then have c: "byte c < 128" by (simp add: is_ascii_def)
  have "byte c div 4096 mod 16 = 0" "byte c div 256 mod 16 = 0" "byte c div 16 mod 16 = byte c div 16"
    using c by (simp_all add: less_mult_imp_div_less)
  then have "getu4 (tl (tl (unicode_escape (byte c) @ s))) = Some (byte c, s)"
    by (simp add: unicode_escape_def hex_value_digit mult.commute [of _ 16] mult_div_mod_eq)
  with c show ?thesis
    by (simp add: unicode_escape_def unicode_unescape_def encode_rune_def)
qed

lemma short_escape_back: "map_of short_escapes c = Some e \<Longrightarrow> map_of short_unescapes e = Some c \<and> e \<noteq> CHR ''u''"
  by (auto simp: short_escapes_def short_unescapes_def dquote_def backslash_def split: if_splits)

lemma string_item_quote: "is_ascii c \<Longrightarrow> string_item (quote_ascii c @ s) = Some ([c], s)"
proof (cases "map_of short_escapes c")
  case (Some e)
  with short_escape_back [OF Some] show ?thesis by (simp add: quote_ascii_def)
next
  case None
  assume c: "is_ascii c"
  have "c \<noteq> backslash" using None by (auto simp: short_escapes_def dquote_def backslash_def)
  moreover have "rune_len (c # s) = 1" using c by (simp add: is_ascii_def)
  ultimately show ?thesis
    using None unescape_ascii [OF c] by (auto simp: quote_ascii_def simp del: rune_len.simps)
qed

lemma quote_ascii_start: "\<exists>a t. quote_ascii c = a # t \<and> a \<noteq> dquote"
  by (auto simp: quote_ascii_def unicode_escape_def short_escapes_def dquote_def backslash_def split: option.splits)

lemma quote_from_Cons: "is_ascii c \<Longrightarrow> quote_from 0 (c # s) = quote_ascii c @ quote_from 0 s"
  by (simp add: Let_def)

lemma string_rest_quote:
  "ascii s \<Longrightarrow> length s < n \<Longrightarrow> string_rest n (quote_from 0 s @ dquote # r) = Some (s, r)"
proof (induction s arbitrary: n)
  case Nil
  then show ?case by (cases n) auto
next
  case (Cons c s)
  then obtain m where m: "n = Suc m" "length s < m" by (cases n) auto
  obtain a t where at: "quote_ascii c = a # t" "a \<noteq> dquote" using quote_ascii_start by blast
  have "string_item (quote_ascii c @ quote_from 0 s @ dquote # r) = Some ([c], quote_from 0 s @ dquote # r)"
    using Cons.prems(1) by (intro string_item_quote) simp
  with Cons m at show ?case by (simp add: quote_from_Cons del: quote_from.simps)
qed

lemma quote_from_length: "ascii s \<Longrightarrow> length s \<le> length (quote_from 0 s)"
proof (induction s)
  case (Cons c s)
  obtain a t where "quote_ascii c = a # t" using quote_ascii_start by blast
  with Cons show ?case by (simp add: quote_from_Cons del: quote_from.simps)
qed simp

lemma parse_string_quote: "ascii s \<Longrightarrow> parse_string (quote_json s @ r) = Some (s, r)"
  using quote_from_length [of s] by (simp add: parse_string_def quote_json_def string_rest_quote del: string_rest.simps)

lemma quote_json_start: "quote_json s @ r = dquote # quote_from 0 s @ dquote # r"
  by (simp add: quote_json_def)

text \<open>Flat objects: strings and nulls only.\<close>

fun flat :: "json \<Rightarrow> bool" where
  "flat JNull = True"
| "flat (JString s) = ascii s"
| "flat _ = False"

definition member_text :: "string \<times> json \<Rightarrow> string" where
  "member_text = (\<lambda>(k, v). quote_json k @ '':'' @ json_text v)"

lemma parse_flat: "flat v \<Longrightarrow> parse_value (Suc n) d (json_text v @ r) = Some (v, r)"
proof (cases v)
  case (JString s)
  moreover assume "flat v"
  ultimately show ?thesis
    using parse_string_quote [of s r] by (simp add: quote_json_start skip_space_def dquote_def)
qed (auto simp: skip_space_def expect_def dquote_def)

lemma parse_members_flat:
  "ms \<noteq> [] \<Longrightarrow> list_all (\<lambda>(k, v). ascii k \<and> flat v) ms \<Longrightarrow> length ms < n \<Longrightarrow>
   parse_members n d (comma_separated (map member_text ms) @ CHR ''}'' # r) = Some (ms, r)"
proof (induction ms arbitrary: n)
  case (Cons m ms)
  obtain k v where m: "m = (k, v)" by fastforce
  from Cons.prems(3) obtain j where n: "n = Suc (Suc j)" "length ms < Suc j" by (cases n; cases "n - 1") auto
  have key: "parse_string (skip_space (quote_json k @ t)) = Some (k, t)" for t
    using Cons.prems(2) parse_string_quote [of k t] by (simp add: m quote_json_start skip_space_def dquote_def)
  have val: "parse_value (Suc j) d (json_text v @ t) = Some (v, t)" for t
    using Cons.prems(2) by (intro parse_flat) (simp add: m)
  show ?case
  proof (cases ms)
    case Nil
    with key val show ?thesis by (simp add: m n member_text_def skip_space_def del: parse_value.simps)
  next
    case (Cons a list)
    with Cons.IH [of "Suc j"] Cons.prems n key val show ?thesis
      by (simp add: m member_text_def skip_space_def del: parse_value.simps)
  qed
qed simp

lemma member_text_length: "length ms \<le> length (comma_separated (map member_text ms))"
proof (induction ms)
  case (Cons m ms)
  then show ?case by (cases ms) (auto simp: member_text_def quote_json_def split: prod.split)
qed simp

lemma parse_flat_object:
  assumes "ms \<noteq> []" "list_all (\<lambda>(k, v). ascii k \<and> flat v) ms"
  shows "parse_value (2 * length (json_text (JObject ms)) + 2) 0 (json_text (JObject ms)) = Some (JObject ms, [])"
proof -
  let ?b = "comma_separated (map member_text ms)"
  have shape: "json_text (JObject ms) = CHR ''{'' # ?b @ ''}''" by (simp add: member_text_def)
  from member_text_length [of ms] have "parse_members (Suc (2 * length (CHR ''{'' # ?b @ ''}''))) 1 (?b @ ''}'') = Some (ms, [])"
    using parse_members_flat [OF assms, of _ 1 "[]"] by (simp del: parse_members.simps)
  moreover obtain k v rest where "ms = (k, v) # rest" using assms(1) by (metis list.exhaust surj_pair)
  then have "\<exists>t. ?b = dquote # t" by (cases rest) (simp_all add: member_text_def quote_json_def)
  ultimately show ?thesis
    unfolding shape
    by (auto simp: skip_space_def maxNestingDepth_def dquote_def simp del: parse_members.simps)
qed

lemma json_parse_flat:
  assumes "ms \<noteq> []" "list_all (\<lambda>(k, v). ascii k \<and> flat v) ms"
  shows "json_parse (json_text (JObject ms)) = Some (JObject ms)"
  using parse_flat_object [OF assms] by (simp add: json_parse_def skip_space_def del: parse_value.simps json_text.simps)

end
