(* ===== verification/Http.thy ===== *)
theory Http
  imports Ports Json
begin

text \<open>
  Requests, response writers and error responses of the HTTP adapter
  (\<open>internal/adapters/http/problem.go\<close>, \<open>error_handler.go\<close>).

  A handler is given a request and returns, as a program, the calls it makes on its response
  writer in order. A middleware takes such a handler to another. What \<open>net/http\<close> sends for a
  sequence of calls is \<open>sent\<close>.
\<close>

section \<open>Requests and responses\<close>

text \<open>A body yields its bytes and then ends or fails. Headers are looked up by canonical name, with
  the empty string for an absent one. The context carries the correlation id; the route pattern
  is what the router resolved, empty when nothing matched.\<close>

record body_reader =
  rd_bytes :: string
  rd_fails :: "gerror option"

record request =
  rq_Method :: string
  rq_Path :: string
  rq_Header :: "string \<Rightarrow> string"
  rq_Body :: "body_reader option"
  rq_RemoteAddr :: string
  rq_correlation :: string
  rq_pattern :: string

datatype wcall = Header_Set string string | WriteHeader int | Write string

type_synonym handler = "request \<Rightarrow> wcall list prog"

text \<open>The status is fixed by the first \<open>WriteHeader\<close> or \<open>Write\<close>, the headers are those set by
  then, and every write adds to the body.\<close>

record reply =
  rp_status :: int
  rp_headers :: "string \<Rightarrow> string"
  rp_body :: string

fun is_header :: "wcall \<Rightarrow> bool" where
  "is_header (Header_Set _ _) = True"
| "is_header _ = False"

fun set_headers :: "wcall list \<Rightarrow> (string \<Rightarrow> string) \<Rightarrow> string \<Rightarrow> string" where
  "set_headers [] H = H"
| "set_headers (Header_Set k v # cs) H = set_headers cs (H(k := v))"
| "set_headers (_ # cs) H = set_headers cs H"

fun first_status :: "wcall list \<Rightarrow> int" where
  "first_status [] = 200"
| "first_status (WriteHeader st # cs) = st"
| "first_status (Write _ # cs) = 200"
| "first_status (Header_Set _ _ # cs) = first_status cs"

fun body_of :: "wcall list \<Rightarrow> string" where
  "body_of [] = []"
| "body_of (Write p # cs) = p @ body_of cs"
| "body_of (_ # cs) = body_of cs"

definition sent :: "wcall list \<Rightarrow> reply" where
  "sent cs = \<lparr>rp_status = first_status cs, rp_headers = set_headers (takeWhile is_header cs) (\<lambda>_. []),
     rp_body = body_of cs\<rparr>"

section \<open>Problem details\<close>

definition problemContentType :: string where "problemContentType = ''application/problem+json''"

record Problem =
  p_Type :: string
  p_Title :: string
  p_Status :: int
  p_Detail :: string
  p_Instance :: string
  p_CorrelationID :: string

definition Problem_json :: "Problem \<Rightarrow> json" where
  "Problem_json p = JObject
     ([(''type'', JString (p_Type p)), (''title'', JString (p_Title p)), (''status'', JNumber (strconv_Itoa (p_Status p)))] @
      omitempty ''detail'' (p_Detail p) (JString (p_Detail p)) @
      omitempty ''instance'' (p_Instance p) (JString (p_Instance p)) @
      omitempty ''correlation_id'' (p_CorrelationID p) (JString (p_CorrelationID p)))"

text \<open>\<open>json.Marshal\<close> of this struct cannot fail, so the plain-text fallback is not reached. A write
  that fails is only logged.\<close>

definition WriteProblem :: "request \<Rightarrow> Problem \<Rightarrow> wcall list" where
  "WriteProblem r p =
     (let p = p\<lparr>p_Type := (if p_Type p = [] then ''about:blank'' else p_Type p),
          p_Instance := (if p_Instance p = [] then rq_Path r else p_Instance p),
          p_CorrelationID := (if p_CorrelationID p = [] then rq_correlation r else p_CorrelationID p)\<rparr> in
      [Header_Set ''Content-Type'' problemContentType, WriteHeader (p_Status p), Write (json_text (Problem_json p))])"

text \<open>A literal \<open>Problem{...}\<close> that leaves the last two members to \<open>WriteProblem\<close>.\<close>

definition problem :: "string \<Rightarrow> string \<Rightarrow> int \<Rightarrow> string \<Rightarrow> Problem" where
  "problem ty title st detail =
     \<lparr>p_Type = ty, p_Title = title, p_Status = st, p_Detail = detail, p_Instance = [], p_CorrelationID = []\<rparr>"

section \<open>Translation of errors\<close>

record errorMapping =
  m_sentinel :: sentinel
  m_status :: int
  m_problemType :: string
  m_title :: string
  m_defaultDetail :: string

definition mapping :: "sentinel \<Rightarrow> int \<Rightarrow> string \<Rightarrow> string \<Rightarrow> string \<Rightarrow> errorMapping" where
  "mapping s st ty title detail =
     \<lparr>m_sentinel = s, m_status = st, m_problemType = ty, m_title = title, m_defaultDetail = detail\<rparr>"

definition errorMappings :: "errorMapping list" where
  "errorMappings =
    [mapping ErrNotFound 404 ''/probs/not-found'' ''Not Found'' ''The requested resource does not exist.'',
     mapping ErrAlreadyClaimed 409 ''/probs/already-claimed'' ''Already Claimed'' ''The notification is being processed by another worker.'',
     mapping ErrConcurrentUpdate 409 ''/probs/concurrent-update'' ''Concurrent Update'' ''The resource was updated by another request; retry with the latest version.'',
     mapping ErrInvalidChannel 400 ''/probs/invalid-channel'' ''Invalid Channel'' ''Channel must be one of: sms, email, push.'',
     mapping ErrInvalidPriority 400 ''/probs/invalid-priority'' ''Invalid Priority'' ''Priority must be one of: low, normal, high.'',
     mapping ErrInvalidStatus 400 ''/probs/invalid-status'' ''Invalid Status'' ''Status is not a known notification state.'',
     mapping ErrInvalidLogEvent 400 ''/probs/invalid-log-event'' ''Invalid Log Event'' ''Log event is not a known transition event.'',
     mapping ErrInvalidNotificationID 400 ''/probs/invalid-notification-id'' ''Invalid Notification ID'' ''Notification id must be a valid UUID.'',
     mapping ErrInvalidCorrelationID 400 ''/probs/invalid-correlation-id'' ''Invalid Correlation ID'' ''Correlation id is not in the expected ULID or UUID shape.'',
     mapping ErrInvalidBatchID 400 ''/probs/invalid-batch-id'' ''Invalid Batch ID'' ''Batch id must be a valid UUID.'',
     mapping ErrInvalidTemplateID 400 ''/probs/invalid-template-id'' ''Invalid Template ID'' ''Template id must be a valid UUID.'',
     mapping ErrInvalidLogID 400 ''/probs/invalid-log-id'' ''Invalid Log ID'' ''Log id must be a valid UUID.'',
     mapping ErrInvalidRecipient 400 ''/probs/invalid-recipient'' ''Invalid Recipient'' ''Recipient address is missing or malformed.'',
     mapping ErrInvalidContent 400 ''/probs/invalid-content'' ''Invalid Content'' ''Notification content is missing or exceeds the channel limit.'',
     mapping ErrInvalidTransition 409 ''/probs/invalid-transition'' ''Invalid Transition'' ''The requested status transition is not allowed from the current state.'',
     mapping ErrInvalidBatchSize 400 ''/probs/invalid-batch-size'' ''Invalid Batch Size'' ''Batch size is outside the allowed range.'',
     mapping ErrBatchInconsistentCorrelation 400 ''/probs/batch-inconsistent-correlation'' ''Batch Inconsistent Correlation'' ''All notifications in a batch must share the same correlation id.'',
     mapping ErrInvalidTemplateName 400 ''/probs/invalid-template-name'' ''Invalid Template Name'' ''Template name is missing or malformed.'',
     mapping ErrInvalidTemplateBody 400 ''/probs/invalid-template-body'' ''Invalid Template Body'' ''Template body is missing or malformed.'',
     mapping ErrTemplateRenderFailed 400 ''/probs/template-render-failed'' ''Template Render Failed'' ''Rendering the template against the provided variables failed.'']"

definition errorDetail :: "gerror \<Rightarrow> errorMapping \<Rightarrow> string" where
  "errorDetail err m =
     (let rest = (case errors_As_Transition err of
          Some (a, b) \<Rightarrow> ''Cannot move from '' @ quoted a @ '' to '' @ quoted b @ ''.''
        | None \<Rightarrow> m_defaultDetail m) in
      case errors_As_Validation err of
        Some (field, reason) \<Rightarrow>
          (if field \<noteq> [] \<and> reason \<noteq> [] then ''Field '' @ quoted field @ '': '' @ reason @ ''.''
           else if reason \<noteq> [] then reason
           else if field \<noteq> [] then ''Field '' @ quoted field @ '' is invalid.''
           else rest)
      | None \<Rightarrow> rest)"

definition internal_problem :: Problem where
  "internal_problem = problem ''/probs/internal'' ''Internal Server Error'' 500
     ''An unexpected error occurred. The incident has been logged.''"

text \<open>The text of a logged error is left out of the log record.\<close>

definition WriteError :: "request \<Rightarrow> gerror option \<Rightarrow> wcall list prog" where
  "WriteError r err =
     (case err of None \<Rightarrow> Ret []
      | Some e \<Rightarrow>
          (case find (\<lambda>m. errors_Is e (m_sentinel m)) errorMappings of
             Some m \<Rightarrow> Ret (WriteProblem r (problem (m_problemType m) (m_title m) (m_status m) (errorDetail e m)))
           | None \<Rightarrow> Emit (Slog ''ERROR'' ''unmapped error reached http translator'' []) (Ret (WriteProblem r internal_problem))))"

definition isJSONDecodeError :: "gerror \<Rightarrow> bool" where
  "isJSONDecodeError err \<longleftrightarrow> errors_Is err SyntaxError \<or> errors_Is err UnmarshalTypeError \<or> errors_Is err ErrUnexpectedEOF"

definition RespondWithError :: "request \<Rightarrow> gerror \<Rightarrow> wcall list prog" where
  "RespondWithError r err =
     (if errors_Is err ErrNotImplemented
      then Ret (WriteProblem r (problem ''/probs/not-implemented'' ''Not Implemented'' 501
        ''This operation has not been wired to an executor yet.''))
      else if isJSONDecodeError err
      then Ret (WriteProblem r (problem ''/probs/malformed-body'' ''Malformed Request Body'' 400
        ''Request body could not be parsed as JSON. Check syntax and content-type.''))
      else WriteError r (Some err))"

section \<open>The catalogue\<close>

text \<open>What is sent for a problem.\<close>

lemma WriteProblem_calls:
  obtains b where "WriteProblem r p = [Header_Set ''Content-Type'' problemContentType, WriteHeader (p_Status p), Write b]"
  by (simp add: WriteProblem_def Let_def)

lemma sent_problem [simp]:
  "rp_status (sent (WriteProblem r p)) = p_Status p"
  "rp_headers (sent (WriteProblem r p)) = (\<lambda>_. [])(''Content-Type'' := problemContentType)"
  by (rule WriteProblem_calls [of r p], simp add: sent_def)+

lemma problem_simps [simp]:
  "p_Type (problem a b c d) = a" "p_Title (problem a b c d) = b" "p_Status (problem a b c d) = c" "p_Detail (problem a b c d) = d"
  by (simp_all add: problem_def)

lemma find_unique:
  assumes "m \<in> set ms" and "P m" and "\<And>m'. m' \<in> set ms \<Longrightarrow> P m' \<Longrightarrow> m' = m"
  shows "find P ms = Some m"
proof (cases "find P ms")
  case None
  with assms(1,2) show ?thesis by (auto simp: find_None_iff)
next
  case (Some m')
  then have "m' \<in> set ms" "P m'" by (auto simp: find_Some_iff)
  with assms(3) Some show ?thesis by simp
qed

lemma mapped_sentinels:
  "map m_sentinel errorMappings =
    [ErrNotFound, ErrAlreadyClaimed, ErrConcurrentUpdate, ErrInvalidChannel, ErrInvalidPriority, ErrInvalidStatus,
     ErrInvalidLogEvent, ErrInvalidNotificationID, ErrInvalidCorrelationID, ErrInvalidBatchID, ErrInvalidTemplateID,
     ErrInvalidLogID, ErrInvalidRecipient, ErrInvalidContent, ErrInvalidTransition, ErrInvalidBatchSize,
     ErrBatchInconsistentCorrelation, ErrInvalidTemplateName, ErrInvalidTemplateBody, ErrTemplateRenderFailed]"
  by (simp add: errorMappings_def mapping_def)

lemma errorMappings_inj: "inj_on m_sentinel (set errorMappings)"
proof -
  have "distinct (map m_sentinel errorMappings)" unfolding mapped_sentinels by simp
  then show ?thesis by (simp only: distinct_map)
qed

lemma errorMappings_adapter: "m \<in> set errorMappings \<Longrightarrow> m_sentinel m \<notin> {ErrNotImplemented, SyntaxError, UnmarshalTypeError, ErrUnexpectedEOF}"
  by (auto simp: errorMappings_def mapping_def)

lemma mapped_error:
  assumes m: "m \<in> set errorMappings" and e: "errors_Is err (m_sentinel m)"
  shows "RespondWithError r err =
    Ret (WriteProblem r (problem (m_problemType m) (m_title m) (m_status m) (errorDetail err m)))"
proof -
  have "m' = m" if "m' \<in> set errorMappings" "errors_Is err (m_sentinel m')" for m'
    by (rule inj_onD [OF errorMappings_inj errors_Is_unique [OF that(2) e] that(1) m])
  with m e have "find (\<lambda>m. errors_Is err (m_sentinel m)) errorMappings = Some m" by (rule find_unique)
  moreover have "\<not> errors_Is err s" if "s \<in> {ErrNotImplemented, SyntaxError, UnmarshalTypeError, ErrUnexpectedEOF}" for s
    using errors_Is_unique [OF e, of s] errorMappings_adapter [OF m] that by metis
  ultimately show ?thesis by (simp add: RespondWithError_def isJSONDecodeError_def WriteError_def)
qed

lemma unmapped_error:
  assumes "\<And>m. m \<in> set errorMappings \<Longrightarrow> \<not> errors_Is err (m_sentinel m)"
    and "\<not> errors_Is err ErrNotImplemented" and "\<not> isJSONDecodeError err"
  shows "RespondWithError r err = Emit (Slog ''ERROR'' ''unmapped error reached http translator'' [])
    (Ret (WriteProblem r internal_problem))"
proof -
  have "find (\<lambda>m. errors_Is err (m_sentinel m)) errorMappings = None" using assms(1) by (auto simp: find_None_iff)
  with assms(2,3) show ?thesis by (simp add: RespondWithError_def WriteError_def)
qed

text \<open>The status a client sees for an error, whatever wraps it.\<close>

fun status_class :: "sentinel \<Rightarrow> int" where
  "status_class ErrNotFound = 404"
| "status_class s =
     (if s \<in> {ErrAlreadyClaimed, ErrConcurrentUpdate, ErrInvalidTransition} then 409
      else if s = ErrNotImplemented then 501
      else if s \<in> {ErrProviderTransient, ErrOutboundRateLimited, ErrScheduledInPast, ErrIdempotencyBodyTooLarge, ErrNoRows,
          ErrTaskNotFound, ErrQueueNotFound, ErrOpenState, ErrTooManyRequests} then 500
      else 400)"

text \<open>The outcome of a program that calls nothing but the logger.\<close>

fun outcome :: "'r prog \<Rightarrow> 'r option" where
  "outcome (Ret r) = Some r"
| "outcome (Emit e p) = outcome p"
| "outcome _ = None"

lemma status_class_mapped: "m \<in> set errorMappings \<Longrightarrow> m_status m = status_class (m_sentinel m) \<and> m_status m \<noteq> 500"
  by (auto simp: errorMappings_def mapping_def)

lemma status_class_500:
  "status_class s = 500 \<or> s \<in> {ErrNotImplemented, SyntaxError, UnmarshalTypeError, ErrUnexpectedEOF} \<or>
   s \<in> m_sentinel ` set errorMappings"
proof -
  have "s \<in> m_sentinel ` set errorMappings \<longleftrightarrow> s \<in> set (map m_sentinel errorMappings)" by simp
  then show ?thesis unfolding mapped_sentinels by (cases s) simp_all
qed

lemma adapter_error:
  assumes "errors_Is err s" and "s \<in> {ErrNotImplemented, SyntaxError, UnmarshalTypeError, ErrUnexpectedEOF}"
  obtains p where "RespondWithError r err = Ret (WriteProblem r p)" "p_Status p = status_class s" "p_Status p \<noteq> 500"
proof -
  have "\<not> errors_Is err ErrNotImplemented" if "s \<noteq> ErrNotImplemented"
    using errors_Is_unique [OF assms(1)] that by blast
  with assms that show ?thesis by (auto simp: RespondWithError_def isJSONDecodeError_def)
qed

text \<open>The three ways an error is answered.\<close>

lemma respond_cases:
  obtains (answered) p s where "RespondWithError r err = Ret (WriteProblem r p)" "errors_Is err s"
      "p_Status p = status_class s" "p_Status p \<noteq> 500"
    | (internal) "outcome (RespondWithError r err) = Some (WriteProblem r internal_problem)"
      "\<And>s. errors_Is err s \<Longrightarrow> status_class s = 500"
proof (cases "\<exists>s. errors_Is err s \<and> status_class s \<noteq> 500")
  case True
  then obtain s where s: "errors_Is err s" "status_class s \<noteq> 500" by blast
  show ?thesis
  proof (cases "s \<in> m_sentinel ` set errorMappings")
    case True
    then obtain m where m: "m \<in> set errorMappings" "s = m_sentinel m" by blast
    show ?thesis
      by (rule answered [OF mapped_error [OF m(1) s(1) [unfolded m(2)]] s(1)])
        (use status_class_mapped [OF m(1)] m(2) in simp_all)
  next
    case False
    with status_class_500 [of s] s(2) have "s \<in> {ErrNotImplemented, SyntaxError, UnmarshalTypeError, ErrUnexpectedEOF}" by blast
    from adapter_error [OF s(1) this, of r] answered [OF _ s(1)] show ?thesis by metis
  qed
next
  case False
  then have small: "status_class s = 500" if "errors_Is err s" for s using that by blast
  have "\<not> errors_Is err (m_sentinel m)" if "m \<in> set errorMappings" for m
    using small status_class_mapped [OF that] by metis
  moreover have "\<not> errors_Is err s" if "s \<in> {ErrNotImplemented, SyntaxError, UnmarshalTypeError, ErrUnexpectedEOF}" for s
    using small [of s] that by auto
  ultimately have "outcome (RespondWithError r err) = Some (WriteProblem r internal_problem)"
    by (subst unmapped_error) (simp_all add: isJSONDecodeError_def)
  then show ?thesis using small by (rule internal)
qed

text \<open>C22: Every error a handler can return becomes one problem document: an error whose chain reaches a
  sentinel gets the status of that sentinel (404 for a missing row, 409 for conflicts, 400 for
  invalid input and malformed JSON, 501 for operations not wired, 500 for the rest), an error whose
  chain reaches none gets 500, and all 500s have the same body, so that nothing of the error leaks.\<close>

theorem error_translation:
  "\<exists>cs. outcome (RespondWithError r err) = Some cs \<and>
     (\<forall>s. errors_Is err s \<longrightarrow> rp_status (sent cs) = status_class s) \<and>
     ((\<forall>s. \<not> errors_Is err s) \<longrightarrow> rp_status (sent cs) = 500) \<and>
     (rp_status (sent cs) = 500 \<longrightarrow> cs = WriteProblem r internal_problem) \<and>
     rp_headers (sent cs) ''Content-Type'' = ''application/problem+json''"
proof (cases rule: respond_cases [of r err])
  case (answered p s)
  have "\<forall>t. errors_Is err t \<longrightarrow> p_Status p = status_class t"
    using errors_Is_unique [OF answered(2)] answered(3) by blast
  with answered(1,2,4) show ?thesis by (intro exI [of _ "WriteProblem r p"]) (auto simp: problemContentType_def)
next
  case internal
  then show ?thesis by (auto simp: internal_problem_def problemContentType_def)
qed

definition bare_request :: "string \<Rightarrow> request" where
  "bare_request path = \<lparr>rq_Method = ''GET'', rq_Path = path, rq_Header = (\<lambda>_. []), rq_Body = None,
     rq_RemoteAddr = ''192.0.2.1:5000'', rq_correlation = [], rq_pattern = path\<rparr>"

theorem error_translation_witness:
  "\<exists>cs. outcome (RespondWithError (bare_request ''/x'') (Errorf ''get %s: %w'' [''x''] (Sent ErrNotFound))) = Some cs \<and>
     rp_status (sent cs) = 404"
  using error_translation [of "bare_request ''/x''" "Errorf ''get %s: %w'' [''x''] (Sent ErrNotFound)"] by auto

end
