(* ===== verification/Go_Numbers.thy ===== *)
theory Go_Numbers
  imports Complex_Main Json
begin

text \<open>
  The numbers of Go's library as far as the configuration reads them: \<open>float64\<close> with rounding to
  nearest even, \<open>strconv.Atoi\<close>, \<open>strconv.ParseFloat\<close> and \<open>time.ParseDuration\<close>. An integer result is an
  \<open>int\<close> within the 64-bit range, an error says whether the text is malformed or out of range.
\<close>

datatype num_error = ErrSyntax | ErrRange

section \<open>Floating point\<close>

text \<open>A finite value is kept as the rational it denotes; the sign of zero is not kept.\<close>

datatype float64 = F_NaN | F_Inf bool | F_Num rat

function ilog2 :: "int \<Rightarrow> int" where
  "ilog2 n = (if n \<le> 1 then 0 else 1 + ilog2 (n div 2))"
  by auto
termination by (relation "measure nat") auto

declare ilog2.simps [simp del]

definition pow2 :: "int \<Rightarrow> rat" where
  "pow2 k = (if 0 \<le> k then 2 ^ nat k else 1 / 2 ^ nat (- k))"

text \<open>The exponent of the leading bit of a positive rational.\<close>

definition exponent_of :: "rat \<Rightarrow> int" where
  "exponent_of x =
     (let (n, d) = quotient_of x; k = ilog2 n - ilog2 d in
      if x < pow2 k then k - 1 else if pow2 (k + 1) \<le> x then k + 1 else k)"

definition round_half_even :: "rat \<Rightarrow> int" where
  "round_half_even x =
     (let f = \<lfloor>x\<rfloor>; r = x - of_int f in
      if r < 1 / 2 \<or> r = 1 / 2 \<and> even f then f else f + 1)"

definition round_positive :: "rat \<Rightarrow> rat" where
  "round_positive x =
     (let q = max (exponent_of x - 52) (- 1074) in of_int (round_half_even (x / pow2 q)) * pow2 q)"

definition to_float64 :: "rat \<Rightarrow> float64" where
  "to_float64 x =
     (if x = 0 then F_Num 0
      else let y = round_positive \<bar>x\<bar> in
        if pow2 1024 \<le> y then F_Inf (x < 0) else F_Num (if x < 0 then - y else y))"

definition float_less :: "float64 \<Rightarrow> float64 \<Rightarrow> bool" where
  "float_less a b =
     (case (a, b) of
        (F_NaN, _) \<Rightarrow> False | (_, F_NaN) \<Rightarrow> False
      | (F_Inf s, F_Inf t) \<Rightarrow> s \<and> \<not> t | (F_Inf s, F_Num _) \<Rightarrow> s | (F_Num _, F_Inf t) \<Rightarrow> \<not> t
      | (F_Num x, F_Num y) \<Rightarrow> x < y)"

section \<open>Integers\<close>

definition digit_value :: "char \<Rightarrow> nat" where
  "digit_value c = byte c - 48"

definition decimal :: "string \<Rightarrow> nat" where
  "decimal ds = foldl (\<lambda>v c. 10 * v + digit_value c) 0 ds"

definition sign_of :: "string \<Rightarrow> bool \<times> string" where
  "sign_of s = (case s of c # t \<Rightarrow> if c = CHR ''-'' then (True, t) else if c = CHR ''+'' then (False, t) else (False, s)
     | [] \<Rightarrow> (False, s))"

definition strconv_Atoi :: "string \<Rightarrow> num_error + int" where
  "strconv_Atoi s =
     (let (neg, ds) = sign_of s; n = int (decimal ds) in
      if ds = [] \<or> \<not> list_all is_digit ds then Inl ErrSyntax
      else if neg then (if 2 ^ 63 < n then Inl ErrRange else Inr (- n))
      else if 2 ^ 63 \<le> n then Inl ErrRange else Inr n)"

section \<open>Durations\<close>

text \<open>\<open>leadingInt\<close> fails when the value leaves the range; \<open>leadingFraction\<close> stops accumulating instead,
  and \<open>scale\<close> counts the digits it took.\<close>

definition leadingInt :: "string \<Rightarrow> (nat \<times> string) option" where
  "leadingInt s =
     (let n = decimal (takeWhile is_digit s) in if 2 ^ 63 < n then None else Some (n, dropWhile is_digit s))"

fun leadingFraction :: "string \<Rightarrow> nat \<Rightarrow> nat \<Rightarrow> nat \<times> nat" where
  "leadingFraction [] x scale = (x, scale)"
| "leadingFraction (c # s) x scale =
     (let y = x * 10 + digit_value c in
      if (2 ^ 63 - 1) div 10 < x \<or> 2 ^ 63 < y then (x, scale) else leadingFraction s y (Suc scale))"

definition unitMap :: "(string \<times> nat) list" where
  "unitMap = [(''ns'', 1), (''us'', 1000), ([CHR 0xC2, CHR 0xB5, CHR ''s''], 1000), ([CHR 0xCE, CHR 0xBC, CHR ''s''], 1000),
     (''ms'', 1000000), (''s'', 1000000000), (''m'', 60 * 1000000000), (''h'', 3600 * 1000000000)]"

definition float_value :: "float64 \<Rightarrow> rat" where
  "float_value x = (case x of F_Num q \<Rightarrow> q | _ \<Rightarrow> 0)"

text \<open>\<open>uint64(float64(f) * (float64(unit) / scale))\<close>; every operand is an integer below \<open>2 ^ 64\<close>, so all
  values are finite.\<close>

definition fraction_of_unit :: "nat \<Rightarrow> nat \<Rightarrow> nat \<Rightarrow> nat" where
  "fraction_of_unit f scale u =
     (let per = float_value (to_float64 (float_value (to_float64 (of_nat u)) / 10 ^ scale)) in
      nat \<lfloor>float_value (to_float64 (float_value (to_float64 (of_nat f)) * per))\<rfloor>)"

definition unit_char :: "char \<Rightarrow> bool" where
  "unit_char c \<longleftrightarrow> c \<noteq> CHR ''.'' \<and> \<not> is_digit c"

text \<open>One term: its nanoseconds and the rest of the text. The fraction starts after a period.\<close>

definition duration_term :: "string \<Rightarrow> (nat \<times> string) option" where
  "duration_term s =
     (case leadingInt s of None \<Rightarrow> None
      | Some (v, s1) \<Rightarrow>
          (let dot = (s1 \<noteq> [] \<and> hd s1 = CHR ''.''); fs = (if dot then takeWhile is_digit (tl s1) else []);
               s2 = (if dot then dropWhile is_digit (tl s1) else s1); (f, scale) = leadingFraction fs 0 0;
               u = takeWhile unit_char s2 in
           if (s1 = s \<and> fs = []) \<or> u = [] then None
           else case map_of unitMap u of None \<Rightarrow> None
             | Some unit \<Rightarrow>
                 if 2 ^ 63 div unit < v then None
                 else let n = v * unit + (if 0 < f then fraction_of_unit f scale unit else 0) in
                   if 2 ^ 63 < n then None else Some (n, dropWhile unit_char s2)))"

text \<open>The terms are added up; every term consumes input, so the length is enough fuel.\<close>

fun duration_terms :: "nat \<Rightarrow> nat \<Rightarrow> string \<Rightarrow> nat option" where
  "duration_terms k d [] = Some d"
| "duration_terms 0 d s = None"
| "duration_terms (Suc k) d s =
     (case duration_term s of None \<Rightarrow> None
      | Some (v, s) \<Rightarrow> if 2 ^ 63 < d + v then None else duration_terms k (d + v) s)"

definition time_ParseDuration :: "string \<Rightarrow> Duration option" where
  "time_ParseDuration orig =
     (let (neg, s) = sign_of orig in
      if s = ''0'' then Some 0
      else if s = [] then None
      else case duration_terms (length s) 0 s of None \<Rightarrow> None
        | Some d \<Rightarrow> if neg then Some (- of_nat d) else if 2 ^ 63 \<le> d then None else Some (of_nat d))"

section \<open>Floating-point literals\<close>

definition base_digit :: "nat \<Rightarrow> char \<Rightarrow> nat option" where
  "base_digit base c = (case hex_value c of Some d \<Rightarrow> if d < base then Some d else None | None \<Rightarrow> None)"

text \<open>The digits of a mantissa: their value, how many follow the period, whether there was a digit and
  whether there was an underscore, and the rest of the text.\<close>

fun scan_mantissa :: "nat \<Rightarrow> string \<Rightarrow> bool \<Rightarrow> nat \<Rightarrow> nat \<Rightarrow> bool \<Rightarrow> bool \<Rightarrow> nat \<times> nat \<times> bool \<times> bool \<times> string" where
  "scan_mantissa base [] seen v decs digits us = (v, decs, digits, us, [])"
| "scan_mantissa base (c # s) seen v decs digits us =
     (if c = CHR ''_'' then scan_mantissa base s seen v decs digits True
      else if c = CHR ''.'' then
        (if seen then (v, decs, digits, us, c # s) else scan_mantissa base s True v decs digits us)
      else case base_digit base c of
          Some d \<Rightarrow> scan_mantissa base s seen (base * v + d) (if seen then Suc decs else decs) True us
        | None \<Rightarrow> (v, decs, digits, us, c # s))"

definition scan_exponent :: "bool \<Rightarrow> string \<Rightarrow> (int \<times> bool \<times> string) option" where
  "scan_exponent hex s =
     (if s \<noteq> [] \<and> hd s \<in> (if hex then {CHR ''p'', CHR ''P''} else {CHR ''e'', CHR ''E''}) then
        (let (neg, t) = sign_of (tl s); ok = (\<lambda>c. is_digit c \<or> c = CHR ''_'');
             es = takeWhile ok t;
             e = foldl (\<lambda>e c. if c = CHR ''_'' \<or> 10000 \<le> e then e else 10 * e + int (digit_value c)) 0 es in
         if t = [] \<or> \<not> is_digit (hd t) then None
         else Some (if neg then - e else e, CHR ''_'' \<in> set es, dropWhile ok t))
      else if hex then None else Some (0, False, s))"

text \<open>An underscore stands between digits, or between the base prefix and a digit.\<close>

fun underscores_ok :: "bool \<Rightarrow> char \<Rightarrow> string \<Rightarrow> bool" where
  "underscores_ok hex saw [] \<longleftrightarrow> saw \<noteq> CHR ''_''"
| "underscores_ok hex saw (c # s) \<longleftrightarrow>
     (if base_digit (if hex then 16 else 10) c \<noteq> None then underscores_ok hex (CHR ''0'') s
      else if c = CHR ''_'' then saw = CHR ''0'' \<and> underscores_ok hex c s
      else saw \<noteq> CHR ''_'' \<and> underscores_ok hex (CHR 0x21) s)"

definition fold_case :: "string \<Rightarrow> string" where
  "fold_case s = map (\<lambda>c. if CHR ''A'' \<le> c \<and> c \<le> CHR ''Z'' then char_of (byte c + 32) else c) s"

definition strconv_ParseFloat :: "string \<Rightarrow> num_error + float64" where
  "strconv_ParseFloat s =
     (let (neg, t) = sign_of s in
      if fold_case t \<in> {''inf'', ''infinity''} then Inr (F_Inf neg)
      else if fold_case s = ''nan'' then Inr F_NaN
      else
        let hex = (2 < length t \<and> fold_case (take 2 t) = ''0x''); body = (if hex then drop 2 t else t);
            (v, decs, digits, us, r) = scan_mantissa (if hex then 16 else 10) body False 0 0 False False in
        case (if digits then scan_exponent hex r else None) of
          None \<Rightarrow> Inl ErrSyntax
        | Some (e, us', rest) \<Rightarrow>
            if rest \<noteq> [] \<or> (us \<or> us') \<and> \<not> underscores_ok hex (if hex then CHR ''0'' else CHR 0x5E) body
            then Inl ErrSyntax
            else
              let x = (if hex then of_nat v * pow2 (e - 4 * int decs)
                       else if int decs \<le> e then of_nat v * 10 ^ nat (e - int decs)
                       else of_nat v / 10 ^ nat (int decs - e)) in
              (case to_float64 (if neg then - x else x) of F_Inf _ \<Rightarrow> Inl ErrRange | y \<Rightarrow> Inr y))"

end
