(* ===== verification/Wire.thy ===== *)
theory Wire
  imports Http Go_Numbers
begin

text \<open>
  The wire types of the API (\<open>internal/adapters/http/api/api.gen.go\<close>), their JSON text, and the
  decoding of request bodies. Of the generated structs the members the code fills are kept.

  A struct is encoded and decoded by \<open>encoding/json\<close> by way of its fields, in declaration order;
  what the types of the fields do themselves is a parameter, the \<open>wire_codec\<close>: the text of a
  \<open>time.Time\<close>, which depends on the location it carries, and its reading, the reading of a
  \<open>uuid.UUID\<close>, and the values of type \<open>any\<close>.
\<close>

section \<open>Wire types\<close>

record api_Notification =
  an_Id :: string
  an_BatchId :: "string option"
  an_Channel :: string
  an_Priority :: string
  an_Status :: string
  an_Recipient :: string
  an_Content :: string
  an_Attempts :: int
  an_MaxAttempts :: int
  an_CreatedAt :: Time
  an_UpdatedAt :: Time
  an_CorrelationId :: "string option"
  an_TemplateId :: "string option"
  an_IdempotencyKey :: "string option"
  an_ScheduledAt :: "Time option"
  an_NextRetryAt :: "Time option"
  an_FailureReason :: "string option"

record api_Batch =
  ab_Id :: string
  ab_Size :: int
  ab_CreatedAt :: Time
  ab_CorrelationId :: "string option"
  ab_Notifications :: "api_Notification list option"

record api_CreateNotificationRequest =
  ar_Channel :: string
  ar_Recipient :: string
  ar_Content :: string
  ar_Priority :: "string option"
  ar_ScheduledAt :: "Time option"
  ar_TemplateId :: "string option"
  ar_TemplateVariables :: "(string \<rightharpoonup> go_any) option"

text \<open>The header parameters of the operations that write.\<close>

record api_Params =
  ap_IdempotencyKey :: "string option"
  ap_XCorrelationID :: "string option"

record api_ListNotificationsParams =
  al_Status :: "string option"
  al_Channel :: "string option"
  al_BatchId :: "string option"
  al_CreatedAfter :: "Time option"
  al_CreatedBefore :: "Time option"
  al_Cursor :: "string option"
  al_Limit :: "int option"
  al_XCorrelationID :: "string option"

record api_ListTemplatesParams =
  lt_Channel :: "string option"
  lt_Cursor :: "string option"
  lt_Limit :: "int option"
  lt_XCorrelationID :: "string option"

text \<open>The parameters of the operations that take no other header.\<close>

record api_CorrelationParams =
  ac_XCorrelationID :: "string option"

record api_TraceEntry =
  te_Id :: string
  te_Event :: string
  te_CreatedAt :: Time
  te_CorrelationId :: "string option"
  te_Details :: "(string \<rightharpoonup> go_any) option"

record api_Template =
  at_Id :: string
  at_Name :: string
  at_Channel :: string
  at_Body :: string
  at_CreatedAt :: Time
  at_UpdatedAt :: Time

record api_TemplateRequest =
  tq_Name :: string
  tq_Channel :: string
  tq_Body :: string

text \<open>Metrics: \<open>SuccessRate\<close> is absent when there is nothing to report.\<close>

record api_MetricsSummary =
  ms_CreatedPerMinute :: int
  ms_DeliveredPerMinute :: int
  ms_FailedPerMinute :: int
  ms_QueueDepth :: int
  ms_SuccessRate :: "float64 option"

text \<open>What a response can have as its body. A page is its items and the next cursor.\<close>

datatype api_body =
    B_Notification api_Notification
  | B_Batch api_Batch
  | B_Page "api_Notification list" "string option"
  | B_Trace string "api_TraceEntry list"
  | B_Template api_Template
  | B_TemplatePage "api_Template list" "string option"
  | B_HealthOk
  | B_Problem Problem
  | B_Metrics api_MetricsSummary

section \<open>Encoding\<close>

text \<open>Every function is given what \<open>encoding/json\<close> hands the type and answers what it makes of it: the
  text between the quotes for a time, the tree for a map, the literal for a float; a time is read
  from the JSON text, a UUID from the contents of a string.\<close>

record wire_codec =
  wc_time :: "Time \<Rightarrow> gerror + string"
  wc_map :: "(string \<rightharpoonup> go_any) \<Rightarrow> gerror + json"
  wc_float :: "float64 \<Rightarrow> gerror + string"
  wc_time_read :: "string \<Rightarrow> gerror + Time"
  wc_uuid_read :: "string \<Rightarrow> gerror + string"
  wc_any_read :: "json \<Rightarrow> go_any option"

text \<open>An optional member is left out when it is nil.\<close>

definition str_member :: "string \<Rightarrow> string option \<Rightarrow> (string \<times> json) list" where
  "str_member name v = (case v of None \<Rightarrow> [] | Some s \<Rightarrow> [(name, JString s)])"

definition time_json :: "wire_codec \<Rightarrow> Time \<Rightarrow> gerror + json" where
  "time_json K t = bind_res (wc_time K t) (\<lambda>s. Inr (JString s))"

definition opt_member :: "string \<Rightarrow> ('a \<Rightarrow> gerror + json) \<Rightarrow> 'a option \<Rightarrow> gerror + (string \<times> json) list" where
  "opt_member name f v = (case v of None \<Rightarrow> Inr [] | Some x \<Rightarrow> bind_res (f x) (\<lambda>j. Inr [(name, j)]))"

fun json_list :: "('a \<Rightarrow> gerror + json) \<Rightarrow> 'a list \<Rightarrow> gerror + json list" where
  "json_list f [] = Inr []"
| "json_list f (x # xs) = bind_res (f x) (\<lambda>j. bind_res (json_list f xs) (\<lambda>js. Inr (j # js)))"

definition int_json :: "int \<Rightarrow> json" where "int_json n = JNumber (strconv_Itoa n)"

definition Notification_json :: "wire_codec \<Rightarrow> api_Notification \<Rightarrow> gerror + json" where
  "Notification_json K n =
     bind_res (time_json K (an_CreatedAt n)) (\<lambda>created.
     bind_res (opt_member ''next_retry_at'' (time_json K) (an_NextRetryAt n)) (\<lambda>next_retry.
     bind_res (opt_member ''scheduled_at'' (time_json K) (an_ScheduledAt n)) (\<lambda>scheduled.
     bind_res (time_json K (an_UpdatedAt n)) (\<lambda>updated.
     Inr (JObject (
       [(''attempts'', int_json (an_Attempts n))] @ str_member ''batch_id'' (an_BatchId n) @
       [(''channel'', JString (an_Channel n)), (''content'', JString (an_Content n))] @
       str_member ''correlation_id'' (an_CorrelationId n) @ [(''created_at'', created)] @
       str_member ''failure_reason'' (an_FailureReason n) @ [(''id'', JString (an_Id n))] @
       str_member ''idempotency_key'' (an_IdempotencyKey n) @ [(''max_attempts'', int_json (an_MaxAttempts n))] @
       next_retry @ [(''priority'', JString (an_Priority n)), (''recipient'', JString (an_Recipient n))] @
       scheduled @ [(''status'', JString (an_Status n))] @ str_member ''template_id'' (an_TemplateId n) @
       [(''updated_at'', updated)]))))))"

definition Batch_json :: "wire_codec \<Rightarrow> api_Batch \<Rightarrow> gerror + json" where
  "Batch_json K b =
     bind_res (time_json K (ab_CreatedAt b)) (\<lambda>created.
     bind_res (opt_member ''notifications'' (\<lambda>ns. bind_res (json_list (Notification_json K) ns) (\<lambda>js. Inr (JArray js))) (ab_Notifications b)) (\<lambda>notifications.
     Inr (JObject (str_member ''correlation_id'' (ab_CorrelationId b) @ [(''created_at'', created), (''id'', JString (ab_Id b))] @
       notifications @ [(''size'', int_json (ab_Size b))]))))"

definition NotificationPage_json :: "wire_codec \<Rightarrow> api_Notification list \<Rightarrow> string option \<Rightarrow> gerror + json" where
  "NotificationPage_json K items next_cursor =
     bind_res (json_list (Notification_json K) items) (\<lambda>js.
     Inr (JObject ((''items'', JArray js) # str_member ''next_cursor'' next_cursor)))"

definition NotificationTraceEntry_json :: "wire_codec \<Rightarrow> api_TraceEntry \<Rightarrow> gerror + json" where
  "NotificationTraceEntry_json K e =
     bind_res (time_json K (te_CreatedAt e)) (\<lambda>created.
     bind_res (opt_member ''details'' (wc_map K) (te_Details e)) (\<lambda>details.
     Inr (JObject (str_member ''correlation_id'' (te_CorrelationId e) @ [(''created_at'', created)] @ details @
       [(''event'', JString (te_Event e)), (''id'', JString (te_Id e))]))))"

definition NotificationTrace_json :: "wire_codec \<Rightarrow> string \<Rightarrow> api_TraceEntry list \<Rightarrow> gerror + json" where
  "NotificationTrace_json K nid es =
     bind_res (json_list (NotificationTraceEntry_json K) es) (\<lambda>js.
     Inr (JObject [(''entries'', JArray js), (''notification_id'', JString nid)]))"

definition Template_json :: "wire_codec \<Rightarrow> api_Template \<Rightarrow> gerror + json" where
  "Template_json K t =
     bind_res (time_json K (at_CreatedAt t)) (\<lambda>created.
     bind_res (time_json K (at_UpdatedAt t)) (\<lambda>updated.
     Inr (JObject [(''body'', JString (at_Body t)), (''channel'', JString (at_Channel t)), (''created_at'', created),
       (''id'', JString (at_Id t)), (''name'', JString (at_Name t)), (''updated_at'', updated)])))"

definition TemplatePage_json :: "wire_codec \<Rightarrow> api_Template list \<Rightarrow> string option \<Rightarrow> gerror + json" where
  "TemplatePage_json K items next_cursor =
     bind_res (json_list (Template_json K) items) (\<lambda>js.
     Inr (JObject ((''items'', JArray js) # str_member ''next_cursor'' next_cursor)))"

definition MetricsSummary_json :: "wire_codec \<Rightarrow> api_MetricsSummary \<Rightarrow> gerror + json" where
  "MetricsSummary_json K m =
     bind_res (opt_member ''success_rate'' (\<lambda>x. bind_res (wc_float K x) (\<lambda>s. Inr (JNumber s))) (ms_SuccessRate m)) (\<lambda>rate.
     Inr (JObject ([(''created_per_minute'', int_json (ms_CreatedPerMinute m)), (''delivered_per_minute'', int_json (ms_DeliveredPerMinute m)),
       (''failed_per_minute'', int_json (ms_FailedPerMinute m)), (''queue_depth'', int_json (ms_QueueDepth m))] @ rate)))"

text \<open>The generated \<open>Problem\<close> has its members in another order than the adapter's own.\<close>

definition api_Problem_json :: "Problem \<Rightarrow> json" where
  "api_Problem_json p = JObject
     (omitempty ''correlation_id'' (p_CorrelationID p) (JString (p_CorrelationID p)) @
      omitempty ''detail'' (p_Detail p) (JString (p_Detail p)) @
      omitempty ''instance'' (p_Instance p) (JString (p_Instance p)) @
      [(''status'', int_json (p_Status p)), (''title'', JString (p_Title p))] @
      omitempty ''type'' (p_Type p) (JString (p_Type p)))"

fun body_json :: "wire_codec \<Rightarrow> api_body \<Rightarrow> gerror + json" where
  "body_json K (B_Notification n) = Notification_json K n"
| "body_json K (B_Batch b) = Batch_json K b"
| "body_json K (B_Page items c) = NotificationPage_json K items c"
| "body_json K (B_Trace nid es) = NotificationTrace_json K nid es"
| "body_json K (B_Template t) = Template_json K t"
| "body_json K (B_TemplatePage items c) = TemplatePage_json K items c"
| "body_json K B_HealthOk = Inr (JObject [(''status'', JString ''ok'')])"
| "body_json K (B_Problem p) = Inr (api_Problem_json p)"
| "body_json K (B_Metrics m) = MetricsSummary_json K m"

text \<open>\<open>json.NewEncoder(w).Encode\<close> ends the text with a newline.\<close>

definition wire_text :: "wire_codec \<Rightarrow> api_body \<Rightarrow> gerror + string" where
  "wire_text K b = bind_res (body_json K b) (\<lambda>j. Inr (json_text j @ [CHR 0x0A]))"

section \<open>Decoding\<close>

subsection \<open>Where a text stops\<close>

text \<open>A body that is no JSON value is malformed, or it stops before the value is complete. The states of
  the scanner inside a string literal are those of \<open>encoding/json\<close>.\<close>

datatype scan = Scanned string | Malformed | Truncated

datatype string_state = InString | InStringEsc | InStringEscU nat

fun scan_string :: "string_state \<Rightarrow> string \<Rightarrow> scan" where
  "scan_string st [] = Truncated"
| "scan_string InString (c # s) =
     (if c = dquote then Scanned s else if c = backslash then scan_string InStringEsc s
      else if byte c < 0x20 then Malformed else scan_string InString s)"
| "scan_string InStringEsc (c # s) =
     (if c = CHR ''u'' then scan_string (InStringEscU 3) s
      else if map_of short_unescapes c = None then Malformed else scan_string InString s)"
| "scan_string (InStringEscU k) (c # s) =
     (if hex_value c = None then Malformed else scan_string (case k of 0 \<Rightarrow> InString | Suc j \<Rightarrow> InStringEscU j) s)"

definition scan_word :: "string \<Rightarrow> string \<Rightarrow> scan" where
  "scan_word w s = (if prefix w s then Scanned (drop (length w) s) else if prefix s w then Truncated else Malformed)"

text \<open>A number that stops early becomes one with a further digit.\<close>

definition scan_number :: "string \<Rightarrow> scan" where
  "scan_number s =
     (case parse_number s of Some (_, r) \<Rightarrow> Scanned r
      | None \<Rightarrow> (case parse_number (s @ ''0'') of Some (_, []) \<Rightarrow> Truncated | _ \<Rightarrow> Malformed))"

definition scan_next :: "scan \<Rightarrow> (string \<Rightarrow> scan) \<Rightarrow> scan" where
  "scan_next x f = (case x of Scanned s \<Rightarrow> (case skip_space s of [] \<Rightarrow> Truncated | t \<Rightarrow> f t) | _ \<Rightarrow> x)"

text \<open>As for the parser, the first argument is fuel and the second the nesting depth.\<close>

fun scan_value :: "nat \<Rightarrow> nat \<Rightarrow> string \<Rightarrow> scan"
and scan_elements :: "nat \<Rightarrow> nat \<Rightarrow> string \<Rightarrow> scan"
and scan_members :: "nat \<Rightarrow> nat \<Rightarrow> string \<Rightarrow> scan"
where
  "scan_value 0 d s = Malformed"
| "scan_value (Suc n) d s =
     scan_next (Scanned s) (\<lambda>t.
       let c = hd t; s = tl t in
       if c = CHR ''{'' then
         (if maxNestingDepth \<le> d then Malformed
          else scan_next (Scanned s) (\<lambda>t. if hd t = CHR ''}'' then Scanned (tl t) else scan_members n (Suc d) t))
       else if c = CHR ''['' then
         (if maxNestingDepth \<le> d then Malformed
          else scan_next (Scanned s) (\<lambda>t. if hd t = CHR '']'' then Scanned (tl t) else scan_elements n (Suc d) t))
       else if c = dquote then scan_string InString s
       else if c = CHR ''n'' then scan_word ''null'' t
       else if c = CHR ''t'' then scan_word ''true'' t
       else if c = CHR ''f'' then scan_word ''false'' t
       else scan_number t)"
| "scan_elements 0 d s = Malformed"
| "scan_elements (Suc n) d s =
     scan_next (scan_value n d s) (\<lambda>t.
       if hd t = CHR '']'' then Scanned (tl t) else if hd t = CHR '','' then scan_elements n d (tl t) else Malformed)"
| "scan_members 0 d s = Malformed"
| "scan_members (Suc n) d s =
     scan_next (Scanned s) (\<lambda>t. if hd t \<noteq> dquote then Malformed else
     scan_next (scan_string InString (tl t)) (\<lambda>t. if hd t \<noteq> CHR '':'' then Malformed else
     scan_next (scan_value n d (tl t)) (\<lambda>t.
       if hd t = CHR ''}'' then Scanned (tl t) else if hd t = CHR '','' then scan_members n d (tl t) else Malformed)))"

subsection \<open>Values with their text\<close>

definition json_fuel :: "string \<Rightarrow> nat" where "json_fuel s = 2 * length s + 2"

text \<open>The next value: its text, its tree and what follows it. The members of an object and the elements
  of an array are taken from a text already known to be one.\<close>

definition raw_value :: "string \<Rightarrow> (string \<times> json \<times> string) option" where
  "raw_value s =
     (let t = skip_space s in
      map_option (\<lambda>(v, r). (take (length t - length r) t, v, r)) (parse_value (json_fuel t) 0 t))"

definition after_comma :: "(string \<Rightarrow> 'a list) \<Rightarrow> string \<Rightarrow> 'a list" where
  "after_comma f s = (case skip_space s of c # s \<Rightarrow> if c = CHR '','' then f s else [] | [] \<Rightarrow> [])"

fun raw_members :: "nat \<Rightarrow> string \<Rightarrow> (string \<times> string \<times> json) list" where
  "raw_members 0 s = []"
| "raw_members (Suc n) s =
     (case parse_string (skip_space s) of None \<Rightarrow> []
      | Some (k, s) \<Rightarrow>
          (case raw_value (tl (skip_space s)) of None \<Rightarrow> []
           | Some (raw, v, r) \<Rightarrow> (k, raw, v) # after_comma (raw_members n) r))"

fun raw_elements :: "nat \<Rightarrow> string \<Rightarrow> (string \<times> json) list" where
  "raw_elements 0 s = []"
| "raw_elements (Suc n) s =
     (case raw_value s of None \<Rightarrow> [] | Some (raw, v, r) \<Rightarrow> (raw, v) # after_comma (raw_elements n) r)"

subsection \<open>Into structs\<close>

text \<open>A field's decoder is given the text and the tree of a value and the struct so far. It fails where
  \<open>UnmarshalJSON\<close> or \<open>UnmarshalText\<close> does, which ends the decoding; a value of the wrong type is only noted, in
  the flag of the result, and decoding goes on.\<close>

type_synonym 's field = "string \<Rightarrow> json \<Rightarrow> 's \<Rightarrow> gerror + 's \<times> bool"

definition string_field :: "(string \<Rightarrow> 's \<Rightarrow> 's) \<Rightarrow> 's field" where
  "string_field put raw v s = Inr (case v of JString t \<Rightarrow> (put t s, False) | JNull \<Rightarrow> (s, False) | _ \<Rightarrow> (s, True))"

definition opt_string_field :: "(string option \<Rightarrow> 's \<Rightarrow> 's) \<Rightarrow> 's field" where
  "opt_string_field put raw v s = Inr (case v of JString t \<Rightarrow> (put (Some t) s, False) | JNull \<Rightarrow> (put None s, False) | _ \<Rightarrow> (s, True))"

definition opt_time_field :: "wire_codec \<Rightarrow> (Time option \<Rightarrow> 's \<Rightarrow> 's) \<Rightarrow> 's field" where
  "opt_time_field K put raw v s =
     (case v of JNull \<Rightarrow> Inr (put None s, False) | _ \<Rightarrow> bind_res (wc_time_read K raw) (\<lambda>t. Inr (put (Some t) s, False)))"

definition opt_uuid_field :: "wire_codec \<Rightarrow> (string option \<Rightarrow> 's \<Rightarrow> 's) \<Rightarrow> 's field" where
  "opt_uuid_field K put raw v s =
     (case v of JNull \<Rightarrow> Inr (put None s, False)
      | JString t \<Rightarrow> bind_res (wc_uuid_read K t) (\<lambda>u. Inr (put (Some u) s, False))
      | _ \<Rightarrow> Inr (s, True))"

text \<open>Members are added to the map a pointer already holds.\<close>

definition map_members :: "wire_codec \<Rightarrow> (string \<times> json) list \<Rightarrow> (string \<rightharpoonup> go_any) \<times> bool \<Rightarrow> (string \<rightharpoonup> go_any) \<times> bool" where
  "map_members K = fold (\<lambda>(k, j) (m, bad). case wc_any_read K j of Some a \<Rightarrow> (m(k \<mapsto> a), bad) | None \<Rightarrow> (m, True))"

definition opt_map_field ::
  "wire_codec \<Rightarrow> ('s \<Rightarrow> (string \<rightharpoonup> go_any) option) \<Rightarrow> ((string \<rightharpoonup> go_any) option \<Rightarrow> 's \<Rightarrow> 's) \<Rightarrow> 's field"
where
  "opt_map_field K get put raw v s = Inr
     (case v of JNull \<Rightarrow> (put None s, False)
      | JObject ms \<Rightarrow>
          (let (m, bad) = map_members K ms ((case get s of Some m \<Rightarrow> m | None \<Rightarrow> Map.empty), False) in (put (Some m) s, bad))
      | _ \<Rightarrow> (s, True))"

text \<open>Members whose value the handlers never read: only their type matters.\<close>

definition typed_field :: "(json \<Rightarrow> bool) \<Rightarrow> 's field" where
  "typed_field ok raw v s = Inr (s, v \<noteq> JNull \<and> \<not> ok v)"

definition is_int_value :: "json \<Rightarrow> bool" where
  "is_int_value v = (case v of JNumber t \<Rightarrow> (case strconv_Atoi t of Inr _ \<Rightarrow> True | Inl _ \<Rightarrow> False) | _ \<Rightarrow> False)"

definition is_map_value :: "wire_codec \<Rightarrow> json \<Rightarrow> bool" where
  "is_map_value K v = (case v of JObject ms \<Rightarrow> list_all (\<lambda>(_, j). wc_any_read K j \<noteq> None) ms | _ \<Rightarrow> False)"

definition is_strings_value :: "json \<Rightarrow> bool" where
  "is_strings_value v =
     (case v of JArray js \<Rightarrow> list_all (\<lambda>j. case j of JString _ \<Rightarrow> True | JNull \<Rightarrow> True | _ \<Rightarrow> False) js | _ \<Rightarrow> False)"

fun decode_members :: "(string \<times> 's field) list \<Rightarrow> (string \<times> string \<times> json) list \<Rightarrow> 's \<Rightarrow> gerror + 's \<times> bool" where
  "decode_members fs [] s = Inr (s, False)"
| "decode_members fs ((k, raw, v) # ms) s =
     (case find (\<lambda>(name, _). names_field name k) fs of
        None \<Rightarrow> decode_members fs ms s
      | Some (_, f) \<Rightarrow>
          bind_res (f raw v s) (\<lambda>(s, bad).
          bind_res (decode_members fs ms s) (\<lambda>(s, bad'). Inr (s, bad \<or> bad'))))"

definition struct_field :: "(string \<times> 's field) list \<Rightarrow> 's field" where
  "struct_field fs raw v s =
     (case v of JObject _ \<Rightarrow> decode_members fs (raw_members (length raw) (tl raw)) s
      | JNull \<Rightarrow> Inr (s, False) | _ \<Rightarrow> Inr (s, True))"

text \<open>The elements of an array are decoded onto those a slice already has, or onto fresh ones.\<close>

fun decode_elements :: "'e \<Rightarrow> 'e field \<Rightarrow> (string \<times> json) list \<Rightarrow> 'e list \<Rightarrow> gerror + 'e list \<times> bool" where
  "decode_elements zero f [] old = Inr ([], False)"
| "decode_elements zero f ((raw, v) # vs) old =
     bind_res (f raw v (case old of e # _ \<Rightarrow> e | [] \<Rightarrow> zero)) (\<lambda>(e, bad).
     bind_res (decode_elements zero f vs (tl old)) (\<lambda>(es, bad'). Inr (e # es, bad \<or> bad')))"

definition slice_field :: "'e \<Rightarrow> 'e field \<Rightarrow> 'e list field" where
  "slice_field zero f raw v es =
     (case v of JNull \<Rightarrow> Inr ([], False)
      | JArray [] \<Rightarrow> Inr ([], False)
      | JArray _ \<Rightarrow> decode_elements zero f (raw_elements (length raw) (tl raw)) es
      | _ \<Rightarrow> Inr (es, True))"

subsection \<open>Request bodies\<close>

definition no_request :: api_CreateNotificationRequest where
  "no_request = \<lparr>ar_Channel = [], ar_Recipient = [], ar_Content = [], ar_Priority = None, ar_ScheduledAt = None,
     ar_TemplateId = None, ar_TemplateVariables = None\<rparr>"

definition notification_fields :: "wire_codec \<Rightarrow> (string \<times> api_CreateNotificationRequest field) list" where
  "notification_fields K =
     [(''channel'', string_field (\<lambda>v. ar_Channel_update (\<lambda>_. v))),
      (''content'', string_field (\<lambda>v. ar_Content_update (\<lambda>_. v))),
      (''max_attempts'', typed_field is_int_value),
      (''metadata'', typed_field (is_map_value K)),
      (''priority'', opt_string_field (\<lambda>v. ar_Priority_update (\<lambda>_. v))),
      (''recipient'', string_field (\<lambda>v. ar_Recipient_update (\<lambda>_. v))),
      (''scheduled_at'', opt_time_field K (\<lambda>v. ar_ScheduledAt_update (\<lambda>_. v))),
      (''template_id'', opt_uuid_field K (\<lambda>v. ar_TemplateId_update (\<lambda>_. v))),
      (''template_variables'', opt_map_field K ar_TemplateVariables (\<lambda>v. ar_TemplateVariables_update (\<lambda>_. v)))]"

text \<open>The only member of a batch the handlers read is its list of notifications.\<close>

definition batch_fields :: "wire_codec \<Rightarrow> (string \<times> api_CreateNotificationRequest list field) list" where
  "batch_fields K =
     [(''metadata'', typed_field (is_map_value K)),
      (''notifications'', slice_field no_request (struct_field (notification_fields K)))]"

definition template_fields :: "(string \<times> api_TemplateRequest field) list" where
  "template_fields =
     [(''body'', string_field (\<lambda>v. tq_Body_update (\<lambda>_. v))),
      (''channel'', string_field (\<lambda>v. tq_Channel_update (\<lambda>_. v))),
      (''name'', string_field (\<lambda>v. tq_Name_update (\<lambda>_. v))),
      (''variables'', typed_field is_strings_value)]"

text \<open>\<open>json.NewDecoder(r.Body).Decode\<close> reads one value and ignores what follows it. Without a value
  the error is that of the scanner or of the reader, \<open>io.EOF\<close> when there is nothing but space. The end of
  a value that is neither an object nor an array shows only at the next byte.\<close>

definition next_value :: "body_reader option \<Rightarrow> gerror + string \<times> json" where
  "next_value body =
     (let (bs, fails) = (case body of None \<Rightarrow> ([], None) | Some rd \<Rightarrow> (rd_bytes rd, rd_fails rd)) in
      case raw_value bs of
        Some (raw, v, rest) \<Rightarrow>
          (case (fails, v) of
             (None, _) \<Rightarrow> Inr (raw, v) | (_, JObject _) \<Rightarrow> Inr (raw, v) | (_, JArray _) \<Rightarrow> Inr (raw, v)
           | (Some e, _) \<Rightarrow> if rest = [] then Inl e else Inr (raw, v))
      | None \<Rightarrow> Inl
          (if scan_value (json_fuel bs) 0 bs \<noteq> Truncated then Sent SyntaxError
           else case fails of Some e \<Rightarrow> e
             | None \<Rightarrow> if skip_space bs = [] then Opaque ''EOF'' else Sent ErrUnexpectedEOF))"

definition Decode :: "(string \<times> 's field) list \<Rightarrow> 's \<Rightarrow> body_reader option \<Rightarrow> gerror + 's" where
  "Decode fs zero body =
     bind_res (next_value body) (\<lambda>(raw, v).
     bind_res (struct_field fs raw v zero) (\<lambda>(s, bad). if bad then Inl (Sent UnmarshalTypeError) else Inr s))"

section \<open>What a client writes is read back\<close>

text \<open>The JSON a client writes for a request.\<close>

definition CreateNotificationRequest_json :: "wire_codec \<Rightarrow> api_CreateNotificationRequest \<Rightarrow> gerror + json" where
  "CreateNotificationRequest_json K q =
     bind_res (opt_member ''scheduled_at'' (time_json K) (ar_ScheduledAt q)) (\<lambda>scheduled.
     bind_res (opt_member ''template_variables'' (wc_map K) (ar_TemplateVariables q)) (\<lambda>variables.
     Inr (JObject ([(''channel'', JString (ar_Channel q)), (''content'', JString (ar_Content q))] @
       str_member ''priority'' (ar_Priority q) @ [(''recipient'', JString (ar_Recipient q))] @ scheduled @
       str_member ''template_id'' (ar_TemplateId q) @ variables))))"

lemma raw_value_flat:
  assumes "flat v"
  shows "raw_value (json_text v @ r) = Some (json_text v, v, r)"
proof -
  have "skip_space (json_text v @ r) = json_text v @ r"
    using assms by (cases v) (auto simp: skip_space_def quote_json_def dquote_def)
  moreover have "parse_value (json_fuel s) 0 (json_text v @ r) = Some (v, r)" for s
    unfolding json_fuel_def using parse_flat [OF assms] by (metis add_2_eq_Suc' add.commute)
  ultimately show ?thesis by (simp add: raw_value_def del: parse_value.simps)
qed

lemma raw_members_flat:
  "list_all (\<lambda>(k, v). ascii k \<and> flat v) ms \<Longrightarrow> ms \<noteq> [] \<Longrightarrow> length ms \<le> n \<Longrightarrow>
   raw_members n (comma_separated (map member_text ms) @ CHR ''}'' # r) = map (\<lambda>(k, v). (k, json_text v, v)) ms"
proof (induction ms arbitrary: n)
  case (Cons m ms)
  obtain k v where m: "m = (k, v)" by fastforce
  from Cons.prems(3) obtain j where n: "n = Suc j" "length ms \<le> j" by (cases n) auto
  have key: "parse_string (skip_space (quote_json k @ t)) = Some (k, t)" for t
    using Cons.prems(1) parse_string_quote [of k t] by (simp add: m quote_json_start skip_space_def dquote_def)
  have val: "raw_value (json_text v @ t) = Some (json_text v, v, t)" for t
    using Cons.prems(1) by (intro raw_value_flat) (simp add: m)
  have colon: "tl (skip_space (CHR '':'' # t)) = t" for t by (simp add: skip_space_def)
  show ?case
  proof (cases ms)
    case Nil
    with key val colon show ?thesis by (simp add: m n member_text_def after_comma_def skip_space_def)
  next
    case (Cons a list)
    with Cons.IH [of j] Cons.prems n key val colon show ?thesis
      by (simp add: m member_text_def after_comma_def skip_space_def)
  qed
qed simp

lemma flat_object_text:
  assumes "list_all (\<lambda>(k, v). ascii k \<and> flat v) ms" "ms \<noteq> []"
  defines "t \<equiv> json_text (JObject ms)"
  shows "next_value (Some \<lparr>rd_bytes = t, rd_fails = None\<rparr>) = Inr (t, JObject ms)"
    and "raw_members (length t) (tl t) = map (\<lambda>(k, v). (k, json_text v, v)) ms"
proof -
  let ?b = "comma_separated (map member_text ms)"
  have t: "t = CHR ''{'' # ?b @ ''}''" unfolding t_def by (simp add: member_text_def)
  then have "skip_space t = t" by (simp add: skip_space_def)
  then show "next_value (Some \<lparr>rd_bytes = t, rd_fails = None\<rparr>) = Inr (t, JObject ms)"
    using parse_flat_object [OF assms(2,1)]
    by (simp add: next_value_def raw_value_def json_fuel_def t_def [symmetric] del: parse_value.simps json_text.simps)
  from member_text_length [of ms] have "length ms \<le> length t" by (simp add: t)
  then show "raw_members (length t) (tl t) = map (\<lambda>(k, v). (k, json_text v, v)) ms"
    using raw_members_flat [OF assms(1,2), of "length t" "[]"] by (simp add: t)
qed

lemma decode_flat_object:
  assumes "list_all (\<lambda>(k, v). ascii k \<and> flat v) ms" "ms \<noteq> []"
  shows "Decode fs zero (Some \<lparr>rd_bytes = json_text (JObject ms), rd_fails = None\<rparr>) =
    bind_res (decode_members fs (map (\<lambda>(k, v). (k, json_text v, v)) ms) zero)
      (\<lambda>(s, bad). if bad then Inl (Sent UnmarshalTypeError) else Inr s)"
  using flat_object_text [OF assms] by (simp add: Decode_def struct_field_def del: json_text.simps)

text \<open>Which decoder a member reaches.\<close>

lemma field_lookup:
  "find (\<lambda>(name, _). names_field name ''channel'') (notification_fields K) = Some (''channel'', string_field (\<lambda>v. ar_Channel_update (\<lambda>_. v)))"
  "find (\<lambda>(name, _). names_field name ''content'') (notification_fields K) = Some (''content'', string_field (\<lambda>v. ar_Content_update (\<lambda>_. v)))"
  "find (\<lambda>(name, _). names_field name ''priority'') (notification_fields K) = Some (''priority'', opt_string_field (\<lambda>v. ar_Priority_update (\<lambda>_. v)))"
  "find (\<lambda>(name, _). names_field name ''recipient'') (notification_fields K) = Some (''recipient'', string_field (\<lambda>v. ar_Recipient_update (\<lambda>_. v)))"
  "find (\<lambda>(name, _). names_field name ''scheduled_at'') (notification_fields K) = Some (''scheduled_at'', opt_time_field K (\<lambda>v. ar_ScheduledAt_update (\<lambda>_. v)))"
  "find (\<lambda>(name, _). names_field name ''template_id'') (notification_fields K) = Some (''template_id'', opt_uuid_field K (\<lambda>v. ar_TemplateId_update (\<lambda>_. v)))"
  by (simp_all add: notification_fields_def names_field_def)


text \<open>A codec that writes times as numbers and reads UUIDs of the usual length.\<close>

definition plain_wire :: wire_codec where
  "plain_wire = \<lparr>wc_time = (\<lambda>t. Inr (strconv_Itoa t)), wc_map = (\<lambda>_. Inr (JObject [])), wc_float = (\<lambda>_. Inr ''0''),
     wc_time_read = (\<lambda>s. case strconv_Atoi (butlast (tl s)) of Inl _ \<Rightarrow> Inl (Opaque ''parsing time'') | Inr t \<Rightarrow> Inr t),
     wc_uuid_read = (\<lambda>s. if length s = 36 then Inr s else Inl (Opaque ''invalid UUID'')), wc_any_read = (\<lambda>_. None)\<rparr>"

definition sample_request :: api_CreateNotificationRequest where
  "sample_request = \<lparr>ar_Channel = ''email'', ar_Recipient = ''a@b.c'', ar_Content = ''hi'', ar_Priority = Some ''low'', ar_ScheduledAt = Some 7,
     ar_TemplateId = Some (replicate 36 CHR ''0''), ar_TemplateVariables = None\<rparr>"


end
