(* ===== verification/Intake.thy ===== *)
theory Intake
  imports Ports
begin

text \<open>
  The use cases that take notifications in: \<open>create_notification.go\<close>, \<open>create_batch.go\<close> and
  \<open>schedule_notification.go\<close> of \<open>internal/application\<close>. A method that mutates an entity in
  place returns the entity beside its error.
\<close>

section \<open>CreateNotification\<close>

record CreateNotificationInput =
  ci_Channel :: string
  ci_Priority :: string
  ci_Recipient :: string
  ci_Content :: string
  ci_IdempotencyKey :: string
  ci_CorrelationID :: string
  ci_ScheduledAt :: "Time option"
  ci_TemplateID :: "string option"
  ci_TemplateVariables :: "string \<rightharpoonup> go_any"

record CreateNotification =
  cn_repo :: NotificationRepository
  cn_logRepo :: NotificationLogRepository
  cn_tmplRepo :: TemplateRepository
  cn_queue :: Queue
  cn_idGen :: IDGenerator
  cn_clock :: Clock
  cn_metrics :: bool

definition CreateNotification_renderTemplate ::
  "template_engine \<Rightarrow> CreateNotification \<Rightarrow> string \<Rightarrow> (string \<rightharpoonup> go_any) \<Rightarrow> (gerror + string) prog"
where
  "CreateNotification_renderTemplate E uc i vars =
     try_val (TmplRepo_Get (cn_tmplRepo uc) i) (\<lambda>e. Inl (Errorf ''get template %s: %w'' [i] e))
       (\<lambda>tmpl. Ret (wrap_res ''render template %s: %w'' [i] (Render E tmpl vars)))"

definition CreateNotification_enqueue :: "CreateNotification \<Rightarrow> Notification \<Rightarrow> gerror option prog" where
  "CreateNotification_enqueue uc n =
     (case n_ScheduledAt n of
        Some at \<Rightarrow> Queue_EnqueueScheduled (cn_queue uc) (n_ID n) (n_Priority n) at
      | None \<Rightarrow> Queue_Enqueue (cn_queue uc) (n_ID n) (n_Priority n) (n_IdempotencyKey n))"

definition CreateNotification_markQueued ::
  "CreateNotification \<Rightarrow> Notification \<Rightarrow> Time \<Rightarrow> (gerror + Notification) prog"
where
  "CreateNotification_markQueued uc n now =
     (case MarkQueued n now of (e, n) \<Rightarrow>
      check_err e (\<lambda>e. Inl (Errorf ''mark queued: %w'' [] e))
      (on_err (Repo_UpdateStatus (cn_repo uc) n StatusPending)
         (\<lambda>e. Inl (Errorf ''persist queued status: %w'' [] e))
      (bind (IDGen_NewLogID (cn_idGen uc)) (\<lambda>lid.
       check_val (NewNotificationLog
           \<lparr>li_ID = lid, li_NotificationID = n_ID n, li_CorrelationID = n_CorrelationID n,
            li_Event = LogEventQueued, li_Details = None\<rparr> now)
         (\<lambda>e. Inl (Errorf ''build queued log entry: %w'' [] e))
       (\<lambda>entry. on_err (LogRepo_Append (cn_logRepo uc) entry)
         (\<lambda>e. Inl (Errorf ''append queued log entry: %w'' [] e))
       (Ret (Inr n)))))))"

definition CreateNotification_Execute ::
  "template_engine \<Rightarrow> CreateNotification \<Rightarrow> CreateNotificationInput \<Rightarrow> (gerror + Notification) prog"
where
  "CreateNotification_Execute E uc i =
     check_val (NewChannel (ci_Channel i)) Inl (\<lambda>channel.
     check_val (NewPriority (ci_Priority i)) Inl (\<lambda>priority.
     bind (if ci_CorrelationID i = [] then IDGen_NewCorrelationID (cn_idGen uc)
           else Ret (ci_CorrelationID i)) (\<lambda>correlationID.
     bind (Clk_Now (cn_clock uc)) (\<lambda>now.
     try_val (case ci_TemplateID i of
                Some tid \<Rightarrow> (if tid \<noteq> []
                  then CreateNotification_renderTemplate E uc tid (ci_TemplateVariables i)
                  else Ret (Inr (ci_Content i)))
              | None \<Rightarrow> Ret (Inr (ci_Content i))) Inl (\<lambda>content.
     bind (IDGen_NewNotificationID (cn_idGen uc)) (\<lambda>nid.
     check_val (NewNotification
         \<lparr>ni_ID = nid, ni_BatchID = None, ni_IdempotencyKey = ci_IdempotencyKey i,
          ni_CorrelationID = correlationID, ni_Channel = channel, ni_Priority = priority,
          ni_Recipient = ci_Recipient i, ni_Content = content,
          ni_ScheduledAt = ci_ScheduledAt i, ni_TemplateID = ci_TemplateID i\<rparr> now) Inl (\<lambda>n.
     on_err (Repo_Create (cn_repo uc) n) (\<lambda>e. Inl (Errorf ''create notification: %w'' [] e))
     (bind (IDGen_NewLogID (cn_idGen uc)) (\<lambda>lid.
     check_val (NewNotificationLog
         \<lparr>li_ID = lid, li_NotificationID = n_ID n, li_CorrelationID = n_CorrelationID n,
          li_Event = LogEventCreated, li_Details = None\<rparr> now)
       (\<lambda>e. Inl (Errorf ''build log entry: %w'' [] e)) (\<lambda>logEntry.
     on_err (LogRepo_Append (cn_logRepo uc) logEntry)
       (\<lambda>e. Inl (Errorf ''append log entry: %w'' [] e))
     (on_err (CreateNotification_enqueue uc n)
       (\<lambda>e. Inl (Errorf ''enqueue notification: %w'' [] e))
     (try_val (CreateNotification_markQueued uc n now) Inl (\<lambda>n.
     emit_if (cn_metrics uc) (M_NotificationCreated (n_Channel n) (n_Priority n))
     (Ret (Inr n)))))))))))))))"

section \<open>CreateBatch\<close>

record CreateBatchItem =
  ib_Channel :: string
  ib_Priority :: string
  ib_Recipient :: string
  ib_Content :: string
  ib_IdempotencyKey :: string
  ib_TemplateID :: "string option"

record CreateBatchInput =
  cbi_CorrelationID :: string
  cbi_Notifications :: "CreateBatchItem list"

record CreateBatch =
  cb_batchRepo :: BatchRepository
  cb_notifRepo :: NotificationRepository
  cb_logRepo :: NotificationLogRepository
  cb_queue :: Queue
  cb_idGen :: IDGenerator
  cb_clock :: Clock
  cb_metrics :: bool

definition wrapItemErr :: "int \<Rightarrow> gerror \<Rightarrow> gerror" where
  "wrapItemErr i e = Errorf ''notification %d: %w'' [strconv_Itoa i] e"

text \<open>The loop over the items; \<open>i\<close> is the position of the first of them.\<close>

fun CreateBatch_buildNotifications ::
  "CreateBatch \<Rightarrow> int \<Rightarrow> CreateBatchItem list \<Rightarrow> string \<Rightarrow> Time \<Rightarrow> (gerror + Notification list) prog"
where
  "CreateBatch_buildNotifications uc i [] correlationID now = Ret (Inr [])"
| "CreateBatch_buildNotifications uc i (item # items) correlationID now =
     check_val (NewChannel (ib_Channel item)) (\<lambda>e. Inl (wrapItemErr i e)) (\<lambda>channel.
     check_val (NewPriority (ib_Priority item)) (\<lambda>e. Inl (wrapItemErr i e)) (\<lambda>priority.
     bind (IDGen_NewNotificationID (cb_idGen uc)) (\<lambda>nid.
     check_val (NewNotification
         \<lparr>ni_ID = nid, ni_BatchID = None, ni_IdempotencyKey = ib_IdempotencyKey item,
          ni_CorrelationID = correlationID, ni_Channel = channel, ni_Priority = priority,
          ni_Recipient = ib_Recipient item, ni_Content = ib_Content item,
          ni_ScheduledAt = None, ni_TemplateID = ib_TemplateID item\<rparr> now)
       (\<lambda>e. Inl (wrapItemErr i e)) (\<lambda>n.
     try_val (CreateBatch_buildNotifications uc (i + 1) items correlationID now) Inl (\<lambda>ns.
     Ret (Inr (n # ns)))))))"

definition CreateBatch_recordCreated :: "CreateBatch \<Rightarrow> Notification \<Rightarrow> Time \<Rightarrow> gerror option prog" where
  "CreateBatch_recordCreated uc n now =
     bind (IDGen_NewLogID (cb_idGen uc)) (\<lambda>lid.
     check_val (NewNotificationLog
         \<lparr>li_ID = lid, li_NotificationID = n_ID n, li_CorrelationID = n_CorrelationID n,
          li_Event = LogEventCreated, li_Details = None\<rparr> now)
       (\<lambda>e. Some (Errorf ''build log entry for %s: %w'' [n_ID n] e)) (\<lambda>entry.
     on_err (LogRepo_Append (cb_logRepo uc) entry)
       (\<lambda>e. Some (Errorf ''append log entry for %s: %w'' [n_ID n] e))
     (Ret None)))"

definition CreateBatch_recordQueued :: "CreateBatch \<Rightarrow> Notification \<Rightarrow> Time \<Rightarrow> gerror option prog" where
  "CreateBatch_recordQueued uc n now =
     bind (IDGen_NewLogID (cb_idGen uc)) (\<lambda>lid.
     check_val (NewNotificationLog
         \<lparr>li_ID = lid, li_NotificationID = n_ID n, li_CorrelationID = n_CorrelationID n,
          li_Event = LogEventQueued, li_Details = None\<rparr> now)
       (\<lambda>e. Some (Errorf ''build queued log entry for %s: %w'' [n_ID n] e)) (\<lambda>entry.
     on_err (LogRepo_Append (cb_logRepo uc) entry)
       (\<lambda>e. Some (Errorf ''append queued log entry for %s: %w'' [n_ID n] e))
     (Ret None)))"

definition CreateBatch_enqueueMember ::
  "CreateBatch \<Rightarrow> Notification \<Rightarrow> Time \<Rightarrow> (gerror + Notification) prog"
where
  "CreateBatch_enqueueMember uc n now =
     on_err (CreateBatch_recordCreated uc n now) Inl
     (on_err (Queue_Enqueue (cb_queue uc) (n_ID n) (n_Priority n) (n_IdempotencyKey n))
       (\<lambda>e. Inl (Errorf ''enqueue notification %s: %w'' [n_ID n] e))
     (case MarkQueued n now of (e, n) \<Rightarrow>
      check_err e (\<lambda>e. Inl (Errorf ''mark queued %s: %w'' [n_ID n] e))
      (on_err (Repo_UpdateStatus (cb_notifRepo uc) n StatusPending)
        (\<lambda>e. Inl (Errorf ''persist queued status %s: %w'' [n_ID n] e))
      (on_err (CreateBatch_recordQueued uc n now) Inl
      (emit_if (cb_metrics uc) (M_NotificationCreated (n_Channel n) (n_Priority n))
      (Ret (Inr n)))))))"

text \<open>The loop over the members, which mutates each in place.\<close>

fun CreateBatch_enqueueMembers ::
  "CreateBatch \<Rightarrow> Notification list \<Rightarrow> Time \<Rightarrow> (gerror + Notification list) prog"
where
  "CreateBatch_enqueueMembers uc [] now = Ret (Inr [])"
| "CreateBatch_enqueueMembers uc (n # ns) now =
     try_val (CreateBatch_enqueueMember uc n now) Inl (\<lambda>n.
     try_val (CreateBatch_enqueueMembers uc ns now) Inl (\<lambda>ns. Ret (Inr (n # ns))))"

definition CreateBatch_Execute :: "CreateBatch \<Rightarrow> CreateBatchInput \<Rightarrow> (gerror + Batch) prog" where
  "CreateBatch_Execute uc i =
     bind (if cbi_CorrelationID i = [] then IDGen_NewCorrelationID (cb_idGen uc)
           else Ret (cbi_CorrelationID i)) (\<lambda>correlationID.
     bind (Clk_Now (cb_clock uc)) (\<lambda>now.
     try_val (CreateBatch_buildNotifications uc 0 (cbi_Notifications i) correlationID now) Inl
       (\<lambda>notifications.
     bind (IDGen_NewBatchID (cb_idGen uc)) (\<lambda>bid.
     check_val (NewBatch
         \<lparr>bi_ID = bid, bi_CorrelationID = correlationID, bi_Notifications = notifications\<rparr> now)
       Inl (\<lambda>batch.
     on_err (BatchRepo_Create (cb_batchRepo uc) batch)
       (\<lambda>e. Inl (Errorf ''create batch: %w'' [] e))
     (try_val (CreateBatch_enqueueMembers uc (b_Notifications batch) now) Inl (\<lambda>ns.
     Ret (Inr (batch\<lparr>b_Notifications := ns\<rparr>)))))))))"

section \<open>ScheduleNotification\<close>

record ScheduleNotificationInput =
  si_Channel :: string
  si_Priority :: string
  si_Recipient :: string
  si_Content :: string
  si_IdempotencyKey :: string
  si_CorrelationID :: string
  si_ScheduledAt :: Time
  si_TemplateID :: "string option"

record ScheduleNotification =
  sn_createUC :: CreateNotification
  sn_clock :: Clock

definition ScheduleNotification_Execute ::
  "template_engine \<Rightarrow> ScheduleNotification \<Rightarrow> ScheduleNotificationInput \<Rightarrow> (gerror + Notification) prog"
where
  "ScheduleNotification_Execute E uc i =
     bind (Clk_Now (sn_clock uc)) (\<lambda>now.
     if \<not> si_ScheduledAt i > now then Ret (Inl (Sent ErrScheduledInPast))
     else CreateNotification_Execute E (sn_createUC uc)
       \<lparr>ci_Channel = si_Channel i, ci_Priority = si_Priority i, ci_Recipient = si_Recipient i,
        ci_Content = si_Content i, ci_IdempotencyKey = si_IdempotencyKey i,
        ci_CorrelationID = si_CorrelationID i, ci_ScheduledAt = Some (si_ScheduledAt i),
        ci_TemplateID = si_TemplateID i, ci_TemplateVariables = Map.empty\<rparr>)"

lemmas intake_defs = CreateNotification_renderTemplate_def CreateNotification_enqueue_def
  CreateNotification_markQueued_def CreateNotification_Execute_def CreateBatch_recordCreated_def
  CreateBatch_recordQueued_def CreateBatch_enqueueMember_def CreateBatch_Execute_def
  ScheduleNotification_Execute_def

end
