(* ===== verification/Catalog.thy ===== *)
theory Catalog
  imports Ports
begin

text \<open>
  The read side and the template catalogue of \<open>internal/application\<close>: \<open>get_notification.go\<close>,
  \<open>get_batch.go\<close>, \<open>get_notification_trace.go\<close>, \<open>list_notifications.go\<close>, \<open>render_template.go\<close>
  and \<open>templates.go\<close>.
\<close>

section \<open>Reads\<close>

definition GetNotification_Execute ::
  "NotificationRepository \<Rightarrow> NotificationID \<Rightarrow> (gerror + Notification) prog"
where
  "GetNotification_Execute repo i = Repo_Get repo i"

definition GetBatch_Execute :: "BatchRepository \<Rightarrow> BatchID \<Rightarrow> (gerror + Batch) prog" where
  "GetBatch_Execute repo i = BatchRepo_Get repo i"

definition GetNotificationTrace_Execute ::
  "NotificationRepository \<Rightarrow> NotificationLogRepository \<Rightarrow> NotificationID \<Rightarrow>
   (gerror + NotificationLog list) prog"
where
  "GetNotificationTrace_Execute repo logRepo i =
     try_val (Repo_Get repo i) (\<lambda>e. Inl (Errorf ''get notification %s: %w'' [i] e)) (\<lambda>_.
     try_val (LogRepo_List logRepo i) (\<lambda>e. Inl (Errorf ''list logs for %s: %w'' [i] e)) (\<lambda>entries.
     Ret (Inr entries)))"

definition defaultListLimit :: int where [simp]: "defaultListLimit = 20"
definition maxListLimit :: int where [simp]: "maxListLimit = 100"

record ListNotificationsInput =
  lni_Status :: string
  lni_Channel :: string
  lni_BatchID :: "BatchID option"
  lni_CreatedAfter :: "Time option"
  lni_CreatedBefore :: "Time option"
  lni_Cursor :: string
  lni_Limit :: int

text \<open>The output is the page and the cursor of the next one.\<close>

definition ListNotifications_Execute ::
  "NotificationRepository \<Rightarrow> ListNotificationsInput \<Rightarrow> (gerror + Notification list \<times> string) prog"
where
  "ListNotifications_Execute repo i =
     check_val (if lni_Status i \<noteq> [] then map_sum id Some (NewStatus (lni_Status i)) else Inr None) Inl (\<lambda>st.
     check_val (if lni_Channel i \<noteq> [] then map_sum id Some (NewChannel (lni_Channel i)) else Inr None) Inl (\<lambda>ch.
     let limit = (if lni_Limit i \<le> 0 \<or> lni_Limit i > maxListLimit then defaultListLimit else lni_Limit i) in
     try_val (Repo_List repo \<lparr>f_Status = st, f_Channel = ch, f_CreatedAfter = lni_CreatedAfter i,
          f_CreatedBefore = lni_CreatedBefore i, f_BatchID = lni_BatchID i\<rparr> (lni_Cursor i) limit)
       (\<lambda>e. Inl (Errorf ''list notifications: %w'' [] e)) (\<lambda>(items, nextCursor).
     Ret (Inr (items, nextCursor)))))"

section \<open>Templates\<close>

definition RenderTemplate_Execute ::
  "template_engine \<Rightarrow> TemplateRepository \<Rightarrow> TemplateID \<Rightarrow> (string \<rightharpoonup> go_any) \<Rightarrow> (gerror + string) prog"
where
  "RenderTemplate_Execute E repo i vars =
     try_val (TmplRepo_Get repo i) (\<lambda>e. Inl (Errorf ''get template %s: %w'' [i] e)) (\<lambda>tmpl.
     Ret (wrap_res ''render template %s: %w'' [i] (Render E tmpl vars)))"

definition defaultTemplateListLimit :: int where [simp]: "defaultTemplateListLimit = 20"
definition maxTemplateListLimit :: int where [simp]: "maxTemplateListLimit = 100"

definition CreateTemplate_Execute ::
  "template_engine \<Rightarrow> TemplateRepository \<Rightarrow> IDGenerator \<Rightarrow> Clock \<Rightarrow> string \<Rightarrow> string \<Rightarrow> string \<Rightarrow>
   (gerror + Template) prog"
where
  "CreateTemplate_Execute E repo idGen clock name channel_in body =
     check_val (NewChannel channel_in) Inl (\<lambda>channel.
     bind (IDGen_NewTemplateID idGen) (\<lambda>tid.
     bind (Clk_Now clock) (\<lambda>now.
     check_val (NewTemplate E \<lparr>ti_ID = tid, ti_Name = name, ti_Channel = channel, ti_Body = body\<rparr> now)
       Inl (\<lambda>tpl.
     on_err (TmplRepo_Create repo tpl) (\<lambda>e. Inl (Errorf ''create template: %w'' [] e))
     (Ret (Inr tpl))))))"

definition GetTemplate_Execute :: "TemplateRepository \<Rightarrow> TemplateID \<Rightarrow> (gerror + Template) prog" where
  "GetTemplate_Execute repo i = TmplRepo_Get repo i"

definition ListTemplates_Execute ::
  "TemplateRepository \<Rightarrow> int \<Rightarrow> (gerror + Template list \<times> string) prog"
where
  "ListTemplates_Execute repo limit_in =
     (let limit = (if limit_in \<le> 0 \<or> limit_in > maxTemplateListLimit then defaultTemplateListLimit
                   else limit_in) in
      try_val (TmplRepo_List repo limit) (\<lambda>e. Inl (Errorf ''list templates: %w'' [] e)) (\<lambda>items.
      Ret (Inr (items, []))))"

definition ReplaceTemplate_Execute ::
  "template_engine \<Rightarrow> TemplateRepository \<Rightarrow> Clock \<Rightarrow> TemplateID \<Rightarrow> string \<Rightarrow> string \<Rightarrow> string \<Rightarrow>
   (gerror + Template) prog"
where
  "ReplaceTemplate_Execute E repo clock i name channel_in body =
     try_val (TmplRepo_Get repo i) Inl (\<lambda>existing.
     check_val (NewChannel channel_in) Inl (\<lambda>channel.
     bind (Clk_Now clock) (\<lambda>now.
     check_val (NewTemplate E \<lparr>ti_ID = i, ti_Name = name, ti_Channel = channel, ti_Body = body\<rparr> now)
       Inl (\<lambda>updated.
     let updated = updated\<lparr>t_CreatedAt := t_CreatedAt existing\<rparr> in
     on_err (TmplRepo_Update repo updated) (\<lambda>e. Inl (Errorf ''update template: %w'' [] e))
     (Ret (Inr updated))))))"

definition DeleteTemplate_Execute :: "TemplateRepository \<Rightarrow> TemplateID \<Rightarrow> gerror option prog" where
  "DeleteTemplate_Execute repo i = TmplRepo_Delete repo i"

lemmas catalog_defs = GetNotification_Execute_def GetBatch_Execute_def
  GetNotificationTrace_Execute_def ListNotifications_Execute_def RenderTemplate_Execute_def
  CreateTemplate_Execute_def GetTemplate_Execute_def ListTemplates_Execute_def
  ReplaceTemplate_Execute_def DeleteTemplate_Execute_def

end
