(* ===== verification/Reconciler.thy ===== *)
theory Reconciler
  imports Ports
begin

text \<open>
  Cancellation (\<open>cancel_notification.go\<close>) and the safety net for stuck rows
  (\<open>reconcile_stuck_notifications.go\<close>) of \<open>internal/application\<close>.
\<close>

section \<open>CancelNotification\<close>

record CancelNotification =
  xn_repo :: NotificationRepository
  xn_logRepo :: NotificationLogRepository
  xn_queue :: Queue
  xn_idGen :: IDGenerator
  xn_clock :: Clock

definition CancelNotification_Execute ::
  "CancelNotification \<Rightarrow> NotificationID \<Rightarrow> (gerror + Notification) prog"
where
  "CancelNotification_Execute uc nid =
     try_val (Repo_Get (xn_repo uc) nid) (\<lambda>e. Inl (Errorf ''get notification %s: %w'' [nid] e)) (\<lambda>n.
     let sourceStatus = n_Status n in
     bind (Clk_Now (xn_clock uc)) (\<lambda>now.
     case Cancel n now of (e, n) \<Rightarrow>
     check_err e Inl
     (on_err (Repo_UpdateStatus (xn_repo uc) n sourceStatus)
       (\<lambda>e. Inl (Errorf ''update status %s: %w'' [n_ID n] e))
     (bind (IDGen_NewLogID (xn_idGen uc)) (\<lambda>lid.
     check_val (NewNotificationLog
         \<lparr>li_ID = lid, li_NotificationID = n_ID n, li_CorrelationID = n_CorrelationID n,
          li_Event = LogEventCancelled, li_Details = None\<rparr> now)
       (\<lambda>e. Inl (Errorf ''build log entry: %w'' [] e)) (\<lambda>entry.
     on_err (LogRepo_Append (xn_logRepo uc) entry)
       (\<lambda>e. Inl (Errorf ''append log entry: %w'' [] e))
     (on_err (Queue_Cancel (xn_queue uc) (n_ID n))
       (\<lambda>e. Inl (Errorf ''queue cancel %s: %w'' [n_ID n] e))
     (Ret (Inr n)))))))))"

section \<open>ReconcileStuckNotifications\<close>

definition orphanedPendingThreshold :: Duration where "orphanedPendingThreshold = 5 * Minute"
definition stuckProcessingThreshold :: Duration where "stuckProcessingThreshold = 5 * Minute"
definition overdueRetryingThreshold :: Duration where "overdueRetryingThreshold = 10 * Minute"
definition stuckQueuedThreshold :: Duration where "stuckQueuedThreshold = 5 * Minute"
definition reconcilerBatchSize :: int where [simp]: "reconcilerBatchSize = 100"

lemmas threshold_defs = orphanedPendingThreshold_def stuckProcessingThreshold_def
  overdueRetryingThreshold_def stuckQueuedThreshold_def Minute_def Second_def

record ReconcileStuckNotificationsOutput =
  o_OrphanedPendingReenqueued :: int
  o_StuckProcessingFailed :: int
  o_OverdueRetryingReenqueued :: int
  o_StuckQueuedReenqueued :: int

record ReconcileStuckNotifications =
  rs_repo :: NotificationRepository
  rs_logRepo :: NotificationLogRepository
  rs_queue :: Queue
  rs_idGen :: IDGenerator
  rs_clock :: Clock

definition Reconcile_recordEvent ::
  "ReconcileStuckNotifications \<Rightarrow> Notification \<Rightarrow> LogEvent \<Rightarrow> Time \<Rightarrow> gerror option prog"
where
  "Reconcile_recordEvent uc n event now =
     bind (IDGen_NewLogID (rs_idGen uc)) (\<lambda>lid.
     check_val (NewNotificationLog
         \<lparr>li_ID = lid, li_NotificationID = n_ID n, li_CorrelationID = n_CorrelationID n,
          li_Event = event, li_Details = None\<rparr> now)
       (\<lambda>e. Some (Errorf ''build log entry: %w'' [] e)) (\<lambda>entry.
     on_err (LogRepo_Append (rs_logRepo uc) entry)
       (\<lambda>e. Some (Errorf ''append log entry: %w'' [] e))
     (Ret None)))"

definition handleOrphanedPending ::
  "ReconcileStuckNotifications \<Rightarrow> Notification \<Rightarrow> Time \<Rightarrow> gerror option prog"
where
  "handleOrphanedPending uc n now =
     (case MarkQueued n now of (e, n) \<Rightarrow>
      check_err e Some
      (on_err (Repo_UpdateStatus (rs_repo uc) n StatusPending)
        (\<lambda>e. Some (Errorf ''update status (orphaned %s): %w'' [n_ID n] e))
      (on_err (Reconcile_recordEvent uc n LogEventQueued now) Some
      (on_err (Queue_Enqueue (rs_queue uc) (n_ID n) (n_Priority n) (n_IdempotencyKey n))
        (\<lambda>e. Some (Errorf ''re-enqueue orphaned %s: %w'' [n_ID n] e))
      (Ret None)))))"

definition handleStuckProcessing ::
  "ReconcileStuckNotifications \<Rightarrow> Notification \<Rightarrow> Time \<Rightarrow> gerror option prog"
where
  "handleStuckProcessing uc n now =
     (case MarkFailed n now ''worker_timeout'' of (e, n) \<Rightarrow>
      check_err e Some
      (on_err (Repo_UpdateStatus (rs_repo uc) n StatusProcessing)
        (\<lambda>e. Some (Errorf ''update status (stuck %s): %w'' [n_ID n] e))
      (Reconcile_recordEvent uc n LogEventFailed now)))"

definition handleOverdueRetrying ::
  "ReconcileStuckNotifications \<Rightarrow> Notification \<Rightarrow> gerror option prog"
where
  "handleOverdueRetrying uc n =
     on_err (Queue_Enqueue (rs_queue uc) (n_ID n) (n_Priority n) (n_IdempotencyKey n))
       (\<lambda>e. Some (Errorf ''re-enqueue overdue %s: %w'' [n_ID n] e))
     (Ret None)"

definition handleStuckQueued ::
  "ReconcileStuckNotifications \<Rightarrow> Notification \<Rightarrow> gerror option prog"
where
  "handleStuckQueued uc n =
     on_err (Queue_Enqueue (rs_queue uc) (n_ID n) (n_Priority n) (n_IdempotencyKey n))
       (\<lambda>e. Some (Errorf ''re-enqueue stuck queued %s: %w'' [n_ID n] e))
     (Ret None)"

text \<open>The loop of a sweep: handle each row, count it, stop at the first error. The output is
  returned with whatever error ends the sweep.\<close>

fun sweep_rows ::
  "(Notification \<Rightarrow> gerror option prog) \<Rightarrow>
   (ReconcileStuckNotificationsOutput \<Rightarrow> ReconcileStuckNotificationsOutput) \<Rightarrow>
   Notification list \<Rightarrow> ReconcileStuckNotificationsOutput \<Rightarrow>
   (ReconcileStuckNotificationsOutput \<times> gerror option) prog"
where
  "sweep_rows handle count [] out = Ret (out, None)"
| "sweep_rows handle count (n # rows) out =
     on_err (handle n) (\<lambda>e. (out, Some e)) (sweep_rows handle count rows (count out))"

definition sweepOrphanedPending ::
  "ReconcileStuckNotifications \<Rightarrow> Time \<Rightarrow> ReconcileStuckNotificationsOutput \<Rightarrow>
   (ReconcileStuckNotificationsOutput \<times> gerror option) prog"
where
  "sweepOrphanedPending uc now out =
     try_val (Repo_FindOrphanedPending (rs_repo uc) (time_Add now (- orphanedPendingThreshold)) reconcilerBatchSize)
       (\<lambda>e. (out, Some (Errorf ''find orphaned pending: %w'' [] e)))
     (\<lambda>rows. sweep_rows (\<lambda>n. handleOrphanedPending uc n now)
        (\<lambda>out. out\<lparr>o_OrphanedPendingReenqueued := o_OrphanedPendingReenqueued out + 1\<rparr>) rows out)"

definition sweepStuckProcessing ::
  "ReconcileStuckNotifications \<Rightarrow> Time \<Rightarrow> ReconcileStuckNotificationsOutput \<Rightarrow>
   (ReconcileStuckNotificationsOutput \<times> gerror option) prog"
where
  "sweepStuckProcessing uc now out =
     try_val (Repo_FindStuckProcessing (rs_repo uc) (time_Add now (- stuckProcessingThreshold)) reconcilerBatchSize)
       (\<lambda>e. (out, Some (Errorf ''find stuck processing: %w'' [] e)))
     (\<lambda>rows. sweep_rows (\<lambda>n. handleStuckProcessing uc n now)
        (\<lambda>out. out\<lparr>o_StuckProcessingFailed := o_StuckProcessingFailed out + 1\<rparr>) rows out)"

definition sweepOverdueRetrying ::
  "ReconcileStuckNotifications \<Rightarrow> Time \<Rightarrow> ReconcileStuckNotificationsOutput \<Rightarrow>
   (ReconcileStuckNotificationsOutput \<times> gerror option) prog"
where
  "sweepOverdueRetrying uc now out =
     try_val (Repo_FindOverdueRetrying (rs_repo uc) (time_Add now (- overdueRetryingThreshold)) reconcilerBatchSize)
       (\<lambda>e. (out, Some (Errorf ''find overdue retrying: %w'' [] e)))
     (\<lambda>rows. sweep_rows (\<lambda>n. handleOverdueRetrying uc n)
        (\<lambda>out. out\<lparr>o_OverdueRetryingReenqueued := o_OverdueRetryingReenqueued out + 1\<rparr>) rows out)"

definition sweepStuckQueued ::
  "ReconcileStuckNotifications \<Rightarrow> Time \<Rightarrow> ReconcileStuckNotificationsOutput \<Rightarrow>
   (ReconcileStuckNotificationsOutput \<times> gerror option) prog"
where
  "sweepStuckQueued uc now out =
     try_val (Repo_FindStuckQueued (rs_repo uc) (time_Add now (- stuckQueuedThreshold)) reconcilerBatchSize)
       (\<lambda>e. (out, Some (Errorf ''find stuck queued: %w'' [] e)))
     (\<lambda>rows. sweep_rows (\<lambda>n. handleStuckQueued uc n)
        (\<lambda>out. out\<lparr>o_StuckQueuedReenqueued := o_StuckQueuedReenqueued out + 1\<rparr>) rows out)"

text \<open>Run the next sweep unless the previous one returned an error.\<close>

definition and_then ::
  "('o \<times> gerror option) prog \<Rightarrow> ('o \<Rightarrow> ('o \<times> gerror option) prog) \<Rightarrow> ('o \<times> gerror option) prog"
where
  "and_then p f = bind p (\<lambda>(out, e). case e of Some err \<Rightarrow> Ret (out, Some err) | None \<Rightarrow> f out)"

definition ReconcileStuckNotifications_Execute ::
  "ReconcileStuckNotifications \<Rightarrow> (ReconcileStuckNotificationsOutput \<times> gerror option) prog"
where
  "ReconcileStuckNotifications_Execute uc =
     bind (Clk_Now (rs_clock uc)) (\<lambda>now.
     and_then (sweepOrphanedPending uc now
       \<lparr>o_OrphanedPendingReenqueued = 0, o_StuckProcessingFailed = 0,
        o_OverdueRetryingReenqueued = 0, o_StuckQueuedReenqueued = 0\<rparr>) (\<lambda>out.
     and_then (sweepStuckProcessing uc now out) (\<lambda>out.
     and_then (sweepOverdueRetrying uc now out) (\<lambda>out.
     sweepStuckQueued uc now out))))"

lemmas handler_defs = Reconcile_recordEvent_def handleOrphanedPending_def
  handleStuckProcessing_def handleOverdueRetrying_def handleStuckQueued_def
lemmas sweep_defs = sweepOrphanedPending_def sweepStuckProcessing_def
  sweepOverdueRetrying_def sweepStuckQueued_def

end
