(* ===== verification/Handlers.thy ===== *)
theory Handlers
  imports Wire Intake Catalog Reconciler
begin

text \<open>
  The operations of the API server: the mappings between the wire types and the use cases
  (\<open>mapping.go\<close> and the mappers beside the handlers), the handlers
  (\<open>*_handler.go\<close>, \<open>template_handlers.go\<close>, \<open>server.go\<close>), and the responses they return, as \<open>api.gen.go\<close>
  writes them.

  \<open>uuid.Parse\<close> of \<open>google/uuid\<close> is the parameter \<open>P\<close>; its result is the canonical text the parsed
  identifier prints as. Identifiers in requests have been parsed by the generated server, so they
  are such texts already.
\<close>

section \<open>Responses\<close>

text \<open>A response object of the generated server is what its \<open>Visit\<close> method does: given the JSON encoder,
  the calls on the response writer, or the error of the encoder, which comes before any of them. A
  write to a connection that has gone is not modelled.\<close>

type_synonym encoder = "api_body \<Rightarrow> gerror + string"
type_synonym response = "encoder \<Rightarrow> gerror + wcall list"

definition set_headers_present :: "(string \<times> string option) list \<Rightarrow> wcall list" where
  "set_headers_present hs = concat (map (\<lambda>(k, v). case v of None \<Rightarrow> [] | Some s \<Rightarrow> [Header_Set k s]) hs)"

definition visit_json :: "string \<Rightarrow> int \<Rightarrow> (string \<times> string option) list \<Rightarrow> api_body \<Rightarrow> response" where
  "visit_json ty st hs b encode =
     bind_res (encode b) (\<lambda>t.
     Inr (Header_Set ''Content-Type'' ty # set_headers_present hs @ [WriteHeader st, Write t]))"

definition GetJSONMetrics200JSONResponse :: "api_MetricsSummary \<Rightarrow> response" where
  "GetJSONMetrics200JSONResponse m = visit_json ''application/json'' 200 [] (B_Metrics m)"

definition ListNotifications200JSONResponse :: "api_Notification list \<Rightarrow> string option \<Rightarrow> string option \<Rightarrow> response" where
  "ListNotifications200JSONResponse items next_cursor correlation =
     visit_json ''application/json'' 200 [(''X-Correlation-ID'', correlation)] (B_Page items next_cursor)"

definition CreateNotification202JSONResponse :: "api_Notification \<Rightarrow> string option \<Rightarrow> string option \<Rightarrow> response" where
  "CreateNotification202JSONResponse body location correlation =
     visit_json ''application/json'' 202 [(''Location'', location), (''X-Correlation-ID'', correlation)] (B_Notification body)"

definition CreateBatch202JSONResponse :: "api_Batch \<Rightarrow> string option \<Rightarrow> string option \<Rightarrow> response" where
  "CreateBatch202JSONResponse body location correlation =
     visit_json ''application/json'' 202 [(''Location'', location), (''X-Correlation-ID'', correlation)] (B_Batch body)"

definition GetBatch200JSONResponse :: "api_Batch \<Rightarrow> string option \<Rightarrow> response" where
  "GetBatch200JSONResponse body correlation =
     visit_json ''application/json'' 200 [(''X-Correlation-ID'', correlation)] (B_Batch body)"

definition GetNotification200JSONResponse :: "api_Notification \<Rightarrow> string option \<Rightarrow> response" where
  "GetNotification200JSONResponse body correlation =
     visit_json ''application/json'' 200 [(''X-Correlation-ID'', correlation)] (B_Notification body)"

definition CancelNotification200JSONResponse :: "api_Notification \<Rightarrow> string option \<Rightarrow> response" where
  "CancelNotification200JSONResponse body correlation =
     visit_json ''application/json'' 200 [(''X-Correlation-ID'', correlation)] (B_Notification body)"

definition GetNotificationTrace200JSONResponse :: "string \<Rightarrow> api_TraceEntry list \<Rightarrow> string option \<Rightarrow> response" where
  "GetNotificationTrace200JSONResponse nid entries correlation =
     visit_json ''application/json'' 200 [(''X-Correlation-ID'', correlation)] (B_Trace nid entries)"

definition ListTemplates200JSONResponse :: "api_Template list \<Rightarrow> string option \<Rightarrow> string option \<Rightarrow> response" where
  "ListTemplates200JSONResponse items next_cursor correlation =
     visit_json ''application/json'' 200 [(''X-Correlation-ID'', correlation)] (B_TemplatePage items next_cursor)"

definition CreateTemplate201JSONResponse :: "api_Template \<Rightarrow> string option \<Rightarrow> string option \<Rightarrow> response" where
  "CreateTemplate201JSONResponse body location correlation =
     visit_json ''application/json'' 201 [(''Location'', location), (''X-Correlation-ID'', correlation)] (B_Template body)"

definition DeleteTemplate204Response :: "string option \<Rightarrow> response" where
  "DeleteTemplate204Response correlation encode = Inr (set_headers_present [(''X-Correlation-ID'', correlation)] @ [WriteHeader 204])"

definition GetTemplate200JSONResponse :: "api_Template \<Rightarrow> string option \<Rightarrow> response" where
  "GetTemplate200JSONResponse body correlation =
     visit_json ''application/json'' 200 [(''X-Correlation-ID'', correlation)] (B_Template body)"

definition ReplaceTemplate200JSONResponse :: "api_Template \<Rightarrow> string option \<Rightarrow> response" where
  "ReplaceTemplate200JSONResponse body correlation =
     visit_json ''application/json'' 200 [(''X-Correlation-ID'', correlation)] (B_Template body)"

definition GetHealthzLive200JSONResponse :: response where
  "GetHealthzLive200JSONResponse = visit_json ''application/json'' 200 [] B_HealthOk"

definition GetHealthzReady200JSONResponse :: response where
  "GetHealthzReady200JSONResponse = visit_json ''application/json'' 200 [] B_HealthOk"

definition GetHealthzReady503ApplicationProblemPlusJSONResponse :: "Problem \<Rightarrow> response" where
  "GetHealthzReady503ApplicationProblemPlusJSONResponse p = visit_json ''application/problem+json'' 503 [] (B_Problem p)"

definition GetPrometheusMetrics200TextResponse :: "string \<Rightarrow> response" where
  "GetPrometheusMetrics200TextResponse text encode =
     Inr [Header_Set ''Content-Type'' ''text/plain'', WriteHeader 200, Write text]"

lemmas response_defs = GetJSONMetrics200JSONResponse_def ListNotifications200JSONResponse_def CreateNotification202JSONResponse_def
  CreateBatch202JSONResponse_def GetBatch200JSONResponse_def GetNotification200JSONResponse_def CancelNotification200JSONResponse_def
  GetNotificationTrace200JSONResponse_def ListTemplates200JSONResponse_def CreateTemplate201JSONResponse_def
  DeleteTemplate204Response_def GetTemplate200JSONResponse_def ReplaceTemplate200JSONResponse_def GetHealthzLive200JSONResponse_def
  GetHealthzReady200JSONResponse_def GetHealthzReady503ApplicationProblemPlusJSONResponse_def GetPrometheusMetrics200TextResponse_def
  visit_json_def set_headers_present_def

type_synonym uuid_parser = "string \<Rightarrow> gerror + string"

section \<open>Mapping\<close>

definition nonempty :: "string \<Rightarrow> string option" where
  "nonempty s = (if s = [] then None else Some s)"

definition parse_opt :: "uuid_parser \<Rightarrow> string \<Rightarrow> string option \<Rightarrow> gerror + string option" where
  "parse_opt P what i = (case i of None \<Rightarrow> Inr None | Some s \<Rightarrow> bind_res (wrap_res what [] (P s)) (\<lambda>u. Inr (Some u)))"

definition toAPINotification :: "uuid_parser \<Rightarrow> Notification \<Rightarrow> gerror + api_Notification" where
  "toAPINotification P n =
     bind_res (wrap_res ''notification id is not a uuid: %w'' [] (P (n_ID n))) (\<lambda>i.
     bind_res (parse_opt P ''batch id is not a uuid: %w'' (n_BatchID n)) (\<lambda>bid.
     bind_res (parse_opt P ''template id is not a uuid: %w'' (n_TemplateID n)) (\<lambda>tid.
     Inr \<lparr>an_Id = i, an_BatchId = bid, an_Channel = n_Channel n, an_Priority = n_Priority n, an_Status = n_Status n,
          an_Recipient = n_Recipient n, an_Content = n_Content n, an_Attempts = n_Attempts n, an_MaxAttempts = 5,
          an_CreatedAt = n_CreatedAt n, an_UpdatedAt = n_UpdatedAt n, an_CorrelationId = nonempty (n_CorrelationID n),
          an_TemplateId = tid, an_IdempotencyKey = nonempty (n_IdempotencyKey n), an_ScheduledAt = n_ScheduledAt n,
          an_NextRetryAt = n_NextRetryAt n, an_FailureReason = nonempty (n_LastError n)\<rparr>)))"

fun map_items :: "('a \<Rightarrow> gerror + 'b) \<Rightarrow> (gerror \<Rightarrow> gerror) \<Rightarrow> 'a list \<Rightarrow> gerror + 'b list" where
  "map_items f wrap [] = Inr []"
| "map_items f wrap (x # xs) =
     (case f x of Inl e \<Rightarrow> Inl (wrap e) | Inr y \<Rightarrow> bind_res (map_items f wrap xs) (\<lambda>ys. Inr (y # ys)))"

definition toAPIBatch :: "uuid_parser \<Rightarrow> Batch \<Rightarrow> bool \<Rightarrow> gerror + api_Batch" where
  "toAPIBatch P b withNotifications =
     bind_res (wrap_res ''batch id is not a uuid: %w'' [] (P (b_ID b))) (\<lambda>i.
     bind_res (if withNotifications \<and> b_Notifications b \<noteq> []
         then map_sum id Some (map_items (toAPINotification P) (Errorf ''map batch member: %w'' []) (b_Notifications b))
         else Inr None) (\<lambda>items.
     Inr \<lparr>ab_Id = i, ab_Size = int (length (b_Notifications b)), ab_CreatedAt = b_CreatedAt b,
          ab_CorrelationId = nonempty (b_CorrelationID b), ab_Notifications = items\<rparr>))"

definition opt_string :: "string option \<Rightarrow> string" where
  "opt_string s = (case s of None \<Rightarrow> [] | Some t \<Rightarrow> t)"

definition batch_item :: "api_CreateNotificationRequest \<Rightarrow> CreateBatchItem" where
  "batch_item q =
     \<lparr>ib_Channel = ar_Channel q, ib_Priority = (case ar_Priority q of Some p \<Rightarrow> p | None \<Rightarrow> PriorityNormal),
      ib_Recipient = ar_Recipient q, ib_Content = ar_Content q, ib_IdempotencyKey = [], ib_TemplateID = ar_TemplateId q\<rparr>"

definition fromAPICreateBatchRequest :: "api_CreateNotificationRequest list \<Rightarrow> api_Params \<Rightarrow> CreateBatchInput" where
  "fromAPICreateBatchRequest body params =
     \<lparr>cbi_CorrelationID = opt_string (ap_XCorrelationID params), cbi_Notifications = map batch_item body\<rparr>"

definition fromAPICreateNotificationRequest :: "api_CreateNotificationRequest \<Rightarrow> api_Params \<Rightarrow> CreateNotificationInput" where
  "fromAPICreateNotificationRequest body params =
     \<lparr>ci_Channel = ar_Channel body, ci_Priority = (case ar_Priority body of Some p \<Rightarrow> p | None \<Rightarrow> PriorityNormal),
      ci_Recipient = ar_Recipient body, ci_Content = ar_Content body,
      ci_IdempotencyKey = opt_string (ap_IdempotencyKey params), ci_CorrelationID = opt_string (ap_XCorrelationID params),
      ci_ScheduledAt = ar_ScheduledAt body, ci_TemplateID = ar_TemplateId body,
      ci_TemplateVariables = (case ar_TemplateVariables body of Some vs \<Rightarrow> vs | None \<Rightarrow> Map.empty)\<rparr>"

definition fromAPIListNotificationsParams :: "api_ListNotificationsParams \<Rightarrow> ListNotificationsInput" where
  "fromAPIListNotificationsParams p =
     \<lparr>lni_Status = opt_string (al_Status p), lni_Channel = opt_string (al_Channel p), lni_BatchID = al_BatchId p,
      lni_CreatedAfter = al_CreatedAfter p, lni_CreatedBefore = al_CreatedBefore p, lni_Cursor = opt_string (al_Cursor p),
      lni_Limit = (case al_Limit p of Some l \<Rightarrow> l | None \<Rightarrow> 0)\<rparr>"

definition toAPINotificationPage :: "uuid_parser \<Rightarrow> Notification list \<times> string \<Rightarrow> gerror + api_Notification list \<times> string option" where
  "toAPINotificationPage P page =
     bind_res (map_items (toAPINotification P) (Errorf ''map notification: %w'' []) (fst page)) (\<lambda>items.
     Inr (items, nonempty (snd page)))"

definition toAPINotificationTraceEntry :: "uuid_parser \<Rightarrow> NotificationLog \<Rightarrow> gerror + api_TraceEntry" where
  "toAPINotificationTraceEntry P l =
     bind_res (wrap_res ''log id is not a uuid: %w'' [] (P (l_ID l))) (\<lambda>i.
     Inr \<lparr>te_Id = i, te_Event = l_Event l, te_CreatedAt = l_CreatedAt l, te_CorrelationId = nonempty (l_CorrelationID l),
          te_Details = (if l_Details l = Some Map.empty then None else l_Details l)\<rparr>)"

definition toAPINotificationTrace ::
  "uuid_parser \<Rightarrow> NotificationID \<Rightarrow> NotificationLog list \<Rightarrow> gerror + string \<times> api_TraceEntry list"
where
  "toAPINotificationTrace P nid entries =
     bind_res (wrap_res ''notification id is not a uuid: %w'' [] (P nid)) (\<lambda>i.
     bind_res (map_items (toAPINotificationTraceEntry P) (Errorf ''map trace entry: %w'' []) entries) (\<lambda>items.
     Inr (i, items)))"

definition wrapMapTemplate :: "gerror \<Rightarrow> gerror" where
  "wrapMapTemplate e = Errorf ''map template: %w'' [] e"

definition toAPITemplate :: "uuid_parser \<Rightarrow> Template \<Rightarrow> gerror + api_Template" where
  "toAPITemplate P t =
     bind_res (wrap_res ''template id is not a uuid: %w'' [] (P (t_ID t))) (\<lambda>i.
     Inr \<lparr>at_Id = i, at_Name = t_Name t, at_Channel = t_Channel t, at_Body = t_Body t, at_CreatedAt = t_CreatedAt t,
          at_UpdatedAt = t_UpdatedAt t\<rparr>)"

definition toAPITemplatePage :: "uuid_parser \<Rightarrow> Template list \<times> string \<Rightarrow> gerror + api_Template list \<times> string option" where
  "toAPITemplatePage P page =
     bind_res (map_items (toAPITemplate P) wrapMapTemplate (fst page)) (\<lambda>items. Inr (items, nonempty (snd page)))"

section \<open>The server\<close>

record JSONMetricsSnapshot =
  jm_CreatedPerMinute :: int
  jm_DeliveredPerMinute :: int
  jm_FailedPerMinute :: int
  jm_QueueDepth :: int
  jm_SuccessRate :: "float64 option"

text \<open>A gathered family of metrics is its name and what the encoder of the Prometheus library writes
  for it.\<close>

record metric_family =
  mf_Name :: string
  mf_text :: "gerror + string"

record Server =
  sv_createNotification :: "(CreateNotificationInput \<Rightarrow> (gerror + Notification) prog) option"
  sv_createBatch :: "(CreateBatchInput \<Rightarrow> (gerror + Batch) prog) option"
  sv_getNotification :: "(NotificationID \<Rightarrow> (gerror + Notification) prog) option"
  sv_listNotifications :: "(ListNotificationsInput \<Rightarrow> (gerror + Notification list \<times> string) prog) option"
  sv_cancelNotification :: "(NotificationID \<Rightarrow> (gerror + Notification) prog) option"
  sv_getNotificationTrace :: "(NotificationID \<Rightarrow> (gerror + NotificationLog list) prog) option"
  sv_getBatch :: "(BatchID \<Rightarrow> (gerror + Batch) prog) option"
  sv_createTemplate :: "(string \<Rightarrow> string \<Rightarrow> string \<Rightarrow> (gerror + Template) prog) option"
  sv_getTemplate :: "(TemplateID \<Rightarrow> (gerror + Template) prog) option"
  sv_listTemplates :: "(int \<Rightarrow> (gerror + Template list \<times> string) prog) option"
  sv_replaceTemplate :: "(TemplateID \<Rightarrow> string \<Rightarrow> string \<Rightarrow> string \<Rightarrow> (gerror + Template) prog) option"
  sv_deleteTemplate :: "(TemplateID \<Rightarrow> gerror option prog) option"
  sv_readinessChecks :: "gerror option prog list"
  sv_prometheusGatherer :: "(gerror + metric_family list) prog option"
  sv_jsonMetrics :: "(gerror + JSONMetricsSnapshot) prog option"

type_synonym operation = "(gerror + response) prog"

definition wired :: "'f option \<Rightarrow> ('f \<Rightarrow> operation) \<Rightarrow> operation" where
  "wired slot k = (case slot of None \<Rightarrow> Ret (Inl (Sent ErrNotImplemented)) | Some f \<Rightarrow> k f)"

definition body_required :: gerror where
  "body_required = ValidationError ''body'' ''request body is required'' None"

definition Server_CreateNotification :: "uuid_parser \<Rightarrow> Server \<Rightarrow> api_CreateNotificationRequest option \<Rightarrow> api_Params \<Rightarrow> operation" where
  "Server_CreateNotification P s body params =
     wired (sv_createNotification s) (\<lambda>execute.
     case body of None \<Rightarrow> Ret (Inl body_required)
     | Some q \<Rightarrow>
         try_val (execute (fromAPICreateNotificationRequest q params)) Inl (\<lambda>n.
         check_val (toAPINotification P n) (\<lambda>e. Inl (Errorf ''map domain notification: %w'' [] e)) (\<lambda>out.
         Ret (Inr (CreateNotification202JSONResponse out (Some (''/api/v1/notifications/'' @ n_ID n)) (Some (n_CorrelationID n)))))))"

definition Server_CreateBatch :: "uuid_parser \<Rightarrow> Server \<Rightarrow> api_CreateNotificationRequest list option \<Rightarrow> api_Params \<Rightarrow> operation" where
  "Server_CreateBatch P s body params =
     wired (sv_createBatch s) (\<lambda>execute.
     case body of None \<Rightarrow> Ret (Inl body_required)
     | Some q \<Rightarrow>
         try_val (execute (fromAPICreateBatchRequest q params)) Inl (\<lambda>b.
         check_val (toAPIBatch P b False) (\<lambda>e. Inl (Errorf ''map domain batch: %w'' [] e)) (\<lambda>out.
         Ret (Inr (CreateBatch202JSONResponse out (Some (''/api/v1/notifications/batch/'' @ b_ID b)) (Some (b_CorrelationID b)))))))"

text \<open>The shape of the two operations that answer one notification.\<close>

definition answer_notification ::
  "uuid_parser \<Rightarrow> (api_Notification \<Rightarrow> string option \<Rightarrow> response) \<Rightarrow> (gerror + Notification) prog \<Rightarrow> operation"
where
  "answer_notification P shape p =
     try_val p Inl (\<lambda>n.
     check_val (toAPINotification P n) (\<lambda>e. Inl (Errorf ''map domain notification: %w'' [] e)) (\<lambda>out.
     Ret (Inr (shape out (Some (n_CorrelationID n))))))"

definition Server_GetNotification :: "uuid_parser \<Rightarrow> Server \<Rightarrow> string \<Rightarrow> operation" where
  "Server_GetNotification P s i =
     wired (sv_getNotification s) (\<lambda>execute. answer_notification P GetNotification200JSONResponse (execute i))"

definition Server_CancelNotification :: "uuid_parser \<Rightarrow> Server \<Rightarrow> string \<Rightarrow> operation" where
  "Server_CancelNotification P s i =
     wired (sv_cancelNotification s) (\<lambda>execute. answer_notification P CancelNotification200JSONResponse (execute i))"

definition Server_GetBatch :: "uuid_parser \<Rightarrow> Server \<Rightarrow> string \<Rightarrow> operation" where
  "Server_GetBatch P s i =
     wired (sv_getBatch s) (\<lambda>execute.
     try_val (execute i) Inl (\<lambda>b.
     check_val (toAPIBatch P b True) (\<lambda>e. Inl (Errorf ''map domain batch: %w'' [] e)) (\<lambda>out.
     Ret (Inr (GetBatch200JSONResponse out (Some (b_CorrelationID b)))))))"

definition Server_ListNotifications :: "uuid_parser \<Rightarrow> Server \<Rightarrow> api_ListNotificationsParams \<Rightarrow> operation" where
  "Server_ListNotifications P s params =
     wired (sv_listNotifications s) (\<lambda>execute.
     try_val (execute (fromAPIListNotificationsParams params)) Inl (\<lambda>page.
     check_val (toAPINotificationPage P page) (\<lambda>e. Inl (Errorf ''map notification page: %w'' [] e)) (\<lambda>(items, next_cursor).
     Ret (Inr (ListNotifications200JSONResponse items next_cursor None)))))"

definition Server_GetNotificationTrace :: "uuid_parser \<Rightarrow> Server \<Rightarrow> string \<Rightarrow> operation" where
  "Server_GetNotificationTrace P s i =
     wired (sv_getNotificationTrace s) (\<lambda>execute.
     try_val (execute i) Inl (\<lambda>entries.
     check_val (toAPINotificationTrace P i entries) (\<lambda>e. Inl (Errorf ''map notification trace: %w'' [] e)) (\<lambda>(nid, items).
     Ret (Inr (GetNotificationTrace200JSONResponse nid items None)))))"

text \<open>Templates.\<close>

definition answer_template :: "uuid_parser \<Rightarrow> (gerror + Template) prog \<Rightarrow> (Template \<Rightarrow> api_Template \<Rightarrow> response) \<Rightarrow> operation" where
  "answer_template P p shape =
     try_val p Inl (\<lambda>t.
     check_val (toAPITemplate P t) (\<lambda>e. Inl (wrapMapTemplate e)) (\<lambda>out.
     Ret (Inr (shape t out))))"

definition Server_CreateTemplate :: "uuid_parser \<Rightarrow> Server \<Rightarrow> api_TemplateRequest option \<Rightarrow> operation" where
  "Server_CreateTemplate P s body =
     wired (sv_createTemplate s) (\<lambda>execute.
     case body of None \<Rightarrow> Ret (Inl body_required)
     | Some q \<Rightarrow> answer_template P (execute (tq_Name q) (tq_Channel q) (tq_Body q))
         (\<lambda>t out. CreateTemplate201JSONResponse out (Some (''/api/v1/templates/'' @ t_ID t)) None))"

definition Server_ListTemplates :: "uuid_parser \<Rightarrow> Server \<Rightarrow> int option \<Rightarrow> operation" where
  "Server_ListTemplates P s limit =
     wired (sv_listTemplates s) (\<lambda>execute.
     try_val (execute (case limit of Some l \<Rightarrow> l | None \<Rightarrow> 0)) Inl (\<lambda>page.
     check_val (toAPITemplatePage P page) (\<lambda>e. Inl (Errorf ''map template page: %w'' [] e)) (\<lambda>(items, next_cursor).
     Ret (Inr (ListTemplates200JSONResponse items next_cursor None)))))"

definition Server_GetTemplate :: "uuid_parser \<Rightarrow> Server \<Rightarrow> string \<Rightarrow> operation" where
  "Server_GetTemplate P s i =
     wired (sv_getTemplate s) (\<lambda>execute. answer_template P (execute i) (\<lambda>_ out. GetTemplate200JSONResponse out None))"

definition Server_ReplaceTemplate :: "uuid_parser \<Rightarrow> Server \<Rightarrow> string \<Rightarrow> api_TemplateRequest option \<Rightarrow> operation" where
  "Server_ReplaceTemplate P s i body =
     wired (sv_replaceTemplate s) (\<lambda>execute.
     case body of None \<Rightarrow> Ret (Inl body_required)
     | Some q \<Rightarrow> answer_template P (execute i (tq_Name q) (tq_Channel q) (tq_Body q)) (\<lambda>_ out. ReplaceTemplate200JSONResponse out None))"

definition Server_DeleteTemplate :: "Server \<Rightarrow> string \<Rightarrow> operation" where
  "Server_DeleteTemplate s i =
     wired (sv_deleteTemplate s) (\<lambda>execute.
     on_err (execute i) Inl (Ret (Inr (DeleteTemplate204Response None))))"

text \<open>Health.\<close>

definition GetHealthzLive :: operation where
  "GetHealthzLive = Ret (Inr GetHealthzLive200JSONResponse)"

fun run_checks :: "int \<Rightarrow> gerror option prog list \<Rightarrow> operation" where
  "run_checks i [] = Ret (Inr GetHealthzReady200JSONResponse)"
| "run_checks i (check # checks) =
     bind check (\<lambda>e. case e of
         None \<Rightarrow> run_checks (i + 1) checks
       | Some _ \<Rightarrow> Emit (Slog ''WARN'' ''readiness check failed'' [(''check_index'', strconv_Itoa i)])
           (Ret (Inr (GetHealthzReady503ApplicationProblemPlusJSONResponse
             (problem ''/probs/dependency-unavailable'' ''Dependency Unavailable'' 503
               ''One or more downstream dependencies are not responding. The pod will stop receiving traffic until they recover.'')))))"

definition GetHealthzReady :: "Server \<Rightarrow> operation" where
  "GetHealthzReady s = run_checks 0 (sv_readinessChecks s)"

text \<open>Metrics.\<close>

definition Server_GetJSONMetrics :: "Server \<Rightarrow> operation" where
  "Server_GetJSONMetrics s =
     wired (sv_jsonMetrics s) (\<lambda>snapshot.
     try_val snapshot Inl (\<lambda>snap.
     Ret (Inr (GetJSONMetrics200JSONResponse
       \<lparr>ms_CreatedPerMinute = jm_CreatedPerMinute snap, ms_DeliveredPerMinute = jm_DeliveredPerMinute snap,
        ms_FailedPerMinute = jm_FailedPerMinute snap, ms_QueueDepth = jm_QueueDepth snap, ms_SuccessRate = jm_SuccessRate snap\<rparr>))))"

fun encode_families :: "metric_family list \<Rightarrow> gerror + string" where
  "encode_families [] = Inr []"
| "encode_families (mf # mfs) =
     bind_res (wrap_res ''prometheus encode %s: %w'' [mf_Name mf] (mf_text mf)) (\<lambda>t.
     bind_res (encode_families mfs) (\<lambda>ts. Inr (t @ ts)))"

definition Server_GetPrometheusMetrics :: "Server \<Rightarrow> operation" where
  "Server_GetPrometheusMetrics s =
     wired (sv_prometheusGatherer s) (\<lambda>gather.
     try_val gather (\<lambda>e. Inl (Errorf ''prometheus gather: %w'' [] e)) (\<lambda>mfs.
     check_val (encode_families mfs) Inl (\<lambda>text. Ret (Inr (GetPrometheusMetrics200TextResponse text)))))"

section \<open>Serving an operation\<close>

text \<open>What the generated server does with an operation's result. Both error handlers it is given are
  \<open>RespondWithError\<close>.\<close>

definition strict_handler :: "encoder \<Rightarrow> operation \<Rightarrow> handler" where
  "strict_handler encode p r =
     bind p (\<lambda>result. case result of
         Inl e \<Rightarrow> RespondWithError r e
       | Inr visit \<Rightarrow> (case visit encode of Inl e \<Rightarrow> RespondWithError r e | Inr calls \<Rightarrow> Ret calls))"

end
