(* ===== verification/Middleware.thy ===== *)
theory Middleware
  imports Http
begin

text \<open>
  The middlewares of the API: correlation id (\<open>correlation.go\<close>), metrics
  (\<open>metrics_middleware.go\<close>) and inbound rate limit (\<open>inbound_rate_limit.go\<close>), and how the router
  chains them. Hijacking and flushing of a connection pass through the wrappers and are not
  modelled.
\<close>

section \<open>Correlation\<close>

definition correlationIDHeader :: string where "correlationIDHeader = ''X-Correlation-ID''"

definition CorrelationIDFromContext :: "request \<Rightarrow> string" where
  "CorrelationIDFromContext r = rq_correlation r"

definition ContextWithCorrelationID :: "request \<Rightarrow> string \<Rightarrow> request" where
  "ContextWithCorrelationID r i = r\<lparr>rq_correlation := i\<rparr>"

definition CorrelationIDMiddleware :: "IDGenerator \<Rightarrow> handler \<Rightarrow> handler" where
  "CorrelationIDMiddleware gen next r =
     bind (if rq_Header r correlationIDHeader = [] then IDGen_NewCorrelationID gen
           else Ret (rq_Header r correlationIDHeader)) (\<lambda>i.
     bind (next (ContextWithCorrelationID r i)) (\<lambda>calls.
     Ret (Header_Set correlationIDHeader i # calls)))"

section \<open>Metrics\<close>

text \<open>The wrapper around the response writer; \<open>st_forwarded\<close> are the calls it has made on the
  writer it wraps.\<close>

record statusTracker =
  st_status :: int
  st_wroteHeader :: bool
  st_forwarded :: "wcall list"

fun tracker_call :: "wcall \<Rightarrow> statusTracker \<Rightarrow> statusTracker" where
  "tracker_call (Header_Set k v) t = t\<lparr>st_forwarded := st_forwarded t @ [Header_Set k v]\<rparr>"
| "tracker_call (WriteHeader st) t =
     (if st_wroteHeader t then t
      else t\<lparr>st_status := st, st_wroteHeader := True, st_forwarded := st_forwarded t @ [WriteHeader st]\<rparr>)"
| "tracker_call (Write p) t = t\<lparr>st_wroteHeader := True, st_forwarded := st_forwarded t @ [Write p]\<rparr>"

definition new_tracker :: statusTracker where
  "new_tracker = \<lparr>st_status = 200, st_wroteHeader = False, st_forwarded = []\<rparr>"

definition MetricsMiddleware :: "handler \<Rightarrow> handler" where
  "MetricsMiddleware next r =
     Clock_Now (\<lambda>start.
     bind (next r) (\<lambda>calls.
       let tracker = fold tracker_call calls new_tracker;
           pattern = (if rq_pattern r = [] then ''unknown'' else rq_pattern r) in
       Emit (M_HTTPRequest (rq_Method r) pattern (strconv_Itoa (st_status tracker)))
       (Clock_Now (\<lambda>now.
       Emit (M_ObserveHTTPRequest (rq_Method r) pattern (time_Sub now start))
       (Ret (st_forwarded tracker))))))"

section \<open>Inbound rate limit\<close>

text \<open>\<open>math.Ceil(d.Seconds())\<close>: below \<open>2\<^sup>2\<^sup>2\<close> seconds the quotient is held exactly enough for the
  ceiling to be that of the integer division; a limiter's hint is at most its window.\<close>

definition retryAfterSeconds :: "Duration \<Rightarrow> int" where
  "retryAfterSeconds d = (let secs = - ((- sint d) div 10 ^ 9) in if secs < 1 then 1 else secs)"

text \<open>\<open>net.SplitHostPort\<close>, its host or nothing on a malformed address.\<close>

fun last_index :: "char \<Rightarrow> string \<Rightarrow> nat option" where
  "last_index c [] = None"
| "last_index c (x # xs) =
     (case last_index c xs of Some i \<Rightarrow> Some (Suc i) | None \<Rightarrow> if x = c then Some 0 else None)"

definition SplitHostPort :: "string \<Rightarrow> string option" where
  "SplitHostPort s =
     (case last_index (CHR '':'') s of None \<Rightarrow> None
      | Some i \<Rightarrow>
          if prefix ''['' s then
            (if CHR '']'' \<notin> set s then None
             else let e = length (takeWhile (\<lambda>c. c \<noteq> CHR '']'') s) in
               if Suc e \<noteq> i \<or> CHR ''['' \<in> set (drop 1 s) \<or> CHR '']'' \<in> set (drop (Suc e) s) then None
               else Some (drop 1 (take e s)))
          else if CHR '':'' \<in> set (take i s) \<or> CHR ''['' \<in> set s \<or> CHR '']'' \<in> set s then None
          else Some (take i s))"

definition clientIP :: "request \<Rightarrow> string" where
  "clientIP r =
     (let xff = rq_Header r ''X-Forwarded-For''; xri = rq_Header r ''X-Real-IP'' in
      if xff \<noteq> [] then strings_TrimSpace (takeWhile (\<lambda>c. c \<noteq> CHR '','') xff)
      else if xri \<noteq> [] then strings_TrimSpace xri
      else case SplitHostPort (rq_RemoteAddr r) of None \<Rightarrow> rq_RemoteAddr r | Some host \<Rightarrow> host)"

text \<open>The flag tells whether a metrics recorder is wired.\<close>

definition respondWithRateLimited :: "bool \<Rightarrow> request \<Rightarrow> Duration \<Rightarrow> wcall list prog" where
  "respondWithRateLimited metrics r retryAfter =
     (let calls = Header_Set ''Retry-After'' (strconv_Itoa (retryAfterSeconds retryAfter)) #
        WriteProblem r (problem ''/probs/rate-limited'' ''Too Many Requests'' 429
          ''Inbound request rate limit exceeded for this client. Wait the number of seconds in Retry-After before retrying.'') in
      emit_if metrics (M_InboundRateLimitHit (rq_Path r)) (Ret calls))"

definition InboundRateLimitMiddleware :: "RateLimiter \<Rightarrow> bool \<Rightarrow> handler \<Rightarrow> handler" where
  "InboundRateLimitMiddleware limiter metrics next r =
     (let bucket = ''ip:'' @ clientIP r in
      bind (RateLimiter_Allow limiter bucket) (\<lambda>answer.
        case answer of
          Inl e \<Rightarrow> Emit (Slog ''WARN'' ''inbound rate limiter unavailable, allowing request'' [(''bucket'', bucket)]) (next r)
        | Inr (allowed, retryAfter) \<Rightarrow>
            if \<not> allowed then respondWithRateLimited metrics r retryAfter else next r))"

section \<open>The router\<close>

text \<open>\<open>NewRouter\<close> applies the configured middlewares in order, the first outermost, and skips nil
  entries. The recoverer it always puts first only acts on panics.\<close>

fun NewRouter :: "(handler \<Rightarrow> handler) option list \<Rightarrow> handler \<Rightarrow> handler" where
  "NewRouter [] h = h"
| "NewRouter (None # ms) h = NewRouter ms h"
| "NewRouter (Some mw # ms) h = mw (NewRouter ms h)"

section \<open>The wrappers are transparent\<close>

text \<open>The calls a wrapper lets through, once the header is written or before.\<close>

fun forwarded :: "bool \<Rightarrow> wcall list \<Rightarrow> wcall list" where
  "forwarded wrote [] = []"
| "forwarded wrote (Header_Set k v # cs) = Header_Set k v # forwarded wrote cs"
| "forwarded wrote (WriteHeader st # cs) = (if wrote then forwarded True cs else WriteHeader st # forwarded True cs)"
| "forwarded wrote (Write p # cs) = Write p # forwarded True cs"

lemma sent_forwarded: "sent (forwarded False cs) = sent cs"
proof -
  have "body_of (forwarded w cs) = body_of cs" for w by (induction w cs rule: forwarded.induct) auto
  moreover have "first_status (forwarded False cs) = first_status cs" by (induction cs rule: first_status.induct) auto
  moreover have "takeWhile is_header (forwarded False cs) = takeWhile is_header cs"
    by (induction cs rule: first_status.induct) auto
  ultimately show ?thesis by (simp add: sent_def)
qed

lemma tracker_forwards: "st_forwarded (fold tracker_call cs t) = st_forwarded t @ forwarded (st_wroteHeader t) cs"
proof (induction cs arbitrary: t)
  case (Cons c cs)
  then show ?case by (cases c) simp_all
qed simp

lemma tracker_status_kept: "st_wroteHeader t \<Longrightarrow> st_status (fold tracker_call cs t) = st_status t"
proof (induction cs arbitrary: t)
  case (Cons c cs)
  then show ?case by (cases c) simp_all
qed simp

lemma tracker_status: "\<not> st_wroteHeader t \<Longrightarrow> st_status t = 200 \<Longrightarrow> st_status (fold tracker_call cs t) = first_status cs"
proof (induction cs arbitrary: t)
  case (Cons c cs)
  then show ?case by (cases c) (simp_all add: tracker_status_kept)
qed simp

lemma tracked [simp]:
  "st_forwarded (fold tracker_call cs new_tracker) = forwarded False cs"
  "st_status (fold tracker_call cs new_tracker) = first_status cs"
  by (simp_all add: tracker_forwards tracker_status new_tracker_def)

text \<open>The bounds of the hint.\<close>

lemma retryAfter_covers:
  "1 \<le> retryAfterSeconds d" "sint d \<le> retryAfterSeconds d * 10 ^ 9" "0 < sint d \<Longrightarrow> (retryAfterSeconds d - 1) * 10 ^ 9 < sint d"
proof -
  define q where "q = (- sint d) div 10 ^ 9"
  have "- sint d = q * 10 ^ 9 + (- sint d) mod 10 ^ 9" unfolding q_def by (rule div_mult_mod_eq [symmetric])
  moreover have "0 \<le> (- sint d) mod 10 ^ 9" "(- sint d) mod 10 ^ 9 < 10 ^ 9" by simp_all
  ultimately have q: "q * 10 ^ 9 \<le> - sint d" "- sint d < q * 10 ^ 9 + 10 ^ 9" by linarith+
  have "retryAfterSeconds d = max 1 (- q)" by (simp add: retryAfterSeconds_def q_def Let_def max_def)
  with q show "1 \<le> retryAfterSeconds d" "sint d \<le> retryAfterSeconds d * 10 ^ 9"
    "0 < sint d \<Longrightarrow> (retryAfterSeconds d - 1) * 10 ^ 9 < sint d" by (auto simp: max_def algebra_simps)
qed

end
