(* ===== verification/Sha256.thy ===== *)
theory Sha256
  imports Prelude
begin

text \<open>
  SHA-256 as \<open>crypto/sha256\<close> computes it (FIPS 180-4), on strings of bytes: padding, message
  schedule, compression. \<open>hashRequestBody\<close> of the HTTP adapter fingerprints bodies with it.
\<close>

unbundle bit_operations_syntax

type_synonym word32 = "32 word"

text \<open>The constants are the first thirty-two bits of the fractional parts of the cube roots of the
  first sixty-four primes; the initial state comes from the square roots of the first eight. The
  integer root is found bit by bit from above.\<close>

fun root_from :: "nat \<Rightarrow> nat \<Rightarrow> int \<Rightarrow> int \<Rightarrow> int" where
  "root_from 0 k n r = r"
| "root_from (Suc i) k n r = root_from i k n (if (r + 2 ^ i) ^ k \<le> n then r + 2 ^ i else r)"

definition root_bits :: "nat \<Rightarrow> int \<Rightarrow> word32" where
  "root_bits k p = of_int (root_from 40 k (p * 2 ^ (32 * k)) 0)"

definition sha_primes :: "int list" where
  "sha_primes = [
    2, 3, 5, 7, 11, 13, 17, 19, 23, 29, 31, 37, 41, 43, 47, 53,
    59, 61, 67, 71, 73, 79, 83, 89, 97, 101, 103, 107, 109, 113, 127, 131,
    137, 139, 149, 151, 157, 163, 167, 173, 179, 181, 191, 193, 197, 199, 211, 223,
    227, 229, 233, 239, 241, 251, 257, 263, 269, 271, 277, 281, 283, 293, 307, 311]"

definition sha_K :: "word32 list" where
  "sha_K = map (root_bits 3) sha_primes"

definition sha_init :: "word32 list" where
  "sha_init = map (root_bits 2) (take 8 sha_primes)"

definition rotr :: "nat \<Rightarrow> word32 \<Rightarrow> word32" where
  "rotr n w = drop_bit n w OR push_bit (32 - n) w"

definition small_sigma0 :: "word32 \<Rightarrow> word32" where
  "small_sigma0 w = rotr 7 w XOR rotr 18 w XOR drop_bit 3 w"

definition small_sigma1 :: "word32 \<Rightarrow> word32" where
  "small_sigma1 w = rotr 17 w XOR rotr 19 w XOR drop_bit 10 w"

definition big_sigma0 :: "word32 \<Rightarrow> word32" where
  "big_sigma0 w = rotr 2 w XOR rotr 13 w XOR rotr 22 w"

definition big_sigma1 :: "word32 \<Rightarrow> word32" where
  "big_sigma1 w = rotr 6 w XOR rotr 11 w XOR rotr 25 w"

text \<open>Bytes to words, most significant first, and back.\<close>

definition be_word :: "char list \<Rightarrow> word32" where
  "be_word cs = foldl (\<lambda>w c. push_bit 8 w OR of_char c) 0 cs"

definition be_bytes :: "word32 \<Rightarrow> char list" where
  "be_bytes w = map (\<lambda>k. char_of (unat (take_bit 8 (drop_bit k w)))) [24, 16, 8, 0]"

definition length_bytes :: "nat \<Rightarrow> char list" where
  "length_bytes n = map (\<lambda>k. char_of (take_bit 8 (drop_bit k (int n)))) [56, 48, 40, 32, 24, 16, 8, 0]"

text \<open>The one-bit, zeros up to 56 bytes modulo 64, and the length in bits.\<close>

definition sha_pad :: "char list \<Rightarrow> char list" where
  "sha_pad msg =
     msg @ [CHR 0x80] @ replicate ((119 - length msg mod 64) mod 64) (CHR 0x00) @ length_bytes (8 * length msg)"

text \<open>The schedule grows a window of sixteen words to sixty-four.\<close>

definition sha_next :: "word32 list \<Rightarrow> word32 list" where
  "sha_next ws = (let n = length ws in
     ws @ [small_sigma1 (ws ! (n - 2)) + ws ! (n - 7) + small_sigma0 (ws ! (n - 15)) + ws ! (n - 16)])"

definition sha_schedule :: "char list \<Rightarrow> word32 list" where
  "sha_schedule block = (sha_next ^^ 48) (map (\<lambda>k. be_word (take 4 (drop (4 * k) block))) [0..<16])"

fun sha_round :: "word32 \<times> word32 \<Rightarrow> word32 list \<Rightarrow> word32 list" where
  "sha_round (k, w) [a, b, c, d, e, f, g, h] =
     (let t1 = h + big_sigma1 e + ((e AND f) XOR (NOT e AND g)) + k + w;
          t2 = big_sigma0 a + ((a AND b) XOR (a AND c) XOR (b AND c)) in
      [t1 + t2, a, b, c, d + t1, e, f, g])"
| "sha_round _ hs = hs"

definition sha_block :: "char list \<Rightarrow> word32 list \<Rightarrow> word32 list" where
  "sha_block block hs = map2 (+) hs (fold sha_round (zip sha_K (sha_schedule block)) hs)"

fun sha_blocks :: "nat \<Rightarrow> char list \<Rightarrow> word32 list \<Rightarrow> word32 list" where
  "sha_blocks 0 msg hs = hs"
| "sha_blocks (Suc n) msg hs = sha_blocks n (drop 64 msg) (sha_block (take 64 msg) hs)"

definition sha256_Sum256 :: "string \<Rightarrow> string" where
  "sha256_Sum256 msg = (let p = sha_pad msg in concat (map be_bytes (sha_blocks (length p div 64) p sha_init)))"

text \<open>The digest has 32 bytes, and the padded message is a whole number of blocks.\<close>

lemma sha_pad_blocks: "length (sha_pad msg) mod 64 = 0"
proof -
  let ?a = "length msg mod 64"
  have "(length msg + (119 - ?a) mod 64 + 9) mod 64 = (?a + (119 - ?a) + 9) mod 64"
    by (intro mod_add_cong refl) simp_all
  moreover have "?a + (119 - ?a) + 9 = 128"
    using mod_less_divisor [of 64 "length msg"] by linarith
  ultimately show ?thesis by (simp add: sha_pad_def length_bytes_def ac_simps)
qed

lemma sha_round_length: "length hs = 8 \<Longrightarrow> length (sha_round kw hs) = 8"
  by (cases "(kw, hs)" rule: sha_round.cases) (auto simp: Let_def)

lemma sha_block_length: "length hs = 8 \<Longrightarrow> length (sha_block b hs) = 8"
proof -
  have "length (fold sha_round kws hs) = 8" if "length hs = 8" for kws hs
    using that by (induction kws arbitrary: hs) (simp_all add: sha_round_length)
  then show "length hs = 8 \<Longrightarrow> length (sha_block b hs) = 8" by (simp add: sha_block_def)
qed

lemma sha256_length: "length (sha256_Sum256 msg) = 32"
proof -
  have "length (sha_blocks n m hs) = 8" if "length hs = 8" for n m hs
    using that by (induction n arbitrary: m hs) (simp_all add: sha_block_length)
  moreover have "length sha_primes = 64" by (simp add: sha_primes_def)
  then have "length sha_init = 8" by (simp add: sha_init_def)
  ultimately have "length (sha_blocks n m sha_init) = 8" for n m by blast
  moreover have "length (concat (map be_bytes ws)) = 4 * length ws" for ws
    by (induction ws) (simp_all add: be_bytes_def)
  ultimately show ?thesis by (simp add: sha256_Sum256_def Let_def)
qed

end
