(* ===== verification/Discipline.thy ===== *)
theory Discipline
  imports Effects
begin

text \<open>
  The protocol that keeps concurrent requests, workers and reconcilers apart. While it runs, a
  program remembers the row its claim statement returned and the answer of the HTTP call it
  made for it (\<open>hold\<close>). \<open>safe\<close> says of a program, for every answer the outside world may
  give: rows are inserted pending and unattempted; a status is written only along an edge of
  the state machine, and out of processing into delivered or retrying only by the program
  that holds the row, with the row's own attempt count; a message is posted at most once per
  claim, with the claimed row's payload; delivered is written only after a 2xx answer, and
  retrying after a post only below the limit of five attempts.

  The predicate is a weakest precondition: it distributes over \<open>bind\<close>, so the use cases are
  checked method by method against the interfaces they call.
\<close>

type_synonym http_answer = "string + http_response"

datatype hold = Idle | Holding NotificationRow "http_answer option"

definition accepted :: "http_answer \<Rightarrow> bool" where
  "accepted a = (case a of Inl _ \<Rightarrow> False | Inr resp \<Rightarrow> 200 \<le> hr_code resp \<and> hr_code resp < 300)"

section \<open>What each call needs\<close>

definition wf_id :: "pgUUID \<Rightarrow> bool" where
  "wf_id i \<longleftrightarrow> (\<exists>u. i = Some u \<and> length u = 16)"

definition fresh_row :: "NotificationRow \<Rightarrow> bool" where
  "fresh_row r \<longleftrightarrow> wf_id (r_id r) \<and> r_status r = StatusPending \<and> r_attempts r = 0"

definition holds_row :: "hold \<Rightarrow> pgUUID \<Rightarrow> int32 \<Rightarrow> http_answer option \<Rightarrow> bool" where
  "holds_row h i a ans \<longleftrightarrow> (\<exists>r. h = Holding r ans \<and> r_id r = i \<and> r_attempts r = a)"

definition may_write :: "hold \<Rightarrow> UpdateNotificationStatusParams \<Rightarrow> bool" where
  "may_write h p \<longleftrightarrow>
     u_new_status p = StatusQueued \<and> u_expected_source p = StatusPending \<and> u_attempts p = 0 \<or>
     u_new_status p = StatusCancelled \<and>
       u_expected_source p \<in> {StatusPending, StatusQueued, StatusRetrying} \<or>
     u_new_status p = StatusFailed \<and> u_expected_source p = StatusProcessing \<or>
     u_new_status p = StatusRetrying \<and> u_expected_source p = StatusProcessing \<and>
       (\<exists>ans. holds_row h (u_id p) (u_attempts p) ans \<and> (ans = None \<or> sint (u_attempts p) < 5)) \<or>
     u_new_status p = StatusDelivered \<and> u_expected_source p = StatusProcessing \<and>
       (\<exists>ans. holds_row h (u_id p) (u_attempts p) (Some ans) \<and> accepted ans)"

fun may_exec :: "hold \<Rightarrow> exec_stmt \<Rightarrow> bool" where
  "may_exec h (Q_CreateNotification r) = fresh_row r"
| "may_exec h (Q_UpdateNotificationStatus p) = may_write h p"
| "may_exec h _ = True"

text \<open>A held row is let go by the status write, whatever its answer.\<close>

fun after_exec :: "hold \<Rightarrow> exec_stmt \<Rightarrow> hold" where
  "after_exec (Holding r ans) (Q_UpdateNotificationStatus p) =
     (if u_id p = r_id r then Idle else Holding r ans)"
| "after_exec h _ = h"

lemma after_exec_other: "(\<And>p. s \<noteq> Q_UpdateNotificationStatus p) \<Longrightarrow> after_exec h s = h"
  by (cases h; cases s) auto

definition may_tx :: "tx_item list \<Rightarrow> bool" where
  "may_tx items \<longleftrightarrow> list_all (\<lambda>it. case it of
       Inl _ \<Rightarrow> True
     | Inr (Q_CreateNotification r, _) \<Rightarrow> fresh_row r
     | Inr (Q_CreateBatch b, _) \<Rightarrow> True
     | Inr _ \<Rightarrow> False) items"

text \<open>What a program may rely on in the rows it reads.\<close>

definition row_ok :: "NotificationRow \<Rightarrow> bool" where
  "row_ok r \<longleftrightarrow> wf_id (r_id r) \<and> Status_IsValid (r_status r) \<and>
     (r_status r = StatusPending \<longrightarrow> r_attempts r = 0)"

fun after_query :: "hold \<Rightarrow> notification_query \<Rightarrow> gerror + NotificationRow list \<Rightarrow> hold" where
  "after_query h (Q_ClaimForProcessing i t) (Inr (r # _)) = Holding r None"
| "after_query h _ _ = h"

fun may_query :: "hold \<Rightarrow> notification_query \<Rightarrow> bool" where
  "may_query h (Q_ClaimForProcessing i t) = (h = Idle)"
| "may_query h _ = True"

definition answer_ok :: "notification_query \<Rightarrow> gerror + NotificationRow list \<Rightarrow> bool" where
  "answer_ok q a \<longleftrightarrow>
     (case a of Inl _ \<Rightarrow> True
      | Inr rows \<Rightarrow> list_all row_ok rows \<and>
          (case q of Q_ClaimForProcessing i t \<Rightarrow>
             length rows \<le> 1 \<and> list_all (\<lambda>r. r_id r = i \<and> r_status r = StatusProcessing) rows
           | _ \<Rightarrow> True))"

text \<open>Queries that only read.\<close>

fun is_claim :: "notification_query \<Rightarrow> bool" where
  "is_claim (Q_ClaimForProcessing i t) = True"
| "is_claim _ = False"

lemma read_query:
  assumes "\<not> is_claim q"
  shows "may_query h q" "after_query h q a = h"
    "answer_ok q (Inr rows) \<longleftrightarrow> list_all row_ok rows"
  using assms by (cases q; simp add: answer_ok_def)+

definition may_post :: "hold \<Rightarrow> http_request \<Rightarrow> bool" where
  "may_post h q \<longleftrightarrow> (\<exists>r. h = Holding r None \<and> hq_to q = r_recipient r \<and>
     hq_channel q = r_channel r \<and> hq_content q = r_content r)"

fun after_post :: "hold \<Rightarrow> http_answer \<Rightarrow> hold" where
  "after_post (Holding r _) a = Holding r (Some a)"
| "after_post Idle a = Idle"

section \<open>Safe programs\<close>

primrec safe :: "'r prog \<Rightarrow> hold \<Rightarrow> ('r \<Rightarrow> hold \<Rightarrow> bool) \<Rightarrow> bool" where
  "safe (Ret r) h Q = Q r h"
| "safe (Exec s k) h Q = (may_exec h s \<and> (\<forall>a. safe (k a) (after_exec h s) Q))"
| "safe (Tx items k) h Q = (may_tx items \<and> (\<forall>a. safe (k a) h Q))"
| "safe (QueryN q k) h Q =
     (may_query h q \<and> (\<forall>a. answer_ok q a \<longrightarrow> safe (k a) (after_query h q a) Q))"
| "safe (QueryB i k) h Q = (\<forall>a. safe (k a) h Q)"
| "safe (QueryT q k) h Q = (\<forall>a. safe (k a) h Q)"
| "safe (QueryL i k) h Q = (\<forall>a. safe (k a) h Q)"
| "safe (Clock_Now k) h Q = (\<forall>a. safe (k a) h Q)"
| "safe (New_ID i k) h Q = (\<forall>a. safe (k a) h Q)"
| "safe (Asynq_Enqueue t k) h Q = (\<forall>a. safe (k a) h Q)"
| "safe (Asynq_DeleteTask q t k) h Q = (\<forall>a. safe (k a) h Q)"
| "safe (Redis_RunScript b l w k) h Q = (\<forall>a. safe (k a) h Q)"
| "safe (Redis_Publish c n s k) h Q = (\<forall>a. safe (k a) h Q)"
| "safe (Redis_Get key k) h Q = (\<forall>a. safe (k a) h Q)"
| "safe (Redis_Set key v ttl k) h Q = (\<forall>a. safe (k a) h Q)"
| "safe (Http_Do q k) h Q = (may_post h q \<and> (\<forall>a. safe (k a) (after_post h a) Q))"
| "safe (Breaker_Before k) h Q = (\<forall>a. safe (k a) h Q)"
| "safe (Breaker_After g b k) h Q = safe k h Q"
| "safe (Emit e k) h Q = safe k h Q"

lemma safe_bind: "safe (bind p f) h Q \<longleftrightarrow> safe p h (\<lambda>r h'. safe (f r) h' Q)"
  by (induction p arbitrary: h) simp_all

lemma safe_mono:
  assumes "safe p h Q" and "\<And>r h'. Q r h' \<Longrightarrow> Q' r h'"
  shows "safe p h Q'"
  using assms(1) by (induction p arbitrary: h) (auto simp: assms(2))

text \<open>A program that leaves the hold alone.\<close>

definition neutral :: "'r prog \<Rightarrow> bool" where
  "neutral p \<longleftrightarrow> (\<forall>h. safe p h (\<lambda>_ h'. h' = h))"

lemma neutralD: "neutral p \<Longrightarrow> (\<And>r. Q r h) \<Longrightarrow> safe p h Q"
  by (rule safe_mono [of p h "\<lambda>_ h'. h' = h"]) (auto simp: neutral_def)

lemma neutral_Ret [simp]: "neutral (Ret r)"
  by (simp add: neutral_def)

lemma neutral_bind: "neutral p \<Longrightarrow> (\<And>r. neutral (f r)) \<Longrightarrow> neutral (bind p f)"
  unfolding neutral_def safe_bind by (metis (mono_tags, lifting) safe_mono)

lemma safe_on_err:
  "safe (on_err p fail k) h Q \<longleftrightarrow>
     safe p h (\<lambda>e h'. case e of Some err \<Rightarrow> Q (fail err) h' | None \<Rightarrow> safe k h' Q)"
  unfolding on_err_def safe_bind
  by (rule arg_cong [where f = "safe p h"]) (auto simp: fun_eq_iff split: option.split)

lemma safe_try_val:
  "safe (try_val p fail k) h Q \<longleftrightarrow>
     safe p h (\<lambda>r h'. case r of Inl err \<Rightarrow> Q (fail err) h' | Inr a \<Rightarrow> safe (k a) h' Q)"
  unfolding try_val_def safe_bind
  by (rule arg_cong [where f = "safe p h"]) (auto simp: fun_eq_iff split: sum.split)

lemma safe_check_err:
  "safe (check_err e fail k) h Q \<longleftrightarrow> (case e of Some err \<Rightarrow> Q (fail err) h | None \<Rightarrow> safe k h Q)"
  by (cases e) simp_all

lemma safe_check_val:
  "safe (check_val r fail k) h Q \<longleftrightarrow> (case r of Inl err \<Rightarrow> Q (fail err) h | Inr a \<Rightarrow> safe (k a) h Q)"
  by (cases r) simp_all

lemma safe_emit_if [simp]: "safe (emit_if m e k) h Q \<longleftrightarrow> safe k h Q"
  by (simp add: emit_if_def)

lemmas safe_rules = safe_bind safe_on_err safe_try_val safe_check_err safe_check_val

lemma neutral_on_err: "neutral p \<Longrightarrow> neutral k \<Longrightarrow> neutral (on_err p fail k)"
  unfolding on_err_def by (rule neutral_bind) (auto split: option.split)

lemma neutral_try_val: "neutral p \<Longrightarrow> (\<And>a. neutral (k a)) \<Longrightarrow> neutral (try_val p fail k)"
  unfolding try_val_def by (rule neutral_bind) (auto split: sum.split)

lemma neutral_check_val: "(\<And>a. neutral (k a)) \<Longrightarrow> neutral (check_val r fail k)"
  by (cases r) auto

lemma neutral_emit_if: "neutral k \<Longrightarrow> neutral (emit_if m e k)"
  by (simp add: neutral_def)

lemma neutral_calls:
  "(\<And>a. neutral (k1 a)) \<Longrightarrow> neutral (QueryB i k1)"
  "(\<And>a. neutral (k2 a)) \<Longrightarrow> neutral (QueryT q k2)"
  "(\<And>a. neutral (k3 a)) \<Longrightarrow> neutral (QueryL i k3)"
  "(\<And>a. neutral (k4 a)) \<Longrightarrow> may_tx items \<Longrightarrow> neutral (Tx items k4)"
  "(\<And>a. neutral (k5 a)) \<Longrightarrow> \<not> is_claim nq \<Longrightarrow> neutral (QueryN nq k5)"
  by (simp_all add: neutral_def read_query)

lemmas neutral_intros = neutral_Ret neutral_bind neutral_on_err neutral_try_val
  neutral_check_val neutral_emit_if neutral_calls

end
