(* ===== verification/Sql.thy ===== *)
theory Sql
  imports Effects
begin

text \<open>
  The meaning of the statements: the schema of \<open>db/migrations\<close> (primary keys, foreign keys,
  CHECK constraints, the partial unique index on idempotency keys) and the query catalogue
  \<open>internal/adapters/postgres/sqlc/queries\<close>. A table is the list of its rows in insertion
  order, rows that tie in an \<open>ORDER BY\<close> keep that order, and a statement runs atomically.
  Then the faults a statement may meet, and the environment that answers every
  other call and decides which statements fail, before or after they took effect.
\<close>

section \<open>The database\<close>

record db =
  t_notifications :: "NotificationRow list"
  t_batches :: "BatchRow list"
  t_templates :: "TemplateRow list"
  t_logs :: "NotificationLogRow list"

text \<open>What the driver and the server do to values: parsing of identifiers
  (\<open>pgtype.UUID.Scan\<close>), the resolution of \<open>timestamptz\<close> values, the collation of text, the
  JSON codec and the normalisation of \<open>jsonb\<close>, and the RFC 3339 format of times.\<close>

record pg_codec =
  uuid_Scan :: "string \<Rightarrow> gerror + uuid"
  ts_store :: "Time \<Rightarrow> Time"
  collation_key :: "string \<Rightarrow> 8 word list"
  json_Marshal :: "(string \<rightharpoonup> go_any) \<Rightarrow> gerror + string"
  json_Unmarshal :: "string \<Rightarrow> gerror + (string \<rightharpoonup> go_any) option"
  jsonb_store :: "string \<Rightarrow> string"
  format_RFC3339Nano :: "Time \<Rightarrow> string"
  parse_RFC3339Nano :: "string \<Rightarrow> gerror + Time"

definition sql_channels :: "string list" where
  [simp]: "sql_channels = [''sms'', ''email'', ''push'']"
definition sql_priorities :: "string list" where
  [simp]: "sql_priorities = [''low'', ''normal'', ''high'']"
definition sql_statuses :: "string list" where
  [simp]: "sql_statuses = [''pending'', ''queued'', ''processing'', ''delivered'', ''failed'',
     ''retrying'', ''cancelled'']"
definition sql_events :: "string list" where
  [simp]: "sql_events = [''created'', ''queued'', ''processing'', ''delivered'', ''retrying'',
     ''failed'', ''cancelled'']"

text \<open>A foreign key column is NULL or names a row of the referenced table.\<close>

definition fk_ok :: "pgUUID \<Rightarrow> pgUUID list \<Rightarrow> bool" where
  "fk_ok r ids \<longleftrightarrow> r = None \<or> r \<in> set ids"

definition store_row :: "pg_codec \<Rightarrow> NotificationRow \<Rightarrow> NotificationRow" where
  "store_row C r =
     r\<lparr>r_next_retry_at := map_option (ts_store C) (r_next_retry_at r),
       r_scheduled_at := map_option (ts_store C) (r_scheduled_at r),
       r_created_at := ts_store C (r_created_at r),
       r_updated_at := ts_store C (r_updated_at r)\<rparr>"

definition insert_ok :: "db \<Rightarrow> NotificationRow \<Rightarrow> bool" where
  "insert_ok d r \<longleftrightarrow>
     r_id r \<noteq> None \<and> r_id r \<notin> set (map r_id (t_notifications d)) \<and>
     fk_ok (r_batch_id r) (map br_id (t_batches d)) \<and>
     fk_ok (r_template_id r) (map tr_id (t_templates d)) \<and>
     r_channel r \<in> set sql_channels \<and> r_priority r \<in> set sql_priorities \<and>
     r_status r \<in> set sql_statuses \<and>
     (case r_idempotency_key r of
        None \<Rightarrow> True
      | Some key \<Rightarrow> key = [] \<or> Some key \<notin> set (map r_idempotency_key (t_notifications d)))"

text \<open>\<open>UPDATE ... WHERE\<close>: the rows the condition selects, rewritten in place.\<close>

definition update_where :: "('a \<Rightarrow> bool) \<Rightarrow> ('a \<Rightarrow> 'a) \<Rightarrow> 'a list \<Rightarrow> 'a list" where
  "update_where P f rows = map (\<lambda>r. if P r then f r else r) rows"

definition same_id :: "pgUUID \<Rightarrow> NotificationRow \<Rightarrow> bool" where
  "same_id i r \<longleftrightarrow> i \<noteq> None \<and> r_id r = i"

definition sql_violation :: "string \<Rightarrow> db \<Rightarrow> (gerror + 'a) \<times> db" where
  "sql_violation what d = (Inl (Opaque (''constraint violation: '' @ what)), d)"

definition sql_UpdateNotificationStatus ::
  "pg_codec \<Rightarrow> UpdateNotificationStatusParams \<Rightarrow> db \<Rightarrow> (gerror + int) \<times> db"
where
  "sql_UpdateNotificationStatus C p d =
     (let sel = (\<lambda>r. same_id (u_id p) r \<and> r_status r = u_expected_source p);
          hit = filter sel (t_notifications d) in
      if hit \<noteq> [] \<and> u_new_status p \<notin> set sql_statuses then sql_violation ''status'' d
      else (Inr (int (length hit)),
            d\<lparr>t_notifications := update_where sel
                (\<lambda>r. r\<lparr>r_status := u_new_status p, r_attempts := u_attempts p,
                       r_last_error := u_last_error p,
                       r_next_retry_at := map_option (ts_store C) (u_next_retry_at p),
                       r_updated_at := ts_store C (u_updated_at p)\<rparr>) (t_notifications d)\<rparr>))"

definition sql_CreateNotification ::
  "pg_codec \<Rightarrow> NotificationRow \<Rightarrow> db \<Rightarrow> (gerror + int) \<times> db"
where
  [simp]: "sql_CreateNotification C r d =
     (if insert_ok d r
      then (Inr 1, d\<lparr>t_notifications := t_notifications d @ [store_row C r]\<rparr>)
      else sql_violation ''notifications'' d)"

definition sql_CreateBatch ::
  "pg_codec \<Rightarrow> BatchRow \<Rightarrow> db \<Rightarrow> (gerror + int) \<times> db"
where
  [simp]: "sql_CreateBatch C b d =
     (if br_id b = None \<or> br_id b \<in> set (map br_id (t_batches d)) then sql_violation ''batches'' d
      else (Inr 1, d\<lparr>t_batches := t_batches d @ [b\<lparr>br_created_at := ts_store C (br_created_at b)\<rparr>]\<rparr>))"

definition sql_AppendNotificationLog ::
  "pg_codec \<Rightarrow> NotificationLogRow \<Rightarrow> db \<Rightarrow> (gerror + int) \<times> db"
where
  [simp]: "sql_AppendNotificationLog C l d =
     (if lr_id l = None \<or> lr_id l \<in> set (map lr_id (t_logs d)) \<or> lr_notification_id l = None \<or>
         lr_notification_id l \<notin> set (map r_id (t_notifications d)) \<or> lr_event l \<notin> set sql_events
      then sql_violation ''notification_logs'' d
      else (Inr 1, d\<lparr>t_logs := t_logs d @
        [l\<lparr>lr_created_at := ts_store C (lr_created_at l),
           lr_details := map_option (jsonb_store C) (lr_details l)\<rparr>]\<rparr>))"

definition sql_CreateTemplate ::
  "pg_codec \<Rightarrow> TemplateRow \<Rightarrow> db \<Rightarrow> (gerror + int) \<times> db"
where
  [simp]: "sql_CreateTemplate C t d =
     (if tr_id t = None \<or> tr_id t \<in> set (map tr_id (t_templates d)) \<or>
         tr_name t \<in> set (map tr_name (t_templates d)) \<or> tr_channel t \<notin> set sql_channels
      then sql_violation ''templates'' d
      else (Inr 1, d\<lparr>t_templates := t_templates d @
        [t\<lparr>tr_created_at := ts_store C (tr_created_at t),
           tr_updated_at := ts_store C (tr_updated_at t)\<rparr>]\<rparr>))"

definition sql_UpdateTemplate ::
  "pgUUID \<Rightarrow> string \<Rightarrow> string \<Rightarrow> string \<Rightarrow> db \<Rightarrow> (gerror + int) \<times> db"
where
  [simp]: "sql_UpdateTemplate i name channel body d =
     (let sel = (\<lambda>t. i \<noteq> None \<and> tr_id t = i); hit = filter sel (t_templates d) in
      if hit \<noteq> [] \<and> (channel \<notin> set sql_channels \<or>
           name \<in> set (map tr_name (filter (\<lambda>t. \<not> sel t) (t_templates d))))
      then sql_violation ''templates'' d
      else (Inr (int (length hit)), d\<lparr>t_templates := update_where sel
        (\<lambda>t. t\<lparr>tr_name := name, tr_channel := channel, tr_body := body\<rparr>) (t_templates d)\<rparr>))"

definition sql_DeleteTemplate ::
  "pgUUID \<Rightarrow> db \<Rightarrow> (gerror + int) \<times> db"
where
  [simp]: "sql_DeleteTemplate i d =
     (let sel = (\<lambda>t. i \<noteq> None \<and> tr_id t = i); hit = filter sel (t_templates d) in
      (Inr (int (length hit)),
       d\<lparr>t_templates := filter (\<lambda>t. \<not> sel t) (t_templates d),
         t_notifications := update_where (\<lambda>r. i \<noteq> None \<and> r_template_id r = i)
           (\<lambda>r. r\<lparr>r_template_id := None\<rparr>) (t_notifications d)\<rparr>))"

fun exec_sql :: "pg_codec \<Rightarrow> exec_stmt \<Rightarrow> db \<Rightarrow> (gerror + int) \<times> db" where
  "exec_sql C (Q_CreateNotification r) d = sql_CreateNotification C r d"
| "exec_sql C (Q_UpdateNotificationStatus p) d = sql_UpdateNotificationStatus C p d"
| "exec_sql C (Q_CreateBatch b) d = sql_CreateBatch C b d"
| "exec_sql C (Q_AppendNotificationLog l) d = sql_AppendNotificationLog C l d"
| "exec_sql C (Q_CreateTemplate t) d = sql_CreateTemplate C t d"
| "exec_sql C (Q_UpdateTemplate i name channel body) d = sql_UpdateTemplate i name channel body d"
| "exec_sql C (Q_DeleteTemplate i) d = sql_DeleteTemplate i d"

text \<open>A transaction: the items in order on a copy, committed only when none fails.\<close>

fun exec_tx :: "pg_codec \<Rightarrow> tx_item list \<Rightarrow> db \<Rightarrow> gerror + db" where
  "exec_tx C [] d = Inr d"
| "exec_tx C (Inl e # items) d = Inl e"
| "exec_tx C (Inr (s, fmt, args) # items) d =
     (case exec_sql C s d of
        (Inl e, _) \<Rightarrow> Inl (Errorf fmt args e)
      | (Inr _, d') \<Rightarrow> exec_tx C items d')"

definition run_tx :: "pg_codec \<Rightarrow> tx_item list \<Rightarrow> db \<Rightarrow> gerror option \<times> db" where
  "run_tx C items d = (case exec_tx C items d of Inl e \<Rightarrow> (Some e, d) | Inr d' \<Rightarrow> (None, d'))"

section \<open>Queries\<close>

text \<open>A NULL parameter skips its predicate; a comparison with a NULL column is not true.\<close>

definition narg :: "'a option \<Rightarrow> ('a \<Rightarrow> bool) \<Rightarrow> bool" where
  "narg a P = (case a of None \<Rightarrow> True | Some x \<Rightarrow> P x)"

definition row_uuid :: "NotificationRow \<Rightarrow> uuid" where
  "row_uuid r = (case r_id r of Some u \<Rightarrow> u | None \<Rightarrow> [])"

definition row_key :: "NotificationRow \<Rightarrow> Time \<times> uuid" where
  "row_key r = (r_created_at r, row_uuid r)"

definition list_selects :: "pg_codec \<Rightarrow> ListNotificationsParams \<Rightarrow> NotificationRow \<Rightarrow> bool" where
  "list_selects C p r \<longleftrightarrow>
     narg (q_status p) (\<lambda>s. r_status r = s) \<and>
     narg (q_channel p) (\<lambda>c. r_channel r = c) \<and>
     narg (q_batch_id p) (\<lambda>b. r_batch_id r = Some b) \<and>
     narg (q_created_after p) (\<lambda>t. r_created_at r \<ge> ts_store C t) \<and>
     narg (q_created_before p) (\<lambda>t. r_created_at r \<le> ts_store C t) \<and>
     narg (q_cursor_created_at p) (\<lambda>t. case q_cursor_id p of None \<Rightarrow> r_created_at r < ts_store C t
        | Some u \<Rightarrow> row_key r < (ts_store C t, u))"

definition limited :: "int32 \<Rightarrow> 'a list \<Rightarrow> gerror + 'a list" where
  "limited l rows =
     (if sint l < 0 then Inl (Opaque ''LIMIT must not be negative'')
      else Inr (take (nat (sint l)) rows))"

definition claimable :: "pgUUID \<Rightarrow> NotificationRow \<Rightarrow> bool" where
  "claimable i r \<longleftrightarrow> same_id i r \<and> r_status r \<in> {''queued'', ''retrying''}"

definition claim_row :: "pg_codec \<Rightarrow> Time \<Rightarrow> NotificationRow \<Rightarrow> NotificationRow" where
  "claim_row C t r =
     r\<lparr>r_status := ''processing'', r_updated_at := ts_store C t, r_attempts := r_attempts r + 1\<rparr>"

text \<open>The largest \<open>INTEGER\<close>: incrementing it raises an error in PostgreSQL.\<close>

definition int4_max :: int32 where "int4_max = word_of_int (2 ^ 31 - 1)"

definition sql_ClaimForProcessing ::
  "pg_codec \<Rightarrow> pgUUID \<Rightarrow> Time \<Rightarrow> db \<Rightarrow> (gerror + NotificationRow list) \<times> db"
where
  "sql_ClaimForProcessing C i t d =
     (let hit = filter (claimable i) (t_notifications d) in
      if \<exists>r \<in> set hit. r_attempts r = int4_max then (Inl (Opaque ''integer out of range''), d)
      else (Inr (map (claim_row C t) hit),
            d\<lparr>t_notifications := update_where (claimable i) (claim_row C t) (t_notifications d)\<rparr>))"

definition sql_GetNotification ::
  "pgUUID \<Rightarrow> db \<Rightarrow> gerror + NotificationRow list"
where
  [simp]: "sql_GetNotification i d =
     Inr (filter (same_id i) (t_notifications d))"

definition sql_ListNotificationsByBatch ::
  "pgUUID \<Rightarrow> db \<Rightarrow> gerror + NotificationRow list"
where
  [simp]: "sql_ListNotificationsByBatch i d =
     Inr (sort_key r_created_at
        (filter (\<lambda>r. i \<noteq> None \<and> r_batch_id r = i) (t_notifications d)))"

definition sql_ListNotifications ::
  "pg_codec \<Rightarrow> ListNotificationsParams \<Rightarrow> db \<Rightarrow> gerror + NotificationRow list"
where
  [simp]: "sql_ListNotifications C p d =
     limited (q_row_limit p) (rev (sort_key row_key (filter (list_selects C p) (t_notifications d))))"

definition sql_FindOrphanedPending ::
  "pg_codec \<Rightarrow> Time \<Rightarrow> int32 \<Rightarrow> db \<Rightarrow> gerror + NotificationRow list"
where
  [simp]: "sql_FindOrphanedPending C olderThan l d =
     limited l (sort_key r_created_at
        (filter (\<lambda>r. r_status r = ''pending'' \<and> r_created_at r < ts_store C olderThan) (t_notifications d)))"

definition sql_FindStuckProcessing ::
  "pg_codec \<Rightarrow> Time \<Rightarrow> int32 \<Rightarrow> db \<Rightarrow> gerror + NotificationRow list"
where
  [simp]: "sql_FindStuckProcessing C olderThan l d =
     limited l (sort_key r_updated_at
        (filter (\<lambda>r. r_status r = ''processing'' \<and> r_updated_at r < ts_store C olderThan) (t_notifications d)))"

definition sql_FindOverdueRetrying ::
  "pg_codec \<Rightarrow> Time \<Rightarrow> int32 \<Rightarrow> db \<Rightarrow> gerror + NotificationRow list"
where
  [simp]: "sql_FindOverdueRetrying C beforeAt l d =
     limited l (sort_key (\<lambda>r. the (r_next_retry_at r))
        (filter (\<lambda>r. r_status r = ''retrying'' \<and>
           (case r_next_retry_at r of None \<Rightarrow> False | Some t \<Rightarrow> t < ts_store C beforeAt)) (t_notifications d)))"

definition sql_FindStuckQueued ::
  "pg_codec \<Rightarrow> Time \<Rightarrow> int32 \<Rightarrow> db \<Rightarrow> gerror + NotificationRow list"
where
  [simp]: "sql_FindStuckQueued C olderThan l d =
     limited l (sort_key r_updated_at
        (filter (\<lambda>r. r_status r = ''queued'' \<and> r_updated_at r < ts_store C olderThan \<and>
           (case r_scheduled_at r of None \<Rightarrow> True | Some t \<Rightarrow> t < ts_store C olderThan)) (t_notifications d)))"

fun query_sql ::
  "pg_codec \<Rightarrow> notification_query \<Rightarrow> db \<Rightarrow> (gerror + NotificationRow list) \<times> db"
where
  "query_sql C (Q_GetNotification i) d = (sql_GetNotification i d, d)"
| "query_sql C (Q_ClaimForProcessing i t) d = sql_ClaimForProcessing C i t d"
| "query_sql C (Q_ListNotificationsByBatch i) d = (sql_ListNotificationsByBatch i d, d)"
| "query_sql C (Q_ListNotifications p) d = (sql_ListNotifications C p d, d)"
| "query_sql C (Q_FindOrphanedPending olderThan l) d = (sql_FindOrphanedPending C olderThan l d, d)"
| "query_sql C (Q_FindStuckProcessing olderThan l) d = (sql_FindStuckProcessing C olderThan l d, d)"
| "query_sql C (Q_FindOverdueRetrying beforeAt l) d = (sql_FindOverdueRetrying C beforeAt l d, d)"
| "query_sql C (Q_FindStuckQueued olderThan l) d = (sql_FindStuckQueued C olderThan l d, d)"

definition sql_GetBatch :: "pgUUID \<Rightarrow> db \<Rightarrow> gerror + BatchRow list" where
  [simp]: "sql_GetBatch i d = Inr (filter (\<lambda>b. i \<noteq> None \<and> br_id b = i) (t_batches d))"

definition sql_GetTemplate :: "pgUUID \<Rightarrow> db \<Rightarrow> gerror + TemplateRow list" where
  [simp]: "sql_GetTemplate i d = Inr (filter (\<lambda>t. i \<noteq> None \<and> tr_id t = i) (t_templates d))"

definition sql_GetTemplateByName :: "string \<Rightarrow> db \<Rightarrow> gerror + TemplateRow list" where
  [simp]: "sql_GetTemplateByName name d = Inr (filter (\<lambda>t. tr_name t = name) (t_templates d))"

definition sql_ListTemplates :: "pg_codec \<Rightarrow> int32 \<Rightarrow> db \<Rightarrow> gerror + TemplateRow list" where
  [simp]: "sql_ListTemplates C l d =
     limited l (sort_key (\<lambda>t. collation_key C (tr_name t)) (t_templates d))"

fun template_sql :: "pg_codec \<Rightarrow> template_query \<Rightarrow> db \<Rightarrow> gerror + TemplateRow list" where
  "template_sql C (Q_GetTemplate i) d = sql_GetTemplate i d"
| "template_sql C (Q_GetTemplateByName name) d = sql_GetTemplateByName name d"
| "template_sql C (Q_ListTemplates l) d = sql_ListTemplates C l d"

definition sql_ListNotificationLogs :: "pgUUID \<Rightarrow> db \<Rightarrow> gerror + NotificationLogRow list" where
  [simp]: "sql_ListNotificationLogs i d =
     Inr (sort_key lr_created_at (filter (\<lambda>l. i \<noteq> None \<and> lr_notification_id l = i) (t_logs d)))"

section \<open>Running a program\<close>

text \<open>A statement succeeds, fails without effect, or takes effect while its caller sees an
  error (the acknowledgement is lost).\<close>

datatype fault = NoFault | FailBefore gerror | FailAfter gerror

definition faulty :: "fault \<Rightarrow> (db \<Rightarrow> (gerror + 'a) \<times> db) \<Rightarrow> db \<Rightarrow> (gerror + 'a) \<times> db" where
  "faulty f stmt d =
     (case f of NoFault \<Rightarrow> stmt d
      | FailBefore e \<Rightarrow> (Inl e, d)
      | FailAfter e \<Rightarrow> (Inl e, snd (stmt d)))"

definition faulty_tx :: "fault \<Rightarrow> (db \<Rightarrow> gerror option \<times> db) \<Rightarrow> db \<Rightarrow> gerror option \<times> db" where
  "faulty_tx f stmt d =
     (case f of NoFault \<Rightarrow> stmt d
      | FailBefore e \<Rightarrow> (Some e, d)
      | FailAfter e \<Rightarrow> (Some e, snd (stmt d)))"

text \<open>Everything outside the process and the database, over a state of its own.\<close>

record 'x env =
  e_fault :: "'x \<Rightarrow> fault \<times> 'x"
  e_now :: "'x \<Rightarrow> Time \<times> 'x"
  e_id :: "id_kind \<Rightarrow> 'x \<Rightarrow> string \<times> 'x"
  e_enqueue :: "asynq_task \<Rightarrow> 'x \<Rightarrow> gerror option \<times> 'x"
  e_delete_task :: "string \<Rightarrow> string \<Rightarrow> 'x \<Rightarrow> gerror option \<times> 'x"
  e_script :: "string \<Rightarrow> int \<Rightarrow> int \<Rightarrow> 'x \<Rightarrow> (gerror + (int \<times> int) option) \<times> 'x"
  e_publish :: "string \<Rightarrow> string \<Rightarrow> string \<Rightarrow> 'x \<Rightarrow> gerror option \<times> 'x"
  e_get :: "string \<Rightarrow> 'x \<Rightarrow> (gerror + string option) \<times> 'x"
  e_set :: "string \<Rightarrow> string \<Rightarrow> Duration \<Rightarrow> 'x \<Rightarrow> gerror option \<times> 'x"
  e_http :: "http_request \<Rightarrow> 'x \<Rightarrow> (string + http_response) \<times> 'x"
  e_before :: "'x \<Rightarrow> (gerror + nat) \<times> 'x"
  e_after :: "nat \<Rightarrow> bool \<Rightarrow> 'x \<Rightarrow> 'x"
  e_emit :: "observation \<Rightarrow> 'x \<Rightarrow> 'x"

end
