(* ===== verification/Protocol.thy ===== *)
theory Protocol
  imports Discipline Sql
begin

text \<open>
  The protocol of \<open>Discipline\<close> on an abstract store: a finite map from row identifiers to
  cells (status, attempt count, payload), the holds of the running programs, and the posts made so
  far. The invariant below is kept by everything a safe program can do to this state; \<open>System\<close>
  shows that the concrete tables behave like it.
\<close>

section \<open>State\<close>

record cell =
  c_status :: string
  c_attempts :: int32
  c_payload :: "string \<times> string \<times> string"

type_synonym cells = "pgUUID \<rightharpoonup> cell"

definition payload :: "NotificationRow \<Rightarrow> string \<times> string \<times> string" where
  "payload r = (r_channel r, r_recipient r, r_content r)"

definition cell_of :: "NotificationRow \<Rightarrow> cell" where
  "cell_of r = \<lparr>c_status = r_status r, c_attempts = r_attempts r, c_payload = payload r\<rparr>"

text \<open>One HTTP post: the row and attempt it was made for, the request and its answer.\<close>

record post =
  p_id :: pgUUID
  p_attempt :: int32
  p_request :: http_request
  p_answer :: http_answer

definition post_key :: "post \<Rightarrow> pgUUID \<times> int32" where
  "post_key p = (p_id p, p_attempt p)"

definition request_payload :: "http_request \<Rightarrow> string \<times> string \<times> string" where
  "request_payload q = (hq_channel q, hq_to q, hq_content q)"

section \<open>The invariant\<close>

definition cell_ok :: "pgUUID \<Rightarrow> cell \<Rightarrow> bool" where
  "cell_ok i c \<longleftrightarrow> wf_id i \<and> Status_IsValid (c_status c) \<and>
     (c_status c = StatusPending \<longrightarrow> c_attempts c = 0) \<and>
     (\<not> Status_IsTerminal (c_status c) \<longrightarrow> unat (c_attempts c) < 2 ^ 31)"

definition posted :: "post list \<Rightarrow> pgUUID \<Rightarrow> int32 \<Rightarrow> http_answer \<Rightarrow> bool" where
  "posted ps i a ans \<longleftrightarrow> (\<exists>p \<in> set ps. post_key p = (i, a) \<and> p_answer p = ans)"

text \<open>The attempts of a row at or above the limit for which a post was made, and the statuses
  such a row can be in: it is never retried again.\<close>

definition late :: "post list \<Rightarrow> pgUUID \<Rightarrow> post set" where
  "late ps i = {p \<in> set ps. p_id p = i \<and> 5 \<le> unat (p_attempt p)}"

definition no_late :: "post list \<Rightarrow> pgUUID \<Rightarrow> bool" where
  "no_late ps i \<longleftrightarrow> late ps i = {}"

definition final_attempt_status :: "string \<Rightarrow> bool" where
  "final_attempt_status st \<longleftrightarrow> st \<in> {StatusProcessing, StatusDelivered, StatusFailed}"

text \<open>A held row is still being processed by its holder, or a reconciler has failed it; the
  holder has posted exactly when it remembers an answer.\<close>

definition hold_ok :: "cells \<Rightarrow> post list \<Rightarrow> hold \<Rightarrow> bool" where
  "hold_ok M ps h \<longleftrightarrow> (case h of Idle \<Rightarrow> True | Holding r ans \<Rightarrow>
     (\<exists>c. M (r_id r) = Some c \<and> c_payload c = payload r \<and>
        (c_status c = StatusProcessing \<and> c_attempts c = r_attempts r \<or> c_status c = StatusFailed)) \<and>
     0 < unat (r_attempts r) \<and>
     (case ans of None \<Rightarrow> (r_id r, r_attempts r) \<notin> post_key ` set ps \<and> no_late ps (r_id r)
      | Some a \<Rightarrow> posted ps (r_id r) (r_attempts r) a))"

definition held :: "hold \<Rightarrow> pgUUID option" where
  "held h = (case h of Idle \<Rightarrow> None | Holding r _ \<Rightarrow> Some (r_id r))"

definition exclusive :: "hold list \<Rightarrow> bool" where
  "exclusive hs \<longleftrightarrow> (\<forall>j < length hs. \<forall>k < length hs.
     held (hs ! j) \<noteq> None \<longrightarrow> held (hs ! j) = held (hs ! k) \<longrightarrow> j = k)"

definition post_ok :: "cells \<Rightarrow> post \<Rightarrow> bool" where
  "post_ok M p \<longleftrightarrow> (\<exists>c. M (p_id p) = Some c \<and> c_payload c = request_payload (p_request p) \<and>
     (Status_IsTerminal (c_status c) \<or> unat (p_attempt p) \<le> unat (c_attempts c)) \<and>
     0 < unat (p_attempt p) \<and> (5 \<le> unat (p_attempt p) \<longrightarrow> final_attempt_status (c_status c)))"

definition delivered_ok :: "cells \<Rightarrow> post list \<Rightarrow> bool" where
  "delivered_ok M ps \<longleftrightarrow> (\<forall>i c. M i = Some c \<longrightarrow> c_status c = StatusDelivered \<longrightarrow>
     (\<exists>a ans. posted ps i a ans \<and> accepted ans))"

definition protocol_inv :: "cells \<Rightarrow> hold list \<Rightarrow> post list \<Rightarrow> bool" where
  "protocol_inv M hs ps \<longleftrightarrow>
     (\<forall>i c. M i = Some c \<longrightarrow> cell_ok i c) \<and> (\<forall>h \<in> set hs. hold_ok M ps h) \<and> exclusive hs \<and>
     distinct (map post_key ps) \<and> (\<forall>p \<in> set ps. post_ok M p) \<and> delivered_ok M ps \<and>
     (\<forall>i. card (late ps i) \<le> 1)"

section \<open>What happens to the store\<close>

definition write_cell :: "UpdateNotificationStatusParams \<Rightarrow> cell \<Rightarrow> cell" where
  "write_cell p c = (if c_status c = u_expected_source p
     then c\<lparr>c_status := u_new_status p, c_attempts := u_attempts p\<rparr> else c)"

definition write_cells :: "UpdateNotificationStatusParams \<Rightarrow> cells \<Rightarrow> cells" where
  "write_cells p M = M(u_id p := map_option (write_cell p) (M (u_id p)))"

definition claim_cell :: "cell \<Rightarrow> cell" where
  "claim_cell c = c\<lparr>c_status := StatusProcessing, c_attempts := c_attempts c + 1\<rparr>"

definition claimable_cell :: "cell \<Rightarrow> bool" where
  "claimable_cell c \<longleftrightarrow> c_status c \<in> {StatusQueued, StatusRetrying} \<and> c_attempts c \<noteq> int4_max"

definition fresh_cell :: "cell \<Rightarrow> bool" where
  "fresh_cell c \<longleftrightarrow> c_status c = StatusPending \<and> c_attempts c = 0"

text \<open>The moves of a cell: along the state machine, payload kept.\<close>

definition cell_step :: "cell \<Rightarrow> cell \<Rightarrow> bool" where
  "cell_step c c' \<longleftrightarrow> c' = c \<or> CanTransitionTo (c_status c) (c_status c') \<and> c_payload c' = c_payload c"

lemma cell_step_refl [simp]: "cell_step c c"
  by (simp add: cell_step_def)

lemma write_cell_step: "may_write h p \<Longrightarrow> cell_step c (write_cell p c)"
  by (auto simp: write_cell_def cell_step_def may_write_def CanTransitionTo_iff)

lemma claim_cell_step: "claimable_cell c \<Longrightarrow> cell_step c (claim_cell c)"
  by (auto simp: claim_cell_def cell_step_def claimable_cell_def CanTransitionTo_iff)

lemma claim_attempts:
  assumes "cell_ok i c" and "claimable_cell c"
  shows "unat (c_attempts c + 1) = unat (c_attempts c) + 1" and "unat (c_attempts c) + 1 < 2 ^ 31"
proof -
  have "\<not> Status_IsTerminal (c_status c)"
    using assms(2) by (auto simp: claimable_cell_def Status_IsTerminal_def)
  with assms(1) have less: "unat (c_attempts c) < 2 ^ 31" by (simp add: cell_ok_def)
  moreover have "unat (c_attempts c) \<noteq> 2 ^ 31 - 1"
  proof
    assume "unat (c_attempts c) = 2 ^ 31 - 1"
    moreover have "c_attempts c = word_of_nat (unat (c_attempts c))" by simp
    ultimately have "c_attempts c = int4_max" by (simp add: int4_max_def)
    with assms(2) show False by (simp add: claimable_cell_def)
  qed
  ultimately show lt: "unat (c_attempts c) + 1 < 2 ^ 31" by linarith
  then show "unat (c_attempts c + 1) = unat (c_attempts c) + 1"
    by (simp add: unat_word_ariths)
qed

section \<open>Preservation\<close>

lemma protocol_initial: "protocol_inv Map.empty [] []"
  by (simp add: protocol_inv_def exclusive_def delivered_ok_def late_def)

text \<open>Cells that move along the state machine keep what is known of posts and of other holds.\<close>

lemma hold_ok_mono:
  assumes "hold_ok M ps h"
    and "\<And>i c. M i = Some c \<Longrightarrow> (\<forall>r a. h = Holding r a \<longrightarrow> i \<noteq> r_id r) \<or>
      (\<exists>c'. M' i = Some c' \<and> (c' = c \<or> c_status c' = StatusFailed) \<and> c_payload c' = c_payload c)"
  shows "hold_ok M' ps h"
proof (cases h)
  case (Holding r ans)
  with assms(1) obtain c where c: "M (r_id r) = Some c" "c_payload c = payload r"
    "c_status c = StatusProcessing \<and> c_attempts c = r_attempts r \<or> c_status c = StatusFailed"
    by (auto simp: hold_ok_def)
  from assms(2) [OF c(1)] Holding obtain c' where
    "M' (r_id r) = Some c'" "c' = c \<or> c_status c' = StatusFailed" "c_payload c' = c_payload c" by auto
  with c assms(1) Holding show ?thesis by (auto simp: hold_ok_def)
qed (simp add: hold_ok_def)

lemma post_ok_mono:
  assumes "post_ok M p"
    and "\<And>c. M (p_id p) = Some c \<Longrightarrow> \<exists>c'. M' (p_id p) = Some c' \<and> c_payload c' = c_payload c \<and>
      (Status_IsTerminal (c_status c') \<or>
       \<not> Status_IsTerminal (c_status c) \<and> unat (c_attempts c) \<le> unat (c_attempts c')) \<and>
      (5 \<le> unat (p_attempt p) \<longrightarrow> final_attempt_status (c_status c) \<longrightarrow> final_attempt_status (c_status c'))"
  shows "post_ok M' p"
proof -
  from assms(1) obtain c where c: "M (p_id p) = Some c" "c_payload c = request_payload (p_request p)"
    "Status_IsTerminal (c_status c) \<or> unat (p_attempt p) \<le> unat (c_attempts c)"
    "0 < unat (p_attempt p)" "5 \<le> unat (p_attempt p) \<Longrightarrow> final_attempt_status (c_status c)"
    by (auto simp: post_ok_def)
  from assms(2) [OF c(1)] obtain c' where "M' (p_id p) = Some c'" "c_payload c' = c_payload c"
    "Status_IsTerminal (c_status c') \<or>
       \<not> Status_IsTerminal (c_status c) \<and> unat (c_attempts c) \<le> unat (c_attempts c')"
    "5 \<le> unat (p_attempt p) \<Longrightarrow> final_attempt_status (c_status c) \<Longrightarrow> final_attempt_status (c_status c')"
    by blast
  with c show ?thesis by (auto simp: post_ok_def)
qed

lemma exclusive_update:
  "exclusive hs \<Longrightarrow> held h = None \<or> held h = held (hs ! k) \<or> (\<forall>x \<in> set hs. held x \<noteq> held h) \<Longrightarrow>
   exclusive (hs[k := h])"
  unfolding exclusive_def
proof (intro allI impI)
  fix i j
  assume ex: "\<forall>j < length hs. \<forall>k < length hs. held (hs ! j) \<noteq> None \<longrightarrow> held (hs ! j) = held (hs ! k) \<longrightarrow> j = k"
    and new: "held h = None \<or> held h = held (hs ! k) \<or> (\<forall>x \<in> set hs. held x \<noteq> held h)"
    and ij: "i < length (hs[k := h])" "j < length (hs[k := h])"
      "held (hs[k := h] ! i) \<noteq> None" "held (hs[k := h] ! i) = held (hs[k := h] ! j)"
  have other: "held h \<noteq> held (hs ! x)" if "x < length hs" "x \<noteq> k" "k < length hs" "held (hs ! x) \<noteq> None" for x
    using new that ex nth_mem [of x hs] by metis
  show "i = j"
    using ij ex other [of i] other [of j] by (cases "i = k"; cases "j = k") auto
qed

lemma exclusive_remove: "exclusive hs \<Longrightarrow> exclusive (take k hs @ drop (Suc k) hs)"
  unfolding exclusive_def
proof (intro allI impI)
  fix i j
  let ?hs = "take k hs @ drop (Suc k) hs" and ?f = "\<lambda>i. if i < k then i else Suc i"
  assume ex: "\<forall>j < length hs. \<forall>k < length hs. held (hs ! j) \<noteq> None \<longrightarrow> held (hs ! j) = held (hs ! k) \<longrightarrow> j = k"
    and ij: "i < length ?hs" "j < length ?hs" "held (?hs ! i) \<noteq> None" "held (?hs ! i) = held (?hs ! j)"
  have at: "?hs ! i = hs ! ?f i \<and> ?f i < length hs" if "i < length ?hs" for i
    using that by (auto simp: nth_append min_def split: if_splits)
  from at [OF ij(1)] at [OF ij(2)] ij(3,4) ex have "?f i = ?f j" by metis
  then show "i = j" by (auto split: if_splits)
qed

lemma protocol_invD:
  assumes "protocol_inv M hs ps"
  shows "M i = Some c \<Longrightarrow> cell_ok i c" and "h \<in> set hs \<Longrightarrow> hold_ok M ps h" and "exclusive hs"
    and "distinct (map post_key ps)" and "p \<in> set ps \<Longrightarrow> post_ok M p" and "delivered_ok M ps"
    and "card (late ps i) \<le> 1"
  using assms by (auto simp: protocol_inv_def)

lemma hold_okD: "hold_ok M ps (Holding r ans) \<Longrightarrow> \<exists>c. M (r_id r) = Some c \<and> c_payload c = payload r \<and>
    (c_status c = StatusProcessing \<and> c_attempts c = r_attempts r \<or> c_status c = StatusFailed)"
  by (simp add: hold_ok_def)

lemma post_okD: "post_ok M p \<Longrightarrow> \<exists>c. M (p_id p) = Some c"
  by (auto simp: post_ok_def)

lemma inv_replace:
  assumes "protocol_inv M hs ps" and "hold_ok M ps h"
    and "held h = None \<or> held h = held (hs ! k) \<or> (\<forall>x \<in> set hs. held x \<noteq> held h)"
  shows "protocol_inv M (hs[k := h]) ps"
  using assms set_update_subset_insert [of hs k h]
  by (auto simp: protocol_inv_def intro: exclusive_update)

lemma inv_release: "protocol_inv M hs ps \<Longrightarrow> k < length hs \<Longrightarrow> protocol_inv M (hs[k := after_exec (hs ! k) s]) ps"
  by (rule inv_replace)
    (cases "hs ! k"; cases s; auto simp: protocol_inv_def hold_ok_def held_def dest!: nth_mem)+

lemma inv_spawn: "protocol_inv M hs ps \<Longrightarrow> protocol_inv M (hs @ [Idle]) ps"
  by (auto simp: protocol_inv_def hold_ok_def exclusive_def nth_append held_def less_Suc_eq)

lemma inv_crash: "protocol_inv M hs ps \<Longrightarrow> protocol_inv M (take k hs @ drop (Suc k) hs) ps"
  by (auto simp: protocol_inv_def exclusive_remove dest: in_set_takeD in_set_dropD)

text \<open>Inserting fresh cells.\<close>

definition grows :: "cells \<Rightarrow> cells \<Rightarrow> bool" where
  "grows M M' \<longleftrightarrow> (\<forall>i c. M i = Some c \<longrightarrow> M' i = Some c) \<and>
     (\<forall>i c. M i = None \<longrightarrow> M' i = Some c \<longrightarrow> wf_id i \<and> fresh_cell c)"

lemma grows_refl [simp]: "grows M M"
  by (simp add: grows_def)

lemma grows_trans:
  assumes "grows M M'" "grows M' M''"
  shows "grows M M''"
  unfolding grows_def
proof (intro conjI allI impI)
  fix i c assume "M i = None" and c: "M'' i = Some c"
  with assms show "wf_id i" "fresh_cell c" by (cases "M' i"; auto simp: grows_def)+
qed (use assms in \<open>auto simp: grows_def\<close>)

lemma inv_grows:
  assumes inv: "protocol_inv M hs ps" and new: "grows M M'"
  shows "protocol_inv M' hs ps"
proof -
  have "hold_ok M' ps h" if "h \<in> set hs" for h
    by (rule hold_ok_mono [OF protocol_invD(2) [OF inv that]]) (use new in \<open>auto simp: grows_def\<close>)
  moreover have "post_ok M' p" if "p \<in> set ps" for p
    by (rule post_ok_mono [OF protocol_invD(5) [OF inv that]]) (use new in \<open>auto simp: grows_def\<close>)
  moreover have "cell_ok i c \<and> (c_status c = StatusDelivered \<longrightarrow> M i = Some c)" if "M' i = Some c" for i c
  proof (cases "M i")
    case None
    with new that have "wf_id i" "fresh_cell c" by (auto simp: grows_def)
    then show ?thesis by (auto simp: cell_ok_def fresh_cell_def Status_IsValid_def)
  next
    case (Some d)
    with new that have "d = c" by (auto simp: grows_def)
    with Some protocol_invD(1) [OF inv] show ?thesis by auto
  qed
  ultimately show ?thesis using inv by (auto simp: protocol_inv_def delivered_ok_def)
qed

text \<open>The effect of one step on the cells, as the outside sees it.\<close>

definition evolves :: "cells \<Rightarrow> cells \<Rightarrow> bool" where
  "evolves M M' \<longleftrightarrow> (\<forall>i c. M i = Some c \<longrightarrow> (\<exists>c'. M' i = Some c' \<and> cell_step c c')) \<and>
     (\<forall>i c. M i = None \<longrightarrow> M' i = Some c \<longrightarrow> fresh_cell c)"

lemma grows_evolves: "grows M M' \<Longrightarrow> evolves M M'"
  by (auto simp: grows_def evolves_def cell_step_def)

lemma write_evolves: "may_write h p \<Longrightarrow> evolves M (write_cells p M)"
  by (auto simp: evolves_def write_cells_def write_cell_step split: if_splits)

lemma claim_evolves: "M i = Some c \<Longrightarrow> claimable_cell c \<Longrightarrow> evolves M (M(i \<mapsto> claim_cell c))"
  by (auto simp: evolves_def claim_cell_step split: if_splits)

text \<open>Changing one cell: the general form the write and the claim share.\<close>

lemma inv_change:
  assumes inv: "protocol_inv M hs ps" and c: "M i = Some c"
    and ok: "cell_ok i c'" and pay: "c_payload c' = c_payload c"
    and keep: "Status_IsTerminal (c_status c') \<or>
      \<not> Status_IsTerminal (c_status c) \<and> unat (c_attempts c) \<le> unat (c_attempts c')"
    and holds: "c_status c' = StatusFailed \<or> Some i \<notin> held ` set hs"
    and late: "final_attempt_status (c_status c) \<Longrightarrow> final_attempt_status (c_status c') \<or> no_late ps i"
    and deliv: "c_status c' = StatusDelivered \<Longrightarrow> \<exists>a ans. posted ps i a ans \<and> accepted ans"
  shows "protocol_inv (M(i \<mapsto> c')) hs ps"
proof -
  have "hold_ok (M(i \<mapsto> c')) ps h" if h: "h \<in> set hs" for h
  proof (rule hold_ok_mono [OF protocol_invD(2) [OF inv h]])
    have "c_status c' = StatusFailed \<or> held h \<noteq> Some i"
      using holds imageI [OF h, of held] by auto
    then show "(\<forall>r a. h = Holding r a \<longrightarrow> j \<noteq> r_id r) \<or> (\<exists>d'. (M(i \<mapsto> c')) j = Some d' \<and>
        (d' = d \<or> c_status d' = StatusFailed) \<and> c_payload d' = c_payload d)"
      if "M j = Some d" for j d
      using that c pay by (auto simp: held_def)
  qed
  moreover have "post_ok (M(i \<mapsto> c')) p" if "p \<in> set ps" for p
    by (rule post_ok_mono [OF protocol_invD(5) [OF inv that]])
      (use c pay keep late that in \<open>auto simp: no_late_def late_def\<close>)
  ultimately show ?thesis
    using inv ok deliv by (auto simp: protocol_inv_def delivered_ok_def)
qed

lemma inv_claim:
  assumes inv: "protocol_inv M hs ps" and c: "M i = Some c" "claimable_cell c"
  shows "protocol_inv (M(i \<mapsto> claim_cell c)) hs ps"
proof (rule inv_change [OF inv c(1)])
  have ok: "cell_ok i c" using inv c(1) by (rule protocol_invD)
  note att = claim_attempts [OF ok c(2)]
  show "cell_ok i (claim_cell c)"
    using ok att by (simp add: cell_ok_def claim_cell_def Status_IsValid_def)
  show "Status_IsTerminal (c_status (claim_cell c)) \<or>
      \<not> Status_IsTerminal (c_status c) \<and> unat (c_attempts c) \<le> unat (c_attempts (claim_cell c))"
    using att c(2) by (auto simp: claim_cell_def claimable_cell_def Status_IsTerminal_def)
  have "held h \<noteq> Some i" if "h \<in> set hs" for h
    using hold_okD [of M ps] protocol_invD(2) [OF inv that] c
    by (cases h) (force simp: held_def claimable_cell_def)+
  then show "c_status (claim_cell c) = StatusFailed \<or> Some i \<notin> held ` set hs" by force
qed (simp_all add: claim_cell_def final_attempt_status_def)

text \<open>A successful claim takes the row: nobody held it, and no post was made for the new
  attempt.\<close>

lemma inv_claim_hold:
  assumes inv: "protocol_inv M hs ps" and c: "M i = Some c" "claimable_cell c"
    and r: "r_id r = i" "r_attempts r = c_attempts c + 1" "payload r = c_payload c"
  shows "protocol_inv (M(i \<mapsto> claim_cell c)) (hs[k := Holding r None]) ps"
proof (rule inv_replace [OF inv_claim [OF inv c]])
  have ok: "cell_ok i c" using inv c(1) by (rule protocol_invD)
  note att = claim_attempts [OF ok c(2)]
  have "unat (p_attempt p) \<le> unat (c_attempts c)" if "p \<in> set ps" "p_id p = i" for p
    using protocol_invD(5) [OF inv that(1)] that(2) c
    by (auto simp: post_ok_def claimable_cell_def Status_IsTerminal_def)
  with att have "(i, c_attempts c + 1) \<notin> post_key ` set ps" by (force simp: post_key_def)
  moreover have "no_late ps i"
    using protocol_invD(5) [OF inv] c
    by (force simp: no_late_def late_def post_ok_def claimable_cell_def final_attempt_status_def)
  ultimately show "hold_ok (M(i \<mapsto> claim_cell c)) ps (Holding r None)"
    using r att by (simp add: hold_ok_def claim_cell_def)
  have "held x \<noteq> Some i" if "x \<in> set hs" for x
    using hold_okD [of M ps] protocol_invD(2) [OF inv that] c
    by (cases x) (force simp: held_def claimable_cell_def)+
  then show "held (Holding r None) = None \<or> held (Holding r None) = held (hs ! k) \<or>
      (\<forall>x \<in> set hs. held x \<noteq> held (Holding r None))"
    using r by (simp add: held_def)
qed

lemma delivered_ok_append: "delivered_ok M ps \<Longrightarrow> delivered_ok M (ps @ qs)"
  unfolding delivered_ok_def posted_def by (metis Un_iff set_append)

lemma inv_post:
  assumes inv: "protocol_inv M hs ps" and k: "k < length hs" "hs ! k = Holding r None"
    and q: "request_payload q = payload r"
  shows "protocol_inv M (hs[k := Holding r (Some a)])
    (ps @ [\<lparr>p_id = r_id r, p_attempt = r_attempts r, p_request = q, p_answer = a\<rparr>])"
proof -
  let ?p = "\<lparr>p_id = r_id r, p_attempt = r_attempts r, p_request = q, p_answer = a\<rparr>"
  have h: "hold_ok M ps (Holding r None)" using protocol_invD(2) [OF inv] k nth_mem by metis
  then have new: "post_key ?p \<notin> post_key ` set ps" by (auto simp: hold_ok_def post_key_def)
  have other: "hold_ok M (ps @ [?p]) x" if x: "x \<in> set hs" "held x \<noteq> Some (r_id r)" for x
    using protocol_invD(2) [OF inv x(1)] x(2)
    by (cases x)
      (auto simp: hold_ok_def posted_def held_def post_key_def no_late_def late_def split: option.splits)
  have mine: "hold_ok M (ps @ [?p]) (Holding r (Some a))"
    using h by (auto simp: hold_ok_def posted_def post_key_def)
  have "hold_ok M (ps @ [?p]) x" if "x \<in> set (hs[k := Holding r (Some a)])" for x
  proof -
    from that obtain j where j: "j < length hs" "x = hs[k := Holding r (Some a)] ! j"
      by (auto simp: in_set_conv_nth)
    have "held (hs ! j) \<noteq> Some (r_id r)" if "j \<noteq> k"
      using protocol_invD(3) [OF inv] j(1) k that by (auto simp: exclusive_def held_def)
    with j mine other [of "hs ! j"] k show ?thesis by (cases "j = k") auto
  qed
  moreover have "post_ok M ?p"
    using h q by (auto simp: hold_ok_def post_ok_def Status_IsTerminal_def final_attempt_status_def)
  moreover have "exclusive (hs[k := Holding r (Some a)])"
    by (rule exclusive_update [OF protocol_invD(3) [OF inv]]) (simp add: k(2) held_def)
  moreover have "card (late (ps @ [?p]) i) \<le> 1" for i
  proof (cases "i = r_id r")
    case True
    have "late (ps @ [?p]) i \<subseteq> {?p}"
      using h True by (auto simp: late_def no_late_def hold_ok_def)
    then show ?thesis by (metis card.empty card_insert_disjoint card_mono empty_iff finite.emptyI finite.insertI
        One_nat_def)
  next
    case False
    then have "late (ps @ [?p]) i = late ps i" by (auto simp: late_def)
    with protocol_invD(7) [OF inv] show ?thesis by simp
  qed
  ultimately show ?thesis
    using inv new by (auto simp: protocol_inv_def delivered_ok_append)
qed

text \<open>A permitted status write. The holder lets the row go, whatever the answer it gets.\<close>

lemma write_cells_same:
  "(\<And>c. M (u_id p) = Some c \<Longrightarrow> c_status c \<noteq> u_expected_source p) \<Longrightarrow> write_cells p M = M"
  by (cases "M (u_id p)") (auto simp: write_cells_def write_cell_def fun_upd_idem)

lemma not_held:
  assumes inv: "protocol_inv M hs ps" and c: "M i = Some c"
    and st: "c_status c \<noteq> StatusProcessing" "c_status c \<noteq> StatusFailed"
  shows "Some i \<notin> held ` set hs"
proof
  assume "Some i \<in> held ` set hs"
  then obtain h where h: "h \<in> set hs" "held h = Some i" by auto
  from h(2) obtain r ans where "h = Holding r ans" "r_id r = i" by (cases h) (auto simp: held_def)
  with hold_okD protocol_invD(2) [OF inv h(1)] c st show False by fastforce
qed

lemma held_once:
  assumes inv: "protocol_inv M hs ps" and k: "k < length hs" "hs ! k = Holding r ans"
  shows "Some (r_id r) \<notin> held ` set (hs[k := Idle])"
proof
  assume "Some (r_id r) \<in> held ` set (hs[k := Idle])"
  then obtain j where j: "j < length hs" "held (hs[k := Idle] ! j) = Some (r_id r)"
    by (auto simp: in_set_conv_nth)
  then have "j \<noteq> k" and "held (hs ! j) = Some (r_id r)"
    using k(1) by (auto simp: held_def nth_list_update split: if_splits)
  with protocol_invD(3) [OF inv] j(1) k show False by (auto simp: exclusive_def held_def)
qed

lemma sint_small:
  assumes "unat (w :: int32) < 2 ^ 31"
  shows "sint w < 5 \<longleftrightarrow> unat w < 5"
proof -
  have up: "uint w < 2 ^ 31" using assms unfolding unat_eq_nat_uint by (simp add: nat_less_iff del: nat_uint_eq)
  have lo: "- (2 ^ 31) \<le> uint w" by (rule order_trans [of _ 0]) simp_all
  have "sint w = signed_take_bit 31 (uint w)" by (simp add: sint_uint)
  also have "\<dots> = uint w" using lo up by (rule signed_take_bit_int_eq_self)
  finally show ?thesis unfolding unat_eq_nat_uint by linarith
qed

lemma few_attempts_no_late:
  assumes "protocol_inv M hs ps" and "M i = Some c" and "\<not> Status_IsTerminal (c_status c)"
    and "unat (c_attempts c) < 5"
  shows "no_late ps i"
  using protocol_invD(5) [OF assms(1)] assms(2-4) by (force simp: no_late_def late_def post_ok_def)

lemma inv_write:
  assumes inv: "protocol_inv M hs ps" and k: "k < length hs" and may: "may_write (hs ! k) p"
  shows "protocol_inv (write_cells p M) (hs[k := after_exec (hs ! k) (Q_UpdateNotificationStatus p)]) ps"
    (is "protocol_inv _ ?hs _")
proof (cases "\<exists>c. M (u_id p) = Some c \<and> c_status c = u_expected_source p")
  case False
  then show ?thesis using inv_release [OF inv k] write_cells_same [of M p] by auto
next
  case True
  then obtain c where c: "M (u_id p) = Some c" "c_status c = u_expected_source p" by blast
  let ?c = "c\<lparr>c_status := u_new_status p, c_attempts := u_attempts p\<rparr>"
  have eq: "write_cells p M = M(u_id p \<mapsto> ?c)" using c by (simp add: write_cells_def write_cell_def)
  have ok: "cell_ok (u_id p) c" using inv c(1) by (rule protocol_invD)
  have rel: "protocol_inv M ?hs ps" using inv k by (rule inv_release)
  have owner: "c_attempts c = u_attempts p \<and> unat (u_attempts p) < 2 ^ 31 \<and> Some (u_id p) \<notin> held ` set ?hs \<and>
      (\<forall>a. ans = Some a \<longrightarrow> posted ps (u_id p) (u_attempts p) a) \<and>
      (ans = None \<or> sint (u_attempts p) < 5 \<longrightarrow> no_late ps (u_id p))"
    if "holds_row (hs ! k) (u_id p) (u_attempts p) ans" "c_status c = StatusProcessing" for ans
  proof -
    from that(1) obtain r where r: "hs ! k = Holding r ans" "r_id r = u_id p" "r_attempts r = u_attempts p"
      by (auto simp: holds_row_def)
    have "hold_ok M ps (Holding r ans)" using protocol_invD(2) [OF inv] nth_mem [OF k] r by metis
    then have "c_attempts c = u_attempts p" using r c that(2) by (auto simp: hold_ok_def)
    moreover from this ok that(2) have "unat (u_attempts p) < 2 ^ 31"
      by (simp add: cell_ok_def Status_IsTerminal_def)
    moreover have "no_late ps (u_id p)" if "sint (u_attempts p) < 5"
      using that calculation sint_small [of "u_attempts p"] \<open>c_status c = StatusProcessing\<close>
      by (intro few_attempts_no_late [OF inv c(1)]) (simp_all add: Status_IsTerminal_def)
    ultimately show ?thesis
      using r c that(2) held_once [OF inv k r(1)] \<open>hold_ok M ps (Holding r ans)\<close>
      by (auto simp: hold_ok_def)
  qed
  have free: "Some (u_id p) \<notin> held ` set ?hs"
    if "c_status c \<noteq> StatusProcessing" "c_status c \<noteq> StatusFailed"
    using rel c(1) that by (rule not_held)
  show ?thesis unfolding eq
  proof (rule inv_change [OF rel c(1)])
    show "cell_ok (u_id p) ?c"
      using ok may c(2) owner
      by (auto simp: cell_ok_def may_write_def Status_IsValid_def Status_IsTerminal_def)
    show "Status_IsTerminal (c_status ?c) \<or>
        \<not> Status_IsTerminal (c_status c) \<and> unat (c_attempts c) \<le> unat (c_attempts ?c)"
      using may c(2) owner ok by (auto simp: may_write_def Status_IsTerminal_def cell_ok_def)
    show "c_status ?c = StatusFailed \<or> Some (u_id p) \<notin> held ` set ?hs"
      using may c(2) owner free by (auto simp: may_write_def)
    show "final_attempt_status (c_status ?c) \<or> no_late ps (u_id p)" if "final_attempt_status (c_status c)"
      using may c(2) owner that by (auto simp: may_write_def final_attempt_status_def)
    show "\<exists>a ans. posted ps (u_id p) a ans \<and> accepted ans" if "c_status ?c = StatusDelivered"
    proof -
      from may that c(2) obtain ans where "holds_row (hs ! k) (u_id p) (u_attempts p) (Some ans)"
        "accepted ans" "c_status c = StatusProcessing" by (auto simp: may_write_def)
      with owner show ?thesis by blast
    qed
  qed simp
qed

end
