(* ===== verification/Worker.thy ===== *)
theory Worker
  imports Ports
begin

text \<open>
  The worker-side use case \<open>internal/application/process_notification.go\<close> with the retry
  policy of \<open>errors.go\<close>. The context is represented by the correlation id it carries, which
  is all the sources read from it (\<open>internal/infrastructure/correlation\<close>).
\<close>

section \<open>Retry policy\<close>

definition defaultMaxAttempts :: int where [simp]: "defaultMaxAttempts = 5"
definition backoffBase :: Duration where "backoffBase = 30 * Second"
definition rateLimitBackoff :: Duration where "rateLimitBackoff = 1 * Second"

definition backoffFor :: "int \<Rightarrow> Duration" where
  "backoffFor attempts =
     (if attempts \<le> 0 then backoffBase
      else backoffBase * push_bit (nat (attempts - 1)) 1)"

definition RetryDelayFor :: "int \<Rightarrow> gerror \<Rightarrow> Duration" where
  "RetryDelayFor attempts err =
     (if errors_Is err ErrOutboundRateLimited then rateLimitBackoff else backoffFor attempts)"

section \<open>ProcessNotification\<close>

record ProcessNotification =
  pn_repo :: NotificationRepository
  pn_logRepo :: NotificationLogRepository
  pn_provider :: Provider
  pn_rateLimiter :: RateLimiter
  pn_broadcaster :: StatusBroadcaster
  pn_idGen :: IDGenerator
  pn_clock :: Clock
  pn_metrics :: bool
  pn_tracer :: bool

definition attemptOutcome :: "DeliveryResult \<Rightarrow> string" where
  "attemptOutcome result =
     (if d_Success result then ''success''
      else if d_Retryable result then ''transient''
      else ''permanent'')"

definition ProcessNotification_recordEvent ::
  "ProcessNotification \<Rightarrow> Notification \<Rightarrow> LogEvent \<Rightarrow> gerror option prog"
where
  "ProcessNotification_recordEvent uc n event =
     bind (IDGen_NewLogID (pn_idGen uc)) (\<lambda>lid.
     bind (Clk_Now (pn_clock uc)) (\<lambda>now.
     check_val (NewNotificationLog
         \<lparr>li_ID = lid, li_NotificationID = n_ID n, li_CorrelationID = n_CorrelationID n,
          li_Event = event, li_Details = None\<rparr> now)
       (\<lambda>e. Some (Errorf ''build log entry: %w'' [] e)) (\<lambda>entry.
     on_err (LogRepo_Append (pn_logRepo uc) entry)
       (\<lambda>e. Some (Errorf ''append log entry: %w'' [] e))
     (on_err (Broadcaster_Publish (pn_broadcaster uc) (n_ID n) (n_Status n))
       (\<lambda>e. Some (Errorf ''broadcast status: %w'' [] e))
     (Ret None)))))"

definition logProcessingOutcome ::
  "string \<Rightarrow> Notification \<Rightarrow> string \<Rightarrow> Duration \<Rightarrow> string \<Rightarrow> 'r prog \<Rightarrow> 'r prog"
where
  "logProcessingOutcome ctx n outcome duration errReason k =
     Emit (Slog_ProcessedNotification ctx
       ([(''notification_id'', n_ID n), (''channel'', n_Channel n), (''priority'', n_Priority n),
         (''attempts'', strconv_Itoa (n_Attempts n)), (''outcome'', outcome),
         (''duration_ms'', strconv_Itoa (Duration_Milliseconds duration))] @
        (if errReason \<noteq> [] then [(''error'', errReason)] else []))) k"

definition ProcessNotification_markDelivered ::
  "ProcessNotification \<Rightarrow> string \<Rightarrow> Notification \<Rightarrow> Time \<Rightarrow> Duration \<Rightarrow> gerror option prog"
where
  "ProcessNotification_markDelivered uc ctx n now duration =
     (case MarkDelivered n now of (e, n) \<Rightarrow>
      check_err e Some
      (on_err (Repo_UpdateStatus (pn_repo uc) n StatusProcessing)
        (\<lambda>e. Some (Errorf ''update status (delivered): %w'' [] e))
      (emit_if (pn_metrics uc) (M_NotificationDelivered (n_Channel n))
      (on_err (ProcessNotification_recordEvent uc n LogEventDelivered) Some
      (logProcessingOutcome ctx n ''delivered'' duration []
      (Ret None))))))"

definition ProcessNotification_markFailed ::
  "ProcessNotification \<Rightarrow> string \<Rightarrow> Notification \<Rightarrow> DeliveryResult \<Rightarrow> Time \<Rightarrow> Duration \<Rightarrow> gerror option prog"
where
  "ProcessNotification_markFailed uc ctx n result now duration =
     (case MarkFailed n now (d_Reason result) of (e, n) \<Rightarrow>
      check_err e Some
      (on_err (Repo_UpdateStatus (pn_repo uc) n StatusProcessing)
        (\<lambda>e. Some (Errorf ''update status (failed): %w'' [] e))
      (emit_if (pn_metrics uc) (M_NotificationFailed (n_Channel n)
         (if d_Reason result = [] then ''unspecified'' else d_Reason result))
      (on_err (ProcessNotification_recordEvent uc n LogEventFailed) Some
      (logProcessingOutcome ctx n ''failed'' duration (d_Reason result)
      (Ret None))))))"

definition ProcessNotification_markRetrying ::
  "ProcessNotification \<Rightarrow> string \<Rightarrow> Notification \<Rightarrow> DeliveryResult \<Rightarrow> Time \<Rightarrow> Duration \<Rightarrow> gerror option prog"
where
  "ProcessNotification_markRetrying uc ctx n result now duration =
     (case MarkRetrying n now (d_Reason result) (time_Add now (backoffFor (n_Attempts n))) of (e, n) \<Rightarrow>
      check_err e Some
      (on_err (Repo_UpdateStatus (pn_repo uc) n StatusProcessing)
        (\<lambda>e. Some (Errorf ''update status (retrying): %w'' [] e))
      (on_err (ProcessNotification_recordEvent uc n LogEventRetrying) Some
      (logProcessingOutcome ctx n ''retrying'' duration (d_Reason result)
      (Ret (Some (Errorf ''transient failure on %s: %w'' [n_ID n] (Sent ErrProviderTransient))))))))"

definition ProcessNotification_rescheduleForRateLimit ::
  "ProcessNotification \<Rightarrow> string \<Rightarrow> Notification \<Rightarrow> Time \<Rightarrow> gerror option prog"
where
  "ProcessNotification_rescheduleForRateLimit uc ctx n start =
     bind (Clk_Now (pn_clock uc)) (\<lambda>now.
     case MarkRetrying n now ''outbound rate limit exceeded'' (time_Add now rateLimitBackoff) of (e, n) \<Rightarrow>
      check_err e Some
      (on_err (Repo_UpdateStatus (pn_repo uc) n StatusProcessing)
        (\<lambda>e. Some (Errorf ''update status (rate limited): %w'' [] e))
      (emit_if (pn_metrics uc) (M_OutboundRateLimitHit (n_Channel n))
      (on_err (ProcessNotification_recordEvent uc n LogEventRetrying) Some
      (logProcessingOutcome ctx n ''rate_limited'' (time_Sub now start) ''outbound rate limit exceeded''
      (Ret (Some (Errorf ''rate limited on channel %s for %s: %w'' [n_Channel n, n_ID n]
         (Sent ErrOutboundRateLimited)))))))))"

definition ProcessNotification_applyResult ::
  "ProcessNotification \<Rightarrow> string \<Rightarrow> Notification \<Rightarrow> DeliveryResult \<Rightarrow> Time \<Rightarrow> gerror option prog"
where
  "ProcessNotification_applyResult uc ctx n result start =
     bind (Clk_Now (pn_clock uc)) (\<lambda>now.
     let duration = time_Sub now start in
     bind (if d_Success result then ProcessNotification_markDelivered uc ctx n now duration
           else if \<not> d_Retryable result \<or> n_Attempts n \<ge> defaultMaxAttempts
           then ProcessNotification_markFailed uc ctx n result now duration
           else ProcessNotification_markRetrying uc ctx n result now duration) (\<lambda>r.
     emit_if (pn_metrics uc) (M_ObserveProcessing (n_Channel n) duration) (Ret r)))"

definition ProcessNotification_Execute ::
  "ProcessNotification \<Rightarrow> string \<Rightarrow> NotificationID \<Rightarrow> gerror option prog"
where
  "ProcessNotification_Execute uc ctx nid =
     bind (Clk_Now (pn_clock uc)) (\<lambda>start.
     try_val (Repo_ClaimForProcessing (pn_repo uc) nid start)
       (\<lambda>err. if errors_Is err ErrAlreadyClaimed then None
              else Some (Errorf ''claim notification %s: %w'' [nid] err)) (\<lambda>claimed.
     let ctx = (if ctx = [] then n_CorrelationID claimed else ctx) in
     on_err (ProcessNotification_recordEvent uc claimed LogEventProcessing) Some
     (try_val (RateLimiter_Allow (pn_rateLimiter uc) (''channel:'' @ n_Channel claimed))
       (\<lambda>e. Some (Errorf ''rate limiter: %w'' [] e)) (\<lambda>(allowed, _).
     if \<not> allowed then ProcessNotification_rescheduleForRateLimit uc ctx claimed start
     else
     emit_if (pn_tracer uc) (Span_Start ''provider.send'')
     (emit_if (pn_tracer uc) (Span_StringAttr ''notification.id'' (n_ID claimed))
     (emit_if (pn_tracer uc) (Span_StringAttr ''notification.channel'' (n_Channel claimed))
     (bind (Provider_Send (pn_provider uc) (n_Channel claimed) (n_Recipient claimed) (n_Content claimed)) (\<lambda>result.
     emit_if (pn_tracer uc) (Span_BoolAttr ''provider.success'' (d_Success result))
     (emit_if (pn_tracer uc) (Span_BoolAttr ''provider.retryable'' (d_Retryable result))
     (emit_if (pn_tracer uc) Span_End
     (emit_if (pn_metrics uc) (M_NotificationAttempt (n_Channel claimed) (attemptOutcome result))
     (ProcessNotification_applyResult uc ctx claimed result start))))))))))))"

lemmas worker_defs = ProcessNotification_recordEvent_def logProcessingOutcome_def
  ProcessNotification_markDelivered_def ProcessNotification_markFailed_def
  ProcessNotification_markRetrying_def ProcessNotification_rescheduleForRateLimit_def
  ProcessNotification_applyResult_def ProcessNotification_Execute_def

end
