(* ===== verification/Contracts.thy ===== *)
theory Contracts
  imports Discipline Intake Worker Reconciler Catalog
begin

text \<open>
  What each port promises about the protocol of \<open>Discipline\<close>, one locale per interface, and
  the use cases checked against these promises alone: whatever adapters are plugged in, a use
  case whose ports keep their contracts is a safe program.
\<close>

section \<open>Entities and rows\<close>

definition entity_ok :: "Notification \<Rightarrow> bool" where
  "entity_ok n \<longleftrightarrow> Status_IsValid (n_Status n) \<and> (n_Status n = StatusPending \<longrightarrow> n_Attempts n = 0)"

definition fresh_entity :: "Notification \<Rightarrow> bool" where
  "fresh_entity n \<longleftrightarrow> n_Status n = StatusPending \<and> n_Attempts n = 0"

definition describes :: "Notification \<Rightarrow> NotificationRow \<Rightarrow> bool" where
  "describes n r \<longleftrightarrow> n_Status n = r_status r \<and> n_Attempts n = sint (r_attempts r) \<and>
     n_Channel n = r_channel r \<and> n_Recipient n = r_recipient r \<and> n_Content n = r_content r"

text \<open>Which status write an entity may be used for, given what the program holds;
  \<open>denotes\<close> relates an identifier to the row it names.\<close>

definition permitted ::
  "(NotificationID \<Rightarrow> pgUUID \<Rightarrow> bool) \<Rightarrow> hold \<Rightarrow> Notification \<Rightarrow> Status \<Rightarrow> bool"
where
  "permitted denotes h n src \<longleftrightarrow>
     n_Status n = StatusQueued \<and> src = StatusPending \<and> n_Attempts n = 0 \<or>
     n_Status n = StatusCancelled \<and> src \<in> {StatusPending, StatusQueued, StatusRetrying} \<or>
     n_Status n = StatusFailed \<and> src = StatusProcessing \<or>
     n_Status n = StatusRetrying \<and> src = StatusProcessing \<and>
       (\<exists>r ans. h = Holding r ans \<and> denotes (n_ID n) (r_id r) \<and> n_Attempts n = sint (r_attempts r) \<and>
          (ans = None \<or> n_Attempts n < defaultMaxAttempts)) \<or>
     n_Status n = StatusDelivered \<and> src = StatusProcessing \<and>
       (\<exists>r ans. h = Holding r (Some ans) \<and> accepted ans \<and> denotes (n_ID n) (r_id r) \<and>
          n_Attempts n = sint (r_attempts r))"

section \<open>The contracts\<close>

locale notification_store =
  fixes R :: NotificationRepository
    and denotes :: "NotificationID \<Rightarrow> pgUUID \<Rightarrow> bool"
  assumes create: "fresh_entity n \<Longrightarrow> neutral (Repo_Create R n)"
    and get: "(\<And>e. Q (Inl e) h) \<Longrightarrow> (\<And>n. entity_ok n \<Longrightarrow> Q (Inr n) h) \<Longrightarrow> safe (Repo_Get R i) h Q"
    and claim: "(\<And>e h. P (Inl e) h) \<Longrightarrow>
      (\<And>n r. describes n r \<Longrightarrow> denotes (n_ID n) (r_id r) \<Longrightarrow> n_Status n = StatusProcessing \<Longrightarrow>
         P (Inr n) (Holding r None)) \<Longrightarrow>
      safe (Repo_ClaimForProcessing R i t) Idle P"
    and update: "permitted denotes h n src \<Longrightarrow> (\<And>e h'. U e h') \<Longrightarrow> safe (Repo_UpdateStatus R n src) h U"
    and list_page: "neutral (Repo_List R f c l)"
    and find_orphaned: "(\<And>e. S (Inl e) h) \<Longrightarrow> (\<And>ns. list_all entity_ok ns \<Longrightarrow> S (Inr ns) h) \<Longrightarrow>
      safe (Repo_FindOrphanedPending R t m) h S"
    and find_stuck: "(\<And>e. S (Inl e) h) \<Longrightarrow> (\<And>ns. list_all entity_ok ns \<Longrightarrow> S (Inr ns) h) \<Longrightarrow>
      safe (Repo_FindStuckProcessing R t m) h S"
    and find_overdue: "(\<And>e. S (Inl e) h) \<Longrightarrow> (\<And>ns. list_all entity_ok ns \<Longrightarrow> S (Inr ns) h) \<Longrightarrow>
      safe (Repo_FindOverdueRetrying R t m) h S"
    and find_queued: "(\<And>e. S (Inl e) h) \<Longrightarrow> (\<And>ns. list_all entity_ok ns \<Longrightarrow> S (Inr ns) h) \<Longrightarrow>
      safe (Repo_FindStuckQueued R t m) h S"

locale batch_store =
  fixes B :: BatchRepository
  assumes create_batch: "list_all fresh_entity (b_Notifications b) \<Longrightarrow> neutral (BatchRepo_Create B b)"
    and get_batch: "neutral (BatchRepo_Get B i)"

locale template_store =
  fixes T :: TemplateRepository
  assumes template_create: "neutral (TmplRepo_Create T t)"
    and template_get: "neutral (TmplRepo_Get T i)"
    and template_get_by_name: "neutral (TmplRepo_GetByName T name)"
    and template_list: "neutral (TmplRepo_List T l)"
    and template_update: "neutral (TmplRepo_Update T t)"
    and template_delete: "neutral (TmplRepo_Delete T i)"

locale log_store =
  fixes L :: NotificationLogRepository
  assumes append: "neutral (LogRepo_Append L entry)"
    and list_logs: "neutral (LogRepo_List L i)"

locale task_queue =
  fixes K :: Queue
  assumes enqueue: "neutral (Queue_Enqueue K i p key)"
    and enqueue_scheduled: "neutral (Queue_EnqueueScheduled K i p at)"
    and cancel: "neutral (Queue_Cancel K i)"

text \<open>A provider posts at most once, the payload it is given, and reports success only for an
  accepted post.\<close>

locale delivery =
  fixes V :: Provider
  assumes send: "(\<And>res ans. (d_Success res \<Longrightarrow> \<exists>a. ans = Some a \<and> accepted a) \<Longrightarrow> Q res (Holding r ans)) \<Longrightarrow>
      safe (Provider_Send V (r_channel r) (r_recipient r) (r_content r)) (Holding r None) Q"

locale rate_limiter =
  fixes M :: RateLimiter
  assumes allow: "neutral (RateLimiter_Allow M b)"

locale broadcaster =
  fixes W :: StatusBroadcaster
  assumes publish: "neutral (Broadcaster_Publish W i s)"

locale time_source =
  fixes N :: Clock
  assumes now: "neutral (Clk_Now N)"

locale id_source =
  fixes G :: IDGenerator
  assumes new_ids: "neutral (IDGen_NewNotificationID G)" "neutral (IDGen_NewBatchID G)"
    "neutral (IDGen_NewTemplateID G)" "neutral (IDGen_NewLogID G)" "neutral (IDGen_NewCorrelationID G)"

section \<open>The use cases\<close>

lemma MarkQueued_permitted:
  "entity_ok n \<Longrightarrow> MarkQueued n now = (None, n') \<Longrightarrow> permitted den h n' ''pending''"
  by (auto simp: MarkQueued_def transition_def CanTransitionTo_iff permitted_def entity_ok_def
      split: if_splits)

lemma Cancel_permitted:
  "Cancel n now = (None, n') \<Longrightarrow> permitted den h n' (n_Status n)"
  by (auto simp: Cancel_def transition_def CanTransitionTo_iff permitted_def split: if_splits)

lemma MarkFailed_permitted:
  "MarkFailed n now reason = (None, n') \<Longrightarrow> permitted den h n' ''processing''"
  by (auto simp: MarkFailed_def transition_def permitted_def split: if_splits)

lemma MarkRetrying_permitted:
  "MarkRetrying n now reason at = (None, n') \<Longrightarrow> describes n r \<Longrightarrow> den (n_ID n) (r_id r) \<Longrightarrow>
   ans = None \<or> n_Attempts n < 5 \<Longrightarrow> permitted den (Holding r ans) n' ''processing''"
  by (auto simp: MarkRetrying_def transition_def permitted_def describes_def split: if_splits)

lemma MarkDelivered_permitted:
  "MarkDelivered n now = (None, n') \<Longrightarrow> describes n r \<Longrightarrow> den (n_ID n) (r_id r) \<Longrightarrow> accepted a \<Longrightarrow>
   permitted den (Holding r (Some a)) n' ''processing''"
  by (auto simp: MarkDelivered_def transition_def permitted_def describes_def split: if_splits)

text \<open>The proofs walk through a method: a call of a port is discharged by the port's contract,
  everything else by computation.\<close>

locale worker_wiring =
  notification_store "pn_repo uc" denotes + log_store "pn_logRepo uc" +
  delivery "pn_provider uc" + rate_limiter "pn_rateLimiter uc" +
  broadcaster "pn_broadcaster uc" + time_source "pn_clock uc" + id_source "pn_idGen uc"
  for uc :: ProcessNotification and denotes
begin

lemma record_event: "neutral (ProcessNotification_recordEvent uc n event)"
  unfolding ProcessNotification_recordEvent_def
  by (intro neutral_intros new_ids now append publish)

lemma mark_delivered:
  "describes n r \<Longrightarrow> denotes (n_ID n) (r_id r) \<Longrightarrow> accepted a \<Longrightarrow>
   safe (ProcessNotification_markDelivered uc ctx n now d) (Holding r (Some a)) (\<lambda>_ _. True)"
  unfolding ProcessNotification_markDelivered_def logProcessingOutcome_def
  by (cases "MarkDelivered n now")
    (auto simp: safe_rules split: option.split
      intro!: update neutralD [OF record_event] MarkDelivered_permitted)

lemma mark_failed:
  "safe (ProcessNotification_markFailed uc ctx n result now d) h (\<lambda>_ _. True)"
  unfolding ProcessNotification_markFailed_def logProcessingOutcome_def
  by (cases "MarkFailed n now (d_Reason result)")
    (auto simp: safe_rules split: option.split
      intro!: update neutralD [OF record_event] MarkFailed_permitted)

lemma mark_retrying:
  "describes n r \<Longrightarrow> denotes (n_ID n) (r_id r) \<Longrightarrow> n_Attempts n < 5 \<Longrightarrow>
   safe (ProcessNotification_markRetrying uc ctx n result now d) (Holding r ans) (\<lambda>_ _. True)"
  unfolding ProcessNotification_markRetrying_def logProcessingOutcome_def
  by (cases "MarkRetrying n now (d_Reason result) (time_Add now (backoffFor (n_Attempts n)))")
    (auto simp: safe_rules split: option.split
      intro!: update neutralD [OF record_event] MarkRetrying_permitted)

lemma reschedule:
  "describes n r \<Longrightarrow> denotes (n_ID n) (r_id r) \<Longrightarrow>
   safe (ProcessNotification_rescheduleForRateLimit uc ctx n start) (Holding r None) (\<lambda>_ _. True)"
  unfolding ProcessNotification_rescheduleForRateLimit_def logProcessingOutcome_def
  by (auto simp: safe_rules split: option.split prod.split
      intro!: neutralD [OF now] update neutralD [OF record_event] MarkRetrying_permitted)

lemma apply_result:
  "describes n r \<Longrightarrow> denotes (n_ID n) (r_id r) \<Longrightarrow> (d_Success result \<Longrightarrow> \<exists>a. ans = Some a \<and> accepted a) \<Longrightarrow>
   safe (ProcessNotification_applyResult uc ctx n result start) (Holding r ans) (\<lambda>_ _. True)"
  unfolding ProcessNotification_applyResult_def Let_def safe_bind
  by (auto intro!: neutralD [OF now] mark_delivered mark_failed mark_retrying)

lemma send_apply:
  assumes "describes n r" and "denotes (n_ID n) (r_id r)"
  shows "safe (Provider_Send (pn_provider uc) (n_Channel n) (n_Recipient n) (n_Content n))
    (Holding r None)
    (\<lambda>res h. safe (ProcessNotification_applyResult uc ctx n res start) h (\<lambda>_ _. True))"
proof -
  have pay: "n_Channel n = r_channel r" "n_Recipient n = r_recipient r" "n_Content n = r_content r"
    using assms by (simp_all add: describes_def)
  show ?thesis unfolding pay by (rule send) (rule apply_result [OF assms])
qed

lemma process_safe: "safe (ProcessNotification_Execute uc ctx nid) Idle (\<lambda>_ _. True)"
  unfolding ProcessNotification_Execute_def Let_def safe_rules
  by (rule neutralD [OF now], rule claim)
    (auto simp: safe_rules split: option.split sum.split
      intro!: neutralD [OF record_event] neutralD [OF allow] reschedule send_apply)

end

locale intake_wiring =
  notification_store "cn_repo uc" denotes + log_store "cn_logRepo uc" +
  template_store "cn_tmplRepo uc" + task_queue "cn_queue uc" +
  time_source "cn_clock uc" + id_source "cn_idGen uc"
  for uc :: CreateNotification and denotes
begin

lemma enqueue_neutral: "neutral (CreateNotification_enqueue uc n)"
  by (auto simp: CreateNotification_enqueue_def split: option.split intro: enqueue enqueue_scheduled)

lemma render_neutral: "neutral (CreateNotification_renderTemplate E uc i vars)"
  unfolding CreateNotification_renderTemplate_def by (intro neutral_intros template_get)

lemma mark_queued:
  "fresh_entity n \<Longrightarrow> safe (CreateNotification_markQueued uc n now) h (\<lambda>_ _. True)"
  unfolding CreateNotification_markQueued_def
  by (cases "MarkQueued n now")
    (auto simp: safe_rules fresh_entity_def entity_ok_def Status_IsValid_def
      split: option.split sum.split
      intro!: update neutralD [OF new_ids(4)] neutralD [OF append] MarkQueued_permitted)

lemma create_safe: "safe (CreateNotification_Execute E uc i) h (\<lambda>_ _. True)"
proof -
  have fresh: "fresh_entity n" if "NewNotification x t = Inr n" for x t n
    using NewNotification_Inr [OF that] by (simp add: fresh_entity_def)
  show ?thesis
    unfolding CreateNotification_Execute_def safe_rules
    by (auto simp: safe_rules split: option.split sum.split
        intro!: neutralD [OF new_ids(5)] neutralD [OF render_neutral] neutralD [OF now]
          neutralD [OF new_ids(1)] neutralD [OF create] neutralD [OF new_ids(4)]
          neutralD [OF append] neutralD [OF enqueue_neutral] mark_queued dest: fresh)
qed

end

locale batch_wiring =
  batch_store "cb_batchRepo uc" + notification_store "cb_notifRepo uc" denotes +
  log_store "cb_logRepo uc" + task_queue "cb_queue uc" +
  time_source "cb_clock uc" + id_source "cb_idGen uc"
  for uc :: CreateBatch and denotes
begin

lemma build_fresh:
  "(\<And>e. Q (Inl e) h) \<Longrightarrow> (\<And>ns. list_all fresh_entity ns \<Longrightarrow> Q (Inr ns) h) \<Longrightarrow>
   safe (CreateBatch_buildNotifications uc i items cid t) h Q"
proof (induction items arbitrary: i Q)
  case (Cons item items)
  have fresh: "fresh_entity n" if "NewNotification x t = Inr n" for x n
    using NewNotification_Inr [OF that] by (simp add: fresh_entity_def)
  show ?case
    by (auto simp: safe_rules Cons.prems split: sum.split
        intro!: neutralD [OF new_ids(1)] Cons.IH Cons.prems dest: fresh)
qed simp

lemma record_logs:
  "neutral (CreateBatch_recordCreated uc n t)" "neutral (CreateBatch_recordQueued uc n t)"
  unfolding CreateBatch_recordCreated_def CreateBatch_recordQueued_def
  by (intro neutral_intros new_ids append)+

lemma enqueue_member:
  "fresh_entity n \<Longrightarrow> (\<And>r h'. Q r h') \<Longrightarrow> safe (CreateBatch_enqueueMember uc n t) h Q"
  unfolding CreateBatch_enqueueMember_def
  by (cases "MarkQueued n t")
    (auto simp: safe_rules fresh_entity_def entity_ok_def Status_IsValid_def
      split: option.split sum.split
      intro!: neutralD [OF record_logs(1)] neutralD [OF record_logs(2)] neutralD [OF enqueue]
        update MarkQueued_permitted)

lemma enqueue_members:
  "list_all fresh_entity ns \<Longrightarrow> (\<And>r h'. Q r h') \<Longrightarrow> safe (CreateBatch_enqueueMembers uc ns t) h Q"
proof (induction ns arbitrary: h Q)
  case (Cons n ns)
  then show ?case
    by (auto simp: safe_rules split: sum.split intro!: enqueue_member Cons.IH)
qed simp

lemma batch_safe: "safe (CreateBatch_Execute uc i) h (\<lambda>_ _. True)"
proof -
  have fresh: "list_all fresh_entity (b_Notifications b)"
    if "NewBatch \<lparr>bi_ID = x, bi_CorrelationID = c, bi_Notifications = ns\<rparr> t = Inr b"
      "list_all fresh_entity ns" for x c ns t b
    using that by (auto simp: NewBatch_def list_all_iff fresh_entity_def split: if_splits)
  show ?thesis
    unfolding CreateBatch_Execute_def safe_rules
    by (auto simp: safe_rules split: option.split sum.split
        intro!: neutralD [OF new_ids(5)] neutralD [OF now] build_fresh neutralD [OF new_ids(2)]
          neutralD [OF create_batch] enqueue_members dest: fresh)
qed

end

locale cancel_wiring =
  notification_store "xn_repo uc" denotes + log_store "xn_logRepo uc" + task_queue "xn_queue uc" +
  time_source "xn_clock uc" + id_source "xn_idGen uc"
  for uc :: CancelNotification and denotes
begin

lemma cancel_safe: "safe (CancelNotification_Execute uc i) h (\<lambda>_ _. True)"
  unfolding CancelNotification_Execute_def Let_def safe_rules
  by (rule get)
    (auto simp: safe_rules split: option.split sum.split prod.split
      intro!: neutralD [OF now] update neutralD [OF new_ids(4)] neutralD [OF append]
        neutralD [OF cancel] Cancel_permitted)

end

locale reconcile_wiring =
  notification_store "rs_repo uc" denotes + log_store "rs_logRepo uc" + task_queue "rs_queue uc" +
  time_source "rs_clock uc" + id_source "rs_idGen uc"
  for uc :: ReconcileStuckNotifications and denotes
begin

lemma record_event: "neutral (Reconcile_recordEvent uc n event t)"
  unfolding Reconcile_recordEvent_def by (intro neutral_intros new_ids append)

lemma handle_orphaned:
  "entity_ok n \<Longrightarrow> (\<And>r h'. Q r h') \<Longrightarrow> safe (handleOrphanedPending uc n t) h Q"
  unfolding handleOrphanedPending_def
  by (cases "MarkQueued n t")
    (auto simp: safe_rules split: option.split
      intro!: update neutralD [OF record_event] neutralD [OF enqueue] MarkQueued_permitted)

lemma handle_stuck: "(\<And>r h'. Q r h') \<Longrightarrow> safe (handleStuckProcessing uc n t) h Q"
  unfolding handleStuckProcessing_def
  by (cases "MarkFailed n t ''worker_timeout''")
    (auto simp: safe_rules split: option.split
      intro!: update neutralD [OF record_event] MarkFailed_permitted)

lemma handle_reenqueue:
  "neutral (handleOverdueRetrying uc n)" "neutral (handleStuckQueued uc n)"
  unfolding handleOverdueRetrying_def handleStuckQueued_def
  by (intro neutral_intros enqueue)+

lemma sweep_rows_safe:
  "(\<And>n h Q. P n \<Longrightarrow> (\<And>r h'. Q r h') \<Longrightarrow> safe (handle n) h Q) \<Longrightarrow> list_all P rows \<Longrightarrow>
   (\<And>r h'. Q r h') \<Longrightarrow> safe (sweep_rows handle count rows out) h Q"
proof (induction rows arbitrary: out h)
  case (Cons n rows)
  from Cons.prems(2) have n: "P n" and rows: "list_all P rows" by auto
  have rest: "safe (sweep_rows handle count rows out') h' Q" for out' h'
    by (rule Cons.IH [OF Cons.prems(1) rows Cons.prems(3)])
  show ?case
    unfolding sweep_rows.simps safe_rules
    by (rule Cons.prems(1) [OF n]) (simp add: rest Cons.prems(3) split: option.split)
qed simp

lemma sweeps:
  assumes "\<And>r h'. Q r h'"
  shows "safe (sweepOrphanedPending uc t out) h Q" "safe (sweepStuckProcessing uc t out) h Q"
    "safe (sweepOverdueRetrying uc t out) h Q" "safe (sweepStuckQueued uc t out) h Q"
  unfolding sweep_defs safe_rules
  by (rule find_orphaned find_stuck find_overdue find_queued;
      auto simp: assms intro!: sweep_rows_safe [where P = entity_ok] handle_orphaned handle_stuck
        neutralD [OF handle_reenqueue(1)] neutralD [OF handle_reenqueue(2)] assms)+

lemma reconcile_safe: "safe (ReconcileStuckNotifications_Execute uc) h (\<lambda>_ _. True)"
  unfolding ReconcileStuckNotifications_Execute_def and_then_def safe_rules
  by (auto simp: safe_rules split: option.split intro!: neutralD [OF now] sweeps)

end

section \<open>The read side and the templates\<close>

lemma ListNotifications_neutral:
  assumes "notification_store R denotes"
  shows "neutral (ListNotifications_Execute R i)"
  unfolding ListNotifications_Execute_def Let_def
  by (intro neutral_intros notification_store.list_page [OF assms] | clarsimp)+

lemma templates_neutral:
  assumes "template_store T" "time_source N" "id_source G"
  shows "neutral (RenderTemplate_Execute E T i vars)" "neutral (CreateTemplate_Execute E T G N a b c)"
    "neutral (GetTemplate_Execute T i)" "neutral (ListTemplates_Execute T l)"
    "neutral (ReplaceTemplate_Execute E T N i a b c)" "neutral (DeleteTemplate_Execute T i)"
  unfolding catalog_defs Let_def
  by (intro neutral_intros template_store.template_get [OF assms(1)]
      template_store.template_create [OF assms(1)] template_store.template_list [OF assms(1)]
      template_store.template_update [OF assms(1)] template_store.template_delete [OF assms(1)]
      time_source.now [OF assms(2)] id_source.new_ids [OF assms(3)])+

end
