(* ===== verification/Postgres.thy ===== *)
theory Postgres
  imports Ports Sql Base64
begin

text \<open>
  The PostgreSQL adapters, \<open>internal/adapters/postgres\<close>: conversion between entities and
  rows, the keyset cursor, and the methods of the four repositories as programs over the
  statements of \<open>Effects\<close>.
\<close>

section \<open>Identifiers\<close>

text \<open>The verb \<open>%x\<close> on a byte slice.\<close>

definition hex_bytes :: "8 word list \<Rightarrow> string" where
  "hex_bytes bs = concat (map (\<lambda>b. [hex_digit (unat b div 16), hex_digit (unat b mod 16)]) bs)"

definition slice :: "nat \<Rightarrow> nat \<Rightarrow> 'a list \<Rightarrow> 'a list" where
  "slice i j xs = take (j - i) (drop i xs)"

definition parseUUID :: "pg_codec \<Rightarrow> string \<Rightarrow> gerror + pgUUID" where
  "parseUUID C s = (case uuid_Scan C s of Inl e \<Rightarrow> Inl e | Inr u \<Rightarrow> Inr (Some u))"

definition uuidToString :: "pgUUID \<Rightarrow> gerror + string" where
  "uuidToString u =
     (case u of
        None \<Rightarrow> Inl (Opaque ''uuid is null'')
      | Some b \<Rightarrow> Inr (hex_bytes (slice 0 4 b) @ ''-'' @ hex_bytes (slice 4 6 b) @ ''-'' @
          hex_bytes (slice 6 8 b) @ ''-'' @ hex_bytes (slice 8 10 b) @ ''-'' @ hex_bytes (slice 10 16 b)))"

section \<open>Rows and entities\<close>

definition notificationToCreateParams :: "pg_codec \<Rightarrow> Notification \<Rightarrow> gerror + NotificationRow" where
  "notificationToCreateParams C n =
     bind_res (wrap_res ''id: %w'' [] (parseUUID C (n_ID n))) (\<lambda>i.
     bind_res (case n_BatchID n of None \<Rightarrow> Inr None
        | Some b \<Rightarrow> wrap_res ''batch_id: %w'' [] (parseUUID C b)) (\<lambda>batchID.
     bind_res (case n_TemplateID n of None \<Rightarrow> Inr None
        | Some t \<Rightarrow> wrap_res ''template_id: %w'' [] (parseUUID C t)) (\<lambda>templateID.
     Inr \<lparr>r_id = i, r_batch_id = batchID,
          r_idempotency_key = (if n_IdempotencyKey n = [] then None else Some (n_IdempotencyKey n)),
          r_correlation_id = n_CorrelationID n, r_channel = n_Channel n, r_priority = n_Priority n,
          r_recipient = n_Recipient n, r_content = n_Content n, r_status = n_Status n,
          r_attempts = word_of_int (n_Attempts n), r_last_error = n_LastError n,
          r_next_retry_at = n_NextRetryAt n, r_scheduled_at = n_ScheduledAt n,
          r_template_id = templateID, r_created_at = n_CreatedAt n, r_updated_at = n_UpdatedAt n\<rparr>)))"

definition notificationFromRow :: "NotificationRow \<Rightarrow> gerror + Notification" where
  "notificationFromRow r =
     bind_res (wrap_res ''id: %w'' [] (uuidToString (r_id r))) (\<lambda>i.
     bind_res (if r_batch_id r = None then Inr None
        else map_sum id Some (wrap_res ''batch_id: %w'' [] (uuidToString (r_batch_id r)))) (\<lambda>batchID.
     bind_res (if r_template_id r = None then Inr None
        else map_sum id Some (wrap_res ''template_id: %w'' [] (uuidToString (r_template_id r)))) (\<lambda>templateID.
     Inr \<lparr>n_ID = i, n_BatchID = batchID,
          n_IdempotencyKey = (case r_idempotency_key r of None \<Rightarrow> [] | Some key \<Rightarrow> key),
          n_CorrelationID = r_correlation_id r, n_Channel = r_channel r, n_Priority = r_priority r,
          n_Recipient = r_recipient r, n_Content = r_content r, n_Status = r_status r,
          n_Attempts = sint (r_attempts r), n_LastError = r_last_error r,
          n_NextRetryAt = r_next_retry_at r, n_ScheduledAt = r_scheduled_at r,
          n_TemplateID = templateID, n_CreatedAt = r_created_at r, n_UpdatedAt = r_updated_at r\<rparr>)))"

fun rowsToNotifications :: "NotificationRow list \<Rightarrow> gerror + Notification list" where
  "rowsToNotifications [] = Inr []"
| "rowsToNotifications (r # rows) =
     bind_res (notificationFromRow r) (\<lambda>n.
     bind_res (rowsToNotifications rows) (\<lambda>ns. Inr (n # ns)))"

text \<open>\<open>:one\<close> queries: \<open>pgx.ErrNoRows\<close> when there is no row, else the first.\<close>

definition first_row :: "gerror + 'a list \<Rightarrow> gerror + 'a" where
  "first_row r = (case r of Inl e \<Rightarrow> Inl e | Inr [] \<Rightarrow> Inl (Sent ErrNoRows) | Inr (x # _) \<Rightarrow> Inr x)"

definition query_one :: "notification_query \<Rightarrow> (gerror + NotificationRow) prog" where
  "query_one q = QueryN q (\<lambda>r. Ret (first_row r))"

definition query_many :: "notification_query \<Rightarrow> (gerror + NotificationRow list) prog" where
  "query_many q = QueryN q Ret"

text \<open>\<open>:exec\<close> statements return an error only, \<open>:execrows\<close> ones the number of rows too.\<close>

definition exec_only :: "exec_stmt \<Rightarrow> gerror option prog" where
  "exec_only s = Exec s (\<lambda>r. Ret (case r of Inl e \<Rightarrow> Some e | Inr _ \<Rightarrow> None))"

definition exec_rows :: "exec_stmt \<Rightarrow> (gerror + int) prog" where
  "exec_rows s = Exec s Ret"

section \<open>The cursor\<close>

definition encodeCursor :: "pg_codec \<Rightarrow> Time \<Rightarrow> string \<Rightarrow> string" where
  "encodeCursor C t i = base64_EncodeToString URLEncoding (format_RFC3339Nano C t @ ''|'' @ i)"

definition decodeCursor :: "pg_codec \<Rightarrow> string \<Rightarrow> gerror + Time \<times> string" where
  "decodeCursor C s =
     (case base64_DecodeString URLEncoding s of
        None \<Rightarrow> Inl (Errorf ''base64: %w'' [] (Opaque ''illegal base64 data''))
      | Some raw \<Rightarrow>
          (if CHR ''|'' \<notin> set raw then Inl (Opaque ''malformed cursor: missing separator'')
           else let stamp = takeWhile (\<lambda>c. c \<noteq> CHR ''|'') raw;
                    rest = drop (length stamp + 1) raw in
             bind_res (wrap_res ''timestamp: %w'' [] (parse_RFC3339Nano C stamp)) (\<lambda>t. Inr (t, rest))))"

definition paginate ::
  "pg_codec \<Rightarrow> Notification list \<Rightarrow> int \<Rightarrow> Notification list \<times> string"
where
  "paginate C items limit =
     (if int (length items) \<le> limit then (items, [])
      else let last = items ! nat (limit - 1) in
        (take (nat limit) items, encodeCursor C (n_CreatedAt last) (n_ID last)))"

definition buildListParams ::
  "pg_codec \<Rightarrow> NotificationFilter \<Rightarrow> string \<Rightarrow> int \<Rightarrow> gerror + ListNotificationsParams"
where
  "buildListParams C flt cursor limit =
     bind_res (if cursor = [] then Inr (None, None)
       else bind_res (wrap_res ''decode cursor: %w'' [] (decodeCursor C cursor)) (\<lambda>(t, idStr).
            bind_res (wrap_res ''cursor id: %w'' [] (parseUUID C idStr)) (\<lambda>pgID. Inr (Some t, pgID)))) (\<lambda>(ct, cid).
     bind_res (case f_BatchID flt of None \<Rightarrow> Inr None
       | Some b \<Rightarrow> wrap_res ''batch_id filter: %w'' [] (parseUUID C b)) (\<lambda>bid.
     Inr \<lparr>q_status = f_Status flt, q_channel = f_Channel flt, q_batch_id = bid,
          q_created_after = f_CreatedAfter flt, q_created_before = f_CreatedBefore flt,
          q_cursor_created_at = ct, q_cursor_id = cid, q_row_limit = word_of_int (limit + 1)\<rparr>))"

section \<open>NotificationRepository\<close>

definition parseNotificationIDErr :: "NotificationID \<Rightarrow> gerror \<Rightarrow> gerror" where
  "parseNotificationIDErr i e = Errorf ''parse notification id %q: %w'' [i] e"

definition wrapNotificationErr :: "sentinel \<Rightarrow> NotificationID \<Rightarrow> gerror" where
  "wrapNotificationErr s i = Errorf ''%w: notification %s'' [i] (Sent s)"

definition NotificationRepository_Create :: "pg_codec \<Rightarrow> Notification \<Rightarrow> gerror option prog" where
  "NotificationRepository_Create C n =
     check_val (notificationToCreateParams C n)
       (\<lambda>e. Some (Errorf ''convert notification: %w'' [] e)) (\<lambda>params.
     on_err (exec_only (Q_CreateNotification params))
       (\<lambda>e. Some (Errorf ''create notification %s: %w'' [n_ID n] e))
     (Ret None))"

definition NotificationRepository_Get ::
  "pg_codec \<Rightarrow> NotificationID \<Rightarrow> (gerror + Notification) prog"
where
  "NotificationRepository_Get C i =
     check_val (parseUUID C i) (\<lambda>e. Inl (parseNotificationIDErr i e)) (\<lambda>pgID.
     try_val (query_one (Q_GetNotification pgID))
       (\<lambda>e. Inl (if errors_Is e ErrNoRows then wrapNotificationErr ErrNotFound i
                 else Errorf ''get notification %s: %w'' [i] e)) (\<lambda>row.
     Ret (notificationFromRow row)))"

definition NotificationRepository_ClaimForProcessing ::
  "pg_codec \<Rightarrow> NotificationID \<Rightarrow> Time \<Rightarrow> (gerror + Notification) prog"
where
  "NotificationRepository_ClaimForProcessing C i now =
     check_val (parseUUID C i) (\<lambda>e. Inl (parseNotificationIDErr i e)) (\<lambda>pgID.
     try_val (query_one (Q_GetNotification pgID))
       (\<lambda>e. Inl (if errors_Is e ErrNoRows then wrapNotificationErr ErrNotFound i
                 else Errorf ''get notification %s: %w'' [i] e)) (\<lambda>_.
     try_val (query_one (Q_ClaimForProcessing pgID now))
       (\<lambda>e. Inl (if errors_Is e ErrNoRows then wrapNotificationErr ErrAlreadyClaimed i
                 else Errorf ''claim notification %s: %w'' [i] e)) (\<lambda>row.
     Ret (notificationFromRow row))))"

definition NotificationRepository_UpdateStatus ::
  "pg_codec \<Rightarrow> Notification \<Rightarrow> Status \<Rightarrow> gerror option prog"
where
  "NotificationRepository_UpdateStatus C n expectedSource =
     check_val (parseUUID C (n_ID n)) (\<lambda>e. Some (parseNotificationIDErr (n_ID n) e)) (\<lambda>pgID.
     try_val (exec_rows (Q_UpdateNotificationStatus
         \<lparr>u_id = pgID, u_new_status = n_Status n, u_attempts = word_of_int (n_Attempts n),
          u_last_error = n_LastError n, u_next_retry_at = n_NextRetryAt n,
          u_updated_at = n_UpdatedAt n, u_expected_source = expectedSource\<rparr>))
       (\<lambda>e. Some (Errorf ''update notification %s: %w'' [n_ID n] e)) (\<lambda>rows.
     if rows = 0
     then Ret (Some (Errorf ''%w: notification %s expected source %s'' [n_ID n, expectedSource]
            (Sent ErrConcurrentUpdate)))
     else Ret None))"

definition NotificationRepository_List ::
  "pg_codec \<Rightarrow> NotificationFilter \<Rightarrow> string \<Rightarrow> int \<Rightarrow> (gerror + Notification list \<times> string) prog"
where
  "NotificationRepository_List C flt cursor limit =
     check_val (buildListParams C flt cursor limit) Inl (\<lambda>params.
     try_val (query_many (Q_ListNotifications params))
       (\<lambda>e. Inl (Errorf ''list notifications: %w'' [] e)) (\<lambda>rows.
     check_val (rowsToNotifications rows) Inl (\<lambda>items.
     Ret (Inr (paginate C items limit)))))"

definition find_rows :: "string \<Rightarrow> notification_query \<Rightarrow> (gerror + Notification list) prog" where
  "find_rows fmt q = try_val (query_many q) (\<lambda>e. Inl (Errorf fmt [] e)) (\<lambda>rows. Ret (rowsToNotifications rows))"

definition NotificationRepository_FindOrphanedPending ::
  "Time \<Rightarrow> int \<Rightarrow> (gerror + Notification list) prog"
where
  "NotificationRepository_FindOrphanedPending olderThan limit =
     find_rows ''find orphaned pending: %w'' (Q_FindOrphanedPending olderThan (word_of_int limit))"

definition NotificationRepository_FindStuckProcessing ::
  "Time \<Rightarrow> int \<Rightarrow> (gerror + Notification list) prog"
where
  "NotificationRepository_FindStuckProcessing olderThan limit =
     find_rows ''find stuck processing: %w'' (Q_FindStuckProcessing olderThan (word_of_int limit))"

definition NotificationRepository_FindOverdueRetrying ::
  "Time \<Rightarrow> int \<Rightarrow> (gerror + Notification list) prog"
where
  "NotificationRepository_FindOverdueRetrying beforeAt limit =
     find_rows ''find overdue retrying: %w'' (Q_FindOverdueRetrying beforeAt (word_of_int limit))"

definition NotificationRepository_FindStuckQueued ::
  "Time \<Rightarrow> int \<Rightarrow> (gerror + Notification list) prog"
where
  "NotificationRepository_FindStuckQueued olderThan limit =
     find_rows ''find stuck queued: %w'' (Q_FindStuckQueued olderThan (word_of_int limit))"

definition pg_NotificationRepository :: "pg_codec \<Rightarrow> NotificationRepository" where
  "pg_NotificationRepository C =
     \<lparr>Repo_Create = NotificationRepository_Create C,
      Repo_Get = NotificationRepository_Get C,
      Repo_ClaimForProcessing = NotificationRepository_ClaimForProcessing C,
      Repo_UpdateStatus = NotificationRepository_UpdateStatus C,
      Repo_List = NotificationRepository_List C,
      Repo_FindOrphanedPending = NotificationRepository_FindOrphanedPending,
      Repo_FindStuckProcessing = NotificationRepository_FindStuckProcessing,
      Repo_FindOverdueRetrying = NotificationRepository_FindOverdueRetrying,
      Repo_FindStuckQueued = NotificationRepository_FindStuckQueued\<rparr>"

section \<open>BatchRepository\<close>

definition BatchRepository_Create :: "pg_codec \<Rightarrow> Batch \<Rightarrow> gerror option prog" where
  "BatchRepository_Create C b =
     check_val (parseUUID C (b_ID b)) (\<lambda>e. Some (Errorf ''parse batch id %q: %w'' [b_ID b] e)) (\<lambda>batchID.
     Tx (Inr (Q_CreateBatch \<lparr>br_id = batchID, br_correlation_id = b_CorrelationID b,
                br_created_at = b_CreatedAt b\<rparr>, ''create batch %s: %w'', [b_ID b]) #
         map (\<lambda>n. case notificationToCreateParams C n of
             Inl e \<Rightarrow> Inl (Errorf ''convert notification %s: %w'' [n_ID n] e)
           | Inr params \<Rightarrow> Inr (Q_CreateNotification params,
               ''create notification %s in batch %s: %w'', [n_ID n, b_ID b])) (b_Notifications b)) Ret)"

definition BatchRepository_Get :: "pg_codec \<Rightarrow> BatchID \<Rightarrow> (gerror + Batch) prog" where
  "BatchRepository_Get C i =
     check_val (parseUUID C i) (\<lambda>e. Inl (Errorf ''parse batch id %q: %w'' [i] e)) (\<lambda>pgID.
     try_val (QueryB pgID (\<lambda>r. Ret (first_row r)))
       (\<lambda>e. Inl (if errors_Is e ErrNoRows then Errorf ''%w: batch %s'' [i] (Sent ErrNotFound)
                 else Errorf ''get batch %s: %w'' [i] e)) (\<lambda>batchRow.
     try_val (query_many (Q_ListNotificationsByBatch pgID))
       (\<lambda>e. Inl (Errorf ''list notifications for batch %s: %w'' [i] e)) (\<lambda>rows.
     check_val (rowsToNotifications rows)
       (\<lambda>e. Inl (Errorf ''convert batch notifications: %w'' [] e)) (\<lambda>notifications.
     check_val (uuidToString (br_id batchRow)) (\<lambda>e. Inl (Errorf ''batch id: %w'' [] e)) (\<lambda>idStr.
     Ret (Inr \<lparr>b_ID = idStr, b_CorrelationID = br_correlation_id batchRow,
               b_Notifications = notifications, b_CreatedAt = br_created_at batchRow\<rparr>))))))"

definition pg_BatchRepository :: "pg_codec \<Rightarrow> BatchRepository" where
  "pg_BatchRepository C = \<lparr>BatchRepo_Create = BatchRepository_Create C, BatchRepo_Get = BatchRepository_Get C\<rparr>"

section \<open>TemplateRepository\<close>

definition parseTemplateIDErr :: "TemplateID \<Rightarrow> gerror \<Rightarrow> gerror" where
  "parseTemplateIDErr i e = Errorf ''parse template id %q: %w'' [i] e"

definition templateFromRow :: "TemplateRow \<Rightarrow> gerror + Template" where
  "templateFromRow r =
     bind_res (wrap_res ''template id: %w'' [] (uuidToString (tr_id r))) (\<lambda>i.
     Inr \<lparr>t_ID = i, t_Name = tr_name r, t_Channel = tr_channel r, t_Body = tr_body r,
          t_CreatedAt = tr_created_at r, t_UpdatedAt = tr_updated_at r\<rparr>)"

fun templates_of_rows :: "TemplateRow list \<Rightarrow> gerror + Template list" where
  "templates_of_rows [] = Inr []"
| "templates_of_rows (r # rows) =
     bind_res (templateFromRow r) (\<lambda>t. bind_res (templates_of_rows rows) (\<lambda>ts. Inr (t # ts)))"

definition TemplateRepository_Create :: "pg_codec \<Rightarrow> Template \<Rightarrow> gerror option prog" where
  "TemplateRepository_Create C t =
     check_val (parseUUID C (t_ID t)) (\<lambda>e. Some (parseTemplateIDErr (t_ID t) e)) (\<lambda>i.
     on_err (exec_only (Q_CreateTemplate \<lparr>tr_id = i, tr_name = t_Name t, tr_channel = t_Channel t,
         tr_body = t_Body t, tr_created_at = t_CreatedAt t, tr_updated_at = t_UpdatedAt t\<rparr>))
       (\<lambda>e. Some (Errorf ''create template %s: %w'' [t_ID t] e))
     (Ret None))"

definition TemplateRepository_Get :: "pg_codec \<Rightarrow> TemplateID \<Rightarrow> (gerror + Template) prog" where
  "TemplateRepository_Get C i =
     check_val (parseUUID C i) (\<lambda>e. Inl (parseTemplateIDErr i e)) (\<lambda>pgID.
     try_val (QueryT (Q_GetTemplate pgID) (\<lambda>r. Ret (first_row r)))
       (\<lambda>e. Inl (if errors_Is e ErrNoRows then Errorf ''%w: template %s'' [i] (Sent ErrNotFound)
                 else Errorf ''get template %s: %w'' [i] e)) (\<lambda>row.
     Ret (templateFromRow row)))"

definition TemplateRepository_GetByName :: "string \<Rightarrow> (gerror + Template) prog" where
  "TemplateRepository_GetByName name =
     try_val (QueryT (Q_GetTemplateByName name) (\<lambda>r. Ret (first_row r)))
       (\<lambda>e. Inl (if errors_Is e ErrNoRows then Errorf ''%w: template name %q'' [name] (Sent ErrNotFound)
                 else Errorf ''get template by name %q: %w'' [name] e)) (\<lambda>row.
     Ret (templateFromRow row))"

definition TemplateRepository_List :: "int \<Rightarrow> (gerror + Template list) prog" where
  "TemplateRepository_List limit =
     try_val (QueryT (Q_ListTemplates (word_of_int limit)) Ret)
       (\<lambda>e. Inl (Errorf ''list templates: %w'' [] e)) (\<lambda>rows. Ret (templates_of_rows rows))"

definition TemplateRepository_Update :: "pg_codec \<Rightarrow> Template \<Rightarrow> gerror option prog" where
  "TemplateRepository_Update C t =
     check_val (parseUUID C (t_ID t)) (\<lambda>e. Some (parseTemplateIDErr (t_ID t) e)) (\<lambda>pgID.
     on_err (exec_only (Q_UpdateTemplate pgID (t_Name t) (t_Channel t) (t_Body t)))
       (\<lambda>e. Some (Errorf ''update template %s: %w'' [t_ID t] e))
     (Ret None))"

definition TemplateRepository_Delete :: "pg_codec \<Rightarrow> TemplateID \<Rightarrow> gerror option prog" where
  "TemplateRepository_Delete C i =
     check_val (parseUUID C i) (\<lambda>e. Some (parseTemplateIDErr i e)) (\<lambda>pgID.
     on_err (exec_only (Q_DeleteTemplate pgID))
       (\<lambda>e. Some (Errorf ''delete template %s: %w'' [i] e))
     (Ret None))"

definition pg_TemplateRepository :: "pg_codec \<Rightarrow> TemplateRepository" where
  "pg_TemplateRepository C =
     \<lparr>TmplRepo_Create = TemplateRepository_Create C, TmplRepo_Get = TemplateRepository_Get C,
      TmplRepo_GetByName = TemplateRepository_GetByName, TmplRepo_List = TemplateRepository_List,
      TmplRepo_Update = TemplateRepository_Update C, TmplRepo_Delete = TemplateRepository_Delete C\<rparr>"

section \<open>NotificationLogRepository\<close>

definition NotificationLogRepository_Append :: "pg_codec \<Rightarrow> NotificationLog \<Rightarrow> gerror option prog" where
  "NotificationLogRepository_Append C entry =
     check_val (parseUUID C (l_ID entry)) (\<lambda>e. Some (Errorf ''parse log id %q: %w'' [l_ID entry] e)) (\<lambda>i.
     check_val (parseUUID C (l_NotificationID entry))
       (\<lambda>e. Some (parseNotificationIDErr (l_NotificationID entry) e)) (\<lambda>notifID.
     check_val (case l_Details entry of None \<Rightarrow> Inr None
         | Some details \<Rightarrow> map_sum id Some (json_Marshal C details))
       (\<lambda>e. Some (Errorf ''marshal log details: %w'' [] e)) (\<lambda>details.
     on_err (exec_only (Q_AppendNotificationLog \<lparr>lr_id = i, lr_notification_id = notifID,
         lr_correlation_id = l_CorrelationID entry, lr_event = l_Event entry,
         lr_details = details, lr_created_at = l_CreatedAt entry\<rparr>))
       (\<lambda>e. Some (Errorf ''append log entry %s: %w'' [l_ID entry] e))
     (Ret None))))"

definition notificationLogFromRow :: "pg_codec \<Rightarrow> NotificationLogRow \<Rightarrow> gerror + NotificationLog" where
  "notificationLogFromRow C r =
     bind_res (wrap_res ''log id: %w'' [] (uuidToString (lr_id r))) (\<lambda>i.
     bind_res (wrap_res ''notification id: %w'' [] (uuidToString (lr_notification_id r))) (\<lambda>notifID.
     bind_res (case lr_details r of
         None \<Rightarrow> Inr None
       | Some raw \<Rightarrow> (if raw = [] then Inr None
           else wrap_res ''unmarshal log details for %s: %w'' [i] (json_Unmarshal C raw))) (\<lambda>details.
     Inr \<lparr>l_ID = i, l_NotificationID = notifID, l_CorrelationID = lr_correlation_id r,
          l_Event = lr_event r, l_Details = details, l_CreatedAt = lr_created_at r\<rparr>)))"

fun logs_of_rows :: "pg_codec \<Rightarrow> NotificationLogRow list \<Rightarrow> gerror + NotificationLog list" where
  "logs_of_rows C [] = Inr []"
| "logs_of_rows C (r # rows) =
     bind_res (notificationLogFromRow C r) (\<lambda>l. bind_res (logs_of_rows C rows) (\<lambda>ls. Inr (l # ls)))"

definition NotificationLogRepository_List ::
  "pg_codec \<Rightarrow> NotificationID \<Rightarrow> (gerror + NotificationLog list) prog"
where
  "NotificationLogRepository_List C i =
     check_val (parseUUID C i) (\<lambda>e. Inl (parseNotificationIDErr i e)) (\<lambda>pgID.
     try_val (QueryL pgID Ret) (\<lambda>e. Inl (Errorf ''list logs for %s: %w'' [i] e)) (\<lambda>rows.
     Ret (logs_of_rows C rows)))"

definition pg_NotificationLogRepository :: "pg_codec \<Rightarrow> NotificationLogRepository" where
  "pg_NotificationLogRepository C =
     \<lparr>LogRepo_Append = NotificationLogRepository_Append C, LogRepo_List = NotificationLogRepository_List C\<rparr>"

lemmas pg_repo_defs = NotificationRepository_Create_def NotificationRepository_Get_def
  NotificationRepository_ClaimForProcessing_def NotificationRepository_UpdateStatus_def
  NotificationRepository_List_def find_rows_def NotificationRepository_FindOrphanedPending_def
  NotificationRepository_FindStuckProcessing_def NotificationRepository_FindOverdueRetrying_def
  NotificationRepository_FindStuckQueued_def
lemmas pg_batch_defs = BatchRepository_Create_def BatchRepository_Get_def
lemmas pg_template_defs = TemplateRepository_Create_def TemplateRepository_Get_def
  TemplateRepository_GetByName_def TemplateRepository_List_def TemplateRepository_Update_def
  TemplateRepository_Delete_def
lemmas pg_log_defs = NotificationLogRepository_Append_def NotificationLogRepository_List_def

end
