(* ===== verification/Gateways.thy ===== *)
theory Gateways
  imports Ports
begin

text \<open>
  The adapters in front of everything that is not PostgreSQL: the task queue
  (\<open>internal/adapters/asynq\<close>), the outbound rate limiter and the status broadcaster
  (\<open>internal/adapters/redis\<close>), the provider registry and the webhook provider
  (\<open>internal/adapters/provider\<close>), the circuit breaker around a provider
  (\<open>internal/infrastructure/circuit\<close>), and the real clock and identifier generator. Trace
  spans of the queue adapter are left out; they carry no state.
\<close>

section \<open>The task queue\<close>

definition TypeProcessNotification :: string where
  [simp]: "TypeProcessNotification = ''notification:process''"
definition maxRetryAttempts :: int where [simp]: "maxRetryAttempts = 5"
definition idempotencyWindow24h :: Duration where "idempotencyWindow24h = 24 * 60 * Minute"

definition queueNames :: "string list" where
  "queueNames = [PriorityHigh, PriorityNormal, PriorityLow]"

definition TaskIDFor :: "NotificationID \<Rightarrow> string \<Rightarrow> string" where
  "TaskIDFor notificationID idempotencyKey =
     (if idempotencyKey \<noteq> [] then idempotencyKey else ''notif:'' @ notificationID)"

definition NewProcessNotificationTask ::
  "NotificationID \<Rightarrow> Priority \<Rightarrow> string \<Rightarrow> asynq_task"
where
  "NewProcessNotificationTask notificationID priority idempotencyKey =
     \<lparr>k_type = TypeProcessNotification, k_notification_id = notificationID, k_queue = priority,
      k_max_retry = maxRetryAttempts, k_task_id = TaskIDFor notificationID idempotencyKey,
      k_unique = (if idempotencyKey \<noteq> [] then Some idempotencyWindow24h else None),
      k_process_at = None\<rparr>"

definition AsynqQueue_Enqueue ::
  "NotificationID \<Rightarrow> Priority \<Rightarrow> string \<Rightarrow> gerror option prog"
where
  "AsynqQueue_Enqueue notificationID priority idempotencyKey =
     Asynq_Enqueue (NewProcessNotificationTask notificationID priority idempotencyKey)
       (\<lambda>e. Ret (wrap_opt ''enqueue notification %s: %w'' [notificationID] e))"

definition AsynqQueue_EnqueueScheduled ::
  "NotificationID \<Rightarrow> Priority \<Rightarrow> Time \<Rightarrow> gerror option prog"
where
  "AsynqQueue_EnqueueScheduled notificationID priority at =
     Asynq_Enqueue ((NewProcessNotificationTask notificationID priority [])\<lparr>k_process_at := Some at\<rparr>)
       (\<lambda>e. Ret (wrap_opt ''enqueue scheduled notification %s: %w'' [notificationID] e))"

fun cancel_on :: "NotificationID \<Rightarrow> string \<Rightarrow> string list \<Rightarrow> gerror option prog" where
  "cancel_on notificationID taskID [] = Ret None"
| "cancel_on notificationID taskID (name # names) =
     Asynq_DeleteTask name taskID (\<lambda>e. case e of
         None \<Rightarrow> cancel_on notificationID taskID names
       | Some err \<Rightarrow>
           (if errors_Is err ErrTaskNotFound \<or> errors_Is err ErrQueueNotFound
            then cancel_on notificationID taskID names
            else Ret (Some (Errorf ''cancel notification %s on queue %s: %w'' [notificationID, name] err))))"

definition AsynqQueue_Cancel :: "NotificationID \<Rightarrow> gerror option prog" where
  "AsynqQueue_Cancel notificationID =
     cancel_on notificationID (TaskIDFor notificationID []) queueNames"

definition asynq_Queue :: Queue where
  "asynq_Queue = \<lparr>Queue_Enqueue = AsynqQueue_Enqueue,
     Queue_EnqueueScheduled = AsynqQueue_EnqueueScheduled, Queue_Cancel = AsynqQueue_Cancel\<rparr>"

text \<open>The consumer side: the task's payload is decoded by \<open>json.Unmarshal\<close>, whose answer is the
  first argument, and the use case is run.\<close>

definition HandleProcessNotification ::
  "gerror + string \<Rightarrow> (NotificationID \<Rightarrow> gerror option prog) \<Rightarrow> gerror option prog"
where
  "HandleProcessNotification payload process =
     (case payload of
        Inl e \<Rightarrow> Ret (Some (Errorf ''unmarshal process notification payload: %w'' [] e))
      | Inr notificationID \<Rightarrow>
          (if notificationID = []
           then Ret (Some (Opaque ''process notification: empty notification id in payload''))
           else process notificationID))"

section \<open>Redis\<close>

definition rateLimitKeyPrefix :: string where [simp]: "rateLimitKeyPrefix = ''ratelimit:''"
definition StatusChannel :: string where [simp]: "StatusChannel = ''notification.status''"

record OutboundRateLimiter =
  rl_limit :: int
  rl_window :: Duration

definition window_ms :: "OutboundRateLimiter \<Rightarrow> int" where
  "window_ms l = (if Duration_Milliseconds (rl_window l) < 1 then 1 else Duration_Milliseconds (rl_window l))"

definition OutboundRateLimiter_Allow ::
  "OutboundRateLimiter \<Rightarrow> string \<Rightarrow> (gerror + bool \<times> Duration) prog"
where
  "OutboundRateLimiter_Allow l bucket =
     Redis_RunScript (rateLimitKeyPrefix @ bucket) (rl_limit l) (window_ms l) (\<lambda>r. Ret (case r of
         Inl e \<Rightarrow> Inl (Errorf ''rate limit script %s: %w'' [bucket] e)
       | Inr None \<Rightarrow> Inl (Opaque ''rate limit script returned unexpected value'')
       | Inr (Some (allowedRaw, retryMs)) \<Rightarrow>
           Inr (allowedRaw = 1, word_of_int retryMs * 1000000)))"

definition redis_RateLimiter :: "OutboundRateLimiter \<Rightarrow> RateLimiter" where
  "redis_RateLimiter l = \<lparr>RateLimiter_Allow = OutboundRateLimiter_Allow l\<rparr>"

text \<open>The script itself, on the state of its key: nothing, or a counter and the instant
  (in milliseconds) at which the key expires.\<close>

definition live_key :: "int \<Rightarrow> (int \<times> int) option \<Rightarrow> (int \<times> int) option" where
  "live_key now s = (case s of Some (n, at) \<Rightarrow> (if at \<le> now then None else Some (n, at)) | None \<Rightarrow> None)"

definition rateLimitScript ::
  "int \<Rightarrow> int \<Rightarrow> int \<Rightarrow> (int \<times> int) option \<Rightarrow> (int \<times> int) \<times> (int \<times> int) option"
where
  "rateLimitScript limit window now s =
     (let (current, expires) = (case live_key now s of
            None \<Rightarrow> (1, now + window)
          | Some (n, at) \<Rightarrow> (n + 1, at)) in
      (if current > limit then (0, let ttl = expires - now in if ttl < 0 then 0 else ttl) else (1, 0),
       Some (current, expires)))"

definition RedisBroadcaster_Publish :: "NotificationID \<Rightarrow> Status \<Rightarrow> gerror option prog" where
  "RedisBroadcaster_Publish notificationID st =
     Redis_Publish StatusChannel notificationID st
       (\<lambda>e. Ret (wrap_opt ''redis publish %s: %w'' [notificationID] e))"

definition redis_StatusBroadcaster :: StatusBroadcaster where
  "redis_StatusBroadcaster = \<lparr>Broadcaster_Publish = RedisBroadcaster_Publish\<rparr>"

section \<open>Providers\<close>

record Registry =
  rg_providers :: "Channel \<rightharpoonup> Provider"

definition NewRegistry :: Registry where
  "NewRegistry = \<lparr>rg_providers = Map.empty\<rparr>"

definition Registry_Register :: "Registry \<Rightarrow> Channel \<Rightarrow> Provider \<Rightarrow> Registry" where
  "Registry_Register r channel p = r\<lparr>rg_providers := (rg_providers r)(channel \<mapsto> p)\<rparr>"

definition Registry_Send :: "Registry \<Rightarrow> Channel \<Rightarrow> string \<Rightarrow> string \<Rightarrow> DeliveryResult prog" where
  "Registry_Send r channel recipient content =
     (case rg_providers r channel of
        None \<Rightarrow> Ret (PermanentFailureResult
          (''provider registry: no provider registered for channel '' @ quoted channel) 0 0)
      | Some p \<Rightarrow> Provider_Send p channel recipient content)"

text \<open>The webhook provider. Building the request fails when the configured URL does not parse;
  the text of that error, if any, is kept beside the URL.\<close>

record WebhookProvider =
  wp_url :: string
  wp_url_error :: "string option"

definition since :: "Time \<Rightarrow> (Duration \<Rightarrow> 'r prog) \<Rightarrow> 'r prog" where
  "since start k = Clock_Now (\<lambda>t. k (time_Sub t start))"

definition readBodyForReason :: "http_response \<Rightarrow> string" where
  "readBodyForReason resp =
     (case hr_body resp of None \<Rightarrow> hr_status resp | Some body \<Rightarrow> take 256 body)"

definition WebhookProvider_classify :: "http_response \<Rightarrow> Time \<Rightarrow> DeliveryResult prog" where
  "WebhookProvider_classify resp start =
     since start (\<lambda>latency. Ret (
       if hr_code resp \<ge> 200 \<and> hr_code resp < 300 then DeliveredResult (hr_message_id resp) latency
       else if hr_code resp \<ge> 400 \<and> hr_code resp < 500
       then PermanentFailureResult (''webhook 4xx: '' @ readBodyForReason resp) (hr_code resp) latency
       else TransientFailureResult
         (''webhook '' @ strconv_Itoa (hr_code resp) @ '': '' @ readBodyForReason resp) (hr_code resp) latency))"

definition WebhookProvider_Send ::
  "WebhookProvider \<Rightarrow> Channel \<Rightarrow> string \<Rightarrow> string \<Rightarrow> DeliveryResult prog"
where
  "WebhookProvider_Send p channel recipient content =
     Clock_Now (\<lambda>start.
     case wp_url_error p of
       Some msg \<Rightarrow> since start (\<lambda>latency. Ret (TransientFailureResult (''webhook: build request: '' @ msg) 0 latency))
     | None \<Rightarrow>
         Http_Do \<lparr>hq_url = wp_url p, hq_to = recipient, hq_channel = channel, hq_content = content\<rparr> (\<lambda>r.
         case r of
           Inl msg \<Rightarrow> since start (\<lambda>latency. Ret (TransientFailureResult (''webhook: '' @ msg) 0 latency))
         | Inr resp \<Rightarrow> WebhookProvider_classify resp start))"

definition webhook_Provider :: "WebhookProvider \<Rightarrow> Provider" where
  "webhook_Provider p = \<lparr>Provider_Send = WebhookProvider_Send p\<rparr>"

definition registry_Provider :: "Registry \<Rightarrow> Provider" where
  "registry_Provider r = \<lparr>Provider_Send = Registry_Send r\<rparr>"

text \<open>\<open>gobreaker\<close>'s \<open>Execute\<close> asks for admission, runs the request and reports its outcome; a
  refused request returns a nil result and the refusal.\<close>

definition Breaker_Send ::
  "Provider \<Rightarrow> Channel \<Rightarrow> string \<Rightarrow> string \<Rightarrow> DeliveryResult prog"
where
  "Breaker_Send inner channel recipient content =
     Clock_Now (\<lambda>start.
     Breaker_Before (\<lambda>admission. case admission of
       Inl err \<Rightarrow>
         since start (\<lambda>latency. Ret (TransientFailureResult
           (if errors_Is err ErrOpenState \<or> errors_Is err ErrTooManyRequests
            then ''circuit open for '' @ quoted channel
            else ''circuit breaker: unexpected nil result'') 0 latency))
     | Inr generation \<Rightarrow>
         bind (Provider_Send inner channel recipient content) (\<lambda>r.
         Breaker_After generation (d_Success r \<or> \<not> d_Retryable r) (Ret r))))"

definition breaker_Provider :: "Provider \<Rightarrow> Provider" where
  "breaker_Provider inner = \<lparr>Provider_Send = Breaker_Send inner\<rparr>"

section \<open>Clock and identifiers\<close>

definition real_Clock :: Clock where
  "real_Clock = \<lparr>Clk_Now = Clock_Now Ret\<rparr>"

definition uuid_IDGenerator :: IDGenerator where
  "uuid_IDGenerator = \<lparr>IDGen_NewNotificationID = New_ID KNotification Ret,
     IDGen_NewBatchID = New_ID KBatch Ret, IDGen_NewTemplateID = New_ID KTemplate Ret,
     IDGen_NewLogID = New_ID KLog Ret, IDGen_NewCorrelationID = New_ID KCorrelation Ret\<rparr>"

lemmas queue_defs = AsynqQueue_Enqueue_def AsynqQueue_EnqueueScheduled_def AsynqQueue_Cancel_def
lemmas provider_defs = Registry_Send_def WebhookProvider_Send_def WebhookProvider_classify_def
  Breaker_Send_def since_def

end
