(* ===== verification/Wiring.thy ===== *)
theory Wiring
  imports Contracts Postgres Gateways
begin

text \<open>
  The adapters keep the contracts of \<open>Contracts\<close>, and the programs the three binaries run:
  the wiring of \<open>cmd/api\<close>, \<open>cmd/worker\<close> (with a webhook URL configured) and
  \<open>cmd/reconciler\<close>. Every such program is safe.
\<close>

section \<open>PostgreSQL\<close>

text \<open>What the repositories rely on in the driver: a scanned identifier has 16 bytes, and
  scanning the text \<open>uuidToString\<close> prints gives the identifier back.\<close>

definition codec_ok :: "pg_codec \<Rightarrow> bool" where
  "codec_ok C \<longleftrightarrow>
     (\<forall>s u. uuid_Scan C s = Inr u \<longrightarrow> length u = 16) \<and>
     (\<forall>u s. length u = 16 \<longrightarrow> uuidToString (Some u) = Inr s \<longrightarrow> uuid_Scan C s = Inr u)"

definition denotes :: "pg_codec \<Rightarrow> NotificationID \<Rightarrow> pgUUID \<Rightarrow> bool" where
  "denotes C i u \<longleftrightarrow> parseUUID C i = Inr u"

lemma notificationFromRow_describes:
  "notificationFromRow r = Inr n \<Longrightarrow> describes n r \<and> uuidToString (r_id r) = Inr (n_ID n)"
  by (auto simp: notificationFromRow_def describes_def bind_res_eq_Inr wrap_res_def split: sum.splits)

lemma notificationFromRow_ok: "notificationFromRow r = Inr n \<Longrightarrow> row_ok r \<Longrightarrow> entity_ok n"
  using notificationFromRow_describes [of r n] by (auto simp: row_ok_def entity_ok_def describes_def)

lemma rowsToNotifications_ok:
  "rowsToNotifications rows = Inr ns \<Longrightarrow> list_all row_ok rows \<Longrightarrow> list_all entity_ok ns"
  by (induction rows arbitrary: ns) (auto simp: bind_res_eq_Inr notificationFromRow_ok)

lemma first_row_Inr: "first_row a = Inr r \<longleftrightarrow> (\<exists>rs. a = Inr (r # rs))"
  by (auto simp: first_row_def split: sum.splits list.splits)

lemma neutral_exec_only:
  "(\<And>h. may_exec h s \<and> after_exec h s = h) \<Longrightarrow> neutral (exec_only s)"
  by (auto simp: neutral_def exec_only_def)

lemma rows_cases:
  "list_all row_ok rows \<Longrightarrow> (\<And>e. Q (Inl e)) \<Longrightarrow> (\<And>ns. list_all entity_ok ns \<Longrightarrow> Q (Inr ns)) \<Longrightarrow>
   Q (rowsToNotifications rows)"
  by (cases "rowsToNotifications rows") (auto dest: rowsToNotifications_ok)

lemma row_cases:
  "row_ok r \<Longrightarrow> (\<And>e. Q (Inl e)) \<Longrightarrow> (\<And>n. entity_ok n \<Longrightarrow> Q (Inr n)) \<Longrightarrow> Q (notificationFromRow r)"
  by (cases "notificationFromRow r") (auto dest: notificationFromRow_ok)

lemma find_rows_safe:
  assumes "\<And>e. Q (Inl e) h" and "\<And>ns. list_all entity_ok ns \<Longrightarrow> Q (Inr ns) h" and "\<not> is_claim q"
  shows "safe (find_rows fmt q) h Q"
proof -
  have "Q (rowsToNotifications rows) h" if "list_all row_ok rows" for rows
    using that assms(1,2) by (rule rows_cases)
  with assms show ?thesis
    by (auto simp: find_rows_def query_many_def safe_rules read_query split: sum.split)
qed

lemma query_one_read:
  assumes "\<And>e. Q (Inl e) h" and "\<And>r. row_ok r \<Longrightarrow> Q (Inr r) h" and "\<not> is_claim q"
  shows "safe (query_one q) h Q"
proof -
  have "Q (first_row a) h" if "answer_ok q a" for a
    using that assms by (cases a rule: sum.exhaust; cases "projr a")
      (auto simp: first_row_def read_query)
  then show ?thesis using assms(3) by (simp add: query_one_def read_query)
qed

lemma query_one_claim:
  assumes "\<And>e. Q (Inl e) Idle"
    and "\<And>r. row_ok r \<Longrightarrow> r_id r = i \<Longrightarrow> r_status r = StatusProcessing \<Longrightarrow> Q (Inr r) (Holding r None)"
  shows "safe (query_one (Q_ClaimForProcessing i t)) Idle Q"
proof -
  have "Q (first_row a) (after_query Idle (Q_ClaimForProcessing i t) a)"
    if "answer_ok (Q_ClaimForProcessing i t) a" for a
    using that assms by (cases a rule: sum.exhaust; cases "projr a")
      (auto simp: first_row_def answer_ok_def)
  then show ?thesis by (simp add: query_one_def)
qed

locale pg_driver =
  fixes C :: pg_codec
  assumes codec: "codec_ok C"
begin

lemma scan_print: "uuidToString (Some u) = Inr s \<Longrightarrow> length u = 16 \<Longrightarrow> parseUUID C s = Inr (Some u)"
proof -
  assume "uuidToString (Some u) = Inr s" "length u = 16"
  then have "uuid_Scan C s = Inr u" using codec unfolding codec_ok_def by blast
  then show ?thesis by (simp add: parseUUID_def)
qed

lemma claimed_entity:
  "notificationFromRow r = Inr n \<Longrightarrow> row_ok r \<Longrightarrow> denotes C (n_ID n) (r_id r)"
  using notificationFromRow_describes [of r n] scan_print
  by (auto simp: row_ok_def wf_id_def denotes_def)

lemma scan_wf: "parseUUID C s = Inr i \<Longrightarrow> wf_id i"
proof -
  assume "parseUUID C s = Inr i"
  then obtain u where "uuid_Scan C s = Inr u" "i = Some u" by (auto simp: parseUUID_def split: sum.splits)
  then show ?thesis using codec unfolding codec_ok_def wf_id_def by blast
qed

lemma create_params_fresh:
  "notificationToCreateParams C n = Inr r \<Longrightarrow> fresh_entity n \<Longrightarrow> fresh_row r"
  by (auto simp: notificationToCreateParams_def fresh_entity_def fresh_row_def bind_res_eq_Inr
      wrap_res_def scan_wf split: sum.splits)

lemma pg_get:
  assumes "\<And>e. Q (Inl e) h" and "\<And>n. entity_ok n \<Longrightarrow> Q (Inr n) h"
  shows "safe (NotificationRepository_Get C i) h Q"
proof -
  have "Q (notificationFromRow r) h" if "row_ok r" for r
    using that assms by (rule row_cases)
  then show ?thesis
    unfolding NotificationRepository_Get_def safe_rules
    by (cases "parseUUID C i") (simp_all add: assms(1) query_one_read)
qed

lemma pg_claim:
  assumes "\<And>e h. P (Inl e) h"
    and "\<And>n r. describes n r \<Longrightarrow> denotes C (n_ID n) (r_id r) \<Longrightarrow> n_Status n = StatusProcessing \<Longrightarrow>
      P (Inr n) (Holding r None)"
  shows "safe (NotificationRepository_ClaimForProcessing C i t) Idle P"
proof -
  have "P (notificationFromRow r) (Holding r None)"
    if "row_ok r" "r_status r = StatusProcessing" for r
    using that assms claimed_entity [of r] notificationFromRow_describes [of r]
    by (cases "notificationFromRow r") (auto simp: describes_def)
  then show ?thesis
    unfolding NotificationRepository_ClaimForProcessing_def safe_rules
    by (auto simp: assms(1) safe_rules split: sum.split
        intro!: query_one_read query_one_claim)
qed

lemma permitted_may_write:
  assumes "permitted (denotes C) h n src" and "parseUUID C (n_ID n) = Inr u"
  shows "may_write h \<lparr>u_id = u, u_new_status = n_Status n, u_attempts = word_of_int (n_Attempts n),
     u_last_error = le, u_next_retry_at = nr, u_updated_at = ut, u_expected_source = src\<rparr>"
  using assms(1) unfolding permitted_def
  by (elim disjE conjE exE)
    (simp_all add: may_write_def holds_row_def assms(2) denotes_def)

lemma pg_update:
  "permitted (denotes C) h n src \<Longrightarrow> (\<And>e h'. U e h') \<Longrightarrow>
   safe (NotificationRepository_UpdateStatus C n src) h U"
  unfolding NotificationRepository_UpdateStatus_def safe_rules exec_rows_def
  by (auto split: sum.split intro: permitted_may_write)

lemma pg_create: "fresh_entity n \<Longrightarrow> neutral (NotificationRepository_Create C n)"
  unfolding NotificationRepository_Create_def
  by (cases "notificationToCreateParams C n")
    (auto intro!: neutral_intros neutral_exec_only create_params_fresh)

lemma may_tx_batch:
  "list_all fresh_entity ns \<Longrightarrow>
   may_tx (map (\<lambda>n. case notificationToCreateParams C n of
       Inl e \<Rightarrow> Inl (Errorf ''convert notification %s: %w'' [n_ID n] e)
     | Inr params \<Rightarrow> Inr (Q_CreateNotification params, fmt, args n)) ns)"
  by (induction ns) (auto simp: may_tx_def create_params_fresh split: sum.split)

lemma pg_list: "neutral (NotificationRepository_List C f c l)"
  unfolding NotificationRepository_List_def query_many_def
  by (intro neutral_intros) (auto simp: neutral_def)

end

sublocale pg_driver \<subseteq> notification_store "pg_NotificationRepository C" "denotes C"
  by unfold_locales
    (auto simp: pg_NotificationRepository_def NotificationRepository_FindOrphanedPending_def
      NotificationRepository_FindStuckProcessing_def NotificationRepository_FindOverdueRetrying_def
      NotificationRepository_FindStuckQueued_def
      intro!: pg_create pg_get pg_claim pg_update pg_list find_rows_safe)

sublocale pg_driver \<subseteq> batch_store "pg_BatchRepository C"
proof
  show "neutral (BatchRepo_Create (pg_BatchRepository C) b)"
    if "list_all fresh_entity (b_Notifications b)" for b
    using may_tx_batch [OF that, where args = "\<lambda>n. [n_ID n, b_ID b]"]
    unfolding pg_BatchRepository_def BatchRepository_Create_def
    by (simp, intro neutral_intros) (simp add: may_tx_def)
  show "neutral (BatchRepo_Get (pg_BatchRepository C) i)" for i
    unfolding pg_BatchRepository_def BatchRepository_Get_def query_many_def
    by (simp, intro neutral_intros) simp
qed

interpretation pg_templates: template_store "pg_TemplateRepository C" for C
  unfolding pg_TemplateRepository_def pg_template_defs
  by unfold_locales
    (simp, intro neutral_intros neutral_exec_only; simp add: after_exec_other)+

interpretation pg_logs: log_store "pg_NotificationLogRepository C" for C
  unfolding pg_NotificationLogRepository_def pg_log_defs
  by unfold_locales
    (simp, intro neutral_intros neutral_exec_only; simp add: after_exec_other)+

section \<open>The other gateways\<close>

lemma cancel_on_neutral: "neutral (cancel_on i t names)"
  by (induction names) (auto simp: neutral_def split: option.split)

interpretation asynq: task_queue asynq_Queue
  by unfold_locales
    (auto simp: asynq_Queue_def queue_defs cancel_on_neutral, auto simp: neutral_def)

interpretation redis_limit: rate_limiter "redis_RateLimiter l" for l
  by unfold_locales (auto simp: redis_RateLimiter_def OutboundRateLimiter_Allow_def neutral_def)

interpretation redis_pubsub: broadcaster redis_StatusBroadcaster
  by unfold_locales (auto simp: redis_StatusBroadcaster_def RedisBroadcaster_Publish_def neutral_def)

interpretation wall_clock: time_source real_Clock
  by unfold_locales (auto simp: real_Clock_def neutral_def)

interpretation uuids: id_source uuid_IDGenerator
  by unfold_locales (auto simp: uuid_IDGenerator_def neutral_def)

interpretation webhook: delivery "webhook_Provider p" for p
proof
  show "safe (Provider_Send (webhook_Provider p) (r_channel r) (r_recipient r) (r_content r)) (Holding r None) Q"
    if post: "\<And>res ans. (d_Success res \<Longrightarrow> \<exists>a. ans = Some a \<and> accepted a) \<Longrightarrow> Q res (Holding r ans)" for Q r
    by (auto simp: webhook_Provider_def provider_defs may_post_def accepted_def delivery_defs
        split: option.split sum.split intro!: post)
qed

text \<open>A breaker around a well-behaved provider is a well-behaved provider, and so is a registry
  of well-behaved providers.\<close>

lemma breaker_delivery: "delivery V \<Longrightarrow> delivery (breaker_Provider V)"
proof -
  assume "delivery V"
  then show ?thesis
    by (auto simp: delivery_def breaker_Provider_def Breaker_Send_def since_def safe_bind delivery_defs
        split: sum.split)
qed

lemma registry_delivery:
  "(\<And>ch p. rg_providers g ch = Some p \<Longrightarrow> delivery p) \<Longrightarrow> delivery (registry_Provider g)"
  by (auto simp: delivery_def registry_Provider_def Registry_Send_def delivery_defs split: option.split)

section \<open>The binaries\<close>

text \<open>\<open>cmd/worker\<close>: a webhook provider per channel behind one breaker.\<close>

definition worker_registry :: "WebhookProvider \<Rightarrow> Registry" where
  "worker_registry p =
     fold (\<lambda>ch g. Registry_Register g ch (webhook_Provider p)) [ChannelSMS, ChannelEmail, ChannelPush] NewRegistry"

definition guardedProvider :: "WebhookProvider \<Rightarrow> Provider" where
  "guardedProvider p = breaker_Provider (registry_Provider (worker_registry p))"

interpretation guarded: delivery "guardedProvider p" for p
  unfolding guardedProvider_def
  by (rule breaker_delivery, rule registry_delivery)
    (auto simp: worker_registry_def Registry_Register_def NewRegistry_def webhook.delivery_axioms
      split: if_splits)

record worker_config =
  wc_webhook :: WebhookProvider
  wc_limiter :: OutboundRateLimiter

definition processUC :: "pg_codec \<Rightarrow> worker_config \<Rightarrow> ProcessNotification" where
  "processUC C cfg =
     \<lparr>pn_repo = pg_NotificationRepository C, pn_logRepo = pg_NotificationLogRepository C,
      pn_provider = guardedProvider (wc_webhook cfg), pn_rateLimiter = redis_RateLimiter (wc_limiter cfg),
      pn_broadcaster = redis_StatusBroadcaster, pn_idGen = uuid_IDGenerator, pn_clock = real_Clock,
      pn_metrics = True, pn_tracer = True\<rparr>"

text \<open>\<open>cmd/api\<close>.\<close>

definition createNotif :: "pg_codec \<Rightarrow> CreateNotification" where
  "createNotif C =
     \<lparr>cn_repo = pg_NotificationRepository C, cn_logRepo = pg_NotificationLogRepository C,
      cn_tmplRepo = pg_TemplateRepository C, cn_queue = asynq_Queue, cn_idGen = uuid_IDGenerator,
      cn_clock = real_Clock, cn_metrics = True\<rparr>"

definition createBatch :: "pg_codec \<Rightarrow> CreateBatch" where
  "createBatch C =
     \<lparr>cb_batchRepo = pg_BatchRepository C, cb_notifRepo = pg_NotificationRepository C,
      cb_logRepo = pg_NotificationLogRepository C, cb_queue = asynq_Queue,
      cb_idGen = uuid_IDGenerator, cb_clock = real_Clock, cb_metrics = True\<rparr>"

definition cancelNotif :: "pg_codec \<Rightarrow> CancelNotification" where
  "cancelNotif C =
     \<lparr>xn_repo = pg_NotificationRepository C, xn_logRepo = pg_NotificationLogRepository C,
      xn_queue = asynq_Queue, xn_idGen = uuid_IDGenerator, xn_clock = real_Clock\<rparr>"

text \<open>\<open>cmd/reconciler\<close>.\<close>

definition reconcileUC :: "pg_codec \<Rightarrow> ReconcileStuckNotifications" where
  "reconcileUC C =
     \<lparr>rs_repo = pg_NotificationRepository C, rs_logRepo = pg_NotificationLogRepository C,
      rs_queue = asynq_Queue, rs_idGen = uuid_IDGenerator, rs_clock = real_Clock\<rparr>"

lemmas wired_defs = processUC_def createNotif_def createBatch_def cancelNotif_def reconcileUC_def

text \<open>Everything a process of the system may be running: a request of the API, a task of the
  worker (with whatever payload the queue hands over), a pass of the reconciler. The results
  are dropped.\<close>

definition discard :: "'r prog \<Rightarrow> unit prog" where
  "discard p = bind p (\<lambda>_. Ret ())"

inductive service :: "pg_codec \<Rightarrow> template_engine \<Rightarrow> worker_config \<Rightarrow> unit prog \<Rightarrow> bool"
  for C E cfg where
  serve_create: "service C E cfg (discard (CreateNotification_Execute E (createNotif C) i))"
| serve_schedule: "service C E cfg (discard (ScheduleNotification_Execute E
    \<lparr>sn_createUC = createNotif C, sn_clock = real_Clock\<rparr> si))"
| serve_batch: "service C E cfg (discard (CreateBatch_Execute (createBatch C) bi))"
| serve_cancel: "service C E cfg (discard (CancelNotification_Execute (cancelNotif C) nid))"
| serve_process: "service C E cfg (discard (HandleProcessNotification payload
    (ProcessNotification_Execute (processUC C cfg) ctx)))"
| serve_reconcile: "service C E cfg (discard (ReconcileStuckNotifications_Execute (reconcileUC C)))"
| serve_get: "service C E cfg (discard (GetNotification_Execute (pg_NotificationRepository C) nid))"
| serve_list: "service C E cfg (discard (ListNotifications_Execute (pg_NotificationRepository C) li))"
| serve_trace: "service C E cfg (discard (GetNotificationTrace_Execute
    (pg_NotificationRepository C) (pg_NotificationLogRepository C) nid))"
| serve_get_batch: "service C E cfg (discard (GetBatch_Execute (pg_BatchRepository C) bid))"
| serve_create_template: "service C E cfg (discard (CreateTemplate_Execute E
    (pg_TemplateRepository C) uuid_IDGenerator real_Clock nm ch body))"
| serve_get_template: "service C E cfg (discard (GetTemplate_Execute (pg_TemplateRepository C) tid))"
| serve_list_templates: "service C E cfg (discard (ListTemplates_Execute (pg_TemplateRepository C) lim))"
| serve_replace_template: "service C E cfg (discard (ReplaceTemplate_Execute E
    (pg_TemplateRepository C) real_Clock tid nm ch body))"
| serve_delete_template: "service C E cfg (discard (DeleteTemplate_Execute (pg_TemplateRepository C) tid))"

context pg_driver
begin

lemma worker_ok: "worker_wiring (processUC C cfg) (denotes C)"
  unfolding worker_wiring_def processUC_def
  by (simp add: notification_store_axioms pg_logs.log_store_axioms guarded.delivery_axioms
      redis_limit.rate_limiter_axioms redis_pubsub.broadcaster_axioms
      wall_clock.time_source_axioms uuids.id_source_axioms)

lemma intake_ok: "intake_wiring (createNotif C) (denotes C)"
  unfolding intake_wiring_def createNotif_def
  by (simp add: notification_store_axioms pg_logs.log_store_axioms pg_templates.template_store_axioms
      asynq.task_queue_axioms wall_clock.time_source_axioms uuids.id_source_axioms)

lemma batch_ok: "batch_wiring (createBatch C) (denotes C)"
  unfolding batch_wiring_def createBatch_def
  by (simp add: notification_store_axioms pg_logs.log_store_axioms batch_store_axioms
      asynq.task_queue_axioms wall_clock.time_source_axioms uuids.id_source_axioms)

lemma cancel_ok: "cancel_wiring (cancelNotif C) (denotes C)"
  unfolding cancel_wiring_def cancelNotif_def
  by (simp add: notification_store_axioms pg_logs.log_store_axioms
      asynq.task_queue_axioms wall_clock.time_source_axioms uuids.id_source_axioms)

lemma reconcile_ok: "reconcile_wiring (reconcileUC C) (denotes C)"
  unfolding reconcile_wiring_def reconcileUC_def
  by (simp add: notification_store_axioms pg_logs.log_store_axioms
      asynq.task_queue_axioms wall_clock.time_source_axioms uuids.id_source_axioms)

lemma safe_discard: "safe p h (\<lambda>_ _. True) \<Longrightarrow> safe (discard p) h (\<lambda>_ _. True)"
  by (simp add: discard_def safe_bind)

lemma safe_neutral: "neutral p \<Longrightarrow> safe p h (\<lambda>_ _. True)"
  by (rule neutralD) auto

lemma service_safe: "service C E cfg p \<Longrightarrow> safe p Idle (\<lambda>_ _. True)"
proof (induction rule: service.induct)
  case (serve_process payload ctx)
  show ?case
    by (rule safe_discard)
      (auto simp: HandleProcessNotification_def worker_wiring.process_safe [OF worker_ok] split: sum.split)
next
  case (serve_schedule si)
  show ?case
    by (rule safe_discard)
      (auto simp: ScheduleNotification_Execute_def safe_bind intro!: neutralD [OF wall_clock.now]
        intake_wiring.create_safe [OF intake_ok])
next
  case (serve_get nid)
  show ?case by (rule safe_discard) (simp add: GetNotification_Execute_def, rule get, auto)
next
  case (serve_trace nid)
  show ?case
    by (rule safe_discard)
      (auto simp: GetNotificationTrace_Execute_def safe_rules split: sum.split
        intro!: get neutralD [OF pg_logs.list_logs])
qed (auto intro!: safe_discard intake_wiring.create_safe [OF intake_ok]
    batch_wiring.batch_safe [OF batch_ok] cancel_wiring.cancel_safe [OF cancel_ok]
    reconcile_wiring.reconcile_safe [OF reconcile_ok]
    intro: safe_neutral ListNotifications_neutral [OF notification_store_axioms]
    templates_neutral pg_templates.template_store_axioms wall_clock.time_source_axioms
    uuids.id_source_axioms
    simp: GetBatch_Execute_def get_batch)

end

end
