(* ===== verification/System.thy ===== *)
theory System
  imports Protocol Wiring
begin

text \<open>
  The running system: one database, any number of processes each somewhere in the middle of a
  service program, and the posts made so far. Processes start, take one call at a time in any
  order, and may die at any moment; statements may fail or lose their acknowledgement, and
  every other call may be answered in any way. The tables refine the abstract cells of
  \<open>Protocol\<close>, so its invariant holds in every reachable state.
\<close>

section \<open>The tables as cells\<close>

definition view :: "db \<Rightarrow> cells" where
  "view d = map_of (map (\<lambda>r. (r_id r, cell_of r)) (t_notifications d))"

definition db_ok :: "db \<Rightarrow> bool" where
  "db_ok d \<longleftrightarrow> distinct (map r_id (t_notifications d))"

lemma view_row: "db_ok d \<Longrightarrow> r \<in> set (t_notifications d) \<Longrightarrow> view d (r_id r) = Some (cell_of r)"
  unfolding view_def db_ok_def by (rule map_of_is_SomeI) (auto simp: comp_def)

lemma view_None: "view d i = None \<longleftrightarrow> i \<notin> r_id ` set (t_notifications d)"
  by (force simp: view_def map_of_eq_None_iff image_iff)

lemma view_Some: "view d i = Some c \<Longrightarrow> \<exists>r \<in> set (t_notifications d). r_id r = i \<and> cell_of r = c"
  unfolding view_def by (drule map_of_SomeD) auto

lemma map_of_update_where:
  assumes "\<And>r. r_id (f r) = r_id r" and "\<And>r. sel r \<longleftrightarrow> S (r_id r) (cell_of r)"
    and "\<And>r. sel r \<Longrightarrow> cell_of (f r) = g (cell_of r)"
  shows "map_of (map (\<lambda>r. (r_id r, cell_of r)) (update_where sel f rows)) i =
    map_option (\<lambda>c. if S i c then g c else c) (map_of (map (\<lambda>r. (r_id r, cell_of r)) rows) i)"
  by (induction rows) (auto simp: update_where_def assms)

lemma update_where_ids:
  "(\<And>r. r_id (f r) = r_id r) \<Longrightarrow> map r_id (update_where sel f rows) = map r_id rows"
  by (simp add: update_where_def)

lemma cell_of_store [simp]: "cell_of (store_row C r) = cell_of r" "r_id (store_row C r) = r_id r"
  by (simp_all add: cell_of_def store_row_def payload_def)

section \<open>Statements refine cell operations\<close>

lemma insert_view:
  assumes "insert_ok d r" and "fresh_row r"
  shows "grows (view d) (view (d\<lparr>t_notifications := t_notifications d @ [store_row C r]\<rparr>))"
proof -
  have "view (d\<lparr>t_notifications := t_notifications d @ [store_row C r]\<rparr>) i =
      (case view d i of Some c \<Rightarrow> Some c | None \<Rightarrow> if i = r_id r then Some (cell_of r) else None)" for i
    by (auto simp: view_def map_add_def split: option.split)
  moreover have "fresh_cell (cell_of r)" "wf_id (r_id r)"
    using assms(2) by (auto simp: fresh_cell_def fresh_row_def cell_of_def)
  ultimately show ?thesis by (auto simp: grows_def split: if_splits)
qed

lemma insert_distinct:
  "insert_ok d r \<Longrightarrow> db_ok d \<Longrightarrow> db_ok (d\<lparr>t_notifications := t_notifications d @ [store_row C r]\<rparr>)"
  by (simp add: insert_ok_def db_ok_def)

text \<open>The guarded update writes the one cell it names, if that cell is in the expected status.\<close>

lemma write_view:
  assumes "sql_UpdateNotificationStatus C p d = (a, d')" and may: "may_write h p"
  shows "db_ok d \<Longrightarrow> db_ok d'" and "u_id p \<noteq> None \<Longrightarrow> view d' = write_cells p (view d)"
    and "u_id p = None \<Longrightarrow> view d' = view d"
proof -
  have "u_new_status p \<in> set sql_statuses" using may by (auto simp: may_write_def)
  with assms(1) have d': "d' = d\<lparr>t_notifications := update_where
      (\<lambda>r. same_id (u_id p) r \<and> r_status r = u_expected_source p)
      (\<lambda>r. r\<lparr>r_status := u_new_status p, r_attempts := u_attempts p, r_last_error := u_last_error p,
         r_next_retry_at := map_option (ts_store C) (u_next_retry_at p),
         r_updated_at := ts_store C (u_updated_at p)\<rparr>) (t_notifications d)\<rparr>"
    by (simp add: sql_UpdateNotificationStatus_def Let_def del: sql_statuses_def)
  then show "db_ok d \<Longrightarrow> db_ok d'" by (simp add: db_ok_def update_where_ids)
  have eq: "view d' i = map_option (\<lambda>c. if i = u_id p \<and> u_id p \<noteq> None \<and> c_status c = u_expected_source p
      then c\<lparr>c_status := u_new_status p, c_attempts := u_attempts p\<rparr> else c) (view d i)" for i
    unfolding view_def d' by simp (rule map_of_update_where, auto simp: same_id_def cell_of_def payload_def)
  show "view d' = write_cells p (view d)" if "u_id p \<noteq> None"
    using that by (auto simp: fun_eq_iff eq write_cells_def write_cell_def option.map_ident intro!: option.map_cong0)
  show "view d' = view d" if "u_id p = None"
    using that by (simp add: fun_eq_iff eq option.map_ident)
qed

text \<open>What a permitted statement does to the cells: it inserts fresh ones, or writes one.\<close>

lemma exec_view:
  assumes "exec_sql C s d = (a, d')" and "may_exec h s" and "db_ok d"
  shows "db_ok d' \<and> (grows (view d) (view d') \<or>
    (\<exists>p. s = Q_UpdateNotificationStatus p \<and> view d' = write_cells p (view d)))"
proof (cases s)
  case (Q_CreateNotification r)
  with assms show ?thesis
    using insert_view [of d r C] insert_distinct [of d r C]
    by (auto simp: sql_violation_def split: if_splits)
next
  case (Q_UpdateNotificationStatus p)
  with assms show ?thesis
    using write_view [of C p d a d' h] by (cases "u_id p = None") auto
next
  case (Q_DeleteTemplate i)
  have "map (\<lambda>r. (r_id r, cell_of r)) (update_where sel (\<lambda>r. r\<lparr>r_template_id := None\<rparr>) rows) =
      map (\<lambda>r. (r_id r, cell_of r)) rows" for sel and rows :: "NotificationRow list"
    by (simp add: update_where_def cell_of_def payload_def)
  with assms Q_DeleteTemplate show ?thesis
    by (auto simp: Let_def db_ok_def update_where_ids view_def)
qed (use assms in \<open>auto simp: sql_violation_def view_def db_ok_def Let_def split: if_splits\<close>)

lemma tx_view:
  "exec_tx C items d = Inr d' \<Longrightarrow> may_tx items \<Longrightarrow> db_ok d \<Longrightarrow> db_ok d' \<and> grows (view d) (view d')"
proof (induction C items d rule: exec_tx.induct)
  case (3 C s fmt args items d)
  from 3(2) obtain n d1 where s: "exec_sql C s d = (Inr n, d1)" and rest: "exec_tx C items d1 = Inr d'"
    by (auto split: prod.splits sum.splits)
  from 3(3) have may: "may_tx items" "may_exec Idle s" "\<And>p. s \<noteq> Q_UpdateNotificationStatus p"
    by (auto simp: may_tx_def split: exec_stmt.splits)
  with exec_view [OF s may(2) 3(4)] have d1: "db_ok d1" "grows (view d) (view d1)" by auto
  from 3(1) [OF s [symmetric] refl rest may(1) d1(1)] d1 show ?case by (auto intro: grows_trans)
qed (auto simp: may_tx_def)

text \<open>The claim takes a queued or retrying row to processing, or changes nothing.\<close>

lemma filter_same_id:
  assumes "db_ok d" and "q \<in> set (t_notifications d)" and "P q" "\<And>r. P r \<Longrightarrow> r_id r = r_id q"
  shows "filter P (t_notifications d) = [q]"
proof -
  have "filter P rows = [q]" if "distinct (map r_id rows)" "q \<in> set rows" for rows
    using that
  proof (induction rows)
    case (Cons x rows)
    show ?case
    proof (cases "x = q")
      case True
      with Cons.prems(1) have "\<not> P y" if "y \<in> set rows" for y
        using that assms(4) [of y] by (auto simp: image_iff)
      with True assms(3) show ?thesis by simp
    next
      case False
      with Cons.prems have "q \<in> set rows" and "r_id x \<noteq> r_id q" by auto
      with assms(4) [of x] Cons show ?thesis by auto
    qed
  qed simp
  with assms(1,2) show ?thesis by (simp add: db_ok_def)
qed

lemma claim_view:
  assumes "sql_ClaimForProcessing C i t d = (a, d')" and ok: "db_ok d"
  shows "db_ok d' \<and> (view d' = view d \<and> (\<forall>rows. a = Inr rows \<longrightarrow> rows = []) \<or>
    (\<exists>c r. view d i = Some c \<and> claimable_cell c \<and> view d' = (view d)(i \<mapsto> claim_cell c) \<and> a = Inr [r] \<and>
       r_id r = i \<and> r_attempts r = c_attempts c + 1 \<and> payload r = c_payload c \<and> r_status r = StatusProcessing))"
proof (cases "\<exists>q \<in> set (t_notifications d). claimable i q")
  case False
  then have "filter (claimable i) (t_notifications d) = []"
    and "update_where (claimable i) f (t_notifications d) = t_notifications d" for f
    by (auto simp: filter_empty_conv update_where_def intro!: map_idI)
  with assms show ?thesis by (auto simp: sql_ClaimForProcessing_def view_def db_ok_def)
next
  case True
  then obtain q where q: "q \<in> set (t_notifications d)" "claimable i q" by blast
  then have hit: "filter (claimable i) (t_notifications d) = [q]"
    by (intro filter_same_id [OF ok]) (auto simp: claimable_def same_id_def)
  have v: "view d i = Some (cell_of q)"
    using view_row [OF ok q(1)] q(2) by (simp add: claimable_def same_id_def)
  show ?thesis
  proof (cases "r_attempts q = int4_max")
    case True
    with assms hit show ?thesis by (auto simp: sql_ClaimForProcessing_def)
  next
    case False
    with q(2) have cl: "claimable_cell (cell_of q)"
      by (auto simp: claimable_def claimable_cell_def cell_of_def)
    from assms hit False have a: "a = Inr [claim_row C t q]"
      and d': "d' = d\<lparr>t_notifications := update_where (claimable i) (claim_row C t) (t_notifications d)\<rparr>"
      by (auto simp: sql_ClaimForProcessing_def)
    have "view d' j = map_option (\<lambda>c. if j = i \<and> i \<noteq> None \<and> c_status c \<in> {''queued'', ''retrying''}
        then claim_cell c else c) (view d j)" for j
      unfolding view_def d' by simp
        (rule map_of_update_where, auto simp: claimable_def same_id_def cell_of_def claim_row_def
          claim_cell_def payload_def)
    with v cl q(2) have "view d' = (view d)(i \<mapsto> claim_cell (cell_of q))"
      by (auto simp: fun_eq_iff claimable_cell_def claimable_def same_id_def option.map_ident)
    moreover have "db_ok d'" using ok by (simp add: d' db_ok_def update_where_ids claim_row_def)
    moreover have "r_id (claim_row C t q) = i \<and> r_attempts (claim_row C t q) = c_attempts (cell_of q) + 1 \<and>
        payload (claim_row C t q) = c_payload (cell_of q) \<and> r_status (claim_row C t q) = StatusProcessing"
      using q(2) by (simp add: claim_row_def cell_of_def payload_def claimable_def same_id_def)
    ultimately show ?thesis using v cl a by blast
  qed
qed

lemma read_view:
  "query_sql C q d = (a, d') \<Longrightarrow> \<not> is_claim q \<Longrightarrow>
   d' = d \<and> (\<forall>rows. a = Inr rows \<longrightarrow> set rows \<subseteq> set (t_notifications d))"
  by (cases q) (auto simp: limited_def split: if_splits dest!: in_set_takeD)

section \<open>One call of one process\<close>

text \<open>\<open>FOR UPDATE SKIP LOCKED\<close>: a sweep may miss rows another statement has locked.\<close>

fun skips_locked :: "notification_query \<Rightarrow> bool" where
  "skips_locked (Q_FindOrphanedPending _ _) = True"
| "skips_locked (Q_FindStuckProcessing _ _) = True"
| "skips_locked (Q_FindOverdueRetrying _ _) = True"
| "skips_locked (Q_FindStuckQueued _ _) = True"
| "skips_locked _ = False"

definition may_see ::
  "notification_query \<Rightarrow> gerror + NotificationRow list \<Rightarrow> gerror + NotificationRow list \<Rightarrow> bool"
where
  "may_see q a a' \<longleftrightarrow> a' = a \<or>
     skips_locked q \<and> (\<exists>rows rows'. a = Inr rows \<and> a' = Inr rows' \<and> subseq rows' rows)"

fun post_of :: "hold \<Rightarrow> http_request \<Rightarrow> http_answer \<Rightarrow> post" where
  "post_of (Holding r _) q a = \<lparr>p_id = r_id r, p_attempt = r_attempts r, p_request = q, p_answer = a\<rparr>"
| "post_of Idle q a = \<lparr>p_id = None, p_attempt = 0, p_request = q, p_answer = a\<rparr>"

inductive act ::
  "pg_codec \<Rightarrow> db \<Rightarrow> hold \<Rightarrow> unit prog \<Rightarrow> db \<Rightarrow> hold \<Rightarrow> unit prog \<Rightarrow> post list \<Rightarrow> bool"
  for C where
  act_exec: "faulty f (exec_sql C s) d = (a, d') \<Longrightarrow> act C d h (Exec s k) d' (after_exec h s) (k a) []"
| act_tx: "faulty_tx f (run_tx C items) d = (a, d') \<Longrightarrow> act C d h (Tx items k) d' h (k a) []"
| act_query: "faulty f (query_sql C q) d = (a, d') \<Longrightarrow> may_see q a a' \<Longrightarrow>
    act C d h (QueryN q k) d' (after_query h q a') (k a') []"
| act_batch: "faulty f (\<lambda>d. (sql_GetBatch i d, d)) d = (a, d') \<Longrightarrow> act C d h (QueryB i k) d' h (k a) []"
| act_template: "faulty f (\<lambda>d. (template_sql C tq d, d)) d = (a, d') \<Longrightarrow> act C d h (QueryT tq k) d' h (k a) []"
| act_log: "faulty f (\<lambda>d. (sql_ListNotificationLogs i d, d)) d = (a, d') \<Longrightarrow> act C d h (QueryL i k) d' h (k a) []"
| act_now: "act C d h (Clock_Now k) d h (k t) []"
| act_id: "act C d h (New_ID i k) d h (k s) []"
| act_enqueue: "act C d h (Asynq_Enqueue t k) d h (k e) []"
| act_delete_task: "act C d h (Asynq_DeleteTask q t k) d h (k e) []"
| act_script: "act C d h (Redis_RunScript b l w k) d h (k x) []"
| act_publish: "act C d h (Redis_Publish c n s k) d h (k e) []"
| act_redis_get: "act C d h (Redis_Get key k) d h (k raw) []"
| act_redis_set: "act C d h (Redis_Set key v ttl k) d h (k e) []"
| act_http: "act C d h (Http_Do q k) d (after_post h a) (k a) [post_of h q a]"
| act_before: "act C d h (Breaker_Before k) d h (k x) []"
| act_after: "act C d h (Breaker_After g b p) d h p []"
| act_emit: "act C d h (Emit e p) d h p []"

lemma faulty_cases:
  assumes "faulty f stmt d = (a, d')"
  obtains "stmt d = (a, d')" | e where "a = Inl e" "d' = d" | e where "a = Inl e" "d' = snd (stmt d)"
  using assms by (cases f) (auto simp: faulty_def)

text \<open>What one call of a safe process does, the other processes standing still.\<close>

definition good_act ::
  "db \<Rightarrow> hold list \<Rightarrow> post list \<Rightarrow> nat \<Rightarrow> db \<Rightarrow> hold \<Rightarrow> unit prog \<Rightarrow> post list \<Rightarrow> bool"
where
  "good_act d hs ps k d' h' p' new \<longleftrightarrow>
     db_ok d' \<and> protocol_inv (view d') (hs[k := h']) (ps @ new) \<and> safe p' h' (\<lambda>_ _. True) \<and>
     evolves (view d) (view d') \<and> (\<forall>x \<in> set new. \<exists>r. hs ! k = Holding r None \<and> p_id x = r_id r)"

lemma good_quiet:
  "db_ok d \<Longrightarrow> protocol_inv (view d) hs ps \<Longrightarrow> safe p' (hs ! k) (\<lambda>_ _. True) \<Longrightarrow>
   good_act d hs ps k d (hs ! k) p' []"
  by (simp add: good_act_def grows_evolves)

lemma exec_good:
  assumes ok: "db_ok d" "protocol_inv (view d) hs ps" "k < length hs"
    and f: "faulty f (exec_sql C s) d = (a, d')" and safe: "safe (Exec s g) (hs ! k) (\<lambda>_ _. True)"
  shows "good_act d hs ps k d' (after_exec (hs ! k) s) (g a) []"
proof -
  from safe have may: "may_exec (hs ! k) s" and next_safe: "safe (g a) (after_exec (hs ! k) s) (\<lambda>_ _. True)"
    by auto
  have rel: "protocol_inv (view d) (hs[k := after_exec (hs ! k) s]) ps" by (rule inv_release [OF ok(2,3)])
  have committed: "db_ok d1 \<and> protocol_inv (view d1) (hs[k := after_exec (hs ! k) s]) ps \<and>
      evolves (view d) (view d1)" if e: "exec_sql C s d = (b, d1)" for b d1
  proof -
    from exec_view [OF e may ok(1)] have "db_ok d1" and "grows (view d) (view d1) \<or>
        (\<exists>p. s = Q_UpdateNotificationStatus p \<and> view d1 = write_cells p (view d))" by auto
    then show ?thesis
      using inv_grows [OF rel] grows_evolves inv_write [OF ok(2,3)] may write_evolves by auto
  qed
  show ?thesis
    using f
  proof (cases rule: faulty_cases)
    case 1
    with committed next_safe show ?thesis by (simp add: good_act_def)
  next
    case 2
    with rel ok(1) next_safe show ?thesis by (simp add: good_act_def grows_evolves)
  next
    case 3
    with committed [of "fst (exec_sql C s d)" "snd (exec_sql C s d)"] next_safe show ?thesis
      by (simp add: good_act_def)
  qed
qed

lemma tx_good:
  assumes ok: "db_ok d" "protocol_inv (view d) hs ps"
    and f: "faulty_tx f (run_tx C items) d = (a, d')" and safe: "safe (Tx items g) (hs ! k) (\<lambda>_ _. True)"
  shows "good_act d hs ps k d' (hs ! k) (g a) []"
proof -
  from safe have may: "may_tx items" and next_safe: "safe (g a) (hs ! k) (\<lambda>_ _. True)" by auto
  have "db_ok d' \<and> grows (view d) (view d')"
    using f ok(1) tx_view [OF _ may ok(1)]
    by (cases f; cases "exec_tx C items d") (auto simp: faulty_tx_def run_tx_def)
  with inv_grows [OF ok(2)] next_safe show ?thesis by (auto simp: good_act_def grows_evolves)
qed

lemma table_row_ok:
  "db_ok d \<Longrightarrow> protocol_inv (view d) hs ps \<Longrightarrow> r \<in> set (t_notifications d) \<Longrightarrow> row_ok r"
  using protocol_invD(1) [of "view d" hs ps "r_id r" "cell_of r"] view_row [of d r]
  by (auto simp: row_ok_def cell_ok_def cell_of_def)

lemma may_see_rows:
  "may_see q a (Inr rows) \<Longrightarrow> \<exists>rows'. a = Inr rows' \<and> set rows \<subseteq> set rows'"
  by (auto simp: may_see_def elim: list_emb_set)

lemma read_good:
  assumes ok: "db_ok d" "protocol_inv (view d) hs ps" and q: "\<not> is_claim q"
    and f: "faulty f (query_sql C q) d = (a, d')" and see: "may_see q a a'"
    and safe: "safe (QueryN q g) (hs ! k) (\<lambda>_ _. True)"
  shows "good_act d hs ps k d' (after_query (hs ! k) q a') (g a') []"
proof -
  have "d' = d \<and> (\<forall>rows. a = Inr rows \<longrightarrow> set rows \<subseteq> set (t_notifications d))"
    using f
  proof (cases rule: faulty_cases)
    case 1
    with read_view [OF _ q] show ?thesis by auto
  next
    case 3
    with read_view [OF _ q, of C d "fst (query_sql C q d)" "snd (query_sql C q d)"] show ?thesis by auto
  qed auto
  then have d': "d' = d" and rows: "\<And>rows. a' = Inr rows \<Longrightarrow> set rows \<subseteq> set (t_notifications d)"
    using may_see_rows [of q a] see by (blast, metis subset_trans)
  have "answer_ok q a'"
  proof (cases a')
    case (Inr rows')
    with rows table_row_ok [OF ok] show ?thesis by (auto simp: read_query [OF q] list_all_iff)
  qed (simp add: answer_ok_def)
  with safe d' read_query [OF q] good_quiet [OF ok] show ?thesis by simp
qed

lemma claim_good:
  assumes ok: "db_ok d" "protocol_inv (view d) hs ps"
    and f: "faulty f (query_sql C (Q_ClaimForProcessing i t)) d = (a, d')"
    and see: "may_see (Q_ClaimForProcessing i t) a a'"
    and safe: "safe (QueryN (Q_ClaimForProcessing i t) g) (hs ! k) (\<lambda>_ _. True)"
  shows "good_act d hs ps k d' (after_query (hs ! k) (Q_ClaimForProcessing i t) a') (g a') []"
proof -
  from see have [simp]: "a' = a" by (simp add: may_see_def)
  from safe have idle: "hs ! k = Idle" and next_safe: "\<And>b. answer_ok (Q_ClaimForProcessing i t) b \<Longrightarrow>
      safe (g b) (after_query Idle (Q_ClaimForProcessing i t) b) (\<lambda>_ _. True)" by auto
  have same: "hs[k := Idle] = hs" using idle by (metis list_update_id)
  have fail: "good_act d hs ps k d1 Idle (g (Inl e)) []"
    if "sql_ClaimForProcessing C i t d = (b, d1) \<or> d1 = d" for b d1 e
    using that ok next_safe [of "Inl e"] claim_view [of C i t d b d1] inv_claim [OF ok(2)] claim_evolves
    by (auto simp: good_act_def answer_ok_def same grows_evolves)
  have succeed: "good_act d hs ps k d1 (after_query Idle (Q_ClaimForProcessing i t) b) (g b) []"
    if e: "sql_ClaimForProcessing C i t d = (b, d1)" for b d1
  proof (cases b)
    case (Inl x)
    with fail [of b d1 x] e show ?thesis by simp
  next
    case (Inr rows)
    from claim_view [OF e ok(1)] Inr consider "db_ok d1" "view d1 = view d" "rows = []"
      | c r where "db_ok d1" "view d i = Some c" "claimable_cell c" "view d1 = (view d)(i \<mapsto> claim_cell c)"
        "rows = [r]" "r_id r = i" "r_attempts r = c_attempts c + 1" "payload r = c_payload c"
        "r_status r = StatusProcessing" by auto
    then show ?thesis
    proof cases
      case 1
      with Inr ok(2) next_safe [of b] show ?thesis
        by (simp add: good_act_def answer_ok_def same grows_evolves)
    next
      case 2
      have "row_ok r"
        using protocol_invD(1) [OF ok(2) 2(2)] 2 by (simp add: row_ok_def cell_ok_def Status_IsValid_def)
      with Inr 2 have "answer_ok (Q_ClaimForProcessing i t) b" by (simp add: answer_ok_def)
      from next_safe [OF this] inv_claim_hold [OF ok(2) 2(2,3,6,7,8)] claim_evolves [where M = "view d", OF 2(2,3)] 2 Inr
      show ?thesis by (simp add: good_act_def)
    qed
  qed
  show ?thesis
    using f
  proof (cases rule: faulty_cases)
    case 1
    then show ?thesis using succeed idle by simp
  next
    case (2 e)
    with fail [of a d e] idle show ?thesis by simp
  next
    case (3 e)
    with fail [of "fst (sql_ClaimForProcessing C i t d)" "snd (sql_ClaimForProcessing C i t d)" e] idle
    show ?thesis by simp
  qed
qed

lemma http_good:
  assumes ok: "db_ok d" "protocol_inv (view d) hs ps" "k < length hs"
    and safe: "safe (Http_Do q g) (hs ! k) (\<lambda>_ _. True)"
  shows "good_act d hs ps k d (after_post (hs ! k) a) (g a) [post_of (hs ! k) q a]"
proof -
  from safe obtain r where r: "hs ! k = Holding r None" "request_payload q = payload r"
    and next_safe: "safe (g a) (Holding r (Some a)) (\<lambda>_ _. True)"
    by (auto simp: may_post_def request_payload_def payload_def)
  from inv_post [OF ok(2,3) r, of a] ok(1) next_safe r show ?thesis
    by (simp add: good_act_def grows_evolves)
qed

lemma act_good:
  assumes "act C d h p d' h' p' new" and h: "h = hs ! k"
    and ok: "db_ok d" "protocol_inv (view d) hs ps" "k < length hs"
    and "safe p h (\<lambda>_ _. True)"
  shows "good_act d hs ps k d' h' p' new"
  using assms(1,6) unfolding h
proof (cases rule: act.cases)
  case (act_exec f s a g)
  with exec_good [OF ok] assms(6) h show ?thesis by auto
next
  case (act_tx f items a g)
  with tx_good [OF ok(1,2)] assms(6) h show ?thesis by auto
next
  case (act_query f q a a' g)
  then show ?thesis
    using read_good [OF ok(1,2) _ act_query(5,6), of g k] claim_good [OF ok(1,2), of f C _ _ a d' a' g k]
      assms(6) h by (cases q) auto
next
  case (act_http q g a)
  with http_good [OF ok] assms(6) h show ?thesis by auto
qed (use good_quiet [OF ok(1,2), of _ k] assms(6) h in \<open>auto elim!: faulty_cases\<close>)

section \<open>The system\<close>

record process =
  pr_hold :: hold
  pr_prog :: "unit prog"

record system =
  y_db :: db
  y_procs :: "process list"
  y_posts :: "post list"

definition initial_system :: system where
  "initial_system =
     \<lparr>y_db = \<lparr>t_notifications = [], t_batches = [], t_templates = [], t_logs = []\<rparr>,
      y_procs = [], y_posts = []\<rparr>"

inductive step :: "pg_codec \<Rightarrow> template_engine \<Rightarrow> worker_config \<Rightarrow> system \<Rightarrow> system \<Rightarrow> bool"
  for C E cfg where
  step_start: "service C E cfg p \<Longrightarrow>
    step C E cfg s (s\<lparr>y_procs := y_procs s @ [\<lparr>pr_hold = Idle, pr_prog = p\<rparr>]\<rparr>)"
| step_act: "k < length (y_procs s) \<Longrightarrow>
    act C (y_db s) (pr_hold (y_procs s ! k)) (pr_prog (y_procs s ! k)) d' h' p' new \<Longrightarrow>
    step C E cfg s \<lparr>y_db = d', y_procs = (y_procs s)[k := \<lparr>pr_hold = h', pr_prog = p'\<rparr>],
      y_posts = y_posts s @ new\<rparr>"
| step_die: "k < length (y_procs s) \<Longrightarrow>
    step C E cfg s (s\<lparr>y_procs := take k (y_procs s) @ drop (Suc k) (y_procs s)\<rparr>)"

inductive_cases stepE: "step C E cfg s s'"

definition reachable :: "pg_codec \<Rightarrow> template_engine \<Rightarrow> worker_config \<Rightarrow> system \<Rightarrow> bool" where
  "reachable C E cfg s \<longleftrightarrow> (step C E cfg)\<^sup>*\<^sup>* initial_system s"

definition system_inv :: "system \<Rightarrow> bool" where
  "system_inv s \<longleftrightarrow> db_ok (y_db s) \<and> protocol_inv (view (y_db s)) (map pr_hold (y_procs s)) (y_posts s) \<and>
     (\<forall>p \<in> set (y_procs s). safe (pr_prog p) (pr_hold p) (\<lambda>_ _. True))"

lemma act_step_good:
  assumes inv: "system_inv s" and k: "k < length (y_procs s)"
    and a: "act C (y_db s) (pr_hold (y_procs s ! k)) (pr_prog (y_procs s ! k)) d' h' p' new"
  shows "good_act (y_db s) (map pr_hold (y_procs s)) (y_posts s) k d' h' p' new"
  using inv k nth_mem [OF k] by (intro act_good [OF a]) (auto simp: system_inv_def)

lemma step_inv: "codec_ok C \<Longrightarrow> system_inv s \<Longrightarrow> step C E cfg s s' \<Longrightarrow> system_inv s'"
proof (erule stepE)
  fix p assume "codec_ok C" "system_inv s" "service C E cfg p"
    and s': "s' = s\<lparr>y_procs := y_procs s @ [\<lparr>pr_hold = Idle, pr_prog = p\<rparr>]\<rparr>"
  moreover from this have "safe p Idle (\<lambda>_ _. True)"
    by (intro pg_driver.service_safe) (simp_all add: pg_driver_def)
  ultimately show ?thesis using inv_spawn by (auto simp: system_inv_def)
next
  fix k d' h' p' new
  assume inv: "system_inv s" and k: "k < length (y_procs s)"
    and a: "act C (y_db s) (pr_hold (y_procs s ! k)) (pr_prog (y_procs s ! k)) d' h' p' new"
    and s': "s' = \<lparr>y_db = d', y_procs = (y_procs s)[k := \<lparr>pr_hold = h', pr_prog = p'\<rparr>],
      y_posts = y_posts s @ new\<rparr>"
  from act_step_good [OF inv k a] inv s' set_update_subset_insert [of "y_procs s" k] show ?thesis
    by (fastforce simp: system_inv_def good_act_def map_update)
next
  fix k assume "system_inv s" and "s' = s\<lparr>y_procs := take k (y_procs s) @ drop (Suc k) (y_procs s)\<rparr>"
  then show ?thesis
    using inv_crash [of "view (y_db s)" "map pr_hold (y_procs s)" "y_posts s" k]
    by (auto simp: system_inv_def take_map drop_map dest: in_set_takeD in_set_dropD)
qed

lemma initial_inv: "system_inv initial_system"
  by (simp add: system_inv_def initial_system_def db_ok_def view_def protocol_initial)

lemma reachable_inv:
  assumes "codec_ok C" and "reachable C E cfg s"
  shows "system_inv s"
  using assms(2) unfolding reachable_def
  by (induction rule: rtranclp_induct) (auto intro: initial_inv step_inv [OF assms(1)])

end
