(* ===== verification/Guarantees.thy ===== *)
theory Guarantees
  imports System
begin

text \<open>
  What the invariant of \<open>System\<close> means for the tables and the posts, step by step and along
  whole runs, in the terms of the rows themselves.
\<close>

section \<open>One step\<close>

lemma step_evolves:
  assumes "codec_ok C" and inv: "system_inv s" and st: "step C E cfg s s'"
  shows "evolves (view (y_db s)) (view (y_db s'))"
    and "\<exists>new. y_posts s' = y_posts s @ new \<and> (\<forall>x \<in> set new. \<exists>c. view (y_db s) (p_id x) = Some c \<and>
           c_status c \<in> {StatusProcessing, StatusFailed})"
proof -
  have "evolves (view (y_db s)) (view (y_db s')) \<and> (\<exists>new. y_posts s' = y_posts s @ new \<and>
      (\<forall>x \<in> set new. \<exists>c. view (y_db s) (p_id x) = Some c \<and> c_status c \<in> {StatusProcessing, StatusFailed}))"
    using st
  proof (cases rule: step.cases)
    case (step_act k d' h' p' new)
    note good = act_step_good [OF inv step_act(2,3)]
    have "\<exists>c. view (y_db s) (p_id x) = Some c \<and> c_status c \<in> {StatusProcessing, StatusFailed}"
      if "x \<in> set new" for x
    proof -
      from good that obtain r where r: "pr_hold (y_procs s ! k) = Holding r None" "p_id x = r_id r"
        using step_act(2) by (auto simp: good_act_def)
      have "protocol_inv (view (y_db s)) (map pr_hold (y_procs s)) (y_posts s)"
        using inv by (simp add: system_inv_def)
      then have "hold_ok (view (y_db s)) (y_posts s) (Holding r None)"
        using protocol_invD(2) r(1) nth_mem [OF step_act(2)] by (metis imageI list.set_map)
      with hold_okD r(2) show ?thesis by fastforce
    qed
    with good step_act(1) show ?thesis by (auto simp: good_act_def)
  qed (auto simp: grows_evolves)
  then show "evolves (view (y_db s)) (view (y_db s'))"
    and "\<exists>new. y_posts s' = y_posts s @ new \<and> (\<forall>x \<in> set new. \<exists>c. view (y_db s) (p_id x) = Some c \<and>
           c_status c \<in> {StatusProcessing, StatusFailed})" by auto
qed

lemma system_rows:
  assumes "system_inv s"
  shows "r \<in> set (t_notifications (y_db s)) \<Longrightarrow> view (y_db s) (r_id r) = Some (cell_of r)"
    and "view (y_db s) i = Some c \<Longrightarrow> \<exists>r \<in> set (t_notifications (y_db s)). r_id r = i \<and> cell_of r = c"
  using assms view_row view_Some by (auto simp: system_inv_def)

lemma steps_inv: "(step C E cfg)\<^sup>*\<^sup>* s s' \<Longrightarrow> codec_ok C \<Longrightarrow> system_inv s \<Longrightarrow> system_inv s'"
  by (induction rule: rtranclp_induct) (auto intro: step_inv)

section \<open>Whole runs\<close>

text \<open>A cell in a terminal status never changes again, and one that is cancelled or delivered is
  never posted for again.\<close>

lemma terminal_cell_fixed:
  assumes "cell_step c c'" and "Status_IsTerminal (c_status c)"
  shows "c' = c"
  using assms by (auto simp: cell_step_def CanTransitionTo_iff Status_IsTerminal_def)

lemma steps_terminal:
  assumes "(step C E cfg)\<^sup>*\<^sup>* s s'" and "codec_ok C" and "system_inv s"
    and c: "view (y_db s) i = Some c" "Status_IsTerminal (c_status c)"
  shows "view (y_db s') i = Some c"
  using assms(1)
proof (induction rule: rtranclp_induct)
  case (step y z)
  have "system_inv y" using steps_inv step(1) assms(2,3) by blast
  from step_evolves(1) [OF assms(2) this step(2)] step(3) obtain c' where
    "view (y_db z) i = Some c'" "cell_step c c'" unfolding evolves_def by blast
  with terminal_cell_fixed [OF _ c(2)] show ?case by auto
qed (rule c)

lemma steps_no_more_posts:
  assumes "(step C E cfg)\<^sup>*\<^sup>* s s'" and ok: "codec_ok C" "system_inv s"
    and c: "view (y_db s) i = Some c" "c_status c \<in> {StatusCancelled, StatusDelivered}"
  shows "filter (\<lambda>p. p_id p = i) (y_posts s') = filter (\<lambda>p. p_id p = i) (y_posts s)"
  using assms(1)
proof (induction rule: rtranclp_induct)
  case (step y z)
  have inv: "system_inv y" using steps_inv step(1) ok by blast
  have same: "view (y_db y) i = Some c"
    using steps_terminal [OF step(1) ok c(1)] c(2) by (auto simp: Status_IsTerminal_def)
  from step_evolves(2) [OF ok(1) inv step(2)] obtain new where new: "y_posts z = y_posts y @ new"
    "\<And>x. x \<in> set new \<Longrightarrow> \<exists>c. view (y_db y) (p_id x) = Some c \<and> c_status c \<in> {StatusProcessing, StatusFailed}"
    by blast
  have "p_id x \<noteq> i" if "x \<in> set new" for x
    using new(2) [OF that] same c(2) by force
  with new(1) step(3) show ?case by (simp add: filter_empty_conv)
qed simp

section \<open>Holders\<close>

lemma exclusive_tail: "exclusive (h # hs) \<Longrightarrow> exclusive hs"
  unfolding exclusive_def by (metis Suc_less_eq length_Cons nat.inject nth_Cons_Suc)

lemma exclusive_distinct: "exclusive hs \<Longrightarrow> distinct (List.map_filter held hs)"
proof (induction hs)
  case (Cons h hs)
  have "held h \<noteq> Some i" if "Some i \<in> held ` set hs" for i
  proof
    assume "held h = Some i"
    moreover from that obtain k where "k < length hs" "held (hs ! k) = Some i" by (metis imageE in_set_conv_nth)
    ultimately show False using Cons.prems unfolding exclusive_def by (metis Suc_less_eq length_Cons nat.distinct(1) nth_Cons_0
        nth_Cons_Suc option.distinct(1) zero_less_Suc)
  qed
  with Cons exclusive_tail show ?case
    by (cases "held h") (auto simp: List.map_filter_def, force)
qed (simp add: map_filter_simps)

section \<open>Counting posts\<close>

lemma card_attempts:
  assumes keys: "distinct (map post_key ps)" and late: "card (late ps i) \<le> 1"
    and pos: "\<And>p. p \<in> set ps \<Longrightarrow> 0 < unat (p_attempt p)"
  shows "length (filter (\<lambda>p. p_id p = i) ps) \<le> 5"
proof -
  let ?S = "{p \<in> set ps. p_id p = i}" and ?E = "{p \<in> set ps. p_id p = i \<and> unat (p_attempt p) < 5}"
  have "distinct ps" using keys by (simp add: distinct_map)
  then have len: "length (filter (\<lambda>p. p_id p = i) ps) = card ?S"
    by (metis distinct_card distinct_filter set_filter)
  have "inj_on (\<lambda>p. unat (p_attempt p)) ?E"
    using keys unfolding distinct_map by (fastforce simp: inj_on_def post_key_def dest: unsigned_word_eqI)
  moreover have "(\<lambda>p. unat (p_attempt p)) ` ?E \<subseteq> {1..4}" using pos by force
  ultimately have "card ?E \<le> card {1..4 :: nat}" by (rule card_inj_on_le) simp
  moreover have "?S = ?E \<union> late ps i" by (auto simp: late_def)
  then have "card ?S \<le> card ?E + card (late ps i)" using card_Un_le [of ?E "late ps i"] by argo
  ultimately show ?thesis using late len by simp
qed

lemma reachable_posts:
  assumes "codec_ok C" and "reachable C E cfg s"
  shows "distinct (map post_key (y_posts s))"
    and "length (filter (\<lambda>p. p_id p = i) (y_posts s)) \<le> 5"
    and "p \<in> set (y_posts s) \<Longrightarrow> \<exists>r \<in> set (t_notifications (y_db s)). r_id r = p_id p \<and>
      payload r = request_payload (p_request p)"
proof -
  have inv: "system_inv s" using assms by (rule reachable_inv)
  then have pinv: "protocol_inv (view (y_db s)) (map pr_hold (y_procs s)) (y_posts s)"
    by (simp add: system_inv_def)
  show "distinct (map post_key (y_posts s))" using pinv by (rule protocol_invD)
  show "length (filter (\<lambda>p. p_id p = i) (y_posts s)) \<le> 5"
    using protocol_invD(4,5,7) [OF pinv] by (intro card_attempts) (auto simp: post_ok_def)
  show "\<exists>r \<in> set (t_notifications (y_db s)). r_id r = p_id p \<and> payload r = request_payload (p_request p)"
    if "p \<in> set (y_posts s)"
    using protocol_invD(5) [OF pinv that] system_rows(2) [OF inv, of "p_id p"]
    by (fastforce simp: post_ok_def cell_of_def)
qed

lemma reachable_delivered:
  assumes "codec_ok C" and "reachable C E cfg s"
    and "r \<in> set (t_notifications (y_db s))" and "r_status r = StatusDelivered"
  shows "\<exists>p \<in> set (y_posts s). p_id p = r_id r \<and> accepted (p_answer p)"
proof -
  have inv: "system_inv s" using assms(1,2) by (rule reachable_inv)
  then have "delivered_ok (view (y_db s)) (y_posts s)"
    using protocol_invD(6) by (auto simp: system_inv_def)
  moreover have "c_status (cell_of r) = StatusDelivered" using assms(4) by (simp add: cell_of_def)
  ultimately obtain a ans where "posted (y_posts s) (r_id r) a ans" "accepted ans"
    using system_rows(1) [OF inv assms(3)] unfolding delivered_ok_def by blast
  then show ?thesis by (auto simp: posted_def post_key_def)
qed

end
