(* ===== verification/Execution.thy ===== *)
theory Execution
  imports Guarantees
begin

text \<open>
  A deterministic scheduler: run one program to its end against a given environment, keeping
  its hold and the posts the way the system does. Whatever it reaches, the system reaches.
\<close>

text \<open>Run one program to its end, keeping its hold and the posts as \<open>act\<close> does.\<close>

type_synonym 'x trail_state = "hold \<times> db \<times> 'x \<times> post list"

primrec trail :: "pg_codec \<Rightarrow> 'x env \<Rightarrow> 'r prog \<Rightarrow> 'x trail_state \<Rightarrow> 'r \<times> 'x trail_state" where
  "trail C H (Ret r) w = (r, w)"
| "trail C H (Exec s k) w = (case w of (h, d, x, ps) \<Rightarrow> case e_fault H x of (f, x) \<Rightarrow>
     case faulty f (exec_sql C s) d of (a, d) \<Rightarrow> trail C H (k a) (after_exec h s, d, x, ps))"
| "trail C H (Tx ss k) w = (case w of (h, d, x, ps) \<Rightarrow> case e_fault H x of (f, x) \<Rightarrow>
     case faulty_tx f (run_tx C ss) d of (a, d) \<Rightarrow> trail C H (k a) (h, d, x, ps))"
| "trail C H (QueryN q k) w = (case w of (h, d, x, ps) \<Rightarrow> case e_fault H x of (f, x) \<Rightarrow>
     case faulty f (query_sql C q) d of (a, d) \<Rightarrow> trail C H (k a) (after_query h q a, d, x, ps))"
| "trail C H (QueryB i k) w = (case w of (h, d, x, ps) \<Rightarrow> case e_fault H x of (f, x) \<Rightarrow>
     case faulty f (\<lambda>d. (sql_GetBatch i d, d)) d of (a, d) \<Rightarrow> trail C H (k a) (h, d, x, ps))"
| "trail C H (QueryT q k) w = (case w of (h, d, x, ps) \<Rightarrow> case e_fault H x of (f, x) \<Rightarrow>
     case faulty f (\<lambda>d. (template_sql C q d, d)) d of (a, d) \<Rightarrow> trail C H (k a) (h, d, x, ps))"
| "trail C H (QueryL i k) w = (case w of (h, d, x, ps) \<Rightarrow> case e_fault H x of (f, x) \<Rightarrow>
     case faulty f (\<lambda>d. (sql_ListNotificationLogs i d, d)) d of (a, d) \<Rightarrow> trail C H (k a) (h, d, x, ps))"
| "trail C H (Clock_Now k) w = (case w of (h, d, x, ps) \<Rightarrow>
     case e_now H x of (a, x) \<Rightarrow> trail C H (k a) (h, d, x, ps))"
| "trail C H (New_ID i k) w = (case w of (h, d, x, ps) \<Rightarrow>
     case e_id H i x of (a, x) \<Rightarrow> trail C H (k a) (h, d, x, ps))"
| "trail C H (Asynq_Enqueue t k) w = (case w of (h, d, x, ps) \<Rightarrow>
     case e_enqueue H t x of (a, x) \<Rightarrow> trail C H (k a) (h, d, x, ps))"
| "trail C H (Asynq_DeleteTask q t k) w = (case w of (h, d, x, ps) \<Rightarrow>
     case e_delete_task H q t x of (a, x) \<Rightarrow> trail C H (k a) (h, d, x, ps))"
| "trail C H (Redis_RunScript b l ms k) w = (case w of (h, d, x, ps) \<Rightarrow>
     case e_script H b l ms x of (a, x) \<Rightarrow> trail C H (k a) (h, d, x, ps))"
| "trail C H (Redis_Publish c n s k) w = (case w of (h, d, x, ps) \<Rightarrow>
     case e_publish H c n s x of (a, x) \<Rightarrow> trail C H (k a) (h, d, x, ps))"
| "trail C H (Redis_Get key k) w = (case w of (h, d, x, ps) \<Rightarrow>
     case e_get H key x of (a, x) \<Rightarrow> trail C H (k a) (h, d, x, ps))"
| "trail C H (Redis_Set key v ttl k) w = (case w of (h, d, x, ps) \<Rightarrow>
     case e_set H key v ttl x of (a, x) \<Rightarrow> trail C H (k a) (h, d, x, ps))"
| "trail C H (Http_Do q k) w = (case w of (h, d, x, ps) \<Rightarrow>
     case e_http H q x of (a, x) \<Rightarrow> trail C H (k a) (after_post h a, d, x, ps @ [post_of h q a]))"
| "trail C H (Breaker_Before k) w = (case w of (h, d, x, ps) \<Rightarrow>
     case e_before H x of (a, x) \<Rightarrow> trail C H (k a) (h, d, x, ps))"
| "trail C H (Breaker_After g b p) w = (case w of (h, d, x, ps) \<Rightarrow> trail C H p (h, d, e_after H g b x, ps))"
| "trail C H (Emit e p) w = (case w of (h, d, x, ps) \<Rightarrow> trail C H p (h, d, e_emit H e x, ps))"

lemma trail_bind: "trail C H (bind p f) w = (case trail C H p w of (r, w') \<Rightarrow> trail C H (f r) w')"
  by (induction p arbitrary: w) (simp_all split: prod.splits)

text \<open>The shapes of error handling, when the call returns.\<close>

lemma trail_on_err:
  "trail C H (on_err p fail k) w = (case trail C H p w of (e, w') \<Rightarrow>
     (case e of Some err \<Rightarrow> (fail err, w') | None \<Rightarrow> trail C H k w'))"
  by (simp add: on_err_def trail_bind split: prod.split option.split)

lemma trail_try_val:
  "trail C H (try_val p fail k) w = (case trail C H p w of (r, w') \<Rightarrow>
     (case r of Inl err \<Rightarrow> (fail err, w') | Inr a \<Rightarrow> trail C H (k a) w'))"
  by (simp add: try_val_def trail_bind split: prod.split sum.split)

lemmas trail_rules = trail_bind trail_on_err trail_try_val

lemma one_act:
  assumes "k < length procs" and "procs ! k = \<lparr>pr_hold = h, pr_prog = p\<rparr>" and "act C d h p d' h' p' new"
    and "(step C E cfg)\<^sup>*\<^sup>* \<lparr>y_db = d', y_procs = procs[k := \<lparr>pr_hold = h', pr_prog = p'\<rparr>], y_posts = ps @ new\<rparr> s'"
  shows "(step C E cfg)\<^sup>*\<^sup>* \<lparr>y_db = d, y_procs = procs, y_posts = ps\<rparr> s'"
  using step_act [of k "\<lparr>y_db = d, y_procs = procs, y_posts = ps\<rparr>" C d' h' p' new E cfg] assms
  by (auto intro: converse_rtranclp_into_rtranclp)

lemma see_all: "may_see q a a"
  by (simp add: may_see_def)

lemmas trail_acts = act_exec act_tx act_query [OF _ see_all] act_batch act_template act_log act_now
  act_id act_enqueue act_delete_task act_script act_publish act_redis_get act_redis_set act_http act_before act_after act_emit

text \<open>What may come next in a program, and induction along it.\<close>

primrec nexts :: "'r prog \<Rightarrow> 'r prog set" where
  "nexts (Ret r) = {}"
| "nexts (Exec s k) = range k"
| "nexts (Tx ss k) = range k"
| "nexts (QueryN q k) = range k"
| "nexts (QueryB i k) = range k"
| "nexts (QueryT q k) = range k"
| "nexts (QueryL i k) = range k"
| "nexts (Clock_Now k) = range k"
| "nexts (New_ID i k) = range k"
| "nexts (Asynq_Enqueue t k) = range k"
| "nexts (Asynq_DeleteTask q t k) = range k"
| "nexts (Redis_RunScript b l ms k) = range k"
| "nexts (Redis_Publish c n s k) = range k"
| "nexts (Redis_Get key k) = range k"
| "nexts (Redis_Set key v ttl k) = range k"
| "nexts (Http_Do q k) = range k"
| "nexts (Breaker_Before k) = range k"
| "nexts (Breaker_After g b p) = {p}"
| "nexts (Emit e p) = {p}"

lemma prog_induct: "(\<And>p. (\<And>q. q \<in> nexts p \<Longrightarrow> P q) \<Longrightarrow> P p) \<Longrightarrow> P p"
  by (induction p) (metis nexts.simps empty_iff singletonD)+

lemma trail_act:
  assumes "\<And>r. p \<noteq> Ret r"
  obtains d1 h1 p1 new x1 where "act C d h p d1 h1 p1 new" "p1 \<in> nexts p"
    "trail C H p (h, d, x, ps) = trail C H p1 (h1, d1, x1, ps @ new)"
  using assms
  by (cases p; fastforce split: prod.splits intro: trail_acts)

lemma trail_steps:
  assumes "trail C H p (h, d, x, ps) = (u, h', d', x', ps')" and "k < length procs"
    and "procs ! k = \<lparr>pr_hold = h, pr_prog = p\<rparr>"
  shows "(step C E cfg)\<^sup>*\<^sup>* \<lparr>y_db = d, y_procs = procs, y_posts = ps\<rparr>
    \<lparr>y_db = d', y_procs = procs[k := \<lparr>pr_hold = h', pr_prog = Ret u\<rparr>], y_posts = ps'\<rparr>"
  using assms
proof (induction p arbitrary: h d x ps procs rule: prog_induct)
  case (1 p)
  show ?case
  proof (cases "\<exists>r. p = Ret r")
    case True
    with 1(2-) have "procs[k := \<lparr>pr_hold = h', pr_prog = Ret u\<rparr>] = procs"
      by (auto simp: list_update_same_conv)
    with True 1(2) show ?thesis by auto
  next
    case False
    then have "\<And>r. p \<noteq> Ret r" by blast
    then obtain d1 h1 p1 new x1 where a: "act C d h p d1 h1 p1 new" "p1 \<in> nexts p"
      "trail C H p (h, d, x, ps) = trail C H p1 (h1, d1, x1, ps @ new)"
      by (rule trail_act [of p C d h H x ps])
    let ?procs = "procs[k := \<lparr>pr_hold = h1, pr_prog = p1\<rparr>]"
    have "(step C E cfg)\<^sup>*\<^sup>* \<lparr>y_db = d1, y_procs = ?procs, y_posts = ps @ new\<rparr>
        \<lparr>y_db = d', y_procs = ?procs[k := \<lparr>pr_hold = h', pr_prog = Ret u\<rparr>], y_posts = ps'\<rparr>"
      by (rule 1(1) [OF a(2)]) (use 1(2-) a(3) in simp_all)
    with one_act [OF 1(3,4) a(1)] show ?thesis by simp
  qed
qed

lemma serve_reachable:
  assumes "reachable C E cfg \<lparr>y_db = d, y_procs = procs, y_posts = ps\<rparr>" and "service C E cfg p"
    and "trail C H p (Idle, d, x, ps) = (u, h', d', x', ps')"
  shows "reachable C E cfg
    \<lparr>y_db = d', y_procs = procs @ [\<lparr>pr_hold = h', pr_prog = Ret u\<rparr>], y_posts = ps'\<rparr>"
proof -
  let ?s = "\<lparr>y_db = d, y_procs = procs, y_posts = ps\<rparr>"
  have "step C E cfg ?s (?s\<lparr>y_procs := y_procs ?s @ [\<lparr>pr_hold = Idle, pr_prog = p\<rparr>]\<rparr>)"
    using assms(2) by (rule step_start)
  moreover have "(step C E cfg)\<^sup>*\<^sup>* (?s\<lparr>y_procs := y_procs ?s @ [\<lparr>pr_hold = Idle, pr_prog = p\<rparr>]\<rparr>)
      \<lparr>y_db = d', y_procs = procs @ [\<lparr>pr_hold = h', pr_prog = Ret u\<rparr>], y_posts = ps'\<rparr>"
    using trail_steps [OF assms(3), of "length procs" "procs @ [\<lparr>pr_hold = Idle, pr_prog = p\<rparr>]"
 E cfg] by simp
  ultimately show ?thesis using assms(1) unfolding reachable_def by (meson rtranclp.rtrancl_into_rtrancl rtranclp_trans)
qed

end
