(* ===== verification/Calm.thy ===== *)
theory Calm
  imports Execution
begin

text \<open>
  Programs in a calm world: no statement fails, the queue and the broadcaster accept what they
  are given, and the clock, the identifiers, the limiter, the breaker and the provider answer as
  the world says. What the use cases do to the tables is computed from here on method by
  method.
\<close>

section \<open>The world\<close>

record world =
  w_now :: "nat \<Rightarrow> Time"
  w_id :: "nat \<Rightarrow> string"
  w_limit :: "int \<times> int"
  w_admit :: "gerror + nat"
  w_http :: "http_request \<Rightarrow> http_answer"

text \<open>The environment's own state: how often the clock and the generator were asked, the tasks
  enqueued, the updates published and the values cached in Redis (none has expired yet).\<close>

record calm_state =
  cs_calls :: nat
  cs_tasks :: "asynq_task list"
  cs_published :: "(string \<times> string) list"
  cs_redis :: "string \<rightharpoonup> string"

definition ticked :: "calm_state \<Rightarrow> calm_state" where
  "ticked x = x\<lparr>cs_calls := cs_calls x + 1\<rparr>"

definition calm :: "world \<Rightarrow> calm_state env" where
  "calm W =
     \<lparr>e_fault = (\<lambda>x. (NoFault, x)), e_now = (\<lambda>x. (w_now W (cs_calls x), ticked x)),
      e_id = (\<lambda>_ x. (w_id W (cs_calls x), ticked x)),
      e_enqueue = (\<lambda>t x. (None, x\<lparr>cs_tasks := cs_tasks x @ [t]\<rparr>)), e_delete_task = (\<lambda>_ _ x. (None, x)),
      e_script = (\<lambda>_ _ _ x. (Inr (Some (w_limit W)), x)),
      e_publish = (\<lambda>_ i s x. (None, x\<lparr>cs_published := cs_published x @ [(i, s)]\<rparr>)),
      e_get = (\<lambda>key x. (Inr (cs_redis x key), x)), e_set = (\<lambda>key v _ x. (None, x\<lparr>cs_redis := (cs_redis x)(key \<mapsto> v)\<rparr>)),
      e_http = (\<lambda>q x. (w_http W q, x)), e_before = (\<lambda>x. (w_admit W, x)), e_after = (\<lambda>_ _ x. x),
      e_emit = (\<lambda>_ x. x)\<rparr>"

lemma calm_simps [simp]:
  "e_fault (calm W) x = (NoFault, x)" "e_now (calm W) x = (w_now W (cs_calls x), ticked x)"
  "e_id (calm W) k x = (w_id W (cs_calls x), ticked x)"
  "e_enqueue (calm W) t x = (None, x\<lparr>cs_tasks := cs_tasks x @ [t]\<rparr>)"
  "e_delete_task (calm W) q s x = (None, x)" "e_script (calm W) b l ms x = (Inr (Some (w_limit W)), x)"
  "e_publish (calm W) c i s x = (None, x\<lparr>cs_published := cs_published x @ [(i, s)]\<rparr>)"
  "e_get (calm W) key x = (Inr (cs_redis x key), x)"
  "e_set (calm W) key v ttl x = (None, x\<lparr>cs_redis := (cs_redis x)(key \<mapsto> v)\<rparr>)"
  "e_http (calm W) rq x = (w_http W rq, x)" "e_before (calm W) x = (w_admit W, x)"
  "e_after (calm W) g ok x = x" "e_emit (calm W) ob x = x"
  by (simp_all add: calm_def)

lemma faulty_none [simp]: "faulty NoFault f d = f d" "faulty_tx NoFault g d = g d"
  by (simp_all add: faulty_def faulty_tx_def)

lemma ticked_simps [simp]:
  "cs_calls (ticked x) = cs_calls x + 1" "cs_tasks (ticked x) = cs_tasks x"
  "cs_published (ticked x) = cs_published x" "cs_redis (ticked x) = cs_redis x"
  by (simp_all add: ticked_def)

lemma ticked_updates:
  "ticked (x\<lparr>cs_tasks := ts\<rparr>) = (ticked x)\<lparr>cs_tasks := ts\<rparr>"
  "ticked (x\<lparr>cs_published := us\<rparr>) = (ticked x)\<lparr>cs_published := us\<rparr>"
  by (simp_all add: ticked_def)

text \<open>The next \<open>m\<close> identifiers of the generator scan, to \<open>u\<close>, are different, and are in neither
  table.\<close>

definition used_ids :: "db \<Rightarrow> pgUUID set" where
  "used_ids d = lr_id ` set (t_logs d) \<union> r_id ` set (t_notifications d)"

definition id_supply :: "pg_codec \<Rightarrow> world \<Rightarrow> (nat \<Rightarrow> uuid) \<Rightarrow> nat \<Rightarrow> calm_state \<Rightarrow> db \<Rightarrow> bool" where
  "id_supply C W u m x d \<longleftrightarrow> inj_on u {cs_calls x ..< cs_calls x + m} \<and>
     (\<forall>n \<in> {cs_calls x ..< cs_calls x + m}.
        w_id W n \<noteq> [] \<and> uuid_Scan C (w_id W n) = Inr (u n) \<and> Some (u n) \<notin> used_ids d)"

lemma supplyD:
  assumes "id_supply C W u m x d" and "cs_calls x \<le> n" and "n < cs_calls x + m"
  shows "w_id W n \<noteq> []" and "parseUUID C (w_id W n) = Inr (Some (u n))"
    and "Some (u n) \<notin> lr_id ` set (t_logs d)" and "Some (u n) \<notin> r_id ` set (t_notifications d)"
  using assms by (auto simp: id_supply_def parseUUID_def used_ids_def)

lemma id_supply_later:
  assumes "id_supply C W u m x d" and "cs_calls x \<le> cs_calls x'" and "cs_calls x' + m' \<le> cs_calls x + m"
    and "used_ids d' \<subseteq> used_ids d"
  shows "id_supply C W u m' x' d'"
  using assms by (auto simp: id_supply_def elim: inj_on_subset)

lemma id_supply_advance:
  assumes "id_supply C W u m x d" and "used_ids d' \<subseteq> used_ids d \<union> Some ` u ` {cs_calls x ..< cs_calls x'}"
    and "cs_calls x \<le> cs_calls x'" and "cs_calls x' + m' \<le> cs_calls x + m"
  shows "id_supply C W u m' x' d'"
proof -
  have inj: "inj_on u {cs_calls x ..< cs_calls x + m}" using assms(1) by (simp add: id_supply_def)
  have "Some (u k) \<notin> used_ids d'" if k: "cs_calls x' \<le> k" "k < cs_calls x' + m'" for k
  proof
    assume "Some (u k) \<in> used_ids d'"
    moreover have "Some (u k) \<notin> used_ids d" using assms(1,3,4) k by (auto simp: id_supply_def)
    ultimately have "Some (u k) \<in> Some ` u ` {cs_calls x ..< cs_calls x'}" using assms(2) by blast
    then obtain n where "cs_calls x \<le> n" "n < cs_calls x'" "u k = u n" by auto
    with inj_onD [OF inj, of k n] k assms(3,4) show False by auto
  qed
  moreover have "inj_on u {cs_calls x' ..< cs_calls x' + m'}"
    by (rule inj_on_subset [OF inj]) (use assms(3,4) in auto)
  ultimately show ?thesis using assms by (auto simp: id_supply_def)
qed

lemma id_supply_used:
  assumes "id_supply C W u m x d" and "used_ids d' \<subseteq> insert (Some (u n)) (used_ids d)"
    and "cs_calls x \<le> n" and "n < cs_calls x'" and "cs_calls x' + m' \<le> cs_calls x + m"
  shows "id_supply C W u m' x' d'"
  by (rule id_supply_advance [OF assms(1)]) (use assms(2-) in auto)

section \<open>Rows and entities\<close>

definition entity_of :: "NotificationRow \<Rightarrow> Notification" where
  "entity_of r = projr (notificationFromRow r)"

lemmas conversion_defs = entity_of_def notificationFromRow_def uuidToString_def wrap_res_def bind_res_def

lemma notificationFromRow_total:
  assumes "r_id r \<noteq> None"
  shows "notificationFromRow r = Inr (entity_of r)"
  using assms by (cases "r_batch_id r"; cases "r_template_id r") (auto simp: conversion_defs)

lemma entity_of_fields:
  assumes "r_id r \<noteq> None"
  shows "n_Status (entity_of r) = r_status r" "n_Attempts (entity_of r) = sint (r_attempts r)"
    "n_Channel (entity_of r) = r_channel r" "n_Recipient (entity_of r) = r_recipient r"
    "n_Content (entity_of r) = r_content r" "n_CorrelationID (entity_of r) = r_correlation_id r"
    "n_NextRetryAt (entity_of r) = r_next_retry_at r" "n_LastError (entity_of r) = r_last_error r"
    "n_Priority (entity_of r) = r_priority r"
    "n_IdempotencyKey (entity_of r) = (case r_idempotency_key r of None \<Rightarrow> [] | Some key \<Rightarrow> key)"
    "uuidToString (r_id r) = Inr (n_ID (entity_of r))"
proof -
  have "\<exists>i b t. uuidToString (r_id r) = Inr i \<and>
      \<lparr>n_ID = i, n_BatchID = b,
        n_IdempotencyKey = (case r_idempotency_key r of None \<Rightarrow> [] | Some key \<Rightarrow> key),
        n_CorrelationID = r_correlation_id r, n_Channel = r_channel r, n_Priority = r_priority r,
        n_Recipient = r_recipient r, n_Content = r_content r, n_Status = r_status r,
        n_Attempts = sint (r_attempts r), n_LastError = r_last_error r,
        n_NextRetryAt = r_next_retry_at r, n_ScheduledAt = r_scheduled_at r,
        n_TemplateID = t, n_CreatedAt = r_created_at r, n_UpdatedAt = r_updated_at r\<rparr> = entity_of r"
    using notificationFromRow_total [OF assms]
    by (auto simp: notificationFromRow_def bind_res_eq_Inr wrap_res_def split: sum.splits)
  then obtain i b t where i: "uuidToString (r_id r) = Inr i" and n: "entity_of r = \<lparr>n_ID = i, n_BatchID = b,
        n_IdempotencyKey = (case r_idempotency_key r of None \<Rightarrow> [] | Some key \<Rightarrow> key),
        n_CorrelationID = r_correlation_id r, n_Channel = r_channel r, n_Priority = r_priority r,
        n_Recipient = r_recipient r, n_Content = r_content r, n_Status = r_status r,
        n_Attempts = sint (r_attempts r), n_LastError = r_last_error r,
        n_NextRetryAt = r_next_retry_at r, n_ScheduledAt = r_scheduled_at r,
        n_TemplateID = t, n_CreatedAt = r_created_at r, n_UpdatedAt = r_updated_at r\<rparr>" by metis
  show "n_Status (entity_of r) = r_status r" "n_Attempts (entity_of r) = sint (r_attempts r)"
    "n_Channel (entity_of r) = r_channel r" "n_Recipient (entity_of r) = r_recipient r"
    "n_Content (entity_of r) = r_content r" "n_CorrelationID (entity_of r) = r_correlation_id r"
    "n_NextRetryAt (entity_of r) = r_next_retry_at r" "n_LastError (entity_of r) = r_last_error r"
    "n_Priority (entity_of r) = r_priority r"
    "n_IdempotencyKey (entity_of r) = (case r_idempotency_key r of None \<Rightarrow> [] | Some key \<Rightarrow> key)"
    "uuidToString (r_id r) = Inr (n_ID (entity_of r))" by (simp_all add: n i)
qed

lemma entity_of_id:
  assumes "codec_ok C" and "wf_id (r_id r)"
  shows "parseUUID C (n_ID (entity_of r)) = Inr (r_id r)" and "n_ID (entity_of r) \<noteq> []"
proof -
  from assms(2) obtain v where v: "r_id r = Some v" "length v = 16" by (auto simp: wf_id_def)
  with entity_of_fields(11) [of r] have s: "uuidToString (Some v) = Inr (n_ID (entity_of r))" by simp
  then have "uuid_Scan C (n_ID (entity_of r)) = Inr v"
    using assms(1) v(2) unfolding codec_ok_def by blast
  then show "parseUUID C (n_ID (entity_of r)) = Inr (r_id r)"
    by (simp add: parseUUID_def v(1))
  from s show "n_ID (entity_of r) \<noteq> []" by (auto simp: uuidToString_def)
qed

section \<open>Repository methods\<close>

definition log_line :: "pg_codec \<Rightarrow> uuid \<Rightarrow> pgUUID \<Rightarrow> string \<Rightarrow> string \<Rightarrow> Time \<Rightarrow> NotificationLogRow" where
  "log_line C u i corr ev t = \<lparr>lr_id = Some u, lr_notification_id = i, lr_correlation_id = corr,
     lr_event = ev, lr_details = None, lr_created_at = ts_store C t\<rparr>"

lemma log_line_simps [simp]:
  "lr_id (log_line C u i corr ev t) = Some u" "lr_event (log_line C u i corr ev t) = ev"
  "lr_notification_id (log_line C u i corr ev t) = i"
  by (simp_all add: log_line_def)

lemma trail_append:
  assumes "parseUUID C (l_ID entry) = Inr (Some v)" and "Some v \<notin> lr_id ` set (t_logs d)"
    and "parseUUID C (l_NotificationID entry) = Inr i" and "wf_id i" and "i \<in> r_id ` set (t_notifications d)"
    and "l_Event entry \<in> set sql_events" and "l_Details entry = None"
  shows "trail C (calm W) (NotificationLogRepository_Append C entry) (h, d, x, ps) =
    (None, h, d\<lparr>t_logs := t_logs d @ [log_line C v i (l_CorrelationID entry) (l_Event entry) (l_CreatedAt entry)]\<rparr>, x, ps)"
  using assms
  by (auto simp: NotificationLogRepository_Append_def trail_rules exec_only_def log_line_def after_exec_other
      wf_id_def simp del: sql_events_def)

lemma trail_entry:
  assumes "id_supply C W u m x d" and "cs_calls x \<le> n" and "n < cs_calls x + m"
    and "parseUUID C nid = Inr i" and "wf_id i" and "i \<in> r_id ` set (t_notifications d)"
    and "ev \<in> set sql_events"
  shows "trail C (calm W) (NotificationLogRepository_Append C
      \<lparr>l_ID = w_id W n, l_NotificationID = nid, l_CorrelationID = corr, l_Event = ev, l_Details = None,
       l_CreatedAt = t\<rparr>) (h, d, y, ps) =
    (None, h, d\<lparr>t_logs := t_logs d @ [log_line C (u n) i corr ev t]\<rparr>, y, ps)"
  using assms(4-) supplyD(2,3) [OF assms(1-3)] by (subst trail_append [where v = "u n" and i = i]) simp_all

lemma filter_the_row:
  assumes "db_ok d" and "r \<in> set (t_notifications d)" and "r_id r \<noteq> None"
  shows "filter (same_id (r_id r)) (t_notifications d) = [r]"
  using assms by (intro filter_same_id) (auto simp: same_id_def)

lemma filter_claimable:
  assumes "db_ok d" and "r \<in> set (t_notifications d)" and "r_id r \<noteq> None"
    and "r_status r \<in> {StatusQueued, StatusRetrying}"
  shows "filter (claimable (r_id r)) (t_notifications d) = [r]"
  using assms by (intro filter_same_id) (auto simp: same_id_def claimable_def)

text \<open>Rewriting the one row with a given identifier.\<close>

definition replace_row :: "NotificationRow \<Rightarrow> NotificationRow list \<Rightarrow> NotificationRow list" where
  "replace_row q rows = map (\<lambda>r. if r_id r = r_id q then q else r) rows"

lemma replace_row_twice [simp]: "r_id q = r_id q' \<Longrightarrow> replace_row q' (replace_row q rows) = replace_row q' rows"
  by (simp add: replace_row_def)

lemma replace_row_ids [simp]: "map r_id (replace_row q rows) = map r_id rows"
  by (simp add: replace_row_def)

lemma replace_row_id_set [simp]: "r_id ` set (replace_row q rows) = r_id ` set rows"
  by (metis list.set_map replace_row_ids)

lemma used_ids_simps [simp]:
  "used_ids (d\<lparr>t_notifications := replace_row q (t_notifications d)\<rparr>) = used_ids d"
  "used_ids (d\<lparr>t_logs := t_logs d @ [l]\<rparr>) = insert (lr_id l) (used_ids d)"
  by (auto simp: used_ids_def)

lemma replace_row_last:
  "r_id q \<notin> r_id ` set rows \<Longrightarrow> r_id r = r_id q \<Longrightarrow> replace_row q (rows @ [r]) = rows @ [q]"
proof -
  assume new: "r_id q \<notin> r_id ` set rows" and r: "r_id r = r_id q"
  have "map (\<lambda>r. if r_id r = r_id q then q else r) rows = rows"
    by (rule map_idI) (metis imageI new)
  with r show ?thesis by (simp add: replace_row_def)
qed

lemma replace_row_mem: "r_id q \<in> r_id ` set rows \<Longrightarrow> q \<in> set (replace_row q rows)"
  by (force simp: replace_row_def)

lemma update_where_replace:
  assumes "db_ok d" and "r \<in> set (t_notifications d)" and "P r" and "\<And>q. P q \<Longrightarrow> r_id q = r_id r"
    and "r_id (f r) = r_id r"
  shows "update_where P f (t_notifications d) = replace_row (f r) (t_notifications d)"
proof -
  have "(if P q then f q else q) = (if r_id q = r_id (f r) then f r else q)" if "q \<in> set (t_notifications d)" for q
  proof -
    have "q = r" if "r_id q = r_id r"
      using assms(1,2) that \<open>q \<in> set (t_notifications d)\<close> unfolding db_ok_def distinct_map by (meson inj_onD)
    then have "P q \<longleftrightarrow> q = r" and "r_id q = r_id r \<longleftrightarrow> q = r" using assms(3,4) by metis+
    then show ?thesis by (simp add: assms(5))
  qed
  then show ?thesis by (simp add: update_where_def replace_row_def)
qed

lemma trail_claim:
  assumes r: "db_ok d" "r \<in> set (t_notifications d)" "wf_id (r_id r)"
    and st: "r_status r \<in> {StatusQueued, StatusRetrying}" "r_attempts r \<noteq> int4_max"
    and nid: "parseUUID C nid = Inr (r_id r)"
  shows "trail C (calm W) (NotificationRepository_ClaimForProcessing C nid t) (Idle, d, x, ps) =
    (Inr (entity_of (claim_row C t r)), Holding (claim_row C t r) None,
     d\<lparr>t_notifications := replace_row (claim_row C t r) (t_notifications d)\<rparr>, x, ps)"
proof -
  have i: "r_id r \<noteq> None" using r(3) by (auto simp: wf_id_def)
  have upd: "update_where (claimable (r_id r)) (claim_row C t) (t_notifications d) =
      replace_row (claim_row C t r) (t_notifications d)"
    using r(2) i st(1) by (intro update_where_replace [OF r(1)]) (auto simp: claimable_def same_id_def claim_row_def)
  have "notificationFromRow (claim_row C t r) = Inr (entity_of (claim_row C t r))"
    using i by (intro notificationFromRow_total) (simp add: claim_row_def)
  moreover have "sql_ClaimForProcessing C (r_id r) t d = (Inr [claim_row C t r],
      d\<lparr>t_notifications := replace_row (claim_row C t r) (t_notifications d)\<rparr>)"
    unfolding sql_ClaimForProcessing_def filter_claimable [OF r(1,2) i st(1)] Let_def upd using st(2) by simp
  ultimately show ?thesis
    using nid filter_the_row [OF r(1,2) i]
    by (simp add: NotificationRepository_ClaimForProcessing_def trail_rules query_one_def first_row_def)
qed

text \<open>A status write that finds its row.\<close>

definition written :: "pg_codec \<Rightarrow> Notification \<Rightarrow> NotificationRow \<Rightarrow> NotificationRow" where
  "written C n r = r\<lparr>r_status := n_Status n, r_attempts := word_of_int (n_Attempts n),
     r_last_error := n_LastError n, r_next_retry_at := map_option (ts_store C) (n_NextRetryAt n),
     r_updated_at := ts_store C (n_UpdatedAt n)\<rparr>"

lemma trail_update:
  assumes r: "db_ok d" "r \<in> set (t_notifications d)" "r_id r \<noteq> None"
    and n: "parseUUID C (n_ID n) = Inr (r_id r)" "n_Status n \<in> set sql_statuses" "r_status r = src"
    and h: "h = Idle \<or> (\<exists>q a. h = Holding q a \<and> r_id q = r_id r)"
  shows "trail C (calm W) (NotificationRepository_UpdateStatus C n src) (h, d, x, ps) =
    (None, Idle, d\<lparr>t_notifications := replace_row (written C n r) (t_notifications d)\<rparr>, x, ps)"
proof -
  let ?p = "\<lparr>u_id = r_id r, u_new_status = n_Status n, u_attempts = word_of_int (n_Attempts n),
      u_last_error = n_LastError n, u_next_retry_at = n_NextRetryAt n, u_updated_at = n_UpdatedAt n,
      u_expected_source = src\<rparr>"
  let ?sel = "\<lambda>q. same_id (r_id r) q \<and> r_status q = src"
  have hit: "filter ?sel (t_notifications d) = [r]"
    using r n(3) by (intro filter_same_id) (auto simp: same_id_def)
  have "update_where ?sel (written C n) (t_notifications d) = replace_row (written C n r) (t_notifications d)"
    using r n(3) by (intro update_where_replace) (auto simp: same_id_def written_def)
  then have "exec_sql C (Q_UpdateNotificationStatus ?p) d =
      (Inr 1, d\<lparr>t_notifications := replace_row (written C n r) (t_notifications d)\<rparr>)"
    using hit n(2) by (simp add: sql_UpdateNotificationStatus_def written_def [abs_def] Let_def del: sql_statuses_def)
  moreover have "after_exec h (Q_UpdateNotificationStatus ?p) = Idle" using h by auto
  ultimately show ?thesis
    using n(1) by (simp add: NotificationRepository_UpdateStatus_def trail_rules exec_rows_def del: exec_sql.simps)
qed

end
