(* ===== verification/Idempotency.thy ===== *)
theory Idempotency
  imports Middleware Sha256 Calm
begin

text \<open>
  The idempotency middleware (\<open>internal/adapters/http/idempotency.go\<close>), its port and the Redis
  store behind it (\<open>internal/adapters/redis/idempotency_store.go\<close>).
\<close>

section \<open>The port and its Redis store\<close>

record IdempotencyEntry =
  ie_Body :: string
  ie_ContentType :: string
  ie_RequestHash :: string

definition no_entry :: IdempotencyEntry where
  "no_entry = \<lparr>ie_Body = [], ie_ContentType = [], ie_RequestHash = []\<rparr>"

record IdempotencyStore =
  Idem_Get :: "string \<Rightarrow> (gerror + IdempotencyEntry \<times> bool) prog"
  Idem_Set :: "string \<Rightarrow> IdempotencyEntry \<Rightarrow> Duration \<Rightarrow> gerror option prog"

definition idempotencyKeyPrefix :: string where "idempotencyKeyPrefix = ''idempotency:''"

definition idempotencyValue :: "IdempotencyEntry \<Rightarrow> json" where
  "idempotencyValue e = JObject ([(''body'', json_bytes (ie_Body e)), (''content_type'', JString (ie_ContentType e))] @
     omitempty ''request_hash'' (ie_RequestHash e) (json_bytes (ie_RequestHash e)))"

text \<open>\<open>json.Unmarshal\<close> into the struct: members in order, unknown ones ignored, a value of the
  wrong type is an error.\<close>

definition decode_member :: "string \<times> json \<Rightarrow> IdempotencyEntry option \<Rightarrow> IdempotencyEntry option" where
  "decode_member m acc =
     (case acc of None \<Rightarrow> None
      | Some e \<Rightarrow>
          if names_field ''body'' (fst m) then map_option (\<lambda>b. e\<lparr>ie_Body := b\<rparr>) (decode_bytes (snd m))
          else if names_field ''content_type'' (fst m)
          then map_option (\<lambda>c. e\<lparr>ie_ContentType := c\<rparr>) (decode_string (snd m) (ie_ContentType e))
          else if names_field ''request_hash'' (fst m) then map_option (\<lambda>b. e\<lparr>ie_RequestHash := b\<rparr>) (decode_bytes (snd m))
          else Some e)"

definition decode_entry :: "string \<Rightarrow> IdempotencyEntry option" where
  "decode_entry raw =
     (case json_parse raw of
        Some (JObject ms) \<Rightarrow> fold decode_member ms (Some no_entry)
      | Some JNull \<Rightarrow> Some no_entry
      | _ \<Rightarrow> None)"

definition IdempotencyStore_Set :: "string \<Rightarrow> IdempotencyEntry \<Rightarrow> Duration \<Rightarrow> gerror option prog" where
  "IdempotencyStore_Set key entry ttl =
     Redis_Set (idempotencyKeyPrefix @ key) (json_text (idempotencyValue entry)) ttl (\<lambda>e.
       Ret (wrap_opt ''redis set %s: %w'' [key] e))"

definition IdempotencyStore_Get :: "string \<Rightarrow> (gerror + IdempotencyEntry \<times> bool) prog" where
  "IdempotencyStore_Get key =
     Redis_Get (idempotencyKeyPrefix @ key) (\<lambda>r. Ret (case r of
         Inl e \<Rightarrow> Inl (Errorf ''redis get %s: %w'' [key] e)
       | Inr None \<Rightarrow> Inr (no_entry, False)
       | Inr (Some raw) \<Rightarrow>
           (case decode_entry raw of
              None \<Rightarrow> Inl (Errorf ''unmarshal idempotency value for %s: %w'' [key] (Sent SyntaxError))
            | Some entry \<Rightarrow> Inr (entry, True))))"

definition NewIdempotencyStore :: IdempotencyStore where
  "NewIdempotencyStore = \<lparr>Idem_Get = IdempotencyStore_Get, Idem_Set = IdempotencyStore_Set\<rparr>"

section \<open>The middleware\<close>

definition idempotencyHeader :: string where "idempotencyHeader = ''Idempotency-Key''"
definition idempotencyTTL :: Duration where "idempotencyTTL = 24 * 60 * Minute"
definition maxIdempotencyBodyBytes :: nat where "maxIdempotencyBodyBytes = 2 ^ 20"

text \<open>\<open>io.ReadAll(io.LimitReader(body, n))\<close>: at most \<open>n\<close> bytes; an error of the body shows only
  when it comes before the limit.\<close>

definition ReadAll_limited :: "nat \<Rightarrow> body_reader \<Rightarrow> gerror + string" where
  "ReadAll_limited n rd =
     (if n \<le> length (rd_bytes rd) then Inr (take n (rd_bytes rd))
      else case rd_fails rd of Some e \<Rightarrow> Inl e | None \<Rightarrow> Inr (rd_bytes rd))"

text \<open>The second component is the request with its body installed anew.\<close>

definition readAndBufferRequestBody :: "request \<Rightarrow> gerror + string \<times> request" where
  "readAndBufferRequestBody r =
     (case rq_Body r of None \<Rightarrow> Inr ([], r)
      | Some rd \<Rightarrow>
          bind_res (wrap_res ''read request body: %w'' [] (ReadAll_limited (maxIdempotencyBodyBytes + 1) rd)) (\<lambda>buf.
          if maxIdempotencyBodyBytes < length buf then Inl (Sent ErrIdempotencyBodyTooLarge)
          else Inr (buf, r\<lparr>rq_Body := Some \<lparr>rd_bytes = buf, rd_fails = None\<rparr>\<rparr>)))"

definition hashRequestBody :: "string \<Rightarrow> string" where
  "hashRequestBody body = sha256_Sum256 body"

definition requestHashMismatched :: "string \<Rightarrow> string \<Rightarrow> bool" where
  "requestHashMismatched stored current \<longleftrightarrow> 0 < length stored \<and> stored \<noteq> current"

definition respondToBodyReadError :: "request \<Rightarrow> gerror \<Rightarrow> wcall list prog" where
  "respondToBodyReadError r err =
     (if errors_Is err ErrIdempotencyBodyTooLarge
      then Ret (WriteProblem r (problem ''/probs/payload-too-large'' ''Payload Too Large'' 413
        ''Request body exceeds the 1048576-byte idempotency cache limit.''))
      else Emit (Slog ''WARN'' ''idempotency middleware could not buffer request body'' [])
        (Ret (WriteProblem r (problem ''/probs/bad-request'' ''Bad Request'' 400 ''Request body could not be read.''))))"

definition respondWithKeyMismatch :: "request \<Rightarrow> wcall list" where
  "respondWithKeyMismatch r =
     WriteProblem r (problem ''/probs/idempotency-key-mismatch'' ''Idempotency Key Conflict'' 409
       ''An Idempotency-Key was reused with a different request body. Use a fresh key for the new payload.'')"

definition replayCachedEntry :: "IdempotencyEntry \<Rightarrow> wcall list" where
  "replayCachedEntry e =
     (if ie_ContentType e \<noteq> [] then [Header_Set ''Content-Type'' (ie_ContentType e)] else []) @
     [WriteHeader 200, Write (ie_Body e)]"

definition dispatchCacheHit :: "request \<Rightarrow> IdempotencyEntry \<Rightarrow> string \<Rightarrow> wcall list" where
  "dispatchCacheHit r e requestHash =
     (if requestHashMismatched (ie_RequestHash e) requestHash then respondWithKeyMismatch r else replayCachedEntry e)"

text \<open>The writer that mirrors what passes through it.\<close>

record capturingWriter =
  cw_body :: string
  cw_status :: int
  cw_wroteHeader :: bool
  cw_forwarded :: "wcall list"

fun capture_call :: "wcall \<Rightarrow> capturingWriter \<Rightarrow> capturingWriter" where
  "capture_call (Header_Set k v) c = c\<lparr>cw_forwarded := cw_forwarded c @ [Header_Set k v]\<rparr>"
| "capture_call (WriteHeader st) c =
     (if cw_wroteHeader c then c
      else c\<lparr>cw_status := st, cw_wroteHeader := True, cw_forwarded := cw_forwarded c @ [WriteHeader st]\<rparr>)"
| "capture_call (Write p) c =
     c\<lparr>cw_wroteHeader := True, cw_body := cw_body c @ p, cw_forwarded := cw_forwarded c @ [Write p]\<rparr>"

definition new_capture :: capturingWriter where
  "new_capture = \<lparr>cw_body = [], cw_status = 200, cw_wroteHeader = False, cw_forwarded = []\<rparr>"

text \<open>The content type is read from the header map of the wrapped writer when the handler is
  done; none of the middlewares around this one sets it.\<close>

definition runAndCache :: "IdempotencyStore \<Rightarrow> handler \<Rightarrow> request \<Rightarrow> string \<Rightarrow> string \<Rightarrow> wcall list prog" where
  "runAndCache store next r key requestHash =
     bind (next r) (\<lambda>calls.
       let cw = fold capture_call calls new_capture in
       if cw_status cw < 200 \<or> 300 \<le> cw_status cw then Ret (cw_forwarded cw)
       else bind (Idem_Set store key
           \<lparr>ie_Body = cw_body cw, ie_ContentType = set_headers (cw_forwarded cw) (\<lambda>_. []) ''Content-Type'',
            ie_RequestHash = requestHash\<rparr> idempotencyTTL) (\<lambda>err.
         case err of
           Some _ \<Rightarrow> Emit (Slog ''WARN'' ''idempotency cache write failed'' [(''key'', key)]) (Ret (cw_forwarded cw))
         | None \<Rightarrow> Ret (cw_forwarded cw)))"

definition serveIdempotent :: "IdempotencyStore \<Rightarrow> handler \<Rightarrow> handler" where
  "serveIdempotent store next r =
     (let key = rq_Header r idempotencyHeader in
      if key = [] then next r
      else case readAndBufferRequestBody r of
          Inl err \<Rightarrow> respondToBodyReadError r err
        | Inr (bodyBytes, r) \<Rightarrow>
            (let requestHash = hashRequestBody bodyBytes in
             bind (Idem_Get store key) (\<lambda>answer.
               case answer of
                 Inl _ \<Rightarrow> Emit (Slog ''WARN'' ''idempotency store unavailable, allowing request'' [(''key'', key)])
                     (runAndCache store next r key requestHash)
               | Inr (entry, found) \<Rightarrow>
                   if found then Ret (dispatchCacheHit r entry requestHash)
                   else runAndCache store next r key requestHash)))"

definition IdempotencyMiddleware :: "IdempotencyStore \<Rightarrow> handler \<Rightarrow> handler" where
  "IdempotencyMiddleware store next = (\<lambda>r. serveIdempotent store next r)"

section \<open>Capturing\<close>

lemma capture_forwards: "cw_forwarded (fold capture_call cs c) = cw_forwarded c @ forwarded (cw_wroteHeader c) cs"
proof (induction cs arbitrary: c)
  case (Cons x cs)
  then show ?case by (cases x) simp_all
qed simp

lemma capture_body: "cw_body (fold capture_call cs c) = cw_body c @ body_of cs"
proof (induction cs arbitrary: c)
  case (Cons x cs)
  then show ?case by (cases x) simp_all
qed simp

lemma capture_status_kept: "cw_wroteHeader c \<Longrightarrow> cw_status (fold capture_call cs c) = cw_status c"
proof (induction cs arbitrary: c)
  case (Cons x cs)
  then show ?case by (cases x) simp_all
qed simp

lemma capture_status: "\<not> cw_wroteHeader c \<Longrightarrow> cw_status c = 200 \<Longrightarrow> cw_status (fold capture_call cs c) = first_status cs"
proof (induction cs arbitrary: c)
  case (Cons x cs)
  then show ?case by (cases x) (simp_all add: capture_status_kept)
qed simp

lemma captured [simp]:
  "cw_forwarded (fold capture_call cs new_capture) = forwarded False cs"
  "cw_body (fold capture_call cs new_capture) = body_of cs"
  "cw_status (fold capture_call cs new_capture) = first_status cs"
  by (simp_all add: capture_forwards capture_body capture_status new_capture_def)

lemma forwarded_headers: "set_headers (forwarded w cs) H = set_headers cs H"
  by (induction w cs arbitrary: H rule: forwarded.induct) auto

text \<open>The entry a response leaves behind.\<close>

definition entry_of :: "wcall list \<Rightarrow> string \<Rightarrow> IdempotencyEntry" where
  "entry_of calls body = \<lparr>ie_Body = body_of calls, ie_ContentType = set_headers calls (\<lambda>_. []) ''Content-Type'',
     ie_RequestHash = hashRequestBody body\<rparr>"

section \<open>The store keeps what it is given\<close>

definition storable :: "IdempotencyEntry \<Rightarrow> bool" where
  "storable e \<longleftrightarrow> ascii (ie_ContentType e)"

lemma encoded_ascii: "ascii (base64_EncodeToString StdEncoding bs)"
proof -
  have "ascii StdEncoding" "is_ascii (CHR ''='')" by (simp_all add: StdEncoding_def is_ascii_def)
  with std.encoded_chars [of "map of_char bs"] show ?thesis by (auto simp: base64_EncodeToString_def list_all_iff)
qed

lemma decode_json_bytes: "decode_bytes (json_bytes bs) = Some bs"
  by (simp add: decode_bytes_def json_bytes_def std.round_trip)

lemma flat_json_bytes: "flat (json_bytes bs)"
  by (simp add: json_bytes_def encoded_ascii)

lemma field_names:
  "names_field ''body'' ''body''" "\<not> names_field ''body'' ''content_type''" "names_field ''content_type'' ''content_type''"
  "\<not> names_field ''body'' ''request_hash''" "\<not> names_field ''content_type'' ''request_hash''" "names_field ''request_hash'' ''request_hash''"
  by (simp_all add: names_field_def byte_le)

lemma decode_encode_entry: "storable e \<Longrightarrow> decode_entry (json_text (idempotencyValue e)) = Some e"
proof -
  assume e: "storable e"
  let ?ms = "[(''body'', json_bytes (ie_Body e)), (''content_type'', JString (ie_ContentType e))] @
     omitempty ''request_hash'' (ie_RequestHash e) (json_bytes (ie_RequestHash e))"
  have "list_all (\<lambda>(k, v). ascii k \<and> flat v) ?ms"
    using e by (simp add: omitempty_def flat_json_bytes storable_def is_ascii_def)
  then have "json_parse (json_text (JObject ?ms)) = Some (JObject ?ms)" by (intro json_parse_flat) simp_all
  moreover have "fold decode_member ?ms (Some no_entry) = Some e"
    by (simp add: decode_member_def field_names decode_json_bytes decode_string_def omitempty_def no_entry_def)
  ultimately show ?thesis by (simp add: decode_entry_def idempotencyValue_def del: json_text.simps)
qed

end
