(* ===== verification/Replay.thy ===== *)
theory Replay
  imports Idempotency
begin

text \<open>
  What the idempotency middleware guarantees, over the contract of its store and over the Redis
  store itself.
\<close>

section \<open>Bodies\<close>

definition body_bytes :: "request \<Rightarrow> string" where
  "body_bytes r = (case rq_Body r of None \<Rightarrow> [] | Some rd \<Rightarrow> rd_bytes rd)"

text \<open>The body can be read and is within the limit.\<close>

definition bufferable :: "request \<Rightarrow> bool" where
  "bufferable r \<longleftrightarrow> (case rq_Body r of None \<Rightarrow> True
     | Some rd \<Rightarrow> rd_fails rd = None \<and> length (rd_bytes rd) \<le> maxIdempotencyBodyBytes)"

lemma buffer_ok: "bufferable r \<Longrightarrow> readAndBufferRequestBody r = Inr (body_bytes r, r)"
  by (cases "rq_Body r")
    (auto simp: bufferable_def readAndBufferRequestBody_def body_bytes_def ReadAll_limited_def)

lemma buffer_too_large:
  assumes "rq_Body r = Some rd" and "maxIdempotencyBodyBytes < length (rd_bytes rd)"
  shows "readAndBufferRequestBody r = Inl (Sent ErrIdempotencyBodyTooLarge)"
  using assms by (simp add: readAndBufferRequestBody_def ReadAll_limited_def)

section \<open>The contract of the store\<close>

text \<open>Over the calm world: what was set is found again, and setting one key leaves the others.\<close>

locale idempotency_port =
  fixes store :: IdempotencyStore and C :: pg_codec and W :: world
    and cached :: "calm_state \<Rightarrow> string \<Rightarrow> (IdempotencyEntry option) option"
  assumes get: "cached x key = Some found \<Longrightarrow> trail C (calm W) (Idem_Get store key) (h, d, x, ps) =
      (Inr (case found of None \<Rightarrow> (no_entry, False) | Some e \<Rightarrow> (e, True)), h, d, x, ps)"
    and set: "storable e \<Longrightarrow> \<exists>x'. trail C (calm W) (Idem_Set store key e ttl) (h, d, x, ps) = (None, h, d, x', ps) \<and>
      cached x' key = Some (Some e) \<and> (\<forall>k. k \<noteq> key \<longrightarrow> cached x' k = cached x k) \<and> cs_tasks x' = cs_tasks x"
begin

lemma on_hit:
  assumes "rq_Header r idempotencyHeader = key" "key \<noteq> []" "bufferable r" "cached x key = Some (Some e)"
  shows "trail C (calm W) (serveIdempotent store next r) (h, d, x, ps) =
    (dispatchCacheHit r e (hashRequestBody (body_bytes r)), h, d, x, ps)"
  using assms by (simp add: serveIdempotent_def Let_def buffer_ok trail_bind get)

lemma on_miss:
  assumes "rq_Header r idempotencyHeader = key" "key \<noteq> []" "bufferable r" "cached x key = Some None"
    and run: "trail C (calm W) (next r) (h, d, x, ps) = (calls, h1, d1, x1, ps1)"
    and ok: "200 \<le> first_status calls" "first_status calls < 300" "storable (entry_of calls (body_bytes r))"
  shows "\<exists>x2. trail C (calm W) (serveIdempotent store next r) (h, d, x, ps) = (forwarded False calls, h1, d1, x2, ps1) \<and>
    cached x2 key = Some (Some (entry_of calls (body_bytes r))) \<and> cs_tasks x2 = cs_tasks x1"
proof -
  let ?e = "entry_of calls (body_bytes r)"
  from set [OF ok(3), of key idempotencyTTL h1 d1 x1 ps1] obtain x2 where
    "trail C (calm W) (Idem_Set store key ?e idempotencyTTL) (h1, d1, x1, ps1) = (None, h1, d1, x2, ps1)"
    "cached x2 key = Some (Some ?e)" "cs_tasks x2 = cs_tasks x1" by blast
  with assms show ?thesis
    by (simp add: serveIdempotent_def Let_def buffer_ok trail_bind get runAndCache_def entry_of_def forwarded_headers)
qed

lemma on_failure:
  assumes "rq_Header r idempotencyHeader = key" "key \<noteq> []" "bufferable r" "cached x key = Some None"
    and run: "trail C (calm W) (next r) (h, d, x, ps) = (calls, w1)"
    and bad: "first_status calls < 200 \<or> 300 \<le> first_status calls"
  shows "trail C (calm W) (serveIdempotent store next r) (h, d, x, ps) = (forwarded False calls, w1)"
  using assms by (auto simp: serveIdempotent_def Let_def buffer_ok trail_bind get runAndCache_def)

end

text \<open>The Redis store: nothing under a key, or the text of an entry.\<close>

definition redis_cached :: "calm_state \<Rightarrow> string \<Rightarrow> (IdempotencyEntry option) option" where
  "redis_cached x key = (case cs_redis x (idempotencyKeyPrefix @ key) of
     None \<Rightarrow> Some None | Some raw \<Rightarrow> map_option Some (decode_entry raw))"

interpretation redis_store: idempotency_port NewIdempotencyStore C W redis_cached for C W
proof
  fix x key found h d ps
  assume "redis_cached x key = Some found"
  then show "trail C (calm W) (Idem_Get NewIdempotencyStore key) (h, d, x, ps) =
      (Inr (case found of None \<Rightarrow> (no_entry, False) | Some e \<Rightarrow> (e, True)), h, d, x, ps)"
    by (auto simp: redis_cached_def NewIdempotencyStore_def IdempotencyStore_Get_def split: option.splits)
next
  fix e key ttl h d x ps
  assume e: "storable e"
  show "\<exists>x'. trail C (calm W) (Idem_Set NewIdempotencyStore key e ttl) (h, d, x, ps) = (None, h, d, x', ps) \<and>
      redis_cached x' key = Some (Some e) \<and> (\<forall>k. k \<noteq> key \<longrightarrow> redis_cached x' k = redis_cached x k) \<and> cs_tasks x' = cs_tasks x"
    by (simp add: NewIdempotencyStore_def IdempotencyStore_Set_def redis_cached_def decode_encode_entry [OF e])
qed

section \<open>Replays\<close>

text \<open>What a replayed entry is sent as.\<close>

lemma sent_replay:
  "rp_status (sent (replayCachedEntry e)) = 200" "rp_body (sent (replayCachedEntry e)) = ie_Body e"
  "rp_headers (sent (replayCachedEntry e)) ''Content-Type'' = ie_ContentType e"
  by (auto simp: sent_def replayCachedEntry_def)

text \<open>A success is replayed, whatever handler stands behind the middleware by then.\<close>

lemma replay_after_success:
  assumes key: "rq_Header r ''Idempotency-Key'' = key" "rq_Header r' ''Idempotency-Key'' = key" "key \<noteq> []"
    and body: "bufferable r" "bufferable r'" "body_bytes r' = body_bytes r"
    and fresh: "cs_redis x (''idempotency:'' @ key) = None"
    and run: "trail C (calm W) (next r) (h, d, x, ps) = (calls, h1, d1, x1, ps1)"
    and ok: "200 \<le> first_status calls" "first_status calls < 300" "ascii (set_headers calls (\<lambda>_. []) ''Content-Type'')"
  shows "\<exists>cs x2 cs'.
    trail C (calm W) (IdempotencyMiddleware NewIdempotencyStore next r) (h, d, x, ps) = (cs, h1, d1, x2, ps1) \<and>
    sent cs = sent calls \<and> cs_tasks x2 = cs_tasks x1 \<and>
    (\<forall>next' h' d' y ps'. cs_redis y = cs_redis x2 \<longrightarrow>
      trail C (calm W) (IdempotencyMiddleware NewIdempotencyStore next' r') (h', d', y, ps') = (cs', h', d', y, ps')) \<and>
    rp_status (sent cs') = 200 \<and> rp_body (sent cs') = rp_body (sent calls) \<and>
    rp_headers (sent cs') ''Content-Type'' = set_headers calls (\<lambda>_. []) ''Content-Type''"
proof -
  let ?e = "entry_of calls (body_bytes r)"
  have "redis_cached x key = Some None" using fresh by (simp add: redis_cached_def idempotencyKeyPrefix_def)
  moreover have "storable ?e" using ok(3) by (simp add: storable_def entry_of_def)
  ultimately obtain x2 where x2: "redis_cached x2 key = Some (Some ?e)" "cs_tasks x2 = cs_tasks x1"
    "trail C (calm W) (serveIdempotent NewIdempotencyStore next r) (h, d, x, ps) = (forwarded False calls, h1, d1, x2, ps1)"
    using redis_store.on_miss [of r key x C W "next" h d ps calls h1 d1 x1 ps1] key(1,3) body(1) run ok(1,2)
    by (auto simp: idempotencyHeader_def)
  have "dispatchCacheHit r' ?e (hashRequestBody (body_bytes r')) = replayCachedEntry ?e"
    by (simp add: dispatchCacheHit_def requestHashMismatched_def entry_of_def body(3))
  with redis_store.on_hit [of r' key _ ?e C W] key(2,3) body(2) x2(1)
  have "trail C (calm W) (serveIdempotent NewIdempotencyStore next' r') (h', d', y, ps') =
      (replayCachedEntry ?e, h', d', y, ps')" if "cs_redis y = cs_redis x2" for next' h' d' y ps'
    using that by (simp add: idempotencyHeader_def redis_cached_def)
  with x2(2,3) show ?thesis
    by (auto simp: IdempotencyMiddleware_def sent_forwarded sent_replay entry_of_def sent_def [of calls])
qed

text \<open>C18: A write request with an \<open>Idempotency-Key\<close> that succeeded once is never executed again: a later
  request with the same key and the same body, whatever handler stands behind the middleware and
  whatever else happened while the entry is in Redis, is answered from the store with status 200 and the same body and content type as the first answer, and
  changes nothing in the database, the queue or Redis. The first client gets exactly the handler's
  own response.\<close>

theorem retried_request_is_replayed:
  assumes key: "rq_Header r ''Idempotency-Key'' = key" "rq_Header r' ''Idempotency-Key'' = key" "key \<noteq> []"
    and body: "bufferable r" "bufferable r'" "body_bytes r' = body_bytes r"
    and fresh: "cs_redis x (''idempotency:'' @ key) = None"
    and run: "trail C (calm W) (next r) (h, d, x, ps) = (calls, h1, d1, x1, ps1)"
    and ok: "200 \<le> first_status calls" "first_status calls < 300" "ascii (set_headers calls (\<lambda>_. []) ''Content-Type'')"
  shows "\<exists>cs x2 cs'.
    trail C (calm W) (IdempotencyMiddleware NewIdempotencyStore next r) (h, d, x, ps) = (cs, h1, d1, x2, ps1) \<and>
    sent cs = sent calls \<and> cs_tasks x2 = cs_tasks x1 \<and>
    (\<forall>next' h' d' y ps'. cs_redis y = cs_redis x2 \<longrightarrow>
      trail C (calm W) (IdempotencyMiddleware NewIdempotencyStore next' r') (h', d', y, ps') = (cs', h', d', y, ps')) \<and>
    rp_status (sent cs') = 200 \<and> rp_body (sent cs') = rp_body (sent calls) \<and>
    rp_headers (sent cs') ''Content-Type'' = set_headers calls (\<lambda>_. []) ''Content-Type''"
  using assms by (rule replay_after_success)

definition keyed_request :: "string \<Rightarrow> string \<Rightarrow> request" where
  "keyed_request key body = (bare_request ''/api/v1/notifications'')
     \<lparr>rq_Method := ''POST'', rq_Header := (\<lambda>_. [])(''Idempotency-Key'' := key), rq_Body := Some \<lparr>rd_bytes = body, rd_fails = None\<rparr>\<rparr>"

definition accepting :: handler where
  "accepting r = Ret [Header_Set ''Content-Type'' ''application/json'', WriteHeader 202, Write ''ok'']"

definition quiet_world :: world where
  "quiet_world = \<lparr>w_now = int, w_id = (\<lambda>_. []), w_limit = (1, 0), w_admit = Inr 0, w_http = (\<lambda>_. Inl [])\<rparr>"

definition no_tables :: db where
  "no_tables = \<lparr>t_notifications = [], t_batches = [], t_templates = [], t_logs = []\<rparr>"

definition quiet_state :: calm_state where
  "quiet_state = \<lparr>cs_calls = 0, cs_tasks = [], cs_published = [], cs_redis = Map.empty\<rparr>"

definition plain_times :: pg_codec where
  "plain_times = \<lparr>uuid_Scan = (\<lambda>_. Inl (Opaque [])), ts_store = id, collation_key = (\<lambda>_. []),
     json_Marshal = (\<lambda>_. Inl (Opaque [])), json_Unmarshal = (\<lambda>_. Inl (Opaque [])), jsonb_store = id,
     format_RFC3339Nano = (\<lambda>_. []), parse_RFC3339Nano = (\<lambda>_. Inl (Opaque []))\<rparr>"

lemma keyed_request_simps [simp]:
  "rq_Header (keyed_request key body) ''Idempotency-Key'' = key" "body_bytes (keyed_request key body) = body"
  "rq_Body (keyed_request key body) = Some \<lparr>rd_bytes = body, rd_fails = None\<rparr>"
  "bufferable (keyed_request key body) \<longleftrightarrow> length body \<le> maxIdempotencyBodyBytes"
  by (simp_all add: keyed_request_def bare_request_def body_bytes_def bufferable_def)

theorem retried_request_is_replayed_witness:
  "\<exists>x2 cs'. \<forall>next'.
     trail plain_times (calm quiet_world) (IdempotencyMiddleware NewIdempotencyStore next' (keyed_request ''k1'' ''hello'')) (Idle, no_tables, x2, []) =
       (cs', Idle, no_tables, x2, []) \<and> rp_body (sent cs') = ''ok''"
proof -
  have run: "trail plain_times (calm quiet_world) (accepting (keyed_request ''k1'' ''hello'')) (Idle, no_tables, quiet_state, []) =
      ([Header_Set ''Content-Type'' ''application/json'', WriteHeader 202, Write ''ok''], Idle, no_tables, quiet_state, [])"
    by (simp add: accepting_def)
  have limit: "length ''hello'' \<le> maxIdempotencyBodyBytes" by (simp add: maxIdempotencyBodyBytes_def)
  from retried_request_is_replayed [of "keyed_request ''k1'' ''hello''" "''k1''" "keyed_request ''k1'' ''hello''" quiet_state
      plain_times quiet_world accepting, OF _ _ _ _ _ _ _ run] limit
  show ?thesis by (fastforce simp: quiet_state_def is_ascii_def sent_def)
qed

text \<open>C19: Reusing a key with a different body is a conflict: when the store holds an entry under the key whose
  fingerprint is not the SHA-256 of the request's body, the answer is a 409 problem, the handler is
  not run and nothing changes. An entry without a fingerprint, as older deployments wrote them, is
  replayed.\<close>

theorem key_reuse_conflicts:
  assumes "rq_Header r ''Idempotency-Key'' = key" and "key \<noteq> []" and "bufferable r"
    and "cs_redis x (''idempotency:'' @ key) = Some raw" and "decode_entry raw = Some e"
    and "ie_RequestHash e \<noteq> sha256_Sum256 (body_bytes r)"
  shows "\<exists>cs. (\<forall>next. trail C (calm W) (IdempotencyMiddleware NewIdempotencyStore next r) (h, d, x, ps) = (cs, h, d, x, ps)) \<and>
    (if ie_RequestHash e = [] then cs = replayCachedEntry e else rp_status (sent cs) = 409)"
proof -
  let ?cs = "dispatchCacheHit r e (hashRequestBody (body_bytes r))"
  have "trail C (calm W) (serveIdempotent NewIdempotencyStore next r) (h, d, x, ps) = (?cs, h, d, x, ps)" for "next"
    using assms redis_store.on_hit [of r key x e C W "next" h d ps]
    by (simp add: idempotencyHeader_def redis_cached_def idempotencyKeyPrefix_def)
  then show ?thesis
    using assms(6)
    by (auto simp: IdempotencyMiddleware_def dispatchCacheHit_def requestHashMismatched_def respondWithKeyMismatch_def
        hashRequestBody_def)
qed

theorem key_reuse_conflicts_witness:
  "\<exists>cs. trail plain_times (calm quiet_world) (IdempotencyMiddleware NewIdempotencyStore accepting (keyed_request ''k1'' ''other''))
      (Idle, no_tables, quiet_state\<lparr>cs_redis := [''idempotency:k1'' \<mapsto> json_text (idempotencyValue
        \<lparr>ie_Body = ''ok'', ie_ContentType = [], ie_RequestHash = ''stale''\<rparr>)]\<rparr>, []) =
      (cs, Idle, no_tables, quiet_state\<lparr>cs_redis := [''idempotency:k1'' \<mapsto> json_text (idempotencyValue
        \<lparr>ie_Body = ''ok'', ie_ContentType = [], ie_RequestHash = ''stale''\<rparr>)]\<rparr>, []) \<and>
    rp_status (sent cs) = 409"
proof -
  let ?e = "\<lparr>ie_Body = ''ok'', ie_ContentType = [], ie_RequestHash = ''stale''\<rparr>"
  let ?x = "quiet_state\<lparr>cs_redis := [''idempotency:k1'' \<mapsto> json_text (idempotencyValue ?e)]\<rparr>"
  have "''stale'' \<noteq> sha256_Sum256 ''other''"
  proof
    assume "''stale'' = sha256_Sum256 ''other''"
    from arg_cong [OF this, of length] show False by (simp add: sha256_length)
  qed
  then have "ie_RequestHash ?e \<noteq> sha256_Sum256 (body_bytes (keyed_request ''k1'' ''other''))" by simp
  moreover have "decode_entry (json_text (idempotencyValue ?e)) = Some ?e"
    by (rule decode_encode_entry) (simp add: storable_def)
  ultimately show ?thesis
    using key_reuse_conflicts [of "keyed_request ''k1'' ''other''" "''k1''" ?x "json_text (idempotencyValue ?e)" ?e
        plain_times quiet_world Idle no_tables "[]"]
    by (auto simp: maxIdempotencyBodyBytes_def)
qed

text \<open>C20: The idempotency store is never in the way: when Redis cannot be read,
  whatever it answers to the write afterwards, the handler runs and its own response
  is what the client gets.\<close>

theorem idempotency_fails_open:
  assumes "rq_Header r ''Idempotency-Key'' \<noteq> []" and "bufferable r"
    and "e_get H (''idempotency:'' @ rq_Header r ''Idempotency-Key'') x = (Inl e, x0)"
    and "trail C H (next r) (h, d, e_emit H (Slog ''WARN'' ''idempotency store unavailable, allowing request''
      [(''key'', rq_Header r ''Idempotency-Key'')]) x0, ps) = (calls, h1, d1, x1, ps1)"
  shows "\<exists>cs x2. trail C H (IdempotencyMiddleware NewIdempotencyStore next r) (h, d, x, ps) = (cs, h1, d1, x2, ps1) \<and>
    sent cs = sent calls"
proof -
  obtain err x2 where set: "e_set H (''idempotency:'' @ rq_Header r ''Idempotency-Key'')
      (json_text (idempotencyValue (entry_of calls (body_bytes r)))) idempotencyTTL x1 = (err, x2)" by fastforce
  with assms show ?thesis
    by (auto simp: IdempotencyMiddleware_def serveIdempotent_def Let_def buffer_ok trail_bind NewIdempotencyStore_def
        IdempotencyStore_Get_def IdempotencyStore_Set_def runAndCache_def idempotencyHeader_def idempotencyKeyPrefix_def
        sent_forwarded entry_of_def forwarded_headers split: option.splits)
qed

theorem idempotency_fails_open_witness:
  "\<exists>cs x2. trail plain_times ((calm quiet_world)\<lparr>e_get := (\<lambda>_ x. (Inl (Opaque ''connection refused''), x))\<rparr>)
      (IdempotencyMiddleware NewIdempotencyStore accepting (keyed_request ''k1'' ''hello'')) (Idle, no_tables, quiet_state, []) =
      (cs, Idle, no_tables, x2, []) \<and> rp_status (sent cs) = 202"
proof -
  let ?H = "(calm quiet_world)\<lparr>e_get := (\<lambda>_ x. (Inl (Opaque ''connection refused''), x))\<rparr>"
  let ?calls = "[Header_Set ''Content-Type'' ''application/json'', WriteHeader 202, Write ''ok'']"
  have "\<exists>cs x2. trail plain_times ?H (IdempotencyMiddleware NewIdempotencyStore accepting (keyed_request ''k1'' ''hello''))
      (Idle, no_tables, quiet_state, []) = (cs, Idle, no_tables, x2, []) \<and> sent cs = sent ?calls"
    by (rule idempotency_fails_open) (simp_all add: maxIdempotencyBodyBytes_def accepting_def)
  then show ?thesis by (auto simp: sent_def)
qed

text \<open>C33: The body limit is exact: a request with a key and a body of at most 1048576 bytes reaches the store, one byte
  more is answered with a 413 problem, whatever the environment does, without the handler or the
  store being called.\<close>

theorem oversized_body_refused:
  assumes "rq_Header r ''Idempotency-Key'' \<noteq> []" and "rq_Body r = Some \<lparr>rd_bytes = b, rd_fails = None\<rparr>"
  shows "(1048576 < length b \<longrightarrow> (\<exists>cs. serveIdempotent store next r = Ret cs \<and> rp_status (sent cs) = 413)) \<and>
    (length b \<le> 1048576 \<longrightarrow> (\<exists>k. serveIdempotent store next r = bind (Idem_Get store (rq_Header r ''Idempotency-Key'')) k))"
proof (intro conjI impI)
  assume "1048576 < length b"
  with assms show "\<exists>cs. serveIdempotent store next r = Ret cs \<and> rp_status (sent cs) = 413"
    by (simp add: serveIdempotent_def Let_def idempotencyHeader_def buffer_too_large maxIdempotencyBodyBytes_def respondToBodyReadError_def)
next
  assume "length b \<le> 1048576"
  then have "bufferable r" using assms(2) by (simp add: bufferable_def maxIdempotencyBodyBytes_def)
  with assms(1) show "\<exists>k. serveIdempotent store next r = bind (Idem_Get store (rq_Header r ''Idempotency-Key'')) k"
    by (auto simp: serveIdempotent_def Let_def idempotencyHeader_def buffer_ok)
qed

theorem oversized_body_refused_witness:
  "\<exists>cs. serveIdempotent NewIdempotencyStore accepting (keyed_request ''k1'' (replicate 1048577 (CHR ''x''))) = Ret cs \<and>
    rp_status (sent cs) = 413"
  using oversized_body_refused [of "keyed_request ''k1'' (replicate 1048577 (CHR ''x''))" "replicate 1048577 (CHR ''x'')"
      NewIdempotencyStore accepting] by simp

end
