(* ===== verification/Rate_Limit.thy ===== *)
theory Rate_Limit
  imports Middleware Gateways
begin

text \<open>
  The fixed-window limiter: the Redis script over a sequence of calls, and what a client that is
  told to wait can expect.
\<close>

section \<open>Runs of the script\<close>

text \<open>The script at the given instants (in milliseconds): which calls it admits.\<close>

fun admissions :: "int \<Rightarrow> int \<Rightarrow> int list \<Rightarrow> (int \<times> int) option \<Rightarrow> (int \<times> bool) list" where
  "admissions limit window [] s = []"
| "admissions limit window (t # ts) s =
     (case rateLimitScript limit window t s of ((allowed, _), s') \<Rightarrow> (t, allowed = 1) # admissions limit window ts s')"

definition admitted_in :: "int \<Rightarrow> int \<Rightarrow> (int \<times> bool) list \<Rightarrow> nat" where
  "admitted_in a b calls = length (filter (\<lambda>(t, ok). ok \<and> a \<le> t \<and> t < b) calls)"

lemma admitted_Cons [simp]:
  "admitted_in a b [] = 0"
  "admitted_in a b ((t, ok) # calls) = (if ok \<and> a \<le> t \<and> t < b then 1 else 0) + admitted_in a b calls"
  by (simp_all add: admitted_in_def)

definition room :: "int \<Rightarrow> int \<Rightarrow> nat" where "room limit n = nat (limit - n)"

lemma admissions_live:
  "at > t \<Longrightarrow> admissions limit w (t # ts) (Some (n, at)) = (t, n + 1 \<le> limit) # admissions limit w ts (Some (n + 1, at))"
  by (simp add: rateLimitScript_def live_key_def Let_def)

lemma admissions_fresh:
  "live_key t s = None \<Longrightarrow> admissions limit w (t # ts) s = (t, 1 \<le> limit) # admissions limit w ts (Some (1, t + w))"
  by (simp add: rateLimitScript_def Let_def)

lemma admitted_late: "\<forall>t \<in> set ts. b \<le> t \<Longrightarrow> admitted_in a b (admissions limit w ts s) = 0"
  by (induction ts arbitrary: s) (auto split: prod.split)

text \<open>Inside one window at most the limit is admitted.\<close>

lemma admitted_window:
  "sorted ts \<Longrightarrow> b \<le> at \<Longrightarrow> admitted_in a b (admissions limit w ts (Some (n, at))) \<le> room limit n"
proof (induction ts arbitrary: n)
  case (Cons t ts)
  show ?case
  proof (cases "t < b")
    case True
    then have "at > t" using Cons.prems(2) by simp
    with Cons.IH [of "n + 1"] Cons.prems show ?thesis
      by (auto simp: admissions_live room_def simp del: admissions.simps)
  next
    case False
    with Cons.prems(1) have "\<forall>u \<in> set (t # ts). b \<le> u" by auto
    then show ?thesis using admitted_late [of "t # ts" b a limit w] by (simp del: admissions.simps)
  qed
qed simp

lemma admitted_fresh:
  assumes "sorted (t # ts)" and "a \<le> t" and "live_key t s = None"
  shows "admitted_in a (a + w) (admissions limit w (t # ts) s) \<le> room limit 0"
proof -
  have "admitted_in a (a + w) (admissions limit w ts (Some (1, t + w))) \<le> room limit 1"
    using assms by (intro admitted_window) auto
  then show ?thesis
    by (auto simp: admissions_fresh [OF assms(3)] room_def simp del: admissions.simps)
qed

text \<open>An interval as long as the window meets at most two windows.\<close>

lemma admitted_interval:
  "sorted ts \<Longrightarrow> \<forall>t \<in> set ts. a \<le> t \<Longrightarrow> (\<forall>n at. s = Some (n, at) \<longrightarrow> 0 \<le> n) \<Longrightarrow>
   admitted_in a (a + w) (admissions limit w ts s) \<le> (case s of None \<Rightarrow> 0 | Some (n, _) \<Rightarrow> room limit n) + room limit 0"
proof (induction ts arbitrary: s)
  case (Cons t ts)
  show ?case
  proof (cases "live_key t s")
    case None
    then show ?thesis using admitted_fresh [of t ts a s w limit] Cons.prems by (auto split: option.split)
  next
    case (Some p)
    then obtain n at where s: "s = Some (n, at)" "at > t"
      by (auto simp: live_key_def split: option.splits if_splits)
    with Cons.prems Cons.IH [of "Some (n + 1, at)"] show ?thesis
      by (auto simp: admissions_live room_def simp del: admissions.simps)
  qed
qed simp

lemma admitted_any_interval:
  "sorted ts \<Longrightarrow> (\<forall>n at. s = Some (n, at) \<longrightarrow> 0 \<le> n) \<Longrightarrow>
   admitted_in a (a + w) (admissions limit w ts s) \<le> 2 * room limit 0"
proof (induction ts arbitrary: s)
  case (Cons t ts)
  show ?case
  proof (cases "a \<le> t")
    case True
    have "(case s of None \<Rightarrow> 0 | Some (n, _) \<Rightarrow> room limit n) \<le> room limit 0"
      using Cons.prems(2) by (auto simp: room_def split: option.split)
    moreover have "\<forall>u \<in> set (t # ts). a \<le> u" using True Cons.prems(1) by auto
    ultimately show ?thesis using admitted_interval [OF Cons.prems(1) _ Cons.prems(2), of a w limit] by simp
  next
    case False
    obtain r s' where r: "rateLimitScript limit w t s = (r, s')" by fastforce
    then have "\<forall>n at. s' = Some (n, at) \<longrightarrow> 0 \<le> n"
      using Cons.prems(2) by (auto simp: rateLimitScript_def live_key_def Let_def split: option.splits if_splits prod.splits)
    with False r Cons show ?thesis by (cases r) auto
  qed
qed simp

text \<open>C25: Whatever the traffic on a bucket, the limiter admits at most \<open>limit\<close> calls between the first call of a
  window and its expiry, and at most twice the limit in any interval as long as the window.\<close>

theorem rate_limit_window:
  assumes "sorted (t # ts)"
  shows "admitted_in a (a + window) (admissions limit window (t # ts) None) \<le> 2 * nat limit \<and>
    admitted_in t (t + window) (admissions limit window (t # ts) None) \<le> nat limit"
  using admitted_any_interval [OF assms, of None a window limit] admitted_fresh [OF assms order_refl, of None window limit]
  by (simp add: room_def live_key_def del: admissions.simps)

theorem rate_limit_window_witness:
  "admitted_in 0 1000 (admissions 2 1000 [0, 10, 20, 999] None) \<le> 2"
  using rate_limit_window [of 0 "[10, 20, 999]" 0 1000 2] by (simp del: admissions.simps)

section \<open>The hint\<close>

text \<open>C26: A client that is answered 429 and waits the number of seconds of its \<open>Retry-After\<close> header is admitted,
  when nobody else calls on its bucket meanwhile: the header is a positive number and never less than
  what is left of the window.\<close>

theorem retry_after_is_enough:
  assumes "rateLimitScript limit window now s = ((0, ttl), s')" and "0 < limit" and "ttl < 2 ^ 31"
    and "secs = retryAfterSeconds (word_of_int ttl * 1000000)" and "now + secs * 1000 \<le> later"
  shows "0 < secs \<and> (\<exists>s''. rateLimitScript limit window later s' = ((1, 0), s''))"
proof -
  have ttl: "0 \<le> ttl" and at: "\<exists>n. s' = Some (n, now + ttl) \<or> (\<exists>at. s' = Some (n, at) \<and> at \<le> now)"
    using assms(1) by (auto simp: rateLimitScript_def Let_def split: if_splits option.splits prod.splits)
  have "word_of_int ttl * 1000000 = (word_of_int (ttl * 1000000) :: Duration)" by simp
  moreover have "sint (word_of_int (ttl * 1000000) :: Duration) = ttl * 1000000"
    using ttl assms(3) by (subst sint_sbintrunc') (simp add: signed_take_bit_int_eq_self)
  ultimately have "ttl * 1000000 \<le> secs * 10 ^ 9" "1 \<le> secs"
    using retryAfter_covers(1,2) [of "word_of_int ttl * 1000000"] assms(4) by simp_all
  with assms(5) ttl have "now + ttl \<le> later" "now \<le> later" by simp_all
  with at have "live_key later s' = None" by (auto simp: live_key_def)
  with \<open>1 \<le> secs\<close> assms(2) show ?thesis by (simp add: rateLimitScript_def)
qed

theorem retry_after_is_enough_witness:
  "\<exists>s''. rateLimitScript 1 60000 (100 + retryAfterSeconds (word_of_int 59900 * 1000000) * 1000) (Some (2, 60000)) = ((1, 0), s'')"
proof -
  have "rateLimitScript 1 60000 100 (Some (1, 60000)) = ((0, 59900), Some (2, 60000))"
    by (simp add: rateLimitScript_def live_key_def)
  from retry_after_is_enough [OF this _ _ refl order_refl] show ?thesis by simp
qed

end
