(* ===== verification/Attempt.thy ===== *)
theory Attempt
  imports Calm
begin

text \<open>
  One delivery attempt in a calm world, from the claim to the status write: what the worker
  leaves in the tables, computed from the provider's answer and the attempt count.
\<close>

section \<open>The verdict\<close>

definition refused :: "http_answer \<Rightarrow> bool" where
  "refused a = (case a of Inl _ \<Rightarrow> False | Inr resp \<Rightarrow> 400 \<le> hr_code resp \<and> hr_code resp < 500)"

definition complaint :: "http_answer \<Rightarrow> string" where
  "complaint a = (case a of
       Inl msg \<Rightarrow> ''webhook: '' @ msg
     | Inr resp \<Rightarrow> (if refused a then ''webhook 4xx: '' @ readBodyForReason resp
         else ''webhook '' @ strconv_Itoa (hr_code resp) @ '': '' @ readBodyForReason resp))"

text \<open>Where an attempt leads: delivered when the provider accepts, failed when it refuses or the
  fifth attempt is spent, retrying otherwise.\<close>

definition verdict :: "http_answer \<Rightarrow> int \<Rightarrow> Status" where
  "verdict a n =
     (if accepted a then StatusDelivered
      else if refused a \<or> n \<ge> 5 then StatusFailed else StatusRetrying)"

definition settled :: "pg_codec \<Rightarrow> http_answer \<Rightarrow> Time \<Rightarrow> NotificationRow \<Rightarrow> NotificationRow" where
  "settled C a t r =
     (let n = sint (r_attempts r); st = verdict a n in
      r\<lparr>r_status := st, r_last_error := (if accepted a then [] else complaint a),
        r_next_retry_at := map_option (ts_store C)
          (if st = StatusRetrying then Some (time_Add t (backoffFor n)) else r_next_retry_at r),
        r_updated_at := ts_store C t\<rparr>)"

definition attempt_result :: "http_answer \<Rightarrow> Duration \<Rightarrow> DeliveryResult" where
  "attempt_result a latency = (case a of
       Inl msg \<Rightarrow> TransientFailureResult (complaint a) 0 latency
     | Inr resp \<Rightarrow> (if accepted a then DeliveredResult (hr_message_id resp) latency
         else if refused a then PermanentFailureResult (complaint a) (hr_code resp) latency
         else TransientFailureResult (complaint a) (hr_code resp) latency))"

lemma attempt_result_simps:
  "d_Success (attempt_result a l) \<longleftrightarrow> accepted a"
  "\<not> accepted a \<Longrightarrow> d_Retryable (attempt_result a l) \<longleftrightarrow> \<not> refused a"
  "\<not> accepted a \<Longrightarrow> d_Reason (attempt_result a l) = complaint a"
  by (auto simp: attempt_result_def delivery_defs accepted_def refused_def split: sum.split)

section \<open>The worker's calls\<close>

definition webhook_request :: "WebhookProvider \<Rightarrow> NotificationRow \<Rightarrow> http_request" where
  "webhook_request p r =
     \<lparr>hq_url = wp_url p, hq_to = r_recipient r, hq_channel = r_channel r, hq_content = r_content r\<rparr>"

lemma registered: "ch \<in> set sql_channels \<Longrightarrow> rg_providers (worker_registry p) ch = Some (webhook_Provider p)"
  by (auto simp: worker_registry_def Registry_Register_def NewRegistry_def)

lemma trail_send:
  assumes "wp_url_error p = None" and "r_channel r \<in> set sql_channels" and "w_admit W = Inr g"
  shows "trail C (calm W) (Provider_Send (guardedProvider p) (r_channel r) (r_recipient r) (r_content r))
      (Holding r None, d, x, ps) =
    (attempt_result (w_http W (webhook_request p r))
       (time_Sub (w_now W (cs_calls x + 2)) (w_now W (cs_calls x + 1))),
     Holding r (Some (w_http W (webhook_request p r))), d, ticked (ticked (ticked x)),
     ps @ [post_of (Holding r None) (webhook_request p r) (w_http W (webhook_request p r))])"
  using assms registered [OF assms(2), of p]
  by (auto simp: guardedProvider_def breaker_Provider_def Breaker_Send_def registry_Provider_def
      Registry_Send_def webhook_Provider_def WebhookProvider_Send_def WebhookProvider_classify_def since_def
      trail_bind webhook_request_def attempt_result_def complaint_def accepted_def refused_def
      simp del: sql_channels_def split: sum.split)

lemma trail_event:
  assumes W: "id_supply C W u m x d" "0 < m" and n: "parseUUID C (n_ID n) = Inr i" "n_ID n \<noteq> []" "n_CorrelationID n \<noteq> []"
    and i: "wf_id i" "i \<in> r_id ` set (t_notifications d)" and ev: "ev \<in> set sql_events"
  shows "trail C (calm W) (ProcessNotification_recordEvent (processUC C cfg) n ev) (h, d, x, ps) =
    (None, h, d\<lparr>t_logs := t_logs d @ [log_line C (u (cs_calls x)) i (n_CorrelationID n) ev (w_now W (cs_calls x + 1))]\<rparr>,
     (ticked (ticked x))\<lparr>cs_published := cs_published x @ [(n_ID n, n_Status n)]\<rparr>, ps)"
proof -
  have valid: "LogEvent_IsValid ev" using ev by (auto simp: LogEvent_IsValid_def)
  show ?thesis
    using supplyD(1) [OF W(1) order_refl] W(2) n(2,3) valid
    by (simp add: ProcessNotification_recordEvent_def processUC_def uuid_IDGenerator_def real_Clock_def
        trail_rules NewNotificationLog_def pg_NotificationLogRepository_def redis_StatusBroadcaster_def
        RedisBroadcaster_Publish_def
        trail_entry [OF W(1) order_refl _ n(1) i ev])
qed

section \<open>The attempt\<close>

lemma event_mem: "StatusProcessing \<in> set sql_events" "verdict a n \<in> set sql_events" "verdict a n \<in> set sql_statuses"
  by (auto simp: verdict_def)

lemma processUC_simps [simp]:
  "pn_repo (processUC C cfg) = pg_NotificationRepository C"
  "pn_logRepo (processUC C cfg) = pg_NotificationLogRepository C"
  "pn_provider (processUC C cfg) = guardedProvider (wc_webhook cfg)"
  "pn_rateLimiter (processUC C cfg) = redis_RateLimiter (wc_limiter cfg)"
  "pn_broadcaster (processUC C cfg) = redis_StatusBroadcaster" "pn_idGen (processUC C cfg) = uuid_IDGenerator"
  "pn_clock (processUC C cfg) = real_Clock" "pn_metrics (processUC C cfg)" "pn_tracer (processUC C cfg)"
  by (simp_all add: processUC_def)

lemmas apply_defs = ProcessNotification_applyResult_def ProcessNotification_markDelivered_def
  ProcessNotification_markFailed_def ProcessNotification_markRetrying_def logProcessingOutcome_def emit_if_def
  trail_rules real_Clock_def attempt_result_simps pg_NotificationRepository_def Let_def

text \<open>What \<open>applyResult\<close> does with the provider's answer, the claimed row still being processed.\<close>

lemma trail_apply:
  assumes C: "codec_ok C" and r: "db_ok d" "r \<in> set (t_notifications d)" "wf_id (r_id r)"
    "r_status r = StatusProcessing" "r_correlation_id r \<noteq> []"
    and u: "id_supply C W u m x d" "2 \<le> m"
  shows "trail C (calm W) (ProcessNotification_applyResult (processUC C cfg) ctx (entity_of r)
      (attempt_result a latency) start) (Holding r ans, d, x, ps) =
    (if verdict a (sint (r_attempts r)) = StatusRetrying
     then Some (Errorf ''transient failure on %s: %w'' [n_ID (entity_of r)] (Sent ErrProviderTransient)) else None,
     Idle,
     d\<lparr>t_notifications := replace_row (settled C a (w_now W (cs_calls x)) r) (t_notifications d),
       t_logs := t_logs d @ [log_line C (u (cs_calls x + 1)) (r_id r) (r_correlation_id r)
         (verdict a (sint (r_attempts r))) (w_now W (cs_calls x + 2))]\<rparr>,
     (ticked (ticked (ticked x)))\<lparr>cs_published := cs_published x @
       [(n_ID (entity_of r), verdict a (sint (r_attempts r)))]\<rparr>, ps)"
proof -
  let ?t = "w_now W (cs_calls x)" and ?n = "sint (r_attempts r)"
  have i: "r_id r \<noteq> None" using r(3) by (auto simp: wf_id_def)
  note f = entity_of_fields [OF i] and id = entity_of_id [OF C r(3)]
  let ?d = "d\<lparr>t_notifications := replace_row (settled C a ?t r) (t_notifications d)\<rparr>"
  have sid: "r_id (settled C a ?t r) = r_id r" by (simp add: settled_def Let_def)
  have upd: "trail C (calm W) (NotificationRepository_UpdateStatus C n StatusProcessing) (Holding r ans, d, ticked x, ps) =
      (None, Idle, ?d, ticked x, ps)"
    if "n_ID n = n_ID (entity_of r)" "n_Status n \<in> set sql_statuses" "written C n r = settled C a ?t r" for n
    using trail_update [OF r(1,2) i, of C n StatusProcessing "Holding r ans"] that id r(4) by simp
  have ev: "trail C (calm W) (ProcessNotification_recordEvent (processUC C cfg) n ev) (Idle, ?d, ticked x, ps) =
      (None, Idle, ?d\<lparr>t_logs := t_logs d @ [log_line C (u (cs_calls x + 1)) (r_id r) (r_correlation_id r)
         ev (w_now W (cs_calls x + 2))]\<rparr>,
       (ticked (ticked (ticked x)))\<lparr>cs_published := cs_published x @ [(n_ID (entity_of r), n_Status n)]\<rparr>, ps)"
    if "n_ID n = n_ID (entity_of r)" "n_CorrelationID n = r_correlation_id r" "ev \<in> set sql_events" for n ev
    using that id r(2,3,5) u(2)
    by (subst trail_event [OF id_supply_later [OF u(1), of "ticked x" "m - 1" ?d], where i = "r_id r"])
      simp_all
  consider "accepted a" | "\<not> accepted a" "refused a \<or> ?n \<ge> 5" | "\<not> accepted a" "\<not> refused a" "?n < 5" by linarith
  then show ?thesis
  proof cases
    case 1
    let ?e = "(entity_of r)\<lparr>n_Status := StatusDelivered, n_UpdatedAt := ?t, n_LastError := []\<rparr>"
    have "MarkDelivered (entity_of r) ?t = (None, ?e)"
      using f(1) r(4) by (simp add: MarkDelivered_def transition_def CanTransitionTo_iff)
    moreover have "written C ?e r = settled C a ?t r"
      using 1 by (simp add: written_def settled_def verdict_def f Let_def)
    ultimately show ?thesis
      using 1 upd [of ?e] ev [of ?e StatusDelivered] f by (simp add: apply_defs verdict_def)
  next
    case 2
    let ?e = "(entity_of r)\<lparr>n_Status := StatusFailed, n_UpdatedAt := ?t, n_LastError := complaint a\<rparr>"
    have "MarkFailed (entity_of r) ?t (complaint a) = (None, ?e)"
      using f(1) r(4) by (simp add: MarkFailed_def transition_def CanTransitionTo_iff)
    moreover have "written C ?e r = settled C a ?t r"
      using 2 by (simp add: written_def settled_def verdict_def f Let_def)
    ultimately show ?thesis
      using 2 upd [of ?e] ev [of ?e StatusFailed] f by (simp add: apply_defs verdict_def)
  next
    case 3
    let ?e = "(entity_of r)\<lparr>n_Status := StatusRetrying, n_UpdatedAt := ?t, n_LastError := complaint a,
        n_NextRetryAt := Some (time_Add ?t (backoffFor ?n))\<rparr>"
    have "MarkRetrying (entity_of r) ?t (complaint a) (time_Add ?t (backoffFor ?n)) = (None, ?e)"
      using f(1) r(4) by (simp add: MarkRetrying_def transition_def CanTransitionTo_iff)
    moreover have "written C ?e r = settled C a ?t r"
      using 3 by (simp add: written_def settled_def verdict_def f Let_def)
    ultimately show ?thesis
      using 3 upd [of ?e] ev [of ?e StatusRetrying] f by (simp add: apply_defs verdict_def)
  qed
qed

text \<open>The whole use case on a row that can be claimed.\<close>

definition attempt_row :: "pg_codec \<Rightarrow> world \<Rightarrow> worker_config \<Rightarrow> calm_state \<Rightarrow> NotificationRow \<Rightarrow> NotificationRow" where
  "attempt_row C W cfg x r =
     (let r = claim_row C (w_now W (cs_calls x)) r in
      settled C (w_http W (webhook_request (wc_webhook cfg) r)) (w_now W (cs_calls x + 6)) r)"

lemma claim_row_simps [simp]:
  "r_id (claim_row C t r) = r_id r" "r_channel (claim_row C t r) = r_channel r"
  "r_recipient (claim_row C t r) = r_recipient r" "r_content (claim_row C t r) = r_content r"
  "r_correlation_id (claim_row C t r) = r_correlation_id r" "r_status (claim_row C t r) = StatusProcessing"
  "r_attempts (claim_row C t r) = r_attempts r + 1" "webhook_request p (claim_row C t r) = webhook_request p r"
  by (simp_all add: claim_row_def webhook_request_def)

lemma db_ok_replace [simp]: "db_ok (d\<lparr>t_notifications := replace_row q (t_notifications d)\<rparr>) \<longleftrightarrow> db_ok d"
  by (simp add: db_ok_def)

lemma trail_process_calls:
  assumes C: "codec_ok C" and r: "db_ok d" "r \<in> set (t_notifications d)" "wf_id (r_id r)"
    and nid: "parseUUID C nid = Inr (r_id r)"
    and st: "r_status r \<in> {StatusQueued, StatusRetrying}" "r_attempts r \<noteq> int4_max"
    and fields: "r_correlation_id r \<noteq> []" "r_channel r \<in> set sql_channels"
    and W: "id_supply C W u 8 x d" "fst (w_limit W) = 1" "w_admit W = Inr g"
    and cfg: "wp_url_error (wc_webhook cfg) = None"
    and a: "a = w_http W (webhook_request (wc_webhook cfg) r)" and n: "n = sint (r_attempts r + 1)"
  shows "\<exists>logs x'. trail C (calm W) (ProcessNotification_Execute (processUC C cfg) ctx nid) (Idle, d, x, ps) =
      (if verdict a n = StatusRetrying
       then Some (Errorf ''transient failure on %s: %w'' [n_ID (entity_of r)] (Sent ErrProviderTransient)) else None,
       Idle,
       d\<lparr>t_notifications := replace_row (attempt_row C W cfg x r) (t_notifications d), t_logs := t_logs d @ logs\<rparr>, x',
       ps @ [\<lparr>p_id = r_id r, p_attempt = r_attempts r + 1, p_request = webhook_request (wc_webhook cfg) r, p_answer = a\<rparr>])
    \<and> map lr_event logs = [StatusProcessing, verdict a n]
    \<and> map lr_id logs = [Some (u (cs_calls x + 1)), Some (u (cs_calls x + 7))] \<and> cs_calls x' = cs_calls x + 9"
proof -
  let ?t = "w_now W (cs_calls x)" and ?c = "cs_calls x"
  let ?r = "claim_row C ?t r" and ?e = "entity_of (claim_row C ?t r)"
  let ?d = "d\<lparr>t_notifications := replace_row ?r (t_notifications d)\<rparr>"
  have i: "r_id r \<noteq> None" using r(3) by (auto simp: wf_id_def)
  have wf: "wf_id (r_id ?r)" using r(3) by simp
  have same: "n_ID ?e = n_ID (entity_of r)"
    using entity_of_fields(11) [of r] entity_of_fields(11) [of ?r] i by simp
  note claim = trail_claim [OF r st nid, of W ?t "ticked x" ps]
  have sup: "id_supply C W u 7 (ticked x) ?d" by (rule id_supply_later [OF W(1)]) simp_all
  note ev = trail_event [OF sup _, of ?e "r_id r" StatusProcessing cfg "Holding ?r None" ps]
  let ?l1 = "log_line C (u (?c + 1)) (r_id r) (r_correlation_id r) StatusProcessing (w_now W (?c + 2))"
  let ?d1 = "?d\<lparr>t_logs := t_logs d @ [?l1]\<rparr>"
  let ?x1 = "(ticked (ticked (ticked x)))\<lparr>cs_published := cs_published x @ [(n_ID ?e, StatusProcessing)]\<rparr>"
  have ev: "trail C (calm W) (ProcessNotification_recordEvent (processUC C cfg) ?e StatusProcessing)
      (Holding ?r None, ?d, ticked x, ps) = (None, Holding ?r None, ?d1, ?x1, ps)"
    using ev entity_of_id [OF C wf] entity_of_fields [of ?r] i r(2,3) fields(1) by simp
  note send = trail_send [OF cfg, of ?r W g C ?d1 ?x1 ps]
  have mem: "?r \<in> set (t_notifications ?d1)"
    using r(2) by (simp add: replace_row_mem)
  have sup2: "id_supply C W u 2 (ticked (ticked (ticked ?x1))) ?d1"
    by (rule id_supply_used [OF sup, where n = "?c + 1"]) (auto simp: used_ids_def)
  have sent: "trail C (calm W) (Provider_Send (guardedProvider (wc_webhook cfg)) (r_channel r) (r_recipient r) (r_content r))
      (Holding ?r None, ?d1, ?x1, ps) =
     (attempt_result a (time_Sub (w_now W (?c + 5)) (w_now W (?c + 4))), Holding ?r (Some a), ?d1,
      ticked (ticked (ticked ?x1)), ps @ [post_of (Holding ?r None) (webhook_request (wc_webhook cfg) r) a])"
    using send fields(2) W(3) a by (simp add: numeral_eq_Suc)
  have "w_now W (?c + 6) = w_now W (cs_calls (ticked (ticked (ticked ?x1))))" by (simp add: numeral_eq_Suc)
  then have row: "attempt_row C W cfg x r = settled C a (w_now W (cs_calls (ticked (ticked (ticked ?x1))))) ?r"
    by (simp add: attempt_row_def Let_def a)
  have ok: "db_ok ?d1" using r(1) by (simp add: db_ok_def)
  have sid: "r_id (attempt_row C W cfg x r) = r_id r" by (simp add: attempt_row_def settled_def Let_def)
  note app = trail_apply [OF C ok mem wf _ _ sup2 order_refl, of cfg "if ctx = [] then n_CorrelationID ?e else ctx" a
      "time_Sub (w_now W (?c + 5)) (w_now W (?c + 4))" ?t "Some a"
      "ps @ [post_of (Holding ?r None) (webhook_request (wc_webhook cfg) r) a]"]
  let ?l2 = "log_line C (u (cs_calls (ticked (ticked (ticked ?x1))) + 1)) (r_id r) (r_correlation_id r)
      (verdict a n) (w_now W (cs_calls (ticked (ticked (ticked ?x1))) + 2))"
  let ?x2 = "(ticked (ticked (ticked (ticked (ticked (ticked ?x1))))))\<lparr>cs_published := cs_published ?x1 @
      [(n_ID (entity_of r), verdict a n)]\<rparr>"
  have "trail C (calm W) (ProcessNotification_Execute (processUC C cfg) ctx nid) (Idle, d, x, ps) =
      (if verdict a n = StatusRetrying
       then Some (Errorf ''transient failure on %s: %w'' [n_ID (entity_of r)] (Sent ErrProviderTransient)) else None,
       Idle,
       d\<lparr>t_notifications := replace_row (attempt_row C W cfg x r) (t_notifications d),
         t_logs := t_logs d @ [?l1, ?l2]\<rparr>, ?x2,
       ps @ [\<lparr>p_id = r_id r, p_attempt = r_attempts r + 1, p_request = webhook_request (wc_webhook cfg) r, p_answer = a\<rparr>])"
    using claim ev sent app [unfolded same] fields W(2) row n sid same entity_of_fields [of ?r] i
    by (simp add: ProcessNotification_Execute_def trail_rules real_Clock_def pg_NotificationRepository_def
        redis_RateLimiter_def OutboundRateLimiter_Allow_def emit_if_def Let_def case_prod_beta
        del: sql_channels_def split del: if_split)
  then show ?thesis by (intro exI conjI) (assumption, simp_all add: numeral_eq_Suc)
qed

lemma trail_process:
  assumes C: "codec_ok C" and r: "db_ok d" "r \<in> set (t_notifications d)" "wf_id (r_id r)"
    and nid: "parseUUID C nid = Inr (r_id r)"
    and st: "r_status r \<in> {StatusQueued, StatusRetrying}" "r_attempts r \<noteq> int4_max"
    and fields: "r_correlation_id r \<noteq> []" "r_channel r \<in> set sql_channels"
    and W: "id_supply C W u 8 x d" "fst (w_limit W) = 1" "w_admit W = Inr g"
    and cfg: "wp_url_error (wc_webhook cfg) = None"
    and a: "a = w_http W (webhook_request (wc_webhook cfg) r)" and n: "n = sint (r_attempts r + 1)"
  shows "\<exists>logs x'. trail C (calm W) (ProcessNotification_Execute (processUC C cfg) ctx nid) (Idle, d, x, ps) =
      (if verdict a n = StatusRetrying
       then Some (Errorf ''transient failure on %s: %w'' [n_ID (entity_of r)] (Sent ErrProviderTransient)) else None,
       Idle,
       d\<lparr>t_notifications := replace_row (attempt_row C W cfg x r) (t_notifications d), t_logs := t_logs d @ logs\<rparr>, x',
       ps @ [\<lparr>p_id = r_id r, p_attempt = r_attempts r + 1, p_request = webhook_request (wc_webhook cfg) r, p_answer = a\<rparr>])
    \<and> map lr_event logs = [StatusProcessing, verdict a n]
    \<and> map lr_id logs = [Some (u (cs_calls x + 1)), Some (u (cs_calls x + 7))]"
  using trail_process_calls [OF assms, of ctx ps] by metis

end
