(* ===== verification/Intake_Run.thy ===== *)
theory Intake_Run
  imports Calm
begin

text \<open>
  A request that passes validation, in a calm world: the row, the two log lines and the task it
  leaves behind.
\<close>

section \<open>The pieces\<close>

lemma NewNotification_ok:
  assumes "ni_ID i \<noteq> []" "ni_CorrelationID i \<noteq> []" "Channel_IsValid (ni_Channel i)"
    "Priority_IsValid (ni_Priority i)" "recipient_ok (ni_Channel i) (ni_Recipient i)"
    "content_ok (ni_Channel i) (ni_Content i)"
  shows "NewNotification i now = Inr
     \<lparr>n_ID = ni_ID i, n_BatchID = ni_BatchID i, n_IdempotencyKey = ni_IdempotencyKey i,
      n_CorrelationID = ni_CorrelationID i, n_Channel = ni_Channel i, n_Priority = ni_Priority i,
      n_Recipient = ni_Recipient i, n_Content = ni_Content i, n_Status = StatusPending, n_Attempts = 0,
      n_LastError = [], n_NextRetryAt = None, n_ScheduledAt = ni_ScheduledAt i,
      n_TemplateID = ni_TemplateID i, n_CreatedAt = now, n_UpdatedAt = now\<rparr>"
  using assms validateRecipient_None [of "ni_Channel i" "ni_Recipient i"]
    validateContent_None [of "ni_Channel i" "ni_Content i"]
  by (simp add: NewNotification_def)

lemma createNotif_simps [simp]:
  "cn_repo (createNotif C) = pg_NotificationRepository C" "cn_logRepo (createNotif C) = pg_NotificationLogRepository C"
  "cn_tmplRepo (createNotif C) = pg_TemplateRepository C" "cn_queue (createNotif C) = asynq_Queue"
  "cn_idGen (createNotif C) = uuid_IDGenerator" "cn_clock (createNotif C) = real_Clock" "cn_metrics (createNotif C)"
  by (simp_all add: createNotif_def)

text \<open>The row a request asks for, as it is first stored.\<close>

definition requested_row :: "pg_codec \<Rightarrow> CreateNotificationInput \<Rightarrow> Channel \<Rightarrow> Priority \<Rightarrow> uuid \<Rightarrow> Time \<Rightarrow> NotificationRow"
where
  "requested_row C i ch pr u now = store_row C
     \<lparr>r_id = Some u, r_batch_id = None,
      r_idempotency_key = (if ci_IdempotencyKey i = [] then None else Some (ci_IdempotencyKey i)),
      r_correlation_id = ci_CorrelationID i, r_channel = ch, r_priority = pr, r_recipient = ci_Recipient i,
      r_content = ci_Content i, r_status = StatusPending, r_attempts = 0, r_last_error = [],
      r_next_retry_at = None, r_scheduled_at = ci_ScheduledAt i, r_template_id = None,
      r_created_at = now, r_updated_at = now\<rparr>"

definition task_for :: "CreateNotificationInput \<Rightarrow> Priority \<Rightarrow> string \<Rightarrow> asynq_task" where
  "task_for i pr nid = (case ci_ScheduledAt i of
       None \<Rightarrow> NewProcessNotificationTask nid pr (ci_IdempotencyKey i)
     | Some at \<Rightarrow> (NewProcessNotificationTask nid pr [])\<lparr>k_process_at := Some at\<rparr>)"

definition key_free :: "db \<Rightarrow> string \<Rightarrow> bool" where
  "key_free d key \<longleftrightarrow> key = [] \<or> Some key \<notin> r_idempotency_key ` set (t_notifications d)"

lemma channel_sql: "Channel_IsValid ch \<Longrightarrow> ch \<in> set sql_channels"
  by (auto simp: Channel_IsValid_def)

lemma priority_sql: "Priority_IsValid pr \<Longrightarrow> pr \<in> set sql_priorities"
  by (auto simp: Priority_IsValid_def)

lemma NewChannel_valid: "NewChannel s = Inr ch \<Longrightarrow> Channel_IsValid ch"
  by (auto simp: NewChannel_def Channel_IsValid_def Let_def split: if_splits)

lemma NewPriority_valid: "NewPriority s = Inr pr \<Longrightarrow> Priority_IsValid pr"
  by (auto simp: NewPriority_def Priority_IsValid_def Let_def split: if_splits)

section \<open>The request\<close>

text \<open>The log line \<open>CreateNotification\<close> writes, twice.\<close>

lemma trail_insert:
  assumes n: "notificationToCreateParams C n = Inr q" and ok: "insert_ok d q"
  shows "trail C (calm W) (NotificationRepository_Create C n) (h, d, x, ps) =
    (None, h, d\<lparr>t_notifications := t_notifications d @ [store_row C q]\<rparr>, x, ps)"
  using assms by (simp add: NotificationRepository_Create_def trail_rules exec_only_def after_exec_other)

lemma requested_row_simps [simp]:
  "r_id (requested_row C i ch pr u now) = Some u" "r_status (requested_row C i ch pr u now) = StatusPending"
  "r_attempts (requested_row C i ch pr u now) = 0"
  "r_correlation_id (requested_row C i ch pr u now) = ci_CorrelationID i"
  by (simp_all add: requested_row_def store_row_def)

definition queued_row :: "pg_codec \<Rightarrow> CreateNotificationInput \<Rightarrow> Channel \<Rightarrow> Priority \<Rightarrow> uuid \<Rightarrow> Time \<Rightarrow> NotificationRow"
where
  "queued_row C i ch pr u now = (requested_row C i ch pr u now)\<lparr>r_status := StatusQueued\<rparr>"

text \<open>The entity the request is answered with.\<close>

definition queued_entity :: "CreateNotificationInput \<Rightarrow> Channel \<Rightarrow> Priority \<Rightarrow> string \<Rightarrow> Time \<Rightarrow> Notification"
where
  "queued_entity i ch pr nid now =
     \<lparr>n_ID = nid, n_BatchID = None, n_IdempotencyKey = ci_IdempotencyKey i, n_CorrelationID = ci_CorrelationID i,
      n_Channel = ch, n_Priority = pr, n_Recipient = ci_Recipient i, n_Content = ci_Content i,
      n_Status = StatusQueued, n_Attempts = 0, n_LastError = [], n_NextRetryAt = None,
      n_ScheduledAt = ci_ScheduledAt i, n_TemplateID = None, n_CreatedAt = now, n_UpdatedAt = now\<rparr>"

lemma queued_entity_simps [simp]:
  "n_ID (queued_entity i ch pr nid now) = nid" "n_Status (queued_entity i ch pr nid now) = StatusQueued"
  by (simp_all add: queued_entity_def)

lemma entity_of_queued:
  "entity_of (queued_row C i ch pr u now) = (queued_entity i ch pr nid now)
     \<lparr>n_ID := n_ID (entity_of (queued_row C i ch pr u now)), n_ScheduledAt := map_option (ts_store C) (ci_ScheduledAt i),
      n_CreatedAt := ts_store C now, n_UpdatedAt := ts_store C now\<rparr>"
  by (simp add: conversion_defs queued_row_def requested_row_def store_row_def queued_entity_def)

lemma trail_create:
  assumes C: "codec_ok C" and d: "db_ok d" and W: "id_supply C W u 4 x d"
    and i: "NewChannel (ci_Channel i) = Inr ch" "NewPriority (ci_Priority i) = Inr pr"
      "recipient_ok ch (ci_Recipient i)" "content_ok ch (ci_Content i)" "ci_CorrelationID i \<noteq> []"
      "ci_TemplateID i = None" "key_free d (ci_IdempotencyKey i)"
    and c: "c = cs_calls x" and q: "q = queued_row C i ch pr (u (c + 1)) (w_now W c)"
  shows "\<exists>logs x'. trail C (calm W) (CreateNotification_Execute E (createNotif C) i) (Idle, d, x, ps) =
      (Inr (queued_entity i ch pr (w_id W (c + 1)) (w_now W c)), Idle, d\<lparr>t_notifications := t_notifications d @ [q], t_logs := t_logs d @ logs\<rparr>, x', ps) \<and>
    map lr_event logs = [LogEventCreated, LogEventQueued] \<and>
    map lr_id logs = [Some (u (c + 2)), Some (u (c + 3))] \<and> cs_calls x' = c + 4 \<and>
    cs_tasks x' = cs_tasks x @ [task_for i pr (w_id W (c + 1))]"
proof -
  let ?t = "w_now W c" and ?id = "w_id W (c + 1)" and ?u = "Some (u (c + 1))"
  let ?n = "\<lparr>n_ID = ?id, n_BatchID = None, n_IdempotencyKey = ci_IdempotencyKey i,
      n_CorrelationID = ci_CorrelationID i, n_Channel = ch, n_Priority = pr, n_Recipient = ci_Recipient i,
      n_Content = ci_Content i, n_Status = StatusPending, n_Attempts = 0, n_LastError = [],
      n_NextRetryAt = None, n_ScheduledAt = ci_ScheduledAt i, n_TemplateID = None, n_CreatedAt = ?t, n_UpdatedAt = ?t\<rparr>"
  let ?r = "requested_row C i ch pr (u (c + 1)) ?t"
  let ?d1 = "d\<lparr>t_notifications := t_notifications d @ [?r]\<rparr>"
  let ?l1 = "log_line C (u (c + 2)) ?u (ci_CorrelationID i) LogEventCreated ?t"
  let ?l2 = "log_line C (u (c + 3)) ?u (ci_CorrelationID i) LogEventQueued ?t"
  note valid = NewChannel_valid [OF i(1)] NewPriority_valid [OF i(2)]
  have id: "?id \<noteq> []" "parseUUID C ?id = Inr ?u" "?u \<notin> r_id ` set (t_notifications d)" "w_id W (c + 2) \<noteq> []"
      "w_id W (c + 3) \<noteq> []"
    using supplyD [OF W, of "c + 1"] supplyD(1) [OF W, of "c + 2"] supplyD(1) [OF W, of "c + 3"] c by simp_all
  have "uuid_Scan C ?id = Inr (u (c + 1))" using W c by (simp add: id_supply_def)
  then have wf: "wf_id ?u" using C unfolding codec_ok_def wf_id_def by blast
  have new: "NewNotification \<lparr>ni_ID = ?id, ni_BatchID = None, ni_IdempotencyKey = ci_IdempotencyKey i,
      ni_CorrelationID = ci_CorrelationID i, ni_Channel = ch, ni_Priority = pr, ni_Recipient = ci_Recipient i,
      ni_Content = ci_Content i, ni_ScheduledAt = ci_ScheduledAt i, ni_TemplateID = None\<rparr> ?t = Inr ?n"
    using valid i id(1) by (subst NewNotification_ok) simp_all
  have ins: "trail C (calm W) (NotificationRepository_Create C ?n) (h, d, y, ps) = (None, h, ?d1, y, ps)" for h y
    using id(2,3) c channel_sql [OF valid(1)] priority_sql [OF valid(2)] i(7)
    unfolding requested_row_def
    by (intro trail_insert) (auto simp: notificationToCreateParams_def bind_res_def wrap_res_def insert_ok_def
        fk_ok_def key_free_def)
  let ?x2 = "ticked (ticked x)"
  have sup: "id_supply C W u 2 ?x2 ?d1"
    by (rule id_supply_used [OF W, where n = "c + 1"]) (auto simp: used_ids_def c)
  have mem: "?u \<in> r_id ` set (t_notifications ?d1)" by simp
  note parse = id(2)
  have log1: "trail C (calm W) (NotificationLogRepository_Append C \<lparr>l_ID = w_id W (c + 2), l_NotificationID = ?id,
      l_CorrelationID = ci_CorrelationID i, l_Event = LogEventCreated, l_Details = None, l_CreatedAt = ?t\<rparr>)
      (h, ?d1, y, ps) = (None, h, ?d1\<lparr>t_logs := t_logs d @ [?l1]\<rparr>, y, ps)" for h y
    using trail_entry [OF sup _ _ parse wf mem, of "c + 2" LogEventCreated] by (simp add: c)
  let ?d2 = "?d1\<lparr>t_logs := t_logs d @ [?l1]\<rparr>"
  have ok: "db_ok ?d2" using d id(3) by (simp add: db_ok_def c)
  let ?nq = "?n\<lparr>n_Status := StatusQueued\<rparr>"
  have "written C ?nq ?r = q" by (simp add: written_def q queued_row_def requested_row_def store_row_def)
  then have upd: "trail C (calm W) (NotificationRepository_UpdateStatus C ?nq StatusPending) (Idle, ?d2, y, ps) =
      (None, Idle, ?d2\<lparr>t_notifications := t_notifications d @ [q]\<rparr>, y, ps)" for y
    using trail_update [OF ok, of ?r C ?nq StatusPending Idle W y ps] parse id(3)
    by (simp add: replace_row_last c q queued_row_def)
  let ?d3 = "?d2\<lparr>t_notifications := t_notifications d @ [q]\<rparr>"
  have sup3: "id_supply C W u 1 (ticked ?x2) ?d3"
    by (rule id_supply_used [OF sup, where n = "c + 2"]) (auto simp: used_ids_def c q queued_row_def)
  have log2: "trail C (calm W) (NotificationLogRepository_Append C \<lparr>l_ID = w_id W (c + 3), l_NotificationID = ?id,
      l_CorrelationID = ci_CorrelationID i, l_Event = LogEventQueued, l_Details = None, l_CreatedAt = ?t\<rparr>)
      (h, ?d3, y, ps) = (None, h, ?d3\<lparr>t_logs := t_logs d @ [?l1, ?l2]\<rparr>, y, ps)" for h y
    using trail_entry [OF sup3 _ _ parse wf, of "c + 3" LogEventQueued] by (simp add: c q queued_row_def)
  have enq: "trail C (calm W) (CreateNotification_enqueue (createNotif C) ?n) (h, d', y, ps) =
      (None, h, d', y\<lparr>cs_tasks := cs_tasks y @ [task_for i pr ?id]\<rparr>, ps)" for h d' y
    by (simp add: CreateNotification_enqueue_def task_for_def asynq_Queue_def queue_defs split: option.split)
  let ?x4 = "(ticked (ticked (ticked (ticked x))))\<lparr>cs_tasks := cs_tasks x @ [task_for i pr ?id]\<rparr>"
  have "trail C (calm W) (CreateNotification_Execute E (createNotif C) i) (Idle, d, x, ps) =
      (Inr ?nq, Idle, d\<lparr>t_notifications := t_notifications d @ [q], t_logs := t_logs d @ [?l1, ?l2]\<rparr>, ?x4, ps)"
    using i new ins log1 enq upd log2 c id(1,4,5)
    by (simp add: CreateNotification_Execute_def CreateNotification_markQueued_def trail_rules real_Clock_def uuid_IDGenerator_def pg_NotificationRepository_def
        pg_NotificationLogRepository_def NewNotificationLog_def LogEvent_IsValid_def
        MarkQueued_def transition_def CanTransitionTo_iff emit_if_def ticked_updates numeral_eq_Suc)
  moreover have entity: "?nq = queued_entity i ch pr ?id ?t" by (simp add: queued_entity_def)
  ultimately show ?thesis
    unfolding entity
    by (intro exI conjI) (assumption, simp_all add: c)
qed

text \<open>What the next run finds.\<close>

lemma queued_row_fields [simp]:
  "r_id (queued_row C i ch pr v now) = Some v" "r_status (queued_row C i ch pr v now) = StatusQueued"
  "r_attempts (queued_row C i ch pr v now) = 0" "r_correlation_id (queued_row C i ch pr v now) = ci_CorrelationID i"
  "r_channel (queued_row C i ch pr v now) = ch" "r_recipient (queued_row C i ch pr v now) = ci_Recipient i"
  "r_content (queued_row C i ch pr v now) = ci_Content i"
  by (simp_all add: queued_row_def requested_row_def store_row_def)

lemma create_ready:
  assumes C: "codec_ok C" and d: "db_ok d" and W: "id_supply C W u (4 + m) x d"
    and i: "NewChannel (ci_Channel i) = Inr ch" "NewPriority (ci_Priority i) = Inr pr"
      "recipient_ok ch (ci_Recipient i)" "content_ok ch (ci_Content i)" "ci_CorrelationID i \<noteq> []"
      "ci_TemplateID i = None" "key_free d (ci_IdempotencyKey i)"
    and n: "n = queued_entity i ch pr (w_id W (cs_calls x + 1)) (w_now W (cs_calls x))"
    and q: "q = queued_row C i ch pr (u (cs_calls x + 1)) (w_now W (cs_calls x))"
  obtains d' x' where
    "trail C (calm W) (CreateNotification_Execute E (createNotif C) i) (Idle, d, x, ps) = (Inr n, Idle, d', x', ps)"
    "t_notifications d' = t_notifications d @ [q]" "db_ok d'" "id_supply C W u m x' d'"
    "parseUUID C (n_ID n) = Inr (r_id q)" "wf_id (r_id q)" "r_id q \<notin> r_id ` set (t_notifications d)"
proof -
  have sup4: "id_supply C W u 4 x d" by (rule id_supply_later [OF W]) simp_all
  obtain logs x' where run: "trail C (calm W) (CreateNotification_Execute E (createNotif C) i) (Idle, d, x, ps) =
      (Inr n, Idle, d\<lparr>t_notifications := t_notifications d @ [q], t_logs := t_logs d @ logs\<rparr>, x', ps)"
    and logs: "map lr_id logs = [Some (u (cs_calls x + 2)), Some (u (cs_calls x + 3))]" and x': "cs_calls x' = cs_calls x + 4"
    using trail_create [OF C d sup4 i refl q, of E ps] unfolding n by metis
  let ?d = "d\<lparr>t_notifications := t_notifications d @ [q], t_logs := t_logs d @ logs\<rparr>"
  have id: "parseUUID C (n_ID n) = Inr (r_id q)" and new: "r_id q \<notin> r_id ` set (t_notifications d)"
    using supplyD(2,4) [OF sup4] by (simp_all add: n q)
  have wf: "wf_id (r_id q)" using pg_driver.scan_wf [OF _ id] C by (simp add: pg_driver_def)
  have ok: "db_ok ?d" using d new by (simp add: db_ok_def)
  have "lr_id ` set logs = {Some (u (cs_calls x + 2)), Some (u (cs_calls x + 3))}"
    using arg_cong [OF logs, of set] by simp
  then have "lr_id ` set logs \<subseteq> Some ` u ` {cs_calls x ..< cs_calls x'}" by (simp add: x')
  then have "id_supply C W u m x' ?d"
    by (intro id_supply_advance [OF W]) (auto simp: used_ids_def image_Un x' q)
  with run ok id wf new show ?thesis by (intro that [of ?d x']) simp_all
qed

end
