(* ===== verification/Reconcile_Run.thy ===== *)
theory Reconcile_Run
  imports Calm
begin

text \<open>
  A pass of the reconciler in a calm world: what it does to every row of the table, and the tasks
  it puts on the queue.
\<close>

section \<open>Handlers and sweeps\<close>

lemma id_supply_tasks [simp]: "id_supply C W u m (x\<lparr>cs_tasks := ts\<rparr>) d = id_supply C W u m x d"
  by (simp add: id_supply_def)

text \<open>What a sweep may rely on in a row, and what a handler does with one: it rewrites it to
  \<open>g r\<close>, logs the events \<open>ev r\<close> and enqueues the tasks \<open>ts r\<close>.\<close>

definition row_fit :: "string \<Rightarrow> NotificationRow \<Rightarrow> bool" where
  "row_fit st r \<longleftrightarrow> wf_id (r_id r) \<and> r_correlation_id r \<noteq> [] \<and> r_status r = st"

definition handles ::
  "pg_codec \<Rightarrow> world \<Rightarrow> (nat \<Rightarrow> uuid) \<Rightarrow> string \<Rightarrow> (Notification \<Rightarrow> gerror option prog) \<Rightarrow>
   (NotificationRow \<Rightarrow> NotificationRow) \<Rightarrow> (NotificationRow \<Rightarrow> asynq_task list) \<Rightarrow> bool"
where
  "handles C W u st hnd g ts \<longleftrightarrow> (\<forall>r. r_id (g r) = r_id r) \<and>
     (\<forall>m d x r ps. db_ok d \<and> id_supply C W u (Suc m) x d \<and> r \<in> set (t_notifications d) \<and> row_fit st r \<longrightarrow>
       (\<exists>d' x'. trail C (calm W) (hnd (entity_of r)) (Idle, d, x, ps) = (None, Idle, d', x', ps) \<and>
          t_notifications d' = replace_row (g r) (t_notifications d) \<and> id_supply C W u m x' d' \<and>
          cs_tasks x' = cs_tasks x @ ts r))"

text \<open>The rows of a sweep, rewritten.\<close>

definition rewrite_rows ::
  "NotificationRow list \<Rightarrow> (NotificationRow \<Rightarrow> NotificationRow) \<Rightarrow> NotificationRow list \<Rightarrow> NotificationRow list"
where
  "rewrite_rows rs g rows = map (\<lambda>r. if r_id r \<in> r_id ` set rs then g r else r) rows"

lemma rewrite_rows_Nil [simp]: "rewrite_rows [] g rows = rows"
  by (simp add: rewrite_rows_def)

lemma rewrite_rows_Cons:
  assumes "distinct (map r_id rows)" and "r \<in> set rows" and "r_id (g r) = r_id r" and "r_id r \<notin> r_id ` set rs"
  shows "rewrite_rows rs g (replace_row (g r) rows) = rewrite_rows (r # rs) g rows"
proof -
  have "q = r" if "q \<in> set rows" "r_id q = r_id r" for q
    using assms(1,2) that unfolding distinct_map by (meson inj_onD)
  with assms(3,4) show ?thesis by (auto simp: rewrite_rows_def replace_row_def)
qed

lemma trail_sweep_rows:
  assumes h: "handles C W u st hnd g ts"
  shows "db_ok d \<Longrightarrow> id_supply C W u (length rs + m) x d \<Longrightarrow> set rs \<subseteq> set (t_notifications d) \<Longrightarrow> distinct (map r_id rs) \<Longrightarrow>
    list_all (row_fit st) rs \<Longrightarrow>
    \<exists>d' x'. trail C (calm W) (sweep_rows hnd count (map entity_of rs) out) (Idle, d, x, ps) =
        (((count ^^ length rs) out, None), Idle, d', x', ps) \<and>
      t_notifications d' = rewrite_rows rs g (t_notifications d) \<and> id_supply C W u m x' d' \<and>
      cs_tasks x' = cs_tasks x @ concat (map ts rs)"
proof (induction rs arbitrary: d x out)
  case (Cons r rs)
  have r: "r \<in> set (t_notifications d)" "row_fit st r" using Cons.prems by auto
  have "id_supply C W u (Suc (length rs + m)) x d" using Cons.prems(2) by simp
  with h r Cons.prems(1) obtain d1 x1 where
    step: "trail C (calm W) (hnd (entity_of r)) (Idle, d, x, ps) = (None, Idle, d1, x1, ps)"
    and d1: "t_notifications d1 = replace_row (g r) (t_notifications d)" "id_supply C W u (length rs + m) x1 d1"
      "cs_tasks x1 = cs_tasks x @ ts r" and gid: "r_id (g r) = r_id r"
    unfolding handles_def by metis
  have ok: "db_ok d1" using Cons.prems(1) d1(1) by (simp add: db_ok_def)
  have sub: "set rs \<subseteq> set (t_notifications d1)"
  proof
    fix q assume q: "q \<in> set rs"
    have "r_id r \<notin> r_id ` set rs" using Cons.prems(4) by simp
    with q gid have "r_id q \<noteq> r_id (g r)" by (metis imageI)
    with q Cons.prems(3) show "q \<in> set (t_notifications d1)" by (force simp: d1(1) replace_row_def)
  qed
  have "distinct (map r_id rs)" "list_all (row_fit st) rs" using Cons.prems(4,5) by auto
  from Cons.IH [OF ok d1(2) sub this, of "count out"] obtain d2 x2 where
    rest: "trail C (calm W) (sweep_rows hnd count (map entity_of rs) (count out)) (Idle, d1, x1, ps) =
        (((count ^^ length rs) (count out), None), Idle, d2, x2, ps)"
    and d2: "t_notifications d2 = rewrite_rows rs g (t_notifications d1)" "id_supply C W u m x2 d2"
      "cs_tasks x2 = cs_tasks x1 @ concat (map ts rs)" by blast
  have "rewrite_rows rs g (replace_row (g r) (t_notifications d)) = rewrite_rows (r # rs) g (t_notifications d)"
    using Cons.prems gid by (intro rewrite_rows_Cons) (auto simp: db_ok_def)
  with step rest d1 d2 show ?case by (simp add: trail_rules funpow_swap1)
qed simp

lemma reconcileUC_simps [simp]:
  "rs_repo (reconcileUC C) = pg_NotificationRepository C" "rs_logRepo (reconcileUC C) = pg_NotificationLogRepository C"
  "rs_queue (reconcileUC C) = asynq_Queue" "rs_idGen (reconcileUC C) = uuid_IDGenerator"
  "rs_clock (reconcileUC C) = real_Clock"
  by (simp_all add: reconcileUC_def)

text \<open>The log line of a handler.\<close>

lemma trail_reconcile_event:
  assumes "id_supply C W u m x d" "0 < m" and n: "parseUUID C (n_ID n) = Inr i" "n_ID n \<noteq> []" "n_CorrelationID n \<noteq> []"
    and i: "wf_id i" "i \<in> r_id ` set (t_notifications d)" and ev: "ev \<in> set sql_events"
  shows "trail C (calm W) (Reconcile_recordEvent (reconcileUC C) n ev now) (h, d, x, ps) =
    (None, h, d\<lparr>t_logs := t_logs d @ [log_line C (u (cs_calls x)) i (n_CorrelationID n) ev now]\<rparr>, ticked x, ps)"
proof -
  have "LogEvent_IsValid ev" using ev by (auto simp: LogEvent_IsValid_def)
  then show ?thesis
    using supplyD(1) [OF assms(1) order_refl] assms(2) n(2,3)
    by (simp add: Reconcile_recordEvent_def uuid_IDGenerator_def trail_rules NewNotificationLog_def
        pg_NotificationLogRepository_def trail_entry [OF assms(1) order_refl _ n(1) i ev])
qed

text \<open>The row a status write leaves, and the task that wakes a worker up.\<close>

definition moved :: "pg_codec \<Rightarrow> Status \<Rightarrow> string \<Rightarrow> Time \<Rightarrow> NotificationRow \<Rightarrow> NotificationRow" where
  "moved C st why now r = r\<lparr>r_status := st, r_last_error := why,
     r_next_retry_at := map_option (ts_store C) (r_next_retry_at r), r_updated_at := ts_store C now\<rparr>"

definition wake_up :: "NotificationRow \<Rightarrow> asynq_task" where
  "wake_up r = NewProcessNotificationTask (n_ID (entity_of r)) (r_priority r)
     (case r_idempotency_key r of None \<Rightarrow> [] | Some key \<Rightarrow> key)"

lemma moved_id [simp]: "r_id (moved C st why now r) = r_id r"
  by (simp add: moved_def)

lemma replace_row_same:
  assumes "db_ok d" and "r \<in> set (t_notifications d)"
  shows "replace_row r (t_notifications d) = t_notifications d"
proof -
  have "q = r" if "q \<in> set (t_notifications d)" "r_id q = r_id r" for q
    using assms that unfolding db_ok_def distinct_map by (meson inj_onD)
  then show ?thesis unfolding replace_row_def by (intro map_idI) auto
qed

text \<open>Writing a status and logging it, which two handlers share.\<close>

lemma trail_move:
  assumes C: "codec_ok C" and d: "db_ok d" "id_supply C W u (Suc m) x d" "r \<in> set (t_notifications d)" "row_fit src r"
    and st: "st \<in> set sql_statuses" "st \<in> set sql_events"
    and n: "n = (entity_of r)\<lparr>n_Status := st, n_UpdatedAt := now, n_LastError := why\<rparr>"
  shows "\<exists>l. trail C (calm W) (NotificationRepository_UpdateStatus C n src) (Idle, d, x, ps) =
      (None, Idle, d\<lparr>t_notifications := replace_row (moved C st why now r) (t_notifications d)\<rparr>, x, ps) \<and>
    trail C (calm W) (Reconcile_recordEvent (reconcileUC C) n st now)
      (Idle, d\<lparr>t_notifications := replace_row (moved C st why now r) (t_notifications d)\<rparr>, x, ps) =
      (None, Idle, d\<lparr>t_notifications := replace_row (moved C st why now r) (t_notifications d), t_logs := t_logs d @ [l]\<rparr>, ticked x, ps) \<and>
    id_supply C W u m (ticked x) (d\<lparr>t_notifications := replace_row (moved C st why now r) (t_notifications d), t_logs := t_logs d @ [l]\<rparr>)"
proof -
  let ?d = "d\<lparr>t_notifications := replace_row (moved C st why now r) (t_notifications d)\<rparr>"
  let ?l = "log_line C (u (cs_calls x)) (r_id r) (r_correlation_id r) st now"
  from d(4) have wf: "wf_id (r_id r)" and i: "r_id r \<noteq> None" and corr: "r_correlation_id r \<noteq> []"
    and src: "r_status r = src" by (auto simp: row_fit_def wf_id_def)
  note f = entity_of_fields [OF i] and id = entity_of_id [OF C wf]
  have "written C n r = moved C st why now r" by (simp add: written_def moved_def n f)
  then have "trail C (calm W) (NotificationRepository_UpdateStatus C n src) (Idle, d, x, ps) = (None, Idle, ?d, x, ps)"
    using trail_update [OF d(1,3) i, of C n src Idle] id src st(1) by (simp add: n)
  moreover have sup: "id_supply C W u (Suc m) x ?d" by (rule id_supply_later [OF d(2)]) simp_all
  have "trail C (calm W) (Reconcile_recordEvent (reconcileUC C) n st now) (Idle, ?d, x, ps) =
      (None, Idle, ?d\<lparr>t_logs := t_logs d @ [?l]\<rparr>, ticked x, ps)"
    using trail_reconcile_event [OF sup, of n "r_id r" st now Idle ps] id wf corr d(3) st(2) by (simp add: n f)
  moreover have "id_supply C W u m (ticked x) (?d\<lparr>t_logs := t_logs d @ [?l]\<rparr>)"
    by (rule id_supply_used [OF sup, where n = "cs_calls x"]) (auto simp: used_ids_def)
  ultimately show ?thesis by (intro exI [of _ ?l]) simp
qed

lemma handles_stuck:
  assumes "codec_ok C"
  shows "handles C W u StatusProcessing (\<lambda>n. handleStuckProcessing (reconcileUC C) n now)
    (moved C StatusFailed ''worker_timeout'' now) (\<lambda>_. [])"
  unfolding handles_def
proof (intro conjI allI impI)
  fix m d x r ps
  assume a: "db_ok d \<and> id_supply C W u (Suc m) x d \<and> r \<in> set (t_notifications d) \<and> row_fit StatusProcessing r"
  let ?n = "(entity_of r)\<lparr>n_Status := StatusFailed, n_UpdatedAt := now, n_LastError := ''worker_timeout''\<rparr>"
  have "MarkFailed (entity_of r) now ''worker_timeout'' = (None, ?n)"
    using a entity_of_fields(1) [of r] by (auto simp: MarkFailed_def transition_def CanTransitionTo_iff row_fit_def wf_id_def)
  then show "\<exists>d' x'. trail C (calm W) (handleStuckProcessing (reconcileUC C) (entity_of r) now) (Idle, d, x, ps) =
      (None, Idle, d', x', ps) \<and> t_notifications d' = replace_row (moved C StatusFailed ''worker_timeout'' now r) (t_notifications d) \<and>
      id_supply C W u m x' d' \<and> cs_tasks x' = cs_tasks x @ []"
    using trail_move [OF assms, where src = StatusProcessing and st = StatusFailed and n = ?n and now = now
        and why = "''worker_timeout''" and d = d and W = W and u = u and m = m and x = x and r = r and ps = ps] a
    by (auto simp: handleStuckProcessing_def trail_rules pg_NotificationRepository_def)
qed simp

lemma handles_orphan:
  assumes "codec_ok C"
  shows "handles C W u StatusPending (\<lambda>n. handleOrphanedPending (reconcileUC C) n now)
    (\<lambda>r. moved C StatusQueued (r_last_error r) now r) (\<lambda>r. [wake_up r])"
  unfolding handles_def
proof (intro conjI allI impI)
  fix m d x r ps
  assume a: "db_ok d \<and> id_supply C W u (Suc m) x d \<and> r \<in> set (t_notifications d) \<and> row_fit StatusPending r"
  then have i: "r_id r \<noteq> None" by (auto simp: row_fit_def wf_id_def)
  note f = entity_of_fields [OF i]
  let ?n = "(entity_of r)\<lparr>n_Status := StatusQueued, n_UpdatedAt := now, n_LastError := r_last_error r\<rparr>"
  have "MarkQueued (entity_of r) now = (None, ?n)"
    using a f by (auto simp: MarkQueued_def transition_def CanTransitionTo_iff row_fit_def)
  then show "\<exists>d' x'. trail C (calm W) (handleOrphanedPending (reconcileUC C) (entity_of r) now) (Idle, d, x, ps) =
      (None, Idle, d', x', ps) \<and> t_notifications d' = replace_row (moved C StatusQueued (r_last_error r) now r) (t_notifications d) \<and>
      id_supply C W u m x' d' \<and> cs_tasks x' = cs_tasks x @ [wake_up r]"
    using trail_move [OF assms, where src = StatusPending and st = StatusQueued and n = ?n and now = now
        and why = "r_last_error r" and d = d and W = W and u = u and m = m and x = x and r = r and ps = ps] a f
    by (auto simp: handleOrphanedPending_def trail_rules pg_NotificationRepository_def asynq_Queue_def
        AsynqQueue_Enqueue_def wake_up_def intro: id_supply_later)
qed simp

lemma handles_requeue:
  "handles C W u st (\<lambda>n. handleOverdueRetrying (reconcileUC C) n) (\<lambda>r. r) (\<lambda>r. [wake_up r])"
  "handles C W u st (\<lambda>n. handleStuckQueued (reconcileUC C) n) (\<lambda>r. r) (\<lambda>r. [wake_up r])"
  unfolding handles_def handleOverdueRetrying_def handleStuckQueued_def
  by (auto simp: trail_rules asynq_Queue_def AsynqQueue_Enqueue_def wake_up_def replace_row_same
      row_fit_def wf_id_def entity_of_fields intro: id_supply_later)

section \<open>The pass\<close>

definition orphaned :: "pg_codec \<Rightarrow> Time \<Rightarrow> NotificationRow \<Rightarrow> bool" where
  "orphaned C now r \<longleftrightarrow> r_status r = StatusPending \<and>
     r_created_at r < ts_store C (time_Add now (- orphanedPendingThreshold))"

definition stuck :: "pg_codec \<Rightarrow> Time \<Rightarrow> NotificationRow \<Rightarrow> bool" where
  "stuck C now r \<longleftrightarrow> r_status r = StatusProcessing \<and>
     r_updated_at r < ts_store C (time_Add now (- stuckProcessingThreshold))"

definition overdue :: "pg_codec \<Rightarrow> Time \<Rightarrow> NotificationRow \<Rightarrow> bool" where
  "overdue C now r \<longleftrightarrow> r_status r = StatusRetrying \<and> (case r_next_retry_at r of None \<Rightarrow> False
     | Some t \<Rightarrow> t < ts_store C (time_Add now (- overdueRetryingThreshold)))"

definition stranded :: "pg_codec \<Rightarrow> Time \<Rightarrow> NotificationRow \<Rightarrow> bool" where
  "stranded C now r \<longleftrightarrow> r_status r = StatusQueued \<and>
     r_updated_at r < ts_store C (time_Add now (- stuckQueuedThreshold)) \<and>
     (case r_scheduled_at r of None \<Rightarrow> True | Some t \<Rightarrow> t < ts_store C (time_Add now (- stuckQueuedThreshold)))"

definition rescue :: "pg_codec \<Rightarrow> Time \<Rightarrow> NotificationRow \<Rightarrow> NotificationRow" where
  "rescue C now r =
     (if orphaned C now r then moved C StatusQueued (r_last_error r) now r
      else if stuck C now r then moved C StatusFailed ''worker_timeout'' now r
      else r)"

lemma rewrite_selected:
  assumes "distinct (map r_id rows)" and "set rs = set (filter sel rows)"
  shows "rewrite_rows rs g rows = map (\<lambda>r. if sel r then g r else r) rows"
proof -
  have "r_id r \<in> r_id ` set rs \<longleftrightarrow> sel r" if "r \<in> set rows" for r
    using assms that unfolding distinct_map by (auto dest: inj_onD)
  then show ?thesis by (simp add: rewrite_rows_def)
qed

lemma rows_entities: "list_all (\<lambda>r. r_id r \<noteq> None) rows \<Longrightarrow> rowsToNotifications rows = Inr (map entity_of rows)"
  by (induction rows) (auto simp: notificationFromRow_total bind_res_def)

lemma limit_100: "length rows \<le> 100 \<Longrightarrow> limited (word_of_int 100) rows = Inr rows"
  by (simp add: limited_def)

lemma trail_find:
  assumes "query_sql C q d = (limited (word_of_int 100) rows, d)" and "\<not> is_claim q" and "length rows \<le> 100"
    and "list_all (\<lambda>r. r_id r \<noteq> None) rows"
  shows "trail C (calm W) (find_rows fmt q) (h, d, x, ps) = (Inr (map entity_of rows), h, d, x, ps)"
  using assms(1,2) limit_100 [OF assms(3)] rows_entities [OF assms(4)]
  by (simp add: find_rows_def query_many_def trail_rules read_query)

text \<open>What a sweep leaves, when it selects \<open>sel\<close> and rewrites by \<open>g\<close>.\<close>

definition swept ::
  "pg_codec \<Rightarrow> world \<Rightarrow> (nat \<Rightarrow> uuid) \<Rightarrow> nat \<Rightarrow> (NotificationRow \<Rightarrow> bool) \<Rightarrow> (NotificationRow \<Rightarrow> NotificationRow) \<Rightarrow>
   asynq_task list \<Rightarrow> db \<Rightarrow> calm_state \<Rightarrow> db \<Rightarrow> calm_state \<Rightarrow> bool"
where
  "swept C W u m sel g tasks d x d' x' \<longleftrightarrow>
     t_notifications d' = map (\<lambda>r. if sel r then g r else r) (t_notifications d) \<and>
     id_supply C W u m x' d' \<and> db_ok d' \<and> cs_tasks x' = cs_tasks x @ tasks"

text \<open>One sweep: the rows it selects, at most a batch of them, are all handled.\<close>

lemma trail_sweep:
  assumes h: "handles C W u st hnd g ts" and d: "db_ok d" "id_supply C W u (100 + m) x d"
    and q: "query_sql C q d = (limited (word_of_int 100) (sort_key key (filter sel (t_notifications d))), d)" "\<not> is_claim q"
    and n: "length (filter sel (t_notifications d)) \<le> 100"
    and fit: "\<And>r. r \<in> set (t_notifications d) \<Longrightarrow> sel r \<Longrightarrow> row_fit st r"
    and out: "out' = (count ^^ length (filter sel (t_notifications d))) out"
    and tasks: "tasks = concat (map ts (sort_key key (filter sel (t_notifications d))))"
  shows "\<exists>d' x'. trail C (calm W) (try_val (find_rows fmt q) fail (\<lambda>rows. sweep_rows hnd count rows out)) (Idle, d, x, ps) =
        ((out', None), Idle, d', x', ps) \<and> swept C W u m sel g tasks d x d' x'"
proof -
  let ?rs = "sort_key key (filter sel (t_notifications d))"
  have fits: "list_all (row_fit st) ?rs" using fit by (auto simp: list_all_iff)
  then have "list_all (\<lambda>r. r_id r \<noteq> None) ?rs" by (auto simp: list_all_iff row_fit_def wf_id_def)
  from trail_find [OF q(1,2) _ this, of W fmt Idle x ps] n
  have find: "trail C (calm W) (find_rows fmt q) (Idle, d, x, ps) = (Inr (map entity_of ?rs), Idle, d, x, ps)"
    by simp
  have "distinct (map r_id (filter sel (t_notifications d)))"
    using d(1) by (simp add: db_ok_def distinct_map_filter)
  then have dist: "distinct (map r_id ?rs)" by (simp add: distinct_map)
  obtain d' x' where sw: "trail C (calm W) (sweep_rows hnd count (map entity_of ?rs) out) (Idle, d, x, ps) =
        (((count ^^ length ?rs) out, None), Idle, d', x', ps)"
    "t_notifications d' = rewrite_rows ?rs g (t_notifications d)" "id_supply C W u m x' d'"
    "cs_tasks x' = cs_tasks x @ concat (map ts ?rs)"
    using trail_sweep_rows [OF h d(1) _ _ dist fits, where m = m and x = x and out = out and ps = ps and count = count] id_supply_later [OF d(2) order_refl, of "length ?rs + m" d] n
    by auto
  have rows: "t_notifications d' = map (\<lambda>r. if sel r then g r else r) (t_notifications d)"
    using sw(2) d(1) rewrite_selected [of "t_notifications d" ?rs sel g] by (simp add: db_ok_def)
  moreover have "db_ok d'"
  proof -
    have "map r_id (t_notifications d') = map r_id (t_notifications d)"
      using h rows by (simp add: handles_def)
    with d(1) show ?thesis by (simp add: db_ok_def)
  qed
  ultimately show ?thesis using find sw by (simp add: trail_rules swept_def out tasks)
qed

lemma filter_map_fixed:
  "(\<And>r. r \<in> set rows \<Longrightarrow> sel (f r) = sel r \<and> (sel r \<longrightarrow> f r = r)) \<Longrightarrow> filter sel (map f rows) = filter sel rows"
  by (induction rows) auto

lemma count_steps:
  "((\<lambda>out. out\<lparr>o_OrphanedPendingReenqueued := o_OrphanedPendingReenqueued out + 1\<rparr>) ^^ n) out =
     out\<lparr>o_OrphanedPendingReenqueued := o_OrphanedPendingReenqueued out + int n\<rparr>"
  "((\<lambda>out. out\<lparr>o_StuckProcessingFailed := o_StuckProcessingFailed out + 1\<rparr>) ^^ n) out =
     out\<lparr>o_StuckProcessingFailed := o_StuckProcessingFailed out + int n\<rparr>"
  "((\<lambda>out. out\<lparr>o_OverdueRetryingReenqueued := o_OverdueRetryingReenqueued out + 1\<rparr>) ^^ n) out =
     out\<lparr>o_OverdueRetryingReenqueued := o_OverdueRetryingReenqueued out + int n\<rparr>"
  "((\<lambda>out. out\<lparr>o_StuckQueuedReenqueued := o_StuckQueuedReenqueued out + 1\<rparr>) ^^ n) out =
     out\<lparr>o_StuckQueuedReenqueued := o_StuckQueuedReenqueued out + int n\<rparr>"
  by (induction n; simp)+

lemmas selection_defs = orphaned_def stuck_def overdue_def stranded_def moved_def rescue_def

definition batch_fits :: "pg_codec \<Rightarrow> Time \<Rightarrow> db \<Rightarrow> bool" where
  "batch_fits C now d \<longleftrightarrow> (\<forall>sel \<in> {orphaned C now, stuck C now, overdue C now, stranded C now}.
     length (filter sel (t_notifications d)) \<le> 100)"

definition good_rows :: "db \<Rightarrow> bool" where
  "good_rows d \<longleftrightarrow> (\<forall>r \<in> set (t_notifications d). wf_id (r_id r) \<and> r_correlation_id r \<noteq> [])"

lemma sweep_orphaned:
  assumes "codec_ok C" "db_ok d" "id_supply C W u (100 + m) x d" "good_rows d"
    and "length (filter (orphaned C now) (t_notifications d)) \<le> 100"
  shows "\<exists>d' x'. trail C (calm W) (sweepOrphanedPending (reconcileUC C) now out) (Idle, d, x, ps) =
      ((out\<lparr>o_OrphanedPendingReenqueued := o_OrphanedPendingReenqueued out + int (length (filter (orphaned C now) (t_notifications d)))\<rparr>, None),
       Idle, d', x', ps) \<and>
    swept C W u m (orphaned C now) (\<lambda>r. moved C StatusQueued (r_last_error r) now r)
      (map wake_up (sort_key r_created_at (filter (orphaned C now) (t_notifications d)))) d x d' x'"
  unfolding sweepOrphanedPending_def reconcileUC_simps pg_NotificationRepository_def NotificationRepository.simps
    NotificationRepository_FindOrphanedPending_def reconcilerBatchSize_def
  by (rule trail_sweep [OF handles_orphan [OF assms(1)], where key = "r_created_at"])
    (use assms in \<open>auto simp: count_steps good_rows_def row_fit_def orphaned_def [abs_def]\<close>)

lemma sweep_stuck:
  assumes "codec_ok C" "db_ok d" "id_supply C W u (100 + m) x d" "good_rows d"
    and "length (filter (stuck C now) (t_notifications d)) \<le> 100"
  shows "\<exists>d' x'. trail C (calm W) (sweepStuckProcessing (reconcileUC C) now out) (Idle, d, x, ps) =
      ((out\<lparr>o_StuckProcessingFailed := o_StuckProcessingFailed out + int (length (filter (stuck C now) (t_notifications d)))\<rparr>, None),
       Idle, d', x', ps) \<and>
    swept C W u m (stuck C now) (moved C StatusFailed ''worker_timeout'' now)
      [] d x d' x'"
  unfolding sweepStuckProcessing_def reconcileUC_simps pg_NotificationRepository_def NotificationRepository.simps
    NotificationRepository_FindStuckProcessing_def reconcilerBatchSize_def
  by (rule trail_sweep [OF handles_stuck [OF assms(1)], where key = "r_updated_at"])
    (use assms in \<open>auto simp: count_steps good_rows_def row_fit_def stuck_def [abs_def]\<close>)

lemma sweep_overdue:
  assumes "db_ok d" "id_supply C W u (100 + m) x d" "good_rows d"
    and "length (filter (overdue C now) (t_notifications d)) \<le> 100"
  shows "\<exists>d' x'. trail C (calm W) (sweepOverdueRetrying (reconcileUC C) now out) (Idle, d, x, ps) =
      ((out\<lparr>o_OverdueRetryingReenqueued := o_OverdueRetryingReenqueued out + int (length (filter (overdue C now) (t_notifications d)))\<rparr>, None),
       Idle, d', x', ps) \<and>
    swept C W u m (overdue C now) (\<lambda>r. r)
      (map wake_up (sort_key (\<lambda>r. the (r_next_retry_at r)) (filter (overdue C now) (t_notifications d)))) d x d' x'"
  unfolding sweepOverdueRetrying_def reconcileUC_simps pg_NotificationRepository_def NotificationRepository.simps
    NotificationRepository_FindOverdueRetrying_def reconcilerBatchSize_def
  by (rule trail_sweep [OF handles_requeue(1) [where st = StatusRetrying], where key = "(\<lambda>r. the (r_next_retry_at r))"])
    (use assms in \<open>auto simp: count_steps good_rows_def row_fit_def overdue_def [abs_def]\<close>)

lemma sweep_stranded:
  assumes "db_ok d" "id_supply C W u (100 + m) x d" "good_rows d"
    and "length (filter (stranded C now) (t_notifications d)) \<le> 100"
  shows "\<exists>d' x'. trail C (calm W) (sweepStuckQueued (reconcileUC C) now out) (Idle, d, x, ps) =
      ((out\<lparr>o_StuckQueuedReenqueued := o_StuckQueuedReenqueued out + int (length (filter (stranded C now) (t_notifications d)))\<rparr>, None),
       Idle, d', x', ps) \<and>
    swept C W u m (stranded C now) (\<lambda>r. r)
      (map wake_up (sort_key r_updated_at (filter (stranded C now) (t_notifications d)))) d x d' x'"
  unfolding sweepStuckQueued_def reconcileUC_simps pg_NotificationRepository_def NotificationRepository.simps
    NotificationRepository_FindStuckQueued_def reconcilerBatchSize_def
  by (rule trail_sweep [OF handles_requeue(2) [where st = StatusQueued], where key = "r_updated_at"])
    (use assms in \<open>auto simp: count_steps good_rows_def row_fit_def stranded_def [abs_def]\<close>)

lemma good_rows_map:
  assumes "good_rows d" and "t_notifications d' = map f (t_notifications d)"
    and "\<And>r. r_id (f r) = r_id r \<and> r_correlation_id (f r) = r_correlation_id r"
  shows "good_rows d'"
  using assms by (auto simp: good_rows_def)

text \<open>All four sweeps. Each selects what it would have selected before the others ran.\<close>

lemma trail_reconcile:
  assumes C: "codec_ok C" "mono (ts_store C)" and d: "db_ok d" "id_supply C W u 401 x d" "good_rows d"
    and now: "now = w_now W (cs_calls x)" and fits: "batch_fits C now d"
  shows "\<exists>d' x'. trail C (calm W) (ReconcileStuckNotifications_Execute (reconcileUC C)) (Idle, d, x, ps) =
      ((\<lparr>o_OrphanedPendingReenqueued = int (length (filter (orphaned C now) (t_notifications d))),
         o_StuckProcessingFailed = int (length (filter (stuck C now) (t_notifications d))),
         o_OverdueRetryingReenqueued = int (length (filter (overdue C now) (t_notifications d))),
         o_StuckQueuedReenqueued = int (length (filter (stranded C now) (t_notifications d)))\<rparr>, None), Idle, d', x', ps) \<and>
    t_notifications d' = map (rescue C now) (t_notifications d) \<and>
    cs_tasks x' = cs_tasks x @ map wake_up (sort_key r_created_at (filter (orphaned C now) (t_notifications d)) @
      sort_key (\<lambda>r. the (r_next_retry_at r)) (filter (overdue C now) (t_notifications d)) @
      sort_key r_updated_at (filter (stranded C now) (t_notifications d)))"
proof -
  let ?T = "t_notifications d"
  let ?g1 = "\<lambda>r. if orphaned C now r then moved C StatusQueued (r_last_error r) now r else r"
  have n: "length (filter (orphaned C now) ?T) \<le> 100" "length (filter (stuck C now) ?T) \<le> 100"
    "length (filter (overdue C now) ?T) \<le> 100" "length (filter (stranded C now) ?T) \<le> 100"
    using fits by (simp_all add: batch_fits_def)
  have early: "time_Add now (- stuckQueuedThreshold) \<le> now"
    by (simp add: time_Add_def threshold_defs)
  have late: "\<not> ts_store C now < ts_store C (time_Add now (- stuckQueuedThreshold))"
    using monoD [OF C(2) early] by (simp add: not_less)
  have sup: "id_supply C W u (100 + (100 + (100 + (100 + 0)))) (ticked x) d" by (rule id_supply_later [OF d(2)]) simp_all
  define o0 where "o0 = \<lparr>o_OrphanedPendingReenqueued = 0, o_StuckProcessingFailed = 0,
      o_OverdueRetryingReenqueued = 0, o_StuckQueuedReenqueued = 0\<rparr>"
  define o1 where "o1 = o0\<lparr>o_OrphanedPendingReenqueued := o_OrphanedPendingReenqueued o0 + int (length (filter (orphaned C now) ?T))\<rparr>"
  define o2 where "o2 = o1\<lparr>o_StuckProcessingFailed := o_StuckProcessingFailed o1 + int (length (filter (stuck C now) ?T))\<rparr>"
  define o3 where "o3 = o2\<lparr>o_OverdueRetryingReenqueued := o_OverdueRetryingReenqueued o2 + int (length (filter (overdue C now) ?T))\<rparr>"
  define o4 where "o4 = o3\<lparr>o_StuckQueuedReenqueued := o_StuckQueuedReenqueued o3 + int (length (filter (stranded C now) ?T))\<rparr>"
  obtain d1 x1 where s1: "trail C (calm W) (sweepOrphanedPending (reconcileUC C) now o0) (Idle, d, ticked x, ps) =
      ((o1, None), Idle, d1, x1, ps)"
    and w1: "swept C W u (100 + (100 + (100 + 0))) (orphaned C now) (\<lambda>r. moved C StatusQueued (r_last_error r) now r)
      (map wake_up (sort_key r_created_at (filter (orphaned C now) ?T))) d (ticked x) d1 x1"
    using sweep_orphaned [OF C(1) d(1) sup d(3) n(1), of o0 ps] unfolding o1_def by blast
  have t1: "t_notifications d1 = map ?g1 ?T" and k1: "db_ok d1" "id_supply C W u (100 + (100 + (100 + 0))) x1 d1"
    using w1 by (simp_all add: swept_def)
  have g1: "good_rows d1" by (rule good_rows_map [OF d(3) t1]) (simp add: moved_def)
  have f1: "filter (stuck C now) (t_notifications d1) = filter (stuck C now) ?T"
    unfolding t1 by (rule filter_map_fixed) (auto simp: selection_defs)
  obtain d2 x2 where s2: "trail C (calm W) (sweepStuckProcessing (reconcileUC C) now o1) (Idle, d1, x1, ps) =
      ((o2, None), Idle, d2, x2, ps)"
    and w2: "swept C W u (100 + (100 + 0)) (stuck C now) (moved C StatusFailed ''worker_timeout'' now) [] d1 x1 d2 x2"
    using sweep_stuck [OF C(1) k1 g1, where now = now, unfolded f1, OF n(2), of o1 ps] unfolding o2_def by blast
  have t2: "t_notifications d2 = map (rescue C now) ?T" and k2: "db_ok d2" "id_supply C W u (100 + (100 + 0)) x2 d2"
    using w2 by (auto simp: swept_def t1 selection_defs)
  have g2: "good_rows d2" by (rule good_rows_map [OF d(3) t2]) (simp add: rescue_def moved_def)
  have f2: "filter (overdue C now) (t_notifications d2) = filter (overdue C now) ?T"
    unfolding t2 by (rule filter_map_fixed) (auto simp: selection_defs split: option.splits)
  obtain d3 x3 where s3: "trail C (calm W) (sweepOverdueRetrying (reconcileUC C) now o2) (Idle, d2, x2, ps) =
      ((o3, None), Idle, d3, x3, ps)"
    and w3: "swept C W u (100 + 0) (overdue C now) (\<lambda>r. r)
      (map wake_up (sort_key (\<lambda>r. the (r_next_retry_at r)) (filter (overdue C now) ?T))) d2 x2 d3 x3"
    using sweep_overdue [OF k2 g2, where now = now, unfolded f2, OF n(3), of o2 ps] unfolding o3_def by blast
  have t3: "t_notifications d3 = t_notifications d2" and k3: "db_ok d3" "id_supply C W u (100 + 0) x3 d3"
    using w3 by (simp_all add: swept_def)
  have g3: "good_rows d3" using g2 by (simp add: good_rows_def t3)
  have f3: "filter (stranded C now) (t_notifications d3) = filter (stranded C now) ?T"
    unfolding t3 t2 by (rule filter_map_fixed) (auto simp: selection_defs late split: option.splits)
  obtain d4 x4 where s4: "trail C (calm W) (sweepStuckQueued (reconcileUC C) now o3) (Idle, d3, x3, ps) =
      ((o4, None), Idle, d4, x4, ps)"
    and w4: "swept C W u 0 (stranded C now) (\<lambda>r. r)
      (map wake_up (sort_key r_updated_at (filter (stranded C now) ?T))) d3 x3 d4 x4"
    using sweep_stranded [OF k3 g3, where now = now, unfolded f3, OF n(4), of o3 ps] unfolding o4_def by blast
  have "trail C (calm W) (ReconcileStuckNotifications_Execute (reconcileUC C)) (Idle, d, x, ps) = ((o4, None), Idle, d4, x4, ps)"
    using s1 s2 s3 s4
    by (simp add: ReconcileStuckNotifications_Execute_def and_then_def trail_rules real_Clock_def now o0_def)
  moreover have "t_notifications d4 = map (rescue C now) ?T" using w4 by (simp add: swept_def t3 t2)
  moreover have "cs_tasks x4 = cs_tasks x @ map wake_up (sort_key r_created_at (filter (orphaned C now) ?T) @
      sort_key (\<lambda>r. the (r_next_retry_at r)) (filter (overdue C now) ?T) @ sort_key r_updated_at (filter (stranded C now) ?T))"
    using w1 w2 w3 w4 by (simp add: swept_def)
  ultimately show ?thesis by (auto simp: o0_def o1_def o2_def o3_def o4_def)
qed

end
