(* ===== verification/Cancel_Run.thy ===== *)
theory Cancel_Run
  imports Reconcile_Run
begin

text \<open>
  Reading and cancelling a notification: what the API answers and what it leaves in the tables,
  in a calm world when the row can be cancelled, in any world when it cannot.
\<close>

section \<open>Reading\<close>

lemma trail_get:
  assumes r: "db_ok d" "r \<in> set (t_notifications d)" "wf_id (r_id r)" and nid: "parseUUID C nid = Inr (r_id r)"
  shows "trail C (calm W) (NotificationRepository_Get C nid) (h, d, x, ps) =
    (Inr (entity_of r), h, d, x, ps)"
proof -
  have i: "r_id r \<noteq> None" using r(3) by (auto simp: wf_id_def)
  with nid filter_the_row [OF r(1,2)] notificationFromRow_total [OF i] show ?thesis
    by (simp add: NotificationRepository_Get_def trail_rules query_one_def first_row_def)
qed

section \<open>Cancelling\<close>

lemma cancelNotif_simps [simp]:
  "xn_repo (cancelNotif C) = pg_NotificationRepository C" "xn_logRepo (cancelNotif C) = pg_NotificationLogRepository C"
  "xn_queue (cancelNotif C) = asynq_Queue" "xn_idGen (cancelNotif C) = uuid_IDGenerator"
  "xn_clock (cancelNotif C) = real_Clock"
  by (simp_all add: cancelNotif_def)

lemma trail_cancel_on: "trail C (calm W) (cancel_on nid tid qs) w = (None, w)"
  by (induction qs arbitrary: w) (auto split: prod.splits)

lemma trail_cancel:
  assumes C: "codec_ok C" and r: "db_ok d" "r \<in> set (t_notifications d)" "wf_id (r_id r)" "r_correlation_id r \<noteq> []"
    and nid: "parseUUID C nid = Inr (r_id r)" and W: "id_supply C W u 2 x d" and st: "CanTransitionTo (r_status r) StatusCancelled"
    and q: "q = moved C StatusCancelled (r_last_error r) (w_now W (cs_calls x)) r"
  shows "\<exists>n l. trail C (calm W) (CancelNotification_Execute (cancelNotif C) nid) (Idle, d, x, ps) =
      (Inr n, Idle, d\<lparr>t_notifications := replace_row q (t_notifications d), t_logs := t_logs d @ [l]\<rparr>,
       ticked (ticked x), ps) \<and>
    n_ID n = n_ID (entity_of r) \<and> n_Status n = StatusCancelled \<and>
    lr_event l = LogEventCancelled \<and> lr_notification_id l = r_id r \<and> lr_id l = Some (u (cs_calls x + 1))"
proof -
  let ?t = "w_now W (cs_calls x)" and ?l = "log_line C (u (cs_calls x + 1)) (r_id r) (r_correlation_id r) LogEventCancelled (w_now W (cs_calls x))"
  let ?n = "(entity_of r)\<lparr>n_Status := StatusCancelled, n_UpdatedAt := ?t\<rparr>"
  let ?d = "d\<lparr>t_notifications := replace_row q (t_notifications d)\<rparr>"
  have i: "r_id r \<noteq> None" using r(3) by (auto simp: wf_id_def)
  note f = entity_of_fields [OF i] and id = entity_of_id [OF C r(3)]
  have "written C ?n r = q" by (simp add: written_def moved_def q f)
  then have upd: "trail C (calm W) (NotificationRepository_UpdateStatus C ?n (r_status r)) (Idle, d, y, ps) =
      (None, Idle, ?d, y, ps)" for y
    using trail_update [OF r(1,2) i, of C ?n "r_status r" Idle] id by simp
  have sup: "id_supply C W u 1 (ticked x) ?d" by (rule id_supply_later [OF W]) simp_all
  have log: "trail C (calm W) (NotificationLogRepository_Append C
      \<lparr>l_ID = w_id W (cs_calls x + 1), l_NotificationID = n_ID (entity_of r), l_CorrelationID = r_correlation_id r,
       l_Event = LogEventCancelled, l_Details = None, l_CreatedAt = ?t\<rparr>) (Idle, ?d, y, ps) =
      (None, Idle, ?d\<lparr>t_logs := t_logs d @ [?l]\<rparr>, y, ps)" for y
    using trail_entry [OF sup, of "cs_calls x + 1", OF _ _ id(1) r(3)] r(2) by simp
  have "w_id W (cs_calls x + 1) \<noteq> []" using supplyD(1) [OF W] by simp
  then have "trail C (calm W) (CancelNotification_Execute (cancelNotif C) nid) (Idle, d, x, ps) =
      (Inr ?n, Idle, ?d\<lparr>t_logs := t_logs d @ [?l]\<rparr>, ticked (ticked x), ps)"
    using trail_get [OF r(1-3) nid] upd log st id(2) r(4) f
    by (simp add: CancelNotification_Execute_def trail_rules pg_NotificationRepository_def real_Clock_def
        uuid_IDGenerator_def pg_NotificationLogRepository_def asynq_Queue_def AsynqQueue_Cancel_def
        trail_cancel_on Cancel_def transition_def NewNotificationLog_def LogEvent_IsValid_def Let_def)
  then show ?thesis by (intro exI [of _ ?n] exI [of _ ?l]) simp
qed

text \<open>A row that is processing or settled is refused, whatever the driver, the clock and the
  generator do: nothing is written.\<close>

lemma trail_get_any:
  assumes r: "db_ok d" "r \<in> set (t_notifications d)" "wf_id (r_id r)" and nid: "parseUUID C nid = Inr (r_id r)"
    and g: "trail C H (NotificationRepository_Get C nid) (h, d, x, ps) = (res, h', d', x', ps')"
  shows "h' = h \<and> d' = d \<and> ps' = ps \<and> (res = Inr (entity_of r) \<or> (\<exists>e. res = Inl e))"
proof -
  have i: "r_id r \<noteq> None" using r(3) by (auto simp: wf_id_def)
  with g nid filter_the_row [OF r(1,2)] notificationFromRow_total [OF i] show ?thesis
    by (auto simp: NotificationRepository_Get_def trail_rules query_one_def first_row_def faulty_def
        split: prod.splits sum.splits fault.splits if_splits)
qed

lemma cancel_refused:
  assumes r: "db_ok d" "r \<in> set (t_notifications d)" "wf_id (r_id r)" and nid: "parseUUID C nid = Inr (r_id r)"
    and st: "\<not> CanTransitionTo (r_status r) StatusCancelled"
    and run: "trail C H (CancelNotification_Execute (cancelNotif C) nid) (Idle, d, x, ps) =
      (res, h', d', x', ps')"
  shows "d' = d \<and> ps' = ps \<and> (\<exists>e. res = Inl e)"
proof -
  have i: "r_id r \<noteq> None" using r(3) by (auto simp: wf_id_def)
  obtain a h1 d1 x1 ps1 where g: "trail C H (NotificationRepository_Get C nid) (Idle, d, x, ps) =
      (a, h1, d1, x1, ps1)" by (rule prod_cases5)
  note found = trail_get_any [OF r nid g]
  have "Cancel (entity_of r) t = (Some (Errorf (''%w: %s '' @ [CHR 0xE2, CHR 0x86, CHR 0x92] @ '' %s'')
      [r_status r, StatusCancelled] (Sent ErrInvalidTransition)), entity_of r)" for t
    using st entity_of_fields(1) [OF i] by (simp add: Cancel_def transition_def)
  with run g found show ?thesis
    by (auto simp: CancelNotification_Execute_def trail_rules pg_NotificationRepository_def real_Clock_def Let_def
        split: prod.splits)
qed

end
