(* ===== verification/Scenario.thy ===== *)
theory Scenario
  imports Guarantees Attempt Intake_Run Cancel_Run
begin

text \<open>
  A concrete world: a driver codec that satisfies \<open>codec_ok\<close>, a calm world with numbered
  identifiers, and the states that a request, a delivery attempt and a cancellation lead to in it.
  They are reachable, so what is shown of reachable states is shown of them.
\<close>

section \<open>A codec\<close>

definition unhex :: "char \<Rightarrow> nat option" where
  "unhex c =
     (let n = (of_char c :: nat) in
      if 48 \<le> n \<and> n \<le> 57 then Some (n - 48)
      else if 97 \<le> n \<and> n \<le> 102 then Some (n - 87)
      else if 65 \<le> n \<and> n \<le> 70 then Some (n - 55)
      else None)"

fun hex_pairs :: "string \<Rightarrow> 8 word list option" where
  "hex_pairs [] = Some []"
| "hex_pairs (a # b # cs) =
     (case (unhex a, unhex b, hex_pairs cs) of
        (Some x, Some y, Some bs) \<Rightarrow> Some (word_of_nat (16 * x + y) # bs)
      | _ \<Rightarrow> None)"
| "hex_pairs [_] = None"

definition scan_uuid :: "string \<Rightarrow> gerror + uuid" where
  "scan_uuid s =
     (case hex_pairs (filter (\<lambda>c. c \<noteq> CHR ''-'') s) of
        Some u \<Rightarrow> (if length u = 16 then Inr u else Inl (Opaque ''cannot parse UUID''))
      | None \<Rightarrow> Inl (Opaque ''cannot parse UUID''))"

definition digits_value :: "string \<Rightarrow> int" where
  "digits_value s = foldl (\<lambda>v c. 10 * v + (of_char c - 48)) 0 s"

definition plain_codec :: pg_codec where
  "plain_codec =
     \<lparr>uuid_Scan = scan_uuid, ts_store = id, collation_key = map (\<lambda>c. of_char c),
      json_Marshal = (\<lambda>_. Inr ''{}''), json_Unmarshal = (\<lambda>_. Inr None), jsonb_store = id,
      format_RFC3339Nano = strconv_Itoa,
      parse_RFC3339Nano = (\<lambda>s. Inr (if prefix ''-'' s then - digits_value (tl s) else digits_value s))\<rparr>"

lemma unhex_digit: "n < 16 \<Longrightarrow> unhex (hex_digit n) = Some n"
  by (auto simp: unhex_def hex_digit_def Let_def)

lemma hex_digit_no_dash: "n < 16 \<Longrightarrow> hex_digit n \<noteq> CHR ''-''"
  using unhex_digit [of n] by (auto simp: unhex_def)

lemma byte_digits: "word_of_nat (16 * (unat (b :: 8 word) div 16) + unat b mod 16) = b"
  by (simp add: mult_div_mod_eq)

lemma byte_high: "unat (b :: 8 word) div 16 < 16"
  using unsigned_less [of b, where ?'a = nat] by (simp add: less_mult_imp_div_less)

lemma hex_pairs_hex_bytes: "hex_pairs (hex_bytes bs) = Some bs"
  by (induction bs) (simp_all add: hex_bytes_def unhex_digit byte_high byte_digits)

lemma hex_bytes_no_dash: "filter (\<lambda>c. c \<noteq> CHR ''-'') (hex_bytes bs) = hex_bytes bs"
  by (induction bs) (simp_all add: hex_bytes_def hex_digit_no_dash byte_high)

lemma hex_bytes_append: "hex_bytes (xs @ ys) = hex_bytes xs @ hex_bytes ys"
  by (simp add: hex_bytes_def)

lemma slices_16:
  assumes "length u = 16"
  shows "slice 0 4 u @ slice 4 6 u @ slice 6 8 u @ slice 8 10 u @ slice 10 16 u = u"
proof -
  have "slice 10 16 u = drop 10 u" using assms by (simp add: slice_def)
  moreover have "slice 8 10 u @ drop 10 u = drop 8 u"
    unfolding slice_def using append_take_drop_id [of 2 "drop 8 u"] by simp
  moreover have "slice 6 8 u @ drop 8 u = drop 6 u"
    unfolding slice_def using append_take_drop_id [of 2 "drop 6 u"] by simp
  moreover have "slice 4 6 u @ drop 6 u = drop 4 u"
    unfolding slice_def using append_take_drop_id [of 2 "drop 4 u"] by simp
  moreover have "slice 0 4 u @ drop 4 u = u" by (simp add: slice_def)
  ultimately show ?thesis by simp
qed

lemma plain_codec_ok: "codec_ok plain_codec"
proof -
  have "scan_uuid s = Inr u" if u: "length u = 16" and s: "uuidToString (Some u) = Inr s" for u s
  proof -
    have "filter (\<lambda>c. c \<noteq> CHR ''-'') s = hex_bytes u"
      using s by (auto simp: uuidToString_def hex_bytes_no_dash simp flip: hex_bytes_append)
        (simp add: slices_16 [OF u])
    with u show ?thesis by (simp add: scan_uuid_def hex_pairs_hex_bytes)
  qed
  then show ?thesis
    by (auto simp: codec_ok_def plain_codec_def scan_uuid_def split: option.splits if_splits)
qed

section \<open>A world\<close>

text \<open>Calls are numbered; identifiers and the clock follow the number, the provider answers
  \<open>code\<close>.\<close>

definition numbered_uuid :: "nat \<Rightarrow> uuid" where
  "numbered_uuid n = replicate 14 0 @ [word_of_nat (n div 256), word_of_nat (n mod 256)]"

definition numbered_id :: "nat \<Rightarrow> string" where
  "numbered_id n = projr (uuidToString (Some (numbered_uuid n)))"

definition numbered_world :: "int \<Rightarrow> world" where
  "numbered_world code =
     \<lparr>w_now = (\<lambda>n. 1000 * int n), w_id = numbered_id, w_limit = (1, 0), w_admit = Inr 0,
      w_http = (\<lambda>_. Inr \<lparr>hr_code = code, hr_status = ''status'', hr_body = Some ''body'', hr_message_id = ''m1''\<rparr>)\<rparr>"

definition calls :: "nat \<Rightarrow> asynq_task list \<Rightarrow> (string \<times> string) list \<Rightarrow> calm_state" where
  "calls n ts us = \<lparr>cs_calls = n, cs_tasks = ts, cs_published = us, cs_redis = Map.empty\<rparr>"

lemma numbered_world_simps [simp]:
  "w_now (numbered_world code) n = 1000 * int n" "w_id (numbered_world code) n = numbered_id n"
  "w_limit (numbered_world code) = (1, 0)" "w_admit (numbered_world code) = Inr 0"
  "accepted (w_http (numbered_world code) q) \<longleftrightarrow> 200 \<le> code \<and> code < 300"
  "refused (w_http (numbered_world code) q) \<longleftrightarrow> 400 \<le> code \<and> code < 500"
  by (simp_all add: numbered_world_def accepted_def refused_def)

lemma calls_simps [simp]:
  "cs_calls (calls n ts us) = n" "cs_tasks (calls n ts us) = ts" "cs_published (calls n ts us) = us"
  by (simp_all add: calls_def)

lemma numbered_print: "uuidToString (Some (numbered_uuid n)) = Inr (numbered_id n)"
  by (simp add: numbered_id_def uuidToString_def)

lemma numbered_id_nonempty: "numbered_id n \<noteq> []"
  by (simp add: numbered_id_def uuidToString_def)

lemma numbered_scan: "uuid_Scan plain_codec (numbered_id n) = Inr (numbered_uuid n)"
proof -
  have "length (numbered_uuid n) = 16" by (simp add: numbered_uuid_def)
  with numbered_print [of n] plain_codec_ok show ?thesis unfolding codec_ok_def by blast
qed

lemma numbered_inj: "m < 65536 \<Longrightarrow> n < 65536 \<Longrightarrow> numbered_uuid m = numbered_uuid n \<Longrightarrow> m = n"
proof -
  assume small: "m < 65536" "n < 65536" and "numbered_uuid m = numbered_uuid n"
  then have "m div 256 = n div 256" "m mod 256 = n mod 256"
    by (auto simp: numbered_uuid_def word_of_nat_eq_iff take_bit_eq_mod)
  then show "m = n" by (metis div_mult_mod_eq)
qed

lemma numbered_supply:
  assumes "used_ids d \<subseteq> Some ` numbered_uuid ` {..< cs_calls x}" and "cs_calls x + m \<le> 65536"
  shows "id_supply plain_codec (numbered_world code) numbered_uuid m x d"
proof -
  have "Some (numbered_uuid n) \<notin> used_ids d" if "cs_calls x \<le> n" "n < cs_calls x + m" for n
  proof
    assume "Some (numbered_uuid n) \<in> used_ids d"
    with assms(1) obtain k where "k < cs_calls x" "numbered_uuid n = numbered_uuid k" by auto
    with numbered_inj [of n k] that assms(2) show False by simp
  qed
  with assms(2) show ?thesis
    by (auto simp: id_supply_def inj_on_def numbered_world_def numbered_scan numbered_id_nonempty dest: numbered_inj [rotated 2])
qed

section \<open>A request and its delivery\<close>

definition no_templates :: template_engine where
  "no_templates = \<lparr>te_parse = (\<lambda>_ _. None), te_execute = (\<lambda>_ b _. Inr b)\<rparr>"

definition sms_input :: CreateNotificationInput where
  "sms_input = \<lparr>ci_Channel = ''sms'', ci_Priority = ''high'', ci_Recipient = ''+905551112233'',
     ci_Content = ''hello'', ci_IdempotencyKey = [], ci_CorrelationID = ''c'', ci_ScheduledAt = None,
     ci_TemplateID = None, ci_TemplateVariables = Map.empty\<rparr>"

definition hook_config :: worker_config where
  "hook_config = \<lparr>wc_webhook = \<lparr>wp_url = ''http://hook'', wp_url_error = None\<rparr>,
     wc_limiter = \<lparr>rl_limit = 100, rl_window = Second\<rparr>\<rparr>"

lemma hook_config_simps [simp]: "wp_url_error (wc_webhook hook_config) = None"
  by (simp add: hook_config_def)

definition sms_row :: NotificationRow where
  "sms_row = queued_row plain_codec sms_input ''sms'' ''high'' (numbered_uuid 1) 0"

lemma sms_ok:
  "NewChannel (ci_Channel sms_input) = Inr ''sms''" "NewPriority (ci_Priority sms_input) = Inr ''high''"
  "recipient_ok ''sms'' (ci_Recipient sms_input)" "content_ok ''sms'' (ci_Content sms_input)"
  "ci_CorrelationID sms_input \<noteq> []" "ci_TemplateID sms_input = None" "ci_IdempotencyKey sms_input = []"
proof -
  have "validateRecipient ''sms'' ''+905551112233'' = None" by code_simp
  then show "recipient_ok ''sms'' (ci_Recipient sms_input)"
    using validateRecipient_None [of "''sms''" "''+905551112233''"] by (simp add: sms_input_def Channel_IsValid_def)
  have "validateContent ''sms'' ''hello'' = None" by code_simp
  then show "content_ok ''sms'' (ci_Content sms_input)"
    using validateContent_None [of "''sms''" "''hello''"] by (simp add: sms_input_def Channel_IsValid_def)
qed (code_simp | simp add: sms_input_def)+

lemma sms_row_simps [simp]:
  "r_id sms_row = Some (numbered_uuid 1)" "r_status sms_row = StatusQueued" "r_attempts sms_row = 0"
  "r_correlation_id sms_row = ''c''" "r_channel sms_row = ''sms''"
  by (simp_all add: sms_row_def queued_row_def requested_row_def store_row_def sms_input_def)

lemma empty_ready:
  "m \<le> 65536 \<Longrightarrow> id_supply plain_codec (numbered_world code) numbered_uuid m (calls 0 [] []) (y_db initial_system)"
  "db_ok (y_db initial_system)" "key_free (y_db initial_system) (ci_IdempotencyKey sms_input)"
  by (auto simp: used_ids_def initial_system_def db_ok_def key_free_def intro!: numbered_supply)

lemma sms_create:
  obtains n logs x where
    "trail plain_codec (calm (numbered_world code)) (CreateNotification_Execute no_templates (createNotif plain_codec) sms_input)
       (Idle, y_db initial_system, calls 0 [] [], []) =
     (Inr n, Idle, \<lparr>t_notifications = [sms_row], t_batches = [], t_templates = [], t_logs = logs\<rparr>, x, [])"
    "n_ID n = numbered_id 1" "n_Status n = StatusQueued" "map lr_id logs = [Some (numbered_uuid 2), Some (numbered_uuid 3)]"
    "cs_tasks x = [NewProcessNotificationTask (numbered_id 1) ''high'' []]"
proof -
  let ?d = "y_db initial_system" and ?W = "numbered_world code"
  have "id_supply plain_codec ?W numbered_uuid 4 (calls 0 [] []) ?d" by (rule empty_ready) simp
  from trail_create [OF plain_codec_ok empty_ready(2) this sms_ok(1-6) empty_ready(3) refl refl, where E = no_templates and ps = "[]"]
  obtain n logs x where "trail plain_codec (calm ?W) (CreateNotification_Execute no_templates (createNotif plain_codec) sms_input)
       (Idle, ?d, calls 0 [] [], []) =
     (Inr n, Idle, ?d\<lparr>t_notifications := t_notifications ?d @ [sms_row], t_logs := t_logs ?d @ logs\<rparr>, x, [])"
    "n_ID n = numbered_id 1" "n_Status n = StatusQueued" "map lr_id logs = [Some (numbered_uuid 2), Some (numbered_uuid 3)]"
    "cs_tasks x = [task_for sms_input ''high'' (numbered_id 1)]"
    by (fastforce simp: sms_ok db_ok_def initial_system_def key_free_def calls_def sms_row_def numbered_world_def numeral_eq_Suc)
  then show ?thesis
    by (intro that) (simp_all add: initial_system_def task_for_def sms_input_def)
qed

text \<open>The same as states of the system. A later run may start its count of calls anywhere above the
  identifiers in use.\<close>

lemma trail_discard: "trail C H p w = (r, w') \<Longrightarrow> trail C H (discard p) w = ((), w')"
  by (simp add: discard_def trail_rules)

definition sms_db :: "NotificationRow \<Rightarrow> NotificationLogRow list \<Rightarrow> db" where
  "sms_db r logs = \<lparr>t_notifications = [r], t_batches = [], t_templates = [], t_logs = logs\<rparr>"

lemma sms_db_simps [simp]:
  "t_notifications (sms_db r logs) = [r]" "t_logs (sms_db r logs) = logs"
  "(sms_db r logs)\<lparr>t_notifications := [q], t_logs := logs'\<rparr> = sms_db q logs'"
  by (simp_all add: sms_db_def)

definition sms_state :: "NotificationRow \<Rightarrow> post list \<Rightarrow> nat \<Rightarrow> system \<Rightarrow> bool" where
  "sms_state r ps n s \<longleftrightarrow> reachable plain_codec no_templates hook_config s \<and> y_posts s = ps \<and>
     (\<exists>logs. y_db s = sms_db r logs \<and> lr_id ` set logs \<subseteq> Some ` numbered_uuid ` {..< n}) \<and>
     r_id r = Some (numbered_uuid 1) \<and> r_correlation_id r \<noteq> [] \<and> r_channel r = ''sms''"

lemma sms_stateE:
  assumes "sms_state r ps n s" and "1 < n"
  obtains logs where "reachable plain_codec no_templates hook_config \<lparr>y_db = sms_db r logs, y_procs = y_procs s, y_posts = ps\<rparr>"
    "lr_id ` set logs \<subseteq> Some ` numbered_uuid ` {..< n}"
    "\<forall>code m. n + m \<le> 65536 \<longrightarrow> id_supply plain_codec (numbered_world code) numbered_uuid m (calls n [] []) (sms_db r logs)"
    "db_ok (sms_db r logs)" "wf_id (r_id r)" "n_ID (entity_of r) = numbered_id 1"
proof -
  from assms(1) obtain logs where r: "reachable plain_codec no_templates hook_config s" "y_posts s = ps"
    "y_db s = sms_db r logs" "lr_id ` set logs \<subseteq> Some ` numbered_uuid ` {..< n}" "r_id r = Some (numbered_uuid 1)"
    unfolding sms_state_def by blast
  have "\<lparr>y_db = sms_db r logs, y_procs = y_procs s, y_posts = ps\<rparr> = s" using r(2,3) by simp
  with r(1) have s: "reachable plain_codec no_templates hook_config \<lparr>y_db = sms_db r logs, y_procs = y_procs s, y_posts = ps\<rparr>"
    by simp
  have "used_ids (sms_db r logs) \<subseteq> Some ` numbered_uuid ` {..< n}" using r(4,5) assms(2) by (auto simp: used_ids_def)
  then have sup: "id_supply plain_codec (numbered_world code) numbered_uuid m (calls n [] []) (sms_db r logs)"
    if "n + m \<le> 65536" for code m using that by (intro numbered_supply) (simp_all add: calls_def)
  have "n_ID (entity_of r) = numbered_id 1"
    using entity_of_fields(11) [of r] r(5) numbered_print [of 1] by simp
  moreover have "wf_id (r_id r)" using r(5) by (simp add: wf_id_def numbered_uuid_def)
  moreover have "db_ok (sms_db r logs)" by (simp add: db_ok_def)
  ultimately show ?thesis using that s r(4) sup by blast
qed

lemma sms_stateI:
  assumes "reachable plain_codec no_templates hook_config \<lparr>y_db = sms_db r logs, y_procs = procs, y_posts = ps\<rparr>"
    and "lr_id ` set logs \<subseteq> Some ` numbered_uuid ` {..< n}"
    and "r_id r = Some (numbered_uuid 1)" "r_correlation_id r \<noteq> []" "r_channel r = ''sms''"
  shows "\<exists>s. sms_state r ps n s"
  using assms unfolding sms_state_def by (metis system.select_convs(1,3))

lemma sms_db_ready:
  "db_ok (sms_db sms_row [])" "sms_row \<in> set (t_notifications (sms_db sms_row []))" "wf_id (r_id sms_row)"
  "parseUUID plain_codec (numbered_id 1) = Inr (r_id sms_row)"
  by (simp_all add: db_ok_def parseUUID_def numbered_scan wf_id_def) (simp add: numbered_uuid_def)

lemma sms_db_supply:
  assumes "1 < n" and "n + m \<le> 65536"
  shows "id_supply plain_codec (numbered_world code) numbered_uuid m (calls n [] []) (sms_db sms_row [])"
proof -
  have "used_ids (sms_db sms_row []) \<subseteq> Some ` numbered_uuid ` {..< n}" using assms(1) by (auto simp: used_ids_def)
  then show ?thesis using assms(2) by (intro numbered_supply) (simp_all add: calls_def)
qed

lemma sms_queued: "\<exists>s. sms_state sms_row [] 4 s"
proof -
  obtain n logs x where c: "trail plain_codec (calm (numbered_world 202))
       (CreateNotification_Execute no_templates (createNotif plain_codec) sms_input)
       (Idle, y_db initial_system, calls 0 [] [], []) = (Inr n, Idle, sms_db sms_row logs, x, [])"
    and logs: "map lr_id logs = [Some (numbered_uuid 2), Some (numbered_uuid 3)]"
    using sms_create [of 202] unfolding sms_db_def by metis
  have "reachable plain_codec no_templates hook_config \<lparr>y_db = y_db initial_system, y_procs = [], y_posts = []\<rparr>"
    by (simp add: reachable_def initial_system_def)
  from serve_reachable [OF this serve_create trail_discard [OF c]] show ?thesis
    by (rule sms_stateI) (use arg_cong [OF logs, of set] in auto)
qed

lemma sms_attempt:
  assumes st: "sms_state r ps n s" "1 < n" "n \<le> 200" and r: "r_status r \<in> {StatusQueued, StatusRetrying}" "r_attempts r \<noteq> int4_max"
  shows "\<exists>s'. sms_state (attempt_row plain_codec (numbered_world code) hook_config (calls n [] []) r)
    (ps @ [\<lparr>p_id = r_id r, p_attempt = r_attempts r + 1, p_request = webhook_request (wc_webhook hook_config) r,
       p_answer = w_http (numbered_world code) (webhook_request (wc_webhook hook_config) r)\<rparr>]) (n + 8) s'"
proof -
  let ?W = "numbered_world code" and ?p = "webhook_request (wc_webhook hook_config) r"
  have f: "r_correlation_id r \<noteq> []" "r_channel r = ''sms''" "r_id r = Some (numbered_uuid 1)"
    using st(1) by (auto simp: sms_state_def)
  obtain logs where d: "reachable plain_codec no_templates hook_config \<lparr>y_db = sms_db r logs, y_procs = y_procs s, y_posts = ps\<rparr>"
    "lr_id ` set logs \<subseteq> Some ` numbered_uuid ` {..< n}"
    "\<forall>code m. n + m \<le> 65536 \<longrightarrow> id_supply plain_codec (numbered_world code) numbered_uuid m (calls n [] []) (sms_db r logs)"
    "db_ok (sms_db r logs)" "wf_id (r_id r)" "n_ID (entity_of r) = numbered_id 1"
    by (rule sms_stateE [OF st(1,2)])
  have sup: "id_supply plain_codec ?W numbered_uuid 8 (calls n [] []) (sms_db r logs)" using st(3) d(3) by simp
  note run = trail_process [OF plain_codec_ok d(4) _ d(5) entity_of_id(1) [OF plain_codec_ok d(5)] r f(1) _ sup _ _ _ refl refl, where cfg = hook_config
      and ps = ps and ctx = "[]" and g = 0]
  obtain res logs' x' where t: "trail plain_codec (calm ?W) (ProcessNotification_Execute (processUC plain_codec hook_config) []
        (n_ID (entity_of r))) (Idle, sms_db r logs, calls n [] [], ps) =
      (res, Idle, (sms_db r logs)\<lparr>t_notifications := replace_row (attempt_row plain_codec ?W hook_config (calls n [] []) r)
         (t_notifications (sms_db r logs)), t_logs := t_logs (sms_db r logs) @ logs'\<rparr>, x',
       ps @ [\<lparr>p_id = r_id r, p_attempt = r_attempts r + 1, p_request = ?p, p_answer = w_http ?W ?p\<rparr>])"
    and ids: "map lr_id logs' = [Some (numbered_uuid (n + 1)), Some (numbered_uuid (n + 7))]"
    using run f(2) by (auto simp: numbered_world_def hook_config_def calls_def)
  have row: "r_id (attempt_row plain_codec ?W hook_config (calls n [] []) r) = r_id r"
    "r_correlation_id (attempt_row plain_codec ?W hook_config (calls n [] []) r) = r_correlation_id r"
    "r_channel (attempt_row plain_codec ?W hook_config (calls n [] []) r) = r_channel r"
    by (simp_all add: attempt_row_def settled_def Let_def)
  have h: "HandleProcessNotification (Inr (numbered_id 1)) (ProcessNotification_Execute (processUC plain_codec hook_config) []) =
      ProcessNotification_Execute (processUC plain_codec hook_config) [] (n_ID (entity_of r))"
    by (simp add: HandleProcessNotification_def numbered_id_nonempty d(6))
  note t' = trail_discard [OF t, folded h]
  have "lr_id ` set logs' = {Some (numbered_uuid (n + 1)), Some (numbered_uuid (n + 7))}"
    using arg_cong [OF ids, of set] by simp
  then have "lr_id ` set logs' \<subseteq> Some ` numbered_uuid ` {..< n + 8}" by simp
  moreover have "Some ` numbered_uuid ` {..< n} \<subseteq> Some ` numbered_uuid ` {..< n + 8}" by (intro image_mono) simp
  ultimately have ids: "lr_id ` set (logs @ logs') \<subseteq> Some ` numbered_uuid ` {..< n + 8}"
    using d(2) unfolding set_append image_Un by (meson Un_least subset_trans)
  have "reachable plain_codec no_templates hook_config
      \<lparr>y_db = sms_db (attempt_row plain_codec ?W hook_config (calls n [] []) r) (logs @ logs'),
       y_procs = y_procs s @ [\<lparr>pr_hold = Idle, pr_prog = Ret ()\<rparr>],
       y_posts = ps @ [\<lparr>p_id = r_id r, p_attempt = r_attempts r + 1, p_request = ?p, p_answer = w_http ?W ?p\<rparr>]\<rparr>"
    using serve_reachable [OF d(1) serve_process t'] row by (simp add: replace_row_def)
  from sms_stateI [OF this ids] row f show ?thesis by simp
qed

text \<open>The three states the properties of the system are shown at: delivered at the first attempt,
  waiting for a retry after it, and cancelled while waiting.\<close>

lemma numbered_verdict:
  "r_status (attempt_row C (numbered_world code) cfg x r) =
    (if 200 \<le> code \<and> code < 300 then StatusDelivered
     else if 400 \<le> code \<and> code < 500 \<or> 5 \<le> sint (r_attempts r + 1) then StatusFailed else StatusRetrying)"
  "r_attempts (attempt_row C (numbered_world code) cfg x r) = r_attempts r + 1"
  by (simp_all add: attempt_row_def settled_def verdict_def numbered_world_def accepted_def refused_def Let_def)

lemma sms_answered:
  "\<exists>s r p. sms_state r [p] 12 s \<and> r_attempts r = 1 \<and> p_id p = r_id r \<and> p_attempt p = 1 \<and>
     r_status r = (if 200 \<le> (code :: int) \<and> code < 300 then StatusDelivered
       else if 400 \<le> code \<and> code < 500 then StatusFailed else StatusRetrying)"
proof -
  obtain s where "sms_state sms_row [] 4 s" using sms_queued by blast
  from sms_attempt [OF this, of code] obtain s' where
    "sms_state (attempt_row plain_codec (numbered_world code) hook_config (calls 4 [] []) sms_row)
      [\<lparr>p_id = r_id sms_row, p_attempt = 1, p_request = webhook_request (wc_webhook hook_config) sms_row,
       p_answer = w_http (numbered_world code) (webhook_request (wc_webhook hook_config) sms_row)\<rparr>] 12 s'"
    by (auto simp: int4_max_def)
  then show ?thesis
    by (intro exI conjI, assumption) (simp_all add: numbered_verdict, simp_all add: attempt_row_def settled_def Let_def)
qed

lemma sms_cancelled:
  assumes st: "sms_state r ps n s" "1 < n" "n \<le> 200" and r: "CanTransitionTo (r_status r) StatusCancelled"
  shows "\<exists>s' q. sms_state q ps (n + 2) s' \<and> r_status q = StatusCancelled"
proof -
  let ?W = "numbered_world 202" and ?q = "moved plain_codec StatusCancelled (r_last_error r) (1000 * int n) r"
  have f: "r_correlation_id r \<noteq> []" "r_channel r = ''sms''" "r_id r = Some (numbered_uuid 1)"
    using st(1) by (auto simp: sms_state_def)
  obtain logs where d: "reachable plain_codec no_templates hook_config \<lparr>y_db = sms_db r logs, y_procs = y_procs s, y_posts = ps\<rparr>"
    "lr_id ` set logs \<subseteq> Some ` numbered_uuid ` {..< n}"
    "\<forall>code m. n + m \<le> 65536 \<longrightarrow> id_supply plain_codec (numbered_world code) numbered_uuid m (calls n [] []) (sms_db r logs)"
    "db_ok (sms_db r logs)" "wf_id (r_id r)" "n_ID (entity_of r) = numbered_id 1"
    by (rule sms_stateE [OF st(1,2)])
  have sup: "id_supply plain_codec ?W numbered_uuid 2 (calls n [] []) (sms_db r logs)" using st(3) d(3) by simp
  obtain n' l x' where t: "trail plain_codec (calm ?W) (CancelNotification_Execute (cancelNotif plain_codec) (n_ID (entity_of r)))
      (Idle, sms_db r logs, calls n [] [], ps) = (Inr n', Idle, sms_db ?q (logs @ [l]), x', ps)"
    and l: "lr_id l = Some (numbered_uuid (n + 1))"
    using trail_cancel [OF plain_codec_ok d(4) _ d(5) f(1) entity_of_id(1) [OF plain_codec_ok d(5)] sup r refl, of ps]
    by (auto simp: replace_row_def calls_def numbered_world_def)
  have "Some ` numbered_uuid ` {..< n} \<subseteq> Some ` numbered_uuid ` {..< n + 2}" by (intro image_mono) simp
  with d(2) l have ids: "lr_id ` set (logs @ [l]) \<subseteq> Some ` numbered_uuid ` {..< n + 2}"
    by (simp add: image_Un)
  from sms_stateI [OF serve_reachable [OF d(1) serve_cancel trail_discard [OF t]] ids]
  have "\<exists>s'. sms_state ?q ps (n + 2) s'" using f by (simp add: moved_def)
  moreover have "r_status ?q = StatusCancelled" by (simp add: moved_def)
  ultimately show ?thesis by blast
qed

text \<open>A step of the system that is always possible: a reconciler starts.\<close>

definition reconciler_started :: "pg_codec \<Rightarrow> system \<Rightarrow> system" where
  "reconciler_started C s = s\<lparr>y_procs := y_procs s @
     [\<lparr>pr_hold = Idle, pr_prog = discard (ReconcileStuckNotifications_Execute (reconcileUC C))\<rparr>]\<rparr>"

lemma reconciler_starts: "step C E cfg s (reconciler_started C s)"
  unfolding reconciler_started_def by (rule step_start) (rule serve_reconcile)

end
