(* ===== verification/Pagination.thy ===== *)
theory Pagination
  imports Scenario
begin

text \<open>
  The keyset pagination of \<open>GET /notifications\<close>: a client that follows the cursors of
  \<open>ListNotifications\<close> page by page. The cursor is the base64 text of the last row's creation
  time and identifier.
\<close>

section \<open>The cursor\<close>

text \<open>What the cursor relies on of \<open>time.Format\<close> and \<open>time.Parse\<close>, at one instant: the layout
  has no separator in it and the text parses back.\<close>

definition stamp_ok :: "pg_codec \<Rightarrow> Time \<Rightarrow> bool" where
  "stamp_ok C t \<longleftrightarrow> CHR ''|'' \<notin> set (format_RFC3339Nano C t) \<and> parse_RFC3339Nano C (format_RFC3339Nano C t) = Inr t"

lemma takeWhile_stop: "c \<notin> set xs \<Longrightarrow> takeWhile (\<lambda>x. x \<noteq> c) (xs @ c # ys) = xs"
  by (induction xs) auto

lemma decode_encodeCursor: "stamp_ok C t \<Longrightarrow> decodeCursor C (encodeCursor C t i) = Inr (t, i)"
  by (simp add: decodeCursor_def encodeCursor_def url.round_trip takeWhile_stop stamp_ok_def Let_def)

text \<open>C32: A list cursor decodes to exactly the creation time and identifier it was made from, and is
  never empty, so it cannot be taken for the first page.\<close>

theorem cursor_round_trip:
  assumes "stamp_ok C t"
  shows "decodeCursor C (encodeCursor C t i) = Inr (t, i) \<and> encodeCursor C t i \<noteq> []"
  using decode_encodeCursor [OF assms] url.not_empty by (simp add: encodeCursor_def)

lemma digit_value: "k < 10 \<Longrightarrow> (of_char (char_of (48 + k) :: char) :: int) - 48 = int k"
proof -
  assume "k < 10"
  then have "int (of_char (char_of (48 + k) :: char)) = int (48 + k)" by simp
  moreover have "int (of_char (char_of (48 + k) :: char)) = of_char (char_of (48 + k) :: char)"
    by (rule of_nat_of_char)
  ultimately show ?thesis by linarith
qed

lemma nat_digits_Itoa: "digits_value (nat_digits n) = int n \<and> CHR ''|'' \<notin> set (nat_digits n) \<and> CHR ''-'' \<notin> set (nat_digits n)"
proof (induction n rule: nat_digits.induct)
  case (1 n)
  have char: "char_of (48 + k) \<noteq> CHR ''|'' \<and> char_of (48 + k) \<noteq> CHR ''-''" if "k < 10" for k :: nat
    using digit_value [OF that] that by auto
  show ?case
  proof (cases "n < 10")
    case True
    with char [OF True] digit_value [OF True] show ?thesis
      by (auto simp: nat_digits.simps [of n] digits_value_def)
  next
    case False
    have "n mod 10 < 10" by simp
    moreover have "10 * int (n div 10) + int (n mod 10) = int n" by (simp add: zdiv_int zmod_int mult_div_mod_eq)
    ultimately show ?thesis
      using False 1 [OF False] char [of "n mod 10"] digit_value [of "n mod 10"]
      by (auto simp: nat_digits.simps [of n] digits_value_def)
  qed
qed

lemma plain_stamp: "stamp_ok plain_codec t"
proof -
  have "\<not> prefix ''-'' (nat_digits n)" for n
    using nat_digits_Itoa [of n] by (cases "nat_digits n") auto
  then show ?thesis
    using nat_digits_Itoa by (auto simp: stamp_ok_def plain_codec_def strconv_Itoa_def)
qed

theorem cursor_round_trip_witness:
  "decodeCursor plain_codec (encodeCursor plain_codec 1700 ''id|1'') = Inr (1700, ''id|1'')"
  using cursor_round_trip [OF plain_stamp, of 1700 "''id|1''"] by simp

section \<open>Lists in strictly descending order\<close>

lemma filter_below:
  assumes "sorted_wrt (\<lambda>a b. key b < (key a :: 'k :: linorder)) xs" and "k < length xs"
  shows "filter (\<lambda>x. key x < key (xs ! k)) xs = drop (Suc k) xs"
  using assms
proof (induction xs arbitrary: k)
  case (Cons x xs)
  show ?case
  proof (cases k)
    case 0
    with Cons.prems show ?thesis by (auto intro!: filter_True)
  next
    case (Suc j)
    then have j: "j < length xs" using Cons.prems(2) by simp
    then have "key (xs ! j) < key x" using Cons.prems(1) by simp
    moreover have "filter (\<lambda>y. key y < key (xs ! j)) xs = drop (Suc j) xs"
      using Cons.IH [OF _ j] Cons.prems(1) by simp
    ultimately show ?thesis using Suc by (simp add: not_less_iff_gr_or_eq)
  qed
qed simp

lemma rev_sort_filter: "filter P (rev (sort_key f xs)) = rev (sort_key f (filter P xs))"
  by (simp add: filter_sort flip: rev_filter)

lemma strictly_descending:
  assumes "distinct (map f xs)"
  shows "sorted_wrt (\<lambda>a b. f b < (f a :: 'k :: linorder)) (rev (sort_key f xs))"
proof -
  have "distinct (map f (sort_key f xs))" using assms by (simp add: distinct_map)
  then have "sorted_wrt (<) (map f (sort_key f xs))" by (simp add: strict_sorted_iff)
  then show ?thesis by (simp add: sorted_wrt_map sorted_wrt_rev)
qed

section \<open>One page\<close>

text \<open>The page size in force, the requests the parsers accept, and the rows a request asks for.\<close>

definition page_limit :: "ListNotificationsInput \<Rightarrow> nat" where
  "page_limit i = (if 0 < lni_Limit i \<and> lni_Limit i \<le> 100 then nat (lni_Limit i) else 20)"

definition valid_request :: "pg_codec \<Rightarrow> ListNotificationsInput \<Rightarrow> bool" where
  "valid_request C i \<longleftrightarrow>
     (lni_Status i \<noteq> [] \<longrightarrow> (\<exists>s. NewStatus (lni_Status i) = Inr s)) \<and>
     (lni_Channel i \<noteq> [] \<longrightarrow> (\<exists>c. NewChannel (lni_Channel i) = Inr c)) \<and>
     (\<forall>b. lni_BatchID i = Some b \<longrightarrow> (\<exists>u. uuid_Scan C b = Inr u))"

definition wanted :: "pg_codec \<Rightarrow> ListNotificationsInput \<Rightarrow> NotificationRow \<Rightarrow> bool" where
  "wanted C i r \<longleftrightarrow>
     (lni_Status i \<noteq> [] \<longrightarrow> NewStatus (lni_Status i) = Inr (r_status r)) \<and>
     (lni_Channel i \<noteq> [] \<longrightarrow> NewChannel (lni_Channel i) = Inr (r_channel r)) \<and>
     (\<forall>b. lni_BatchID i = Some b \<longrightarrow> parseUUID C b = Inr (r_batch_id r)) \<and>
     (\<forall>t. lni_CreatedAfter i = Some t \<longrightarrow> ts_store C t \<le> r_created_at r) \<and>
     (\<forall>t. lni_CreatedBefore i = Some t \<longrightarrow> r_created_at r \<le> ts_store C t)"

text \<open>The reference: the rows asked for, newest first.\<close>

definition newest_first :: "pg_codec \<Rightarrow> ListNotificationsInput \<Rightarrow> db \<Rightarrow> NotificationRow list" where
  "newest_first C i d = rev (sort_key row_key (filter (wanted C i) (t_notifications d)))"

text \<open>The cursor that asks for what follows the first \<open>k\<close> rows.\<close>

definition cursor_after :: "pg_codec \<Rightarrow> NotificationRow list \<Rightarrow> nat \<Rightarrow> string" where
  "cursor_after C rows k =
     (if k = 0 then [] else encodeCursor C (r_created_at (rows ! (k - 1))) (n_ID (entity_of (rows ! (k - 1)))))"

text \<open>Tables whose stored times survive the codec.\<close>

definition listable :: "pg_codec \<Rightarrow> db \<Rightarrow> bool" where
  "listable C d \<longleftrightarrow> codec_ok C \<and> db_ok d \<and>
     (\<forall>r \<in> set (t_notifications d). wf_id (r_id r) \<and> stamp_ok C (r_created_at r) \<and>
        ts_store C (r_created_at r) = r_created_at r)"

lemma descending_rows:
  assumes "listable C d"
  shows "sorted_wrt (\<lambda>a b. row_key b < row_key a) (newest_first C i d)"
proof -
  have "inj_on r_id (set (t_notifications d))" "distinct (t_notifications d)"
    using assms by (simp_all add: listable_def db_ok_def distinct_map)
  moreover have "inj_on row_key (set (t_notifications d))"
  proof (rule inj_onI)
    fix a b assume ab: "a \<in> set (t_notifications d)" "b \<in> set (t_notifications d)" "row_key a = row_key b"
    then have "wf_id (r_id a)" "wf_id (r_id b)" using assms by (auto simp: listable_def)
    with ab(3) have "r_id a = r_id b" by (auto simp: row_key_def row_uuid_def wf_id_def)
    with ab calculation show "a = b" by (auto dest: inj_onD)
  qed
  ultimately have "distinct (map row_key (filter (wanted C i) (t_notifications d)))"
    by (auto simp: distinct_map inj_on_def)
  then show ?thesis unfolding newest_first_def by (rule strictly_descending)
qed

text \<open>The filter the use case makes of a valid request.\<close>

definition filter_for :: "ListNotificationsInput \<Rightarrow> NotificationFilter" where
  "filter_for i =
     \<lparr>f_Status = (if lni_Status i = [] then None else Some (projr (NewStatus (lni_Status i)))),
      f_Channel = (if lni_Channel i = [] then None else Some (projr (NewChannel (lni_Channel i)))),
      f_CreatedAfter = lni_CreatedAfter i, f_CreatedBefore = lni_CreatedBefore i, f_BatchID = lni_BatchID i\<rparr>"

lemma execute_valid:
  assumes "valid_request C i"
  shows "ListNotifications_Execute repo i =
    try_val (Repo_List repo (filter_for i) (lni_Cursor i) (int (page_limit i)))
      (\<lambda>e. Inl (Errorf ''list notifications: %w'' [] e)) (\<lambda>(items, nextCursor). Ret (Inr (items, nextCursor)))"
  using assms
  by (auto simp: ListNotifications_Execute_def valid_request_def filter_for_def page_limit_def Let_def)

text \<open>The parameters of the statement when the cursor stands at the row \<open>prev\<close>, or at the beginning.\<close>

definition params_after :: "pg_codec \<Rightarrow> ListNotificationsInput \<Rightarrow> NotificationRow option \<Rightarrow> ListNotificationsParams" where
  "params_after C i prev =
     \<lparr>q_status = f_Status (filter_for i), q_channel = f_Channel (filter_for i),
      q_batch_id = (case lni_BatchID i of None \<Rightarrow> None | Some b \<Rightarrow> projr (parseUUID C b)),
      q_created_after = lni_CreatedAfter i, q_created_before = lni_CreatedBefore i,
      q_cursor_created_at = map_option r_created_at prev, q_cursor_id = (case prev of None \<Rightarrow> None | Some r \<Rightarrow> r_id r),
      q_row_limit = word_of_int (int (page_limit i) + 1)\<rparr>"

lemma params_first:
  "valid_request C i \<Longrightarrow> buildListParams C (filter_for i) [] (int (page_limit i)) = Inr (params_after C i None)"
  by (auto simp: buildListParams_def params_after_def filter_for_def valid_request_def parseUUID_def split: option.split)

lemma params_next:
  assumes "valid_request C i" and "listable C d" and "r \<in> set (t_notifications d)"
  shows "buildListParams C (filter_for i) (encodeCursor C (r_created_at r) (n_ID (entity_of r))) (int (page_limit i)) =
    Inr (params_after C i (Some r))"
proof -
  have r: "codec_ok C" "wf_id (r_id r)" "stamp_ok C (r_created_at r)" using assms(2,3) by (auto simp: listable_def)
  note facts = decode_encodeCursor [OF r(3)] entity_of_id(1) [OF r(1,2)]
  have "encodeCursor C (r_created_at r) (n_ID (entity_of r)) \<noteq> []"
    by (simp add: encodeCursor_def url.not_empty)
  with assms(1) facts show ?thesis
    by (auto simp: buildListParams_def params_after_def filter_for_def valid_request_def parseUUID_def split: option.split)
qed

lemma selects_wanted:
  assumes "valid_request C i"
  shows "list_selects C (params_after C i None) = wanted C i"
  using assms
  by (intro ext) (auto simp: list_selects_def params_after_def filter_for_def wanted_def narg_def valid_request_def parseUUID_def
      split: option.splits)

lemma selects_below:
  assumes "valid_request C i" and "listable C d" and "l \<in> set (t_notifications d)"
  shows "list_selects C (params_after C i (Some l)) r \<longleftrightarrow> wanted C i r \<and> row_key r < row_key l"
proof -
  obtain u where "r_id l = Some u" "ts_store C (r_created_at l) = r_created_at l"
    using assms(2,3) by (auto simp: listable_def wf_id_def)
  then have "list_selects C (params_after C i (Some l)) r \<longleftrightarrow>
      list_selects C (params_after C i None) r \<and> row_key r < row_key l"
    by (auto simp: list_selects_def params_after_def narg_def row_key_def row_uuid_def)
  then show ?thesis by (simp only: selects_wanted [OF assms(1)])
qed

text \<open>What the statement returns: the next rows of the reference, one more than the page holds.\<close>

lemma rows_after:
  assumes "valid_request C i" and "listable C d" and "k \<le> length (newest_first C i d)"
  shows "rev (sort_key row_key (filter (list_selects C (params_after C i
      (if k = 0 then None else Some (newest_first C i d ! (k - 1))))) (t_notifications d))) = drop k (newest_first C i d)"
proof (cases k)
  case 0
  then show ?thesis by (simp add: selects_wanted [OF assms(1)] newest_first_def)
next
  case (Suc j)
  let ?S = "newest_first C i d"
  have j: "j < length ?S" using Suc assms(3) by simp
  then have "?S ! j \<in> set ?S" by simp
  then have mem: "?S ! j \<in> set (t_notifications d)" by (simp add: newest_first_def)
  have "filter (list_selects C (params_after C i (Some (?S ! j)))) (t_notifications d) =
      filter (\<lambda>r. row_key r < row_key (?S ! j)) (filter (wanted C i) (t_notifications d))"
    unfolding filter_filter by (intro filter_cong refl selects_below [OF assms(1,2) mem])
  then have "rev (sort_key row_key (filter (list_selects C (params_after C i (Some (?S ! j)))) (t_notifications d))) =
      filter (\<lambda>r. row_key r < row_key (?S ! j)) ?S"
    by (simp only: newest_first_def rev_sort_filter)
  also have "\<dots> = drop (Suc j) ?S"
    using descending_rows [OF assms(2)] j by (rule filter_below)
  finally show ?thesis by (simp add: Suc)
qed

lemma page_limit_bounds: "1 \<le> page_limit i" "page_limit i \<le> 100"
  by (auto simp: page_limit_def)

lemma limited_page: "L \<le> 100 \<Longrightarrow> limited (word_of_int (int L + 1)) rows = Inr (take (L + 1) rows)"
proof -
  assume "L \<le> 100"
  then have "sint (word_of_int (int L + 1) :: int32) = int L + 1"
    by (subst sint_sbintrunc') (simp add: signed_take_bit_int_eq_self)
  then show ?thesis by (simp add: limited_def nat_add_distrib)
qed

lemma newest_first_ids: "listable C d \<Longrightarrow> r \<in> set (newest_first C i d) \<Longrightarrow> r \<in> set (t_notifications d) \<and> r_id r \<noteq> None"
  by (auto simp: newest_first_def listable_def wf_id_def)

lemma entity_created: "r_id r \<noteq> None \<Longrightarrow> n_CreatedAt (entity_of r) = r_created_at r"
  using notificationFromRow_total [of r]
  by (cases "r_batch_id r"; cases "r_template_id r") (auto simp: conversion_defs)

lemma paginate_rows:
  assumes "1 \<le> L" and "\<And>r. r \<in> set rest \<Longrightarrow> r_id r \<noteq> None"
  shows "paginate C (map entity_of (take (L + 1) rest)) (int L) =
    (map entity_of (take L rest), if length rest \<le> L then [] else cursor_after C rest L)"
proof (cases "length rest \<le> L")
  case False
  then have "rest ! (L - 1) \<in> set rest" using assms(1) by simp
  with False assms show ?thesis
    by (simp add: paginate_def Let_def take_map cursor_after_def entity_created nat_diff_distrib)
qed (simp add: paginate_def)

lemma one_page:
  assumes "valid_request C i" and "listable C d" and "k \<le> length (newest_first C i d)"
    and "lni_Cursor i = cursor_after C (newest_first C i d) k"
  shows "trail C (calm W) (ListNotifications_Execute (pg_NotificationRepository C) i) (h, d, x, ps) =
    (Inr (map entity_of (take (page_limit i) (drop k (newest_first C i d))),
       if length (newest_first C i d) \<le> k + page_limit i then []
       else cursor_after C (newest_first C i d) (k + page_limit i)), h, d, x, ps)"
proof -
  let ?S = "newest_first C i d" and ?L = "page_limit i"
  let ?p = "params_after C i (if k = 0 then None else Some (?S ! (k - 1)))"
  have build: "buildListParams C (filter_for i) (lni_Cursor i) (int ?L) = Inr ?p"
  proof (cases "k = 0")
    case False
    with assms(3) have "?S ! (k - 1) \<in> set ?S" by simp
    with newest_first_ids [OF assms(2)] have "?S ! (k - 1) \<in> set (t_notifications d)" by blast
    with False show ?thesis by (simp add: assms(4) cursor_after_def params_next [OF assms(1,2)])
  qed (simp add: assms(4) cursor_after_def params_first [OF assms(1)])
  have "q_row_limit ?p = word_of_int (int ?L + 1)" by (simp add: params_after_def)
  then have rows: "sql_ListNotifications C ?p d = Inr (take (?L + 1) (drop k ?S))"
    by (simp only: sql_ListNotifications_def rows_after [OF assms(1-3)] limited_page [OF page_limit_bounds(2)])
  have "list_all (\<lambda>r. r_id r \<noteq> None) (take (?L + 1) (drop k ?S))"
    using newest_first_ids [OF assms(2)] by (auto simp: list_all_iff dest!: in_set_takeD in_set_dropD)
  then have items: "rowsToNotifications (take (?L + 1) (drop k ?S)) = Inr (map entity_of (take (?L + 1) (drop k ?S)))"
    by (rule rows_entities)
  have page: "paginate C (map entity_of (take (?L + 1) (drop k ?S))) (int ?L) =
      (map entity_of (take ?L (drop k ?S)), if length (drop k ?S) \<le> ?L then [] else cursor_after C (drop k ?S) ?L)"
    using newest_first_ids [OF assms(2)] by (intro paginate_rows page_limit_bounds(1)) (auto dest: in_set_dropD)
  have "cursor_after C (drop k ?S) ?L = cursor_after C ?S (k + ?L)" if "k + ?L < length ?S"
    using that page_limit_bounds(1) [of i] by (simp add: cursor_after_def)
  with build rows items page show ?thesis
    by (auto simp: execute_valid [OF assms(1)] NotificationRepository_List_def trail_rules query_many_def pg_NotificationRepository_def
        read_query simp del: sql_ListNotifications_def)
qed

section \<open>Following the cursors\<close>

text \<open>A client that asks for the first page and then for every next one until there is no cursor.
  \<open>None\<close>: a request failed, or the client gave up after \<open>fuel\<close> requests.\<close>

primrec follow_pages ::
  "nat \<Rightarrow> pg_codec \<Rightarrow> world \<Rightarrow> ListNotificationsInput \<Rightarrow> calm_state trail_state \<Rightarrow> Notification list list option"
where
  "follow_pages 0 C W i w = None"
| "follow_pages (Suc fuel) C W i w =
     (case trail C (calm W) (ListNotifications_Execute (pg_NotificationRepository C) i) w of
        (Inl _, _) \<Rightarrow> None
      | (Inr (items, next), w) \<Rightarrow>
          if next = [] then Some [items]
          else map_option ((#) items) (follow_pages fuel C W (i\<lparr>lni_Cursor := next\<rparr>) w))"

lemma cursor_irrelevant [simp]:
  "valid_request C (i\<lparr>lni_Cursor := c\<rparr>) = valid_request C i" "newest_first C (i\<lparr>lni_Cursor := c\<rparr>) d = newest_first C i d"
  "page_limit (i\<lparr>lni_Cursor := c\<rparr>) = page_limit i"
  by (simp_all add: valid_request_def newest_first_def wanted_def [abs_def] page_limit_def)

lemma cursor_after_pos: "0 < k \<Longrightarrow> cursor_after C rows k \<noteq> []"
  by (simp add: cursor_after_def encodeCursor_def url.not_empty)

lemma pages_from:
  assumes "valid_request C i" and "listable C d" and "k \<le> length (newest_first C i d)"
    and "lni_Cursor i = cursor_after C (newest_first C i d) k" and "length (newest_first C i d) - k < fuel"
  shows "\<exists>pages. follow_pages fuel C W i (h, d, x, ps) = Some pages \<and>
    concat pages = map entity_of (drop k (newest_first C i d)) \<and> (\<forall>p \<in> set pages. length p \<le> page_limit i) \<and>
    (\<forall>p \<in> set (butlast pages). length p = page_limit i)"
  using assms
proof (induction fuel arbitrary: i k)
  case (Suc fuel)
  let ?S = "newest_first C i d" and ?L = "page_limit i"
  note page = one_page [OF Suc.prems(1-4), of W h x ps]
  show ?case
  proof (cases "length ?S \<le> k + ?L")
    case True
    then show ?thesis by (simp add: page)
  next
    case False
    let ?i = "i\<lparr>lni_Cursor := cursor_after C ?S (k + ?L)\<rparr>"
    have "\<exists>pages. follow_pages fuel C W ?i (h, d, x, ps) = Some pages \<and>
        concat pages = map entity_of (drop (k + ?L) (newest_first C ?i d)) \<and> (\<forall>p \<in> set pages. length p \<le> page_limit ?i) \<and>
        (\<forall>p \<in> set (butlast pages). length p = page_limit ?i)"
      using False Suc.prems page_limit_bounds(1) [of i] by (intro Suc.IH) simp_all
    then obtain pages where p: "follow_pages fuel C W ?i (h, d, x, ps) = Some pages"
      "concat pages = map entity_of (drop (k + ?L) ?S)" "\<forall>p \<in> set pages. length p \<le> ?L"
      "\<forall>p \<in> set (butlast pages). length p = ?L" by auto
    have "take ?L (drop k ?S) @ drop (k + ?L) ?S = drop k ?S"
      by (metis add.commute append_take_drop_id drop_drop)
    then have "map entity_of (take ?L (drop k ?S)) @ concat pages = map entity_of (drop k ?S)"
      unfolding p(2) by (simp flip: map_append)
    then show ?thesis
      using False p page_limit_bounds(1) [of i] by (auto simp: page cursor_after_pos)
  qed
qed simp


definition two_rows :: db where
  "two_rows = \<lparr>t_notifications = [sms_row, sms_row\<lparr>r_id := Some (numbered_uuid 2)\<rparr>], t_batches = [], t_templates = [], t_logs = []\<rparr>"

definition one_by_one :: ListNotificationsInput where
  "one_by_one = \<lparr>lni_Status = ''queued'', lni_Channel = [], lni_BatchID = None, lni_CreatedAfter = None,
     lni_CreatedBefore = None, lni_Cursor = [], lni_Limit = 1\<rparr>"


end
