(* ===== verification/Api.thy ===== *)
theory Api
  imports Handlers Replay Rate_Limit Pagination Cancel_Run
begin

text \<open>
  The API as \<open>cmd/api/main.go\<close> puts it together: the server's executors and the chain of
  middlewares, what posting a notification does inside it, and the wire form of stored rows.
\<close>

section \<open>Wiring\<close>

text \<open>The two readiness checks, pings answered by the environment, and the metrics registry are left to
  the caller. The JSON metrics are a constant.\<close>

definition server :: "pg_codec \<Rightarrow> template_engine \<Rightarrow> gerror option prog list \<Rightarrow> (gerror + metric_family list) prog \<Rightarrow> Server" where
  "server C E checks registry =
     \<lparr>sv_createNotification = Some (CreateNotification_Execute E (createNotif C)),
      sv_createBatch = Some (CreateBatch_Execute (createBatch C)),
      sv_getNotification = Some (GetNotification_Execute (pg_NotificationRepository C)),
      sv_listNotifications = Some (ListNotifications_Execute (pg_NotificationRepository C)),
      sv_cancelNotification = Some (CancelNotification_Execute (cancelNotif C)),
      sv_getNotificationTrace = Some (GetNotificationTrace_Execute (pg_NotificationRepository C) (pg_NotificationLogRepository C)),
      sv_getBatch = Some (GetBatch_Execute (pg_BatchRepository C)),
      sv_createTemplate = Some (CreateTemplate_Execute E (pg_TemplateRepository C) uuid_IDGenerator real_Clock),
      sv_getTemplate = Some (GetTemplate_Execute (pg_TemplateRepository C)),
      sv_listTemplates = Some (ListTemplates_Execute (pg_TemplateRepository C)),
      sv_replaceTemplate = Some (ReplaceTemplate_Execute E (pg_TemplateRepository C) real_Clock),
      sv_deleteTemplate = Some (DeleteTemplate_Execute (pg_TemplateRepository C)),
      sv_readinessChecks = checks,
      sv_prometheusGatherer = Some registry,
      sv_jsonMetrics = Some (Ret (Inr \<lparr>jm_CreatedPerMinute = 0, jm_DeliveredPerMinute = 0, jm_FailedPerMinute = 0,
        jm_QueueDepth = 0, jm_SuccessRate = None\<rparr>))\<rparr>"

definition api_chain :: "OutboundRateLimiter \<Rightarrow> handler \<Rightarrow> handler" where
  "api_chain inboundLimiter h =
     NewRouter [Some (CorrelationIDMiddleware uuid_IDGenerator), Some MetricsMiddleware,
       Some (InboundRateLimitMiddleware (redis_RateLimiter inboundLimiter) True),
       Some (IdempotencyMiddleware NewIdempotencyStore)] h"

section \<open>The chain around a handler\<close>

text \<open>In a calm world whose limiter admits the request, a request that carries a correlation id
  reaches the idempotency middleware after one reading of the clock.\<close>

lemma trail_chain:
  assumes "fst (w_limit W) = 1" and "rq_Header r correlationIDHeader = i" "i \<noteq> []"
    and "trail C (calm W) (IdempotencyMiddleware NewIdempotencyStore next (ContextWithCorrelationID r i)) (h, d, ticked x, ps) =
      (cs, h1, d1, x1, ps1)"
  shows "trail C (calm W) (api_chain limiter next r) (h, d, x, ps) =
    (Header_Set correlationIDHeader i # forwarded False cs, h1, d1, ticked x1, ps1)"
proof -
  obtain k where "w_limit W = (1, k)" using assms(1) by (cases "w_limit W") simp
  with assms(2-) show ?thesis
    by (simp add: api_chain_def CorrelationIDMiddleware_def MetricsMiddleware_def InboundRateLimitMiddleware_def
        redis_RateLimiter_def OutboundRateLimiter_Allow_def trail_bind Let_def)
qed

lemma sent_chain:
  "rp_status (sent (Header_Set k v # forwarded False cs)) = rp_status (sent cs)"
  "rp_body (sent (Header_Set k v # forwarded False cs)) = rp_body (sent cs)"
proof -
  have "sent (forwarded False cs) = sent cs" by (rule sent_forwarded)
  then have "first_status (forwarded False cs) = first_status cs" "body_of (forwarded False cs) = body_of cs"
    by (simp_all add: sent_def)
  then show "rp_status (sent (Header_Set k v # forwarded False cs)) = rp_status (sent cs)"
    "rp_body (sent (Header_Set k v # forwarded False cs)) = rp_body (sent cs)" by (simp_all add: sent_def)
qed

section \<open>Posting\<close>

definition post_notification ::
  "pg_codec \<Rightarrow> template_engine \<Rightarrow> uuid_parser \<Rightarrow> encoder \<Rightarrow> api_CreateNotificationRequest \<Rightarrow> api_Params \<Rightarrow> handler"
where
  "post_notification C E P encode q params =
     strict_handler encode (Server_CreateNotification P (server C E [] (Ret (Inr []))) (Some q) params)"

text \<open>The request is one the use case accepts.\<close>

definition acceptable :: "db \<Rightarrow> CreateNotificationInput \<Rightarrow> Channel \<Rightarrow> Priority \<Rightarrow> bool" where
  "acceptable d i ch pr \<longleftrightarrow> NewChannel (ci_Channel i) = Inr ch \<and> NewPriority (ci_Priority i) = Inr pr \<and>
     recipient_ok ch (ci_Recipient i) \<and> content_ok ch (ci_Content i) \<and> ci_CorrelationID i \<noteq> [] \<and>
     ci_TemplateID i = None \<and> key_free d (ci_IdempotencyKey i)"

lemma trail_post:
  assumes C: "codec_ok C" "db_ok d" "id_supply C W u 4 x d"
    and i: "i = fromAPICreateNotificationRequest q params" "acceptable d i ch pr"
    and P: "P (w_id W (cs_calls x + 1)) = Inr pid" and enc: "\<And>out. \<exists>t. encode (B_Notification out) = Inr t"
  shows "\<exists>out answer d' x'. trail C (calm W) (post_notification C E P encode q params r) (Idle, d, x, ps) =
      ([Header_Set ''Content-Type'' ''application/json'',
        Header_Set ''Location'' (''/api/v1/notifications/'' @ w_id W (cs_calls x + 1)),
        Header_Set ''X-Correlation-ID'' (ci_CorrelationID i), WriteHeader 202, Write answer], Idle, d', x', ps) \<and>
    encode (B_Notification out) = Inr answer \<and> an_Id out = pid \<and> an_Status out = StatusQueued \<and> an_Attempts out = 0 \<and> an_Channel out = ch \<and> an_Recipient out = ci_Recipient i \<and>
    t_notifications d' = t_notifications d @ [queued_row C i ch pr (u (cs_calls x + 1)) (w_now W (cs_calls x))] \<and>
    cs_tasks x' = cs_tasks x @ [task_for i pr (w_id W (cs_calls x + 1))]"
proof -
  let ?n = "queued_entity i ch pr (w_id W (cs_calls x + 1)) (w_now W (cs_calls x))"
  from i(2) obtain logs x' where run: "trail C (calm W) (CreateNotification_Execute E (createNotif C) i) (Idle, d, x, ps) =
      (Inr ?n, Idle, d\<lparr>t_notifications := t_notifications d @ [queued_row C i ch pr (u (cs_calls x + 1)) (w_now W (cs_calls x))],
        t_logs := t_logs d @ logs\<rparr>, x', ps)"
    and x': "cs_tasks x' = cs_tasks x @ [task_for i pr (w_id W (cs_calls x + 1))]"
    using trail_create [OF C _ _ _ _ _ _ _ refl refl, of i ch pr E ps] unfolding acceptable_def by metis
  obtain out where out: "toAPINotification P ?n = Inr out" "an_Id out = pid" "an_Status out = StatusQueued" "an_Attempts out = 0"
    "an_Channel out = ch" "an_Recipient out = ci_Recipient i"
    using P by (simp add: toAPINotification_def queued_entity_def parse_opt_def)
  obtain answer where "encode (B_Notification out) = Inr answer" using enc by blast
  moreover have "n_CorrelationID ?n = ci_CorrelationID i" by (simp add: queued_entity_def)
  ultimately show ?thesis using run x' out
    by (auto simp: post_notification_def strict_handler_def response_defs Server_CreateNotification_def server_def wired_def trail_rules
        i(1) [symmetric])
qed

text \<open>A handler that does for a request what \<open>post_notification\<close> does, posted twice with one key through
  the middleware chain: the second time its answer is replayed.\<close>

lemma post_twice:
  assumes C: "codec_ok C" "db_ok d" "id_supply C W u 4 (ticked x) d" and W: "fst (w_limit W) = 1"
    and i: "i = fromAPICreateNotificationRequest q params" "acceptable d i ch pr" "ci_IdempotencyKey i = key" "key \<noteq> []"
    and P: "P (w_id W (cs_calls x + 2)) = Inr pid" and enc: "\<And>out. \<exists>t. encode (B_Notification out) = Inr t"
    and r: "rq_Header r ''Idempotency-Key'' = key" "rq_Header r ''X-Correlation-ID'' = ci_CorrelationID i" "bufferable r"
    and r': "rq_Header r' ''Idempotency-Key'' = key" "rq_Header r' ''X-Correlation-ID'' = ci_CorrelationID i" "bufferable r'"
      "body_bytes r' = body_bytes r"
    and fresh: "cs_redis x (''idempotency:'' @ key) = None"
    and h: "h (ContextWithCorrelationID r (ci_CorrelationID i)) = post_notification C E P encode q params (ContextWithCorrelationID r (ci_CorrelationID i))"
  shows "\<exists>cs cs' d' x' x'' row.
    trail C (calm W) (api_chain limiter h r) (Idle, d, x, ps) = (cs, Idle, d', x', ps) \<and>
    trail C (calm W) (api_chain limiter h' r') (Idle, d', x', ps) = (cs', Idle, d', x'', ps) \<and>
    rp_status (sent cs) = 202 \<and> rp_status (sent cs') = 200 \<and> rp_body (sent cs') = rp_body (sent cs) \<and>
    t_notifications d' = t_notifications d @ [row] \<and> r_idempotency_key row = Some key \<and> r_status row = StatusQueued \<and>
    cs_tasks x' = cs_tasks x @ [task_for i pr (w_id W (cs_calls x + 2))] \<and> cs_tasks x'' = cs_tasks x'"
proof -
  let ?x = "ticked x" and ?c = "ci_CorrelationID i"
  let ?r = "ContextWithCorrelationID r ?c" and ?r' = "ContextWithCorrelationID r' ?c"
  let ?row = "queued_row C i ch pr (u (cs_calls x + 2)) (w_now W (cs_calls x + 1))"
  have P': "P (w_id W (cs_calls ?x + 1)) = Inr pid" using P by simp
  from trail_post [where P = P and E = E and encode = encode and r = ?r and ps = ps, OF C i(1,2) P' enc] obtain out answer d' x1 where
    run: "trail C (calm W) (h ?r) (Idle, d, ?x, ps) =
      ([Header_Set ''Content-Type'' ''application/json'',
        Header_Set ''Location'' (''/api/v1/notifications/'' @ w_id W (cs_calls x + 2)),
        Header_Set ''X-Correlation-ID'' ?c, WriteHeader 202, Write answer], Idle, d', x1, ps)"
    and d': "t_notifications d' = t_notifications d @ [?row]"
    and x1: "cs_tasks x1 = cs_tasks x @ [task_for i pr (w_id W (cs_calls x + 2))]" unfolding h by auto
  have ctx: "rq_Header (ContextWithCorrelationID s j) = rq_Header s" "bufferable (ContextWithCorrelationID s j) = bufferable s"
    "body_bytes (ContextWithCorrelationID s j) = body_bytes s" for s j
    by (simp_all add: ContextWithCorrelationID_def bufferable_def body_bytes_def)
  from replay_after_success [of ?r key ?r' ?x C W h, OF _ _ _ _ _ _ _ run] i(4) r r' fresh obtain cs x2 cs' where
    one: "trail C (calm W) (IdempotencyMiddleware NewIdempotencyStore h ?r) (Idle, d, ?x, ps) = (cs, Idle, d', x2, ps)"
      "rp_status (sent cs) = 202" "rp_body (sent cs) = answer" "cs_tasks x2 = cs_tasks x1"
    and two: "trail C (calm W) (IdempotencyMiddleware NewIdempotencyStore h' ?r') (Idle, d', ticked (ticked x2), ps) =
        (cs', Idle, d', ticked (ticked x2), ps)"
      "rp_status (sent cs') = 200" "rp_body (sent cs') = answer"
    by (auto simp: ctx sent_def is_ascii_def)
  have c: "?c \<noteq> []" using i(2) by (simp add: acceptable_def)
  note hdr = correlationIDHeader_def
  have first: "trail C (calm W) (api_chain limiter h r) (Idle, d, x, ps) =
      (Header_Set correlationIDHeader ?c # forwarded False cs, Idle, d', ticked x2, ps)"
    by (rule trail_chain [OF W _ c one(1)]) (simp add: hdr r(2))
  have second: "trail C (calm W) (api_chain limiter h' r') (Idle, d', ticked x2, ps) =
      (Header_Set correlationIDHeader ?c # forwarded False cs', Idle, d', ticked (ticked (ticked x2)), ps)"
    by (rule trail_chain [OF W _ c two(1)]) (simp add: hdr r'(2))
  have "r_idempotency_key ?row = Some key" "r_status ?row = StatusQueued"
    using i(3,4) by (simp_all add: queued_row_def requested_row_def store_row_def)
  with first second one two d' x1 show ?thesis
    by (intro exI conjI) (assumption | simp add: sent_chain)+
qed

section \<open>Wire form\<close>

text \<open>\<open>uuid.Parse\<close> accepts the canonical text of an identifier and prints it back.\<close>

definition uuid_parser_ok :: "uuid_parser \<Rightarrow> bool" where
  "uuid_parser_ok P \<longleftrightarrow> (\<forall>u s. length u = 16 \<longrightarrow> uuidToString (Some u) = Inr s \<longrightarrow> P s = Inr s)"

text \<open>Identifiers as the schema stores them: a key, and nullable references.\<close>

definition ids_stored :: "NotificationRow \<Rightarrow> bool" where
  "ids_stored r \<longleftrightarrow> wf_id (r_id r) \<and> (r_batch_id r = None \<or> wf_id (r_batch_id r)) \<and> (r_template_id r = None \<or> wf_id (r_template_id r))"

lemma parse_printed:
  assumes "uuid_parser_ok P" and "wf_id i"
  obtains s where "uuidToString i = Inr s" "P s = Inr s"
proof -
  obtain u where u: "i = Some u" "length u = 16" using assms(2) by (auto simp: wf_id_def)
  obtain s where s: "uuidToString (Some u) = Inr s" by (simp add: uuidToString_def)
  with assms(1) u(2) have "P s = Inr s" unfolding uuid_parser_ok_def by blast
  with s u(1) that show ?thesis by blast
qed

lemma entity_refs:
  assumes "wf_id (r_id r)"
  shows "n_BatchID (entity_of r) = (case r_batch_id r of None \<Rightarrow> None | Some b \<Rightarrow> Some (projr (uuidToString (Some b))))"
    "n_TemplateID (entity_of r) = (case r_template_id r of None \<Rightarrow> None | Some t \<Rightarrow> Some (projr (uuidToString (Some t))))"
    "n_UpdatedAt (entity_of r) = r_updated_at r" "n_ScheduledAt (entity_of r) = r_scheduled_at r"
  using notificationFromRow_total [of r] assms
  by (cases "r_batch_id r"; cases "r_template_id r"; auto simp: conversion_defs wf_id_def)+

lemma parse_ref:
  assumes "uuid_parser_ok P" and "i = None \<or> wf_id i"
  shows "\<exists>w. parse_opt P what (case i of None \<Rightarrow> None | Some b \<Rightarrow> Some (projr (uuidToString (Some b)))) = Inr w \<and> (w = None \<longleftrightarrow> i = None)"
proof (cases i)
  case (Some b)
  then obtain s where "uuidToString (Some b) = Inr s" "P s = Inr s" using parse_printed [OF assms(1), of i] assms(2) by auto
  with Some show ?thesis by (simp add: parse_opt_def)
qed (simp add: parse_opt_def)



end
