(* ===== verification/Openapi.thy ===== *)
theory Openapi
  imports Api
begin

text \<open>
  The generated HTTP server (\<open>internal/adapters/http/api/api.gen.go\<close>): the binding of parameters
  (\<open>ServerInterfaceWrapper\<close>), the strict handlers that decode bodies and run operations, the route
  table, and the rest of what \<open>cmd/api/main.go\<close> mounts (\<open>docs_handler.go\<close>, the websocket endpoint).

  The router (\<open>chi\<close>) and the binding functions of the \<open>oapi-codegen\<close> runtime are parameters. A router
  is given the registered methods and patterns and a request's method and path, and answers the
  entry it chose and the path's parameters.
\<close>

section \<open>Parameters of a request\<close>

text \<open>What the wrappers read of a request beside the fields of \<open>request\<close>: all values of a header, the
  query, and the parameters the router cut out of the path.\<close>

record inbound =
  in_Header :: "string \<Rightarrow> string list option"
  in_Query :: "string \<Rightarrow> string list option"
  in_URLParam :: "string \<Rightarrow> string"

text \<open>An error of the binding functions, with its text.\<close>

datatype bind_error = RequiredParameterError string | BindError string

fun bind_error_Error :: "bind_error \<Rightarrow> string" where
  "bind_error_Error (RequiredParameterError s) = s"
| "bind_error_Error (BindError s) = s"

text \<open>\<open>BindStyledParameterWithOptions\<close> for a header and for a path parameter of format \<open>uuid\<close>;
  \<open>BindQueryParameterWithOptions\<close> by the type of the destination.\<close>

record param_binding =
  bd_header :: "string \<Rightarrow> string \<Rightarrow> bind_error + string"
  bd_path_uuid :: "string \<Rightarrow> string \<Rightarrow> bind_error + string"
  bd_query_string :: "string \<Rightarrow> (string \<Rightarrow> string list option) \<Rightarrow> bind_error + string option"
  bd_query_uuid :: "string \<Rightarrow> (string \<Rightarrow> string list option) \<Rightarrow> bind_error + string option"
  bd_query_time :: "string \<Rightarrow> (string \<Rightarrow> string list option) \<Rightarrow> bind_error + Time option"
  bd_query_int :: "string \<Rightarrow> (string \<Rightarrow> string list option) \<Rightarrow> bind_error + int option"

datatype param_error =
    RequiredParamError string
  | InvalidParamFormatError string bind_error
  | TooManyValuesForParamError string int

fun param_error_Error :: "param_error \<Rightarrow> string" where
  "param_error_Error (RequiredParamError name) = ''Query argument '' @ name @ '' is required, but not found''"
| "param_error_Error (InvalidParamFormatError name e) = ''Invalid format for parameter '' @ name @ '': '' @ bind_error_Error e"
| "param_error_Error (TooManyValuesForParamError name n) = ''Expected one value for '' @ name @ '', got '' @ strconv_Itoa n"

definition header_param :: "param_binding \<Rightarrow> inbound \<Rightarrow> string \<Rightarrow> param_error + string option" where
  "header_param B q name =
     (case in_Header q name of None \<Rightarrow> Inr None
      | Some values \<Rightarrow>
          if length values \<noteq> 1 then Inl (TooManyValuesForParamError name (int (length values)))
          else case bd_header B name (hd values) of
              Inl e \<Rightarrow> Inl (InvalidParamFormatError name e) | Inr v \<Rightarrow> Inr (Some v))"

definition path_id :: "param_binding \<Rightarrow> inbound \<Rightarrow> param_error + string" where
  "path_id B q =
     (case bd_path_uuid B ''id'' (in_URLParam q ''id'') of
        Inl e \<Rightarrow> Inl (InvalidParamFormatError ''id'' e) | Inr i \<Rightarrow> Inr i)"

definition query_param ::
  "(string \<Rightarrow> (string \<Rightarrow> string list option) \<Rightarrow> bind_error + 'a option) \<Rightarrow> inbound \<Rightarrow> string \<Rightarrow> param_error + 'a option"
where
  "query_param bound q name =
     (case bound name (in_Query q) of
        Inl (RequiredParameterError _) \<Rightarrow> Inl (RequiredParamError name)
      | Inl e \<Rightarrow> Inl (InvalidParamFormatError name e)
      | Inr v \<Rightarrow> Inr v)"

section \<open>The wrappers\<close>

record ServerInterface =
  si_GetJSONMetrics :: "api_CorrelationParams \<Rightarrow> handler"
  si_ListNotifications :: "api_ListNotificationsParams \<Rightarrow> handler"
  si_CreateNotification :: "api_Params \<Rightarrow> handler"
  si_CreateBatch :: "api_Params \<Rightarrow> handler"
  si_GetBatch :: "string \<Rightarrow> api_CorrelationParams \<Rightarrow> handler"
  si_GetNotification :: "string \<Rightarrow> api_CorrelationParams \<Rightarrow> handler"
  si_CancelNotification :: "string \<Rightarrow> api_Params \<Rightarrow> handler"
  si_GetNotificationTrace :: "string \<Rightarrow> api_CorrelationParams \<Rightarrow> handler"
  si_ListTemplates :: "api_ListTemplatesParams \<Rightarrow> handler"
  si_CreateTemplate :: "api_Params \<Rightarrow> handler"
  si_DeleteTemplate :: "string \<Rightarrow> api_CorrelationParams \<Rightarrow> handler"
  si_GetTemplate :: "string \<Rightarrow> api_CorrelationParams \<Rightarrow> handler"
  si_ReplaceTemplate :: "string \<Rightarrow> api_Params \<Rightarrow> handler"
  si_GetHealthzLive :: handler
  si_GetHealthzReady :: handler
  si_GetPrometheusMetrics :: handler

record ServerInterfaceWrapper =
  siw_Handler :: ServerInterface
  siw_HandlerMiddlewares :: "(handler \<Rightarrow> handler) list"
  siw_ErrorHandlerFunc :: "request \<Rightarrow> param_error \<Rightarrow> wcall list prog"

text \<open>How every wrapper ends: with its error handler on the first parameter that does not bind, or with
  the operation inside the middlewares.\<close>

definition siw_serve :: "ServerInterfaceWrapper \<Rightarrow> param_error + handler \<Rightarrow> handler" where
  "siw_serve siw bound r =
     (case bound of Inl e \<Rightarrow> siw_ErrorHandlerFunc siw r e
      | Inr h \<Rightarrow> fold (\<lambda>middleware h. middleware h) (siw_HandlerMiddlewares siw) h r)"

definition correlation_param :: "param_binding \<Rightarrow> inbound \<Rightarrow> param_error + api_CorrelationParams" where
  "correlation_param B q = bind_res (header_param B q ''X-Correlation-ID'') (\<lambda>c. Inr \<lparr>ac_XCorrelationID = c\<rparr>)"

definition write_params :: "param_binding \<Rightarrow> inbound \<Rightarrow> param_error + api_Params" where
  "write_params B q =
     bind_res (header_param B q ''Idempotency-Key'') (\<lambda>key.
     bind_res (header_param B q ''X-Correlation-ID'') (\<lambda>c.
     Inr \<lparr>ap_IdempotencyKey = key, ap_XCorrelationID = c\<rparr>))"

definition siw_GetJSONMetrics :: "param_binding \<Rightarrow> ServerInterfaceWrapper \<Rightarrow> inbound \<Rightarrow> handler" where
  "siw_GetJSONMetrics B siw q = siw_serve siw
     (bind_res (correlation_param B q) (\<lambda>params. Inr (si_GetJSONMetrics (siw_Handler siw) params)))"

definition siw_ListNotifications :: "param_binding \<Rightarrow> ServerInterfaceWrapper \<Rightarrow> inbound \<Rightarrow> handler" where
  "siw_ListNotifications B siw q = siw_serve siw
     (bind_res (query_param (bd_query_string B) q ''status'') (\<lambda>st.
      bind_res (query_param (bd_query_string B) q ''channel'') (\<lambda>channel.
      bind_res (query_param (bd_query_uuid B) q ''batch_id'') (\<lambda>batch.
      bind_res (query_param (bd_query_time B) q ''created_after'') (\<lambda>after.
      bind_res (query_param (bd_query_time B) q ''created_before'') (\<lambda>before.
      bind_res (query_param (bd_query_string B) q ''cursor'') (\<lambda>cursor.
      bind_res (query_param (bd_query_int B) q ''limit'') (\<lambda>limit.
      bind_res (header_param B q ''X-Correlation-ID'') (\<lambda>c.
      Inr (si_ListNotifications (siw_Handler siw)
        \<lparr>al_Status = st, al_Channel = channel, al_BatchId = batch, al_CreatedAfter = after, al_CreatedBefore = before,
         al_Cursor = cursor, al_Limit = limit, al_XCorrelationID = c\<rparr>))))))))))"

definition siw_CreateNotification :: "param_binding \<Rightarrow> ServerInterfaceWrapper \<Rightarrow> inbound \<Rightarrow> handler" where
  "siw_CreateNotification B siw q = siw_serve siw
     (bind_res (write_params B q) (\<lambda>params. Inr (si_CreateNotification (siw_Handler siw) params)))"

definition siw_CreateBatch :: "param_binding \<Rightarrow> ServerInterfaceWrapper \<Rightarrow> inbound \<Rightarrow> handler" where
  "siw_CreateBatch B siw q = siw_serve siw
     (bind_res (write_params B q) (\<lambda>params. Inr (si_CreateBatch (siw_Handler siw) params)))"

definition siw_GetBatch :: "param_binding \<Rightarrow> ServerInterfaceWrapper \<Rightarrow> inbound \<Rightarrow> handler" where
  "siw_GetBatch B siw q = siw_serve siw
     (bind_res (path_id B q) (\<lambda>i.
      bind_res (correlation_param B q) (\<lambda>params. Inr (si_GetBatch (siw_Handler siw) i params))))"

definition siw_GetNotification :: "param_binding \<Rightarrow> ServerInterfaceWrapper \<Rightarrow> inbound \<Rightarrow> handler" where
  "siw_GetNotification B siw q = siw_serve siw
     (bind_res (path_id B q) (\<lambda>i.
      bind_res (correlation_param B q) (\<lambda>params. Inr (si_GetNotification (siw_Handler siw) i params))))"

definition siw_CancelNotification :: "param_binding \<Rightarrow> ServerInterfaceWrapper \<Rightarrow> inbound \<Rightarrow> handler" where
  "siw_CancelNotification B siw q = siw_serve siw
     (bind_res (path_id B q) (\<lambda>i.
      bind_res (write_params B q) (\<lambda>params. Inr (si_CancelNotification (siw_Handler siw) i params))))"

definition siw_GetNotificationTrace :: "param_binding \<Rightarrow> ServerInterfaceWrapper \<Rightarrow> inbound \<Rightarrow> handler" where
  "siw_GetNotificationTrace B siw q = siw_serve siw
     (bind_res (path_id B q) (\<lambda>i.
      bind_res (correlation_param B q) (\<lambda>params. Inr (si_GetNotificationTrace (siw_Handler siw) i params))))"

definition siw_ListTemplates :: "param_binding \<Rightarrow> ServerInterfaceWrapper \<Rightarrow> inbound \<Rightarrow> handler" where
  "siw_ListTemplates B siw q = siw_serve siw
     (bind_res (query_param (bd_query_string B) q ''channel'') (\<lambda>channel.
      bind_res (query_param (bd_query_string B) q ''cursor'') (\<lambda>cursor.
      bind_res (query_param (bd_query_int B) q ''limit'') (\<lambda>limit.
      bind_res (header_param B q ''X-Correlation-ID'') (\<lambda>c.
      Inr (si_ListTemplates (siw_Handler siw)
        \<lparr>lt_Channel = channel, lt_Cursor = cursor, lt_Limit = limit, lt_XCorrelationID = c\<rparr>))))))"

definition siw_CreateTemplate :: "param_binding \<Rightarrow> ServerInterfaceWrapper \<Rightarrow> inbound \<Rightarrow> handler" where
  "siw_CreateTemplate B siw q = siw_serve siw
     (bind_res (write_params B q) (\<lambda>params. Inr (si_CreateTemplate (siw_Handler siw) params)))"

definition siw_DeleteTemplate :: "param_binding \<Rightarrow> ServerInterfaceWrapper \<Rightarrow> inbound \<Rightarrow> handler" where
  "siw_DeleteTemplate B siw q = siw_serve siw
     (bind_res (path_id B q) (\<lambda>i.
      bind_res (correlation_param B q) (\<lambda>params. Inr (si_DeleteTemplate (siw_Handler siw) i params))))"

definition siw_GetTemplate :: "param_binding \<Rightarrow> ServerInterfaceWrapper \<Rightarrow> inbound \<Rightarrow> handler" where
  "siw_GetTemplate B siw q = siw_serve siw
     (bind_res (path_id B q) (\<lambda>i.
      bind_res (correlation_param B q) (\<lambda>params. Inr (si_GetTemplate (siw_Handler siw) i params))))"

definition siw_ReplaceTemplate :: "param_binding \<Rightarrow> ServerInterfaceWrapper \<Rightarrow> inbound \<Rightarrow> handler" where
  "siw_ReplaceTemplate B siw q = siw_serve siw
     (bind_res (path_id B q) (\<lambda>i.
      bind_res (write_params B q) (\<lambda>params. Inr (si_ReplaceTemplate (siw_Handler siw) i params))))"

definition siw_GetHealthzLive :: "ServerInterfaceWrapper \<Rightarrow> inbound \<Rightarrow> handler" where
  "siw_GetHealthzLive siw q = siw_serve siw (Inr (si_GetHealthzLive (siw_Handler siw)))"

definition siw_GetHealthzReady :: "ServerInterfaceWrapper \<Rightarrow> inbound \<Rightarrow> handler" where
  "siw_GetHealthzReady siw q = siw_serve siw (Inr (si_GetHealthzReady (siw_Handler siw)))"

definition siw_GetPrometheusMetrics :: "ServerInterfaceWrapper \<Rightarrow> inbound \<Rightarrow> handler" where
  "siw_GetPrometheusMetrics siw q = siw_serve siw (Inr (si_GetPrometheusMetrics (siw_Handler siw)))"

section \<open>The strict handlers\<close>

text \<open>A strict middleware sees the request and the name of the operation; \<open>cmd/api\<close> passes none.\<close>

record strictHandler =
  sh_ssi :: Server
  sh_middlewares :: "((request \<Rightarrow> operation) \<Rightarrow> string \<Rightarrow> request \<Rightarrow> operation) list"

definition sh_respond :: "wire_codec \<Rightarrow> strictHandler \<Rightarrow> string \<Rightarrow> (request \<Rightarrow> operation) \<Rightarrow> handler" where
  "sh_respond K sh name op r =
     strict_handler (wire_text K) (fold (\<lambda>middleware f. middleware f name) (sh_middlewares sh) op r) r"

definition with_body :: "(string \<times> 's field) list \<Rightarrow> 's \<Rightarrow> ('s \<Rightarrow> handler) \<Rightarrow> handler" where
  "with_body fs zero f r =
     (case Decode fs zero (rq_Body r) of
        Inl e \<Rightarrow> RespondWithError r (Errorf ''can't decode JSON body: %w'' [] e)
      | Inr body \<Rightarrow> f body r)"

definition no_template :: api_TemplateRequest where
  "no_template = \<lparr>tq_Name = [], tq_Channel = [], tq_Body = []\<rparr>"

definition sh_GetJSONMetrics :: "uuid_parser \<Rightarrow> wire_codec \<Rightarrow> strictHandler \<Rightarrow> api_CorrelationParams \<Rightarrow> handler" where
  "sh_GetJSONMetrics P K sh params =
     sh_respond K sh ''GetJSONMetrics'' (\<lambda>_. Server_GetJSONMetrics (sh_ssi sh))"

definition sh_ListNotifications :: "uuid_parser \<Rightarrow> wire_codec \<Rightarrow> strictHandler \<Rightarrow> api_ListNotificationsParams \<Rightarrow> handler" where
  "sh_ListNotifications P K sh params =
     sh_respond K sh ''ListNotifications'' (\<lambda>_. Server_ListNotifications P (sh_ssi sh) params)"

definition sh_CreateNotification :: "uuid_parser \<Rightarrow> wire_codec \<Rightarrow> strictHandler \<Rightarrow> api_Params \<Rightarrow> handler" where
  "sh_CreateNotification P K sh params =
     with_body (notification_fields K) no_request (\<lambda>body.
     sh_respond K sh ''CreateNotification'' (\<lambda>_. Server_CreateNotification P (sh_ssi sh) (Some body) params))"

definition sh_CreateBatch :: "uuid_parser \<Rightarrow> wire_codec \<Rightarrow> strictHandler \<Rightarrow> api_Params \<Rightarrow> handler" where
  "sh_CreateBatch P K sh params =
     with_body (batch_fields K) [] (\<lambda>body.
     sh_respond K sh ''CreateBatch'' (\<lambda>_. Server_CreateBatch P (sh_ssi sh) (Some body) params))"

definition sh_GetBatch :: "uuid_parser \<Rightarrow> wire_codec \<Rightarrow> strictHandler \<Rightarrow> string \<Rightarrow> api_CorrelationParams \<Rightarrow> handler" where
  "sh_GetBatch P K sh i params =
     sh_respond K sh ''GetBatch'' (\<lambda>_. Server_GetBatch P (sh_ssi sh) i)"

definition sh_GetNotification :: "uuid_parser \<Rightarrow> wire_codec \<Rightarrow> strictHandler \<Rightarrow> string \<Rightarrow> api_CorrelationParams \<Rightarrow> handler" where
  "sh_GetNotification P K sh i params =
     sh_respond K sh ''GetNotification'' (\<lambda>_. Server_GetNotification P (sh_ssi sh) i)"

definition sh_CancelNotification :: "uuid_parser \<Rightarrow> wire_codec \<Rightarrow> strictHandler \<Rightarrow> string \<Rightarrow> api_Params \<Rightarrow> handler" where
  "sh_CancelNotification P K sh i params =
     sh_respond K sh ''CancelNotification'' (\<lambda>_. Server_CancelNotification P (sh_ssi sh) i)"

definition sh_GetNotificationTrace :: "uuid_parser \<Rightarrow> wire_codec \<Rightarrow> strictHandler \<Rightarrow> string \<Rightarrow> api_CorrelationParams \<Rightarrow> handler" where
  "sh_GetNotificationTrace P K sh i params =
     sh_respond K sh ''GetNotificationTrace'' (\<lambda>_. Server_GetNotificationTrace P (sh_ssi sh) i)"

definition sh_ListTemplates :: "uuid_parser \<Rightarrow> wire_codec \<Rightarrow> strictHandler \<Rightarrow> api_ListTemplatesParams \<Rightarrow> handler" where
  "sh_ListTemplates P K sh params =
     sh_respond K sh ''ListTemplates'' (\<lambda>_. Server_ListTemplates P (sh_ssi sh) (lt_Limit params))"

definition sh_CreateTemplate :: "uuid_parser \<Rightarrow> wire_codec \<Rightarrow> strictHandler \<Rightarrow> api_Params \<Rightarrow> handler" where
  "sh_CreateTemplate P K sh params =
     with_body template_fields no_template (\<lambda>body.
     sh_respond K sh ''CreateTemplate'' (\<lambda>_. Server_CreateTemplate P (sh_ssi sh) (Some body)))"

definition sh_DeleteTemplate :: "uuid_parser \<Rightarrow> wire_codec \<Rightarrow> strictHandler \<Rightarrow> string \<Rightarrow> api_CorrelationParams \<Rightarrow> handler" where
  "sh_DeleteTemplate P K sh i params =
     sh_respond K sh ''DeleteTemplate'' (\<lambda>_. Server_DeleteTemplate (sh_ssi sh) i)"

definition sh_GetTemplate :: "uuid_parser \<Rightarrow> wire_codec \<Rightarrow> strictHandler \<Rightarrow> string \<Rightarrow> api_CorrelationParams \<Rightarrow> handler" where
  "sh_GetTemplate P K sh i params =
     sh_respond K sh ''GetTemplate'' (\<lambda>_. Server_GetTemplate P (sh_ssi sh) i)"

definition sh_ReplaceTemplate :: "uuid_parser \<Rightarrow> wire_codec \<Rightarrow> strictHandler \<Rightarrow> string \<Rightarrow> api_Params \<Rightarrow> handler" where
  "sh_ReplaceTemplate P K sh i params =
     with_body template_fields no_template (\<lambda>body.
     sh_respond K sh ''ReplaceTemplate'' (\<lambda>_. Server_ReplaceTemplate P (sh_ssi sh) i (Some body)))"

definition sh_GetHealthzLive :: "uuid_parser \<Rightarrow> wire_codec \<Rightarrow> strictHandler \<Rightarrow> handler" where
  "sh_GetHealthzLive P K sh =
     sh_respond K sh ''GetHealthzLive'' (\<lambda>_. GetHealthzLive)"

definition sh_GetHealthzReady :: "uuid_parser \<Rightarrow> wire_codec \<Rightarrow> strictHandler \<Rightarrow> handler" where
  "sh_GetHealthzReady P K sh =
     sh_respond K sh ''GetHealthzReady'' (\<lambda>_. GetHealthzReady (sh_ssi sh))"

definition sh_GetPrometheusMetrics :: "uuid_parser \<Rightarrow> wire_codec \<Rightarrow> strictHandler \<Rightarrow> handler" where
  "sh_GetPrometheusMetrics P K sh =
     sh_respond K sh ''GetPrometheusMetrics'' (\<lambda>_. Server_GetPrometheusMetrics (sh_ssi sh))"

definition NewStrictHandlerWithOptions :: "uuid_parser \<Rightarrow> wire_codec \<Rightarrow> strictHandler \<Rightarrow> ServerInterface" where
  "NewStrictHandlerWithOptions P K sh =
     \<lparr>si_GetJSONMetrics = sh_GetJSONMetrics P K sh,
      si_ListNotifications = sh_ListNotifications P K sh,
      si_CreateNotification = sh_CreateNotification P K sh,
      si_CreateBatch = sh_CreateBatch P K sh,
      si_GetBatch = sh_GetBatch P K sh,
      si_GetNotification = sh_GetNotification P K sh,
      si_CancelNotification = sh_CancelNotification P K sh,
      si_GetNotificationTrace = sh_GetNotificationTrace P K sh,
      si_ListTemplates = sh_ListTemplates P K sh,
      si_CreateTemplate = sh_CreateTemplate P K sh,
      si_DeleteTemplate = sh_DeleteTemplate P K sh,
      si_GetTemplate = sh_GetTemplate P K sh,
      si_ReplaceTemplate = sh_ReplaceTemplate P K sh,
      si_GetHealthzLive = sh_GetHealthzLive P K sh,
      si_GetHealthzReady = sh_GetHealthzReady P K sh,
      si_GetPrometheusMetrics = sh_GetPrometheusMetrics P K sh\<rparr>"

section \<open>Routes\<close>

text \<open>\<open>http.Error\<close>: the message as plain text.\<close>

definition http_Error :: "string \<Rightarrow> int \<Rightarrow> wcall list" where
  "http_Error msg code =
     [Header_Set ''Content-Type'' ''text/plain; charset=utf-8'', Header_Set ''X-Content-Type-Options'' ''nosniff'',
      WriteHeader code, Write (msg @ [CHR 0x0A])]"

type_synonym route = "(string \<times> string) \<times> (inbound \<Rightarrow> handler)"

definition HandlerWithOptions ::
  "param_binding \<Rightarrow> ServerInterface \<Rightarrow> string \<Rightarrow> (handler \<Rightarrow> handler) list \<Rightarrow> (request \<Rightarrow> param_error \<Rightarrow> wcall list prog) option \<Rightarrow> route list"
where
  "HandlerWithOptions B si baseURL middlewares errorHandler =
     (let wrapper = \<lparr>siw_Handler = si, siw_HandlerMiddlewares = middlewares,
            siw_ErrorHandlerFunc = (case errorHandler of Some f \<Rightarrow> f
              | None \<Rightarrow> (\<lambda>r e. Ret (http_Error (param_error_Error e) 400)))\<rparr> in
      [((''GET'', baseURL @ ''/api/v1/metrics''), siw_GetJSONMetrics B wrapper),
       ((''GET'', baseURL @ ''/api/v1/notifications''), siw_ListNotifications B wrapper),
       ((''POST'', baseURL @ ''/api/v1/notifications''), siw_CreateNotification B wrapper),
       ((''POST'', baseURL @ ''/api/v1/notifications/batch''), siw_CreateBatch B wrapper),
       ((''GET'', baseURL @ ''/api/v1/notifications/batch/{id}''), siw_GetBatch B wrapper),
       ((''GET'', baseURL @ ''/api/v1/notifications/{id}''), siw_GetNotification B wrapper),
       ((''PATCH'', baseURL @ ''/api/v1/notifications/{id}/cancel''), siw_CancelNotification B wrapper),
       ((''GET'', baseURL @ ''/api/v1/notifications/{id}/trace''), siw_GetNotificationTrace B wrapper),
       ((''GET'', baseURL @ ''/api/v1/templates''), siw_ListTemplates B wrapper),
       ((''POST'', baseURL @ ''/api/v1/templates''), siw_CreateTemplate B wrapper),
       ((''DELETE'', baseURL @ ''/api/v1/templates/{id}''), siw_DeleteTemplate B wrapper),
       ((''GET'', baseURL @ ''/api/v1/templates/{id}''), siw_GetTemplate B wrapper),
       ((''PUT'', baseURL @ ''/api/v1/templates/{id}''), siw_ReplaceTemplate B wrapper),
       ((''GET'', baseURL @ ''/healthz/live''), siw_GetHealthzLive wrapper),
       ((''GET'', baseURL @ ''/healthz/ready''), siw_GetHealthzReady wrapper),
       ((''GET'', baseURL @ ''/metrics''), siw_GetPrometheusMetrics wrapper)])"

definition HandlerFromMux :: "param_binding \<Rightarrow> ServerInterface \<Rightarrow> route list" where
  "HandlerFromMux B si = HandlerWithOptions B si [] [] None"

section \<open>Documentation\<close>

definition swaggerUIPage :: string where
  "swaggerUIPage = concat (map (\<lambda>line. line @ [CHR 0x0A])
     [''<!doctype html>'',
      ''<html lang=\"en\">'',
      ''<head>'',
      ''<meta charset=\"utf-8\">'',
      ''<meta name=\"viewport\" content=\"width=device-width, initial-scale=1\">'',
      ''<title>Notification System API '' @ [CHR 0xC2, CHR 0xB7] @ '' Swagger UI</title>'',
      ''<link rel=\"stylesheet\" href=\"https://unpkg.com/swagger-ui-dist@5.17.14/swagger-ui.css\">'',
      ''</head>'',
      ''<body>'',
      ''<div id=\"swagger-ui\"></div>'',
      ''<script src=\"https://unpkg.com/swagger-ui-dist@5.17.14/swagger-ui-bundle.js\" crossorigin></script>'',
      ''<script>'',
      ''window.addEventListener(\"load\", function () {'',
      ''  window.ui = SwaggerUIBundle({'',
      ''    url: \"/docs/openapi.yaml\",'',
      ''    dom_id: \"#swagger-ui\",'',
      ''    deepLinking: true,'',
      ''  });'',
      ''});'',
      ''</script>'',
      ''</body>'',
      ''</html>''])"

definition serveSwaggerUI :: handler where
  "serveSwaggerUI r = Ret [Header_Set ''Content-Type'' ''text/html; charset=utf-8'', WriteHeader 200, Write swaggerUIPage]"

text \<open>The specification is the file embedded at build time.\<close>

definition serveSpecYAML :: "string \<Rightarrow> handler" where
  "serveSpecYAML openapiSpecYAML r = Ret [Header_Set ''Content-Type'' ''application/yaml'', WriteHeader 200, Write openapiSpecYAML]"

definition MountDocs :: "string \<Rightarrow> route list" where
  "MountDocs openapiSpecYAML =
     [((''GET'', ''/docs''), \<lambda>_. serveSwaggerUI), ((''GET'', ''/docs/''), \<lambda>_. serveSwaggerUI),
      ((''GET'', ''/docs/openapi.yaml''), \<lambda>_. serveSpecYAML openapiSpecYAML)]"

section \<open>The API\<close>

text \<open>What \<open>cmd/api\<close> is built from. \<open>dp_chi\<close> is the router, \<open>dp_unmatched\<close> its answer to a request no route
  matches; \<open>''*''\<close> stands for a route registered for every method.\<close>

record deployment =
  dp_chi :: "(string \<times> string) list \<Rightarrow> string \<Rightarrow> string \<Rightarrow> ((string \<times> string) \<times> (string \<Rightarrow> string)) option"
  dp_unmatched :: handler
  dp_binding :: param_binding
  dp_uuid :: uuid_parser
  dp_wire :: wire_codec
  dp_codec :: pg_codec
  dp_engine :: template_engine
  dp_checks :: "gerror option prog list"
  dp_registry :: "(gerror + metric_family list) prog"
  dp_websocket :: handler
  dp_spec :: string
  dp_limiter :: OutboundRateLimiter

definition api_routes :: "deployment \<Rightarrow> route list" where
  "api_routes D =
     HandlerFromMux (dp_binding D) (NewStrictHandlerWithOptions (dp_uuid D) (dp_wire D)
       \<lparr>sh_ssi = server (dp_codec D) (dp_engine D) (dp_checks D) (dp_registry D), sh_middlewares = []\<rparr>) @
     [((''*'', ''/api/v1/ws/notifications''), \<lambda>_. dp_websocket D)] @ MountDocs (dp_spec D)"

definition serve_routes :: "deployment \<Rightarrow> inbound \<Rightarrow> handler" where
  "serve_routes D q r =
     (case dp_chi D (map fst (api_routes D)) (rq_Method r) (rq_Path r) of
        None \<Rightarrow> dp_unmatched D r
      | Some (key, params) \<Rightarrow>
          (case map_of (api_routes D) key of
             None \<Rightarrow> dp_unmatched D r | Some h \<Rightarrow> h (q\<lparr>in_URLParam := params\<rparr>) r))"

definition api_main :: "deployment \<Rightarrow> inbound \<Rightarrow> handler" where
  "api_main D q = api_chain (dp_limiter D) (serve_routes D q)"

section \<open>Posting bytes\<close>

lemmas siw_defs = siw_GetJSONMetrics_def siw_ListNotifications_def siw_CreateNotification_def siw_CreateBatch_def
  siw_GetBatch_def siw_GetNotification_def siw_CancelNotification_def siw_GetNotificationTrace_def
  siw_ListTemplates_def siw_CreateTemplate_def siw_DeleteTemplate_def siw_GetTemplate_def
  siw_ReplaceTemplate_def

lemmas route_defs = HandlerFromMux_def HandlerWithOptions_def MountDocs_def

text \<open>The wrappers read the path's parameters only for the id.\<close>

lemma header_param_path [simp]: "header_param B (q\<lparr>in_URLParam := us\<rparr>) name = header_param B q name"
  by (simp add: header_param_def)

text \<open>The wrapper of \<open>cmd/api\<close>: no middlewares of its own and the default error handler.\<close>

definition api_strict :: "deployment \<Rightarrow> strictHandler" where
  "api_strict D = \<lparr>sh_ssi = server (dp_codec D) (dp_engine D) (dp_checks D) (dp_registry D), sh_middlewares = []\<rparr>"

definition api_wrapper :: "deployment \<Rightarrow> ServerInterfaceWrapper" where
  "api_wrapper D = \<lparr>siw_Handler = NewStrictHandlerWithOptions (dp_uuid D) (dp_wire D) (api_strict D), siw_HandlerMiddlewares = [],
     siw_ErrorHandlerFunc = (\<lambda>r e. Ret (http_Error (param_error_Error e) 400))\<rparr>"

lemma post_route: "map_of (api_routes D) (''POST'', ''/api/v1/notifications'') = Some (siw_CreateNotification (dp_binding D) (api_wrapper D))"
  by (simp add: api_routes_def route_defs Let_def api_wrapper_def api_strict_def)

lemma serve_post:
  assumes "dp_chi D (map fst (api_routes D)) ''POST'' ''/api/v1/notifications'' = Some ((''POST'', ''/api/v1/notifications''), us)"
    and "rq_Method r = ''POST''" "rq_Path r = ''/api/v1/notifications''"
    and "write_params (dp_binding D) inb = Inr params"
    and "Decode (notification_fields (dp_wire D)) no_request (rq_Body r) = Inr q"
  shows "serve_routes D inb r = post_notification (dp_codec D) (dp_engine D) (dp_uuid D) (wire_text (dp_wire D)) q params r"
proof -
  have "write_params (dp_binding D) (inb\<lparr>in_URLParam := us\<rparr>) = Inr params" using assms(4) by (simp add: write_params_def)
  then have "serve_routes D inb r = sh_CreateNotification (dp_uuid D) (dp_wire D) (api_strict D) params r"
    using assms(1-3)
    by (simp add: serve_routes_def post_route siw_CreateNotification_def siw_serve_def api_wrapper_def NewStrictHandlerWithOptions_def)
  then show ?thesis
    using assms(5)
    by (simp add: sh_CreateNotification_def with_body_def sh_respond_def api_strict_def post_notification_def Server_CreateNotification_def server_def)
qed

lemma notification_encodes:
  assumes "\<forall>t. \<exists>s. wc_time K t = Inr s"
  shows "\<exists>t. wire_text K (B_Notification out) = Inr t"
proof -
  have t: "\<exists>j. time_json K t = Inr j" for t
    using assms by (metis bind_res_simps(2) time_json_def)
  have o: "\<exists>ms. opt_member name (time_json K) v = Inr ms" for name v
  proof (cases v)
    case (Some x)
    with t [of x] show ?thesis by (auto simp: opt_member_def)
  qed (simp add: opt_member_def)
  obtain c n s u where "time_json K (an_CreatedAt out) = Inr c" "opt_member ''next_retry_at'' (time_json K) (an_NextRetryAt out) = Inr n"
    "opt_member ''scheduled_at'' (time_json K) (an_ScheduledAt out) = Inr s" "time_json K (an_UpdatedAt out) = Inr u"
    using t o by meson
  then show ?thesis by (simp add: wire_text_def Notification_json_def del: json_text.simps)
qed

text \<open>The request has one value for a header, and the runtime binds it as it is.\<close>

definition carries :: "deployment \<Rightarrow> inbound \<Rightarrow> request \<Rightarrow> string \<Rightarrow> string \<Rightarrow> bool" where
  "carries D inb r name v \<longleftrightarrow> in_Header inb name = Some [v] \<and> rq_Header r name = v \<and> bd_header (dp_binding D) name v = Inr v"


text \<open>A deployment whose router knows the static routes and whose runtime binds every text, and a request
  as its bytes.\<close>

definition sms_wire :: api_CreateNotificationRequest where
  "sms_wire = \<lparr>ar_Channel = ci_Channel sms_input, ar_Recipient = ci_Recipient sms_input, ar_Content = ci_Content sms_input,
     ar_Priority = Some (ci_Priority sms_input), ar_ScheduledAt = None, ar_TemplateId = None, ar_TemplateVariables = None\<rparr>"

definition sms_json :: json where
  "sms_json = JObject [(''channel'', JString ''sms''), (''content'', JString ''hello''), (''priority'', JString ''high''),
     (''recipient'', JString ''+905551112233'')]"

definition sms_params :: api_Params where
  "sms_params = \<lparr>ap_IdempotencyKey = Some ''k1'', ap_XCorrelationID = Some ''c''\<rparr>"

definition lim0 :: OutboundRateLimiter where
  "lim0 = \<lparr>rl_limit = 60, rl_window = Minute\<rparr>"

definition sms_post :: request where
  "sms_post = (keyed_request ''k1'' (json_text sms_json))\<lparr>rq_Header := (\<lambda>_. [])(''Idempotency-Key'' := ''k1'', ''X-Correlation-ID'' := ''c'')\<rparr>"

lemma sms_wire_acceptable:
  "acceptable no_tables (fromAPICreateNotificationRequest sms_wire sms_params) ''sms'' ''high''"
  using sms_ok
  by (simp add: acceptable_def fromAPICreateNotificationRequest_def sms_wire_def sms_params_def opt_string_def key_free_def no_tables_def)

definition plain_binding :: param_binding where
  "plain_binding = \<lparr>bd_header = (\<lambda>_. Inr), bd_path_uuid = (\<lambda>_ s. if length s = 36 then Inr s else Inl (BindError ''invalid UUID'')),
     bd_query_string = (\<lambda>_ _. Inr None), bd_query_uuid = (\<lambda>_ _. Inr None), bd_query_time = (\<lambda>_ _. Inr None),
     bd_query_int = (\<lambda>_ _. Inr None)\<rparr>"

definition plain_deployment :: deployment where
  "plain_deployment = \<lparr>dp_chi = (\<lambda>routes m p. if (m, p) \<in> set routes then Some ((m, p), \<lambda>_. []) else None),
     dp_unmatched = (\<lambda>_. Ret [WriteHeader 404]), dp_binding = plain_binding, dp_uuid = Inr, dp_wire = plain_wire, dp_codec = plain_codec,
     dp_engine = no_templates, dp_checks = [], dp_registry = Ret (Inr []), dp_websocket = (\<lambda>_. Ret []), dp_spec = [], dp_limiter = lim0\<rparr>"

definition sms_inbound :: inbound where
  "sms_inbound = \<lparr>in_Header = [''Idempotency-Key'' \<mapsto> [''k1''], ''X-Correlation-ID'' \<mapsto> [''c'']], in_Query = Map.empty, in_URLParam = (\<lambda>_. [])\<rparr>"

lemma sms_decodes: "Decode (notification_fields K) no_request (Some \<lparr>rd_bytes = json_text sms_json, rd_fails = None\<rparr>) = Inr sms_wire"
  unfolding sms_json_def
  by (subst decode_flat_object)
    (simp_all add: is_ascii_def field_lookup string_field_def opt_string_field_def no_request_def sms_wire_def sms_input_def)

lemma sms_body_small: "length (json_text sms_json) \<le> maxIdempotencyBodyBytes"
  by (simp add: sms_json_def quote_json_def quote_ascii_def short_escapes_def dquote_def backslash_def is_ascii_def unicode_escape_def
      maxIdempotencyBodyBytes_def)


section \<open>Refused requests\<close>

subsection \<open>Parameters\<close>

text \<open>The table of routes, written out.\<close>

lemma api_routes_table:
  fixes D defines "B \<equiv> dp_binding D" and "w \<equiv> api_wrapper D"
  shows "api_routes D =
     [((''GET'', ''/api/v1/metrics''), siw_GetJSONMetrics B w), ((''GET'', ''/api/v1/notifications''), siw_ListNotifications B w),
      ((''POST'', ''/api/v1/notifications''), siw_CreateNotification B w), ((''POST'', ''/api/v1/notifications/batch''), siw_CreateBatch B w),
      ((''GET'', ''/api/v1/notifications/batch/{id}''), siw_GetBatch B w), ((''GET'', ''/api/v1/notifications/{id}''), siw_GetNotification B w),
      ((''PATCH'', ''/api/v1/notifications/{id}/cancel''), siw_CancelNotification B w),
      ((''GET'', ''/api/v1/notifications/{id}/trace''), siw_GetNotificationTrace B w),
      ((''GET'', ''/api/v1/templates''), siw_ListTemplates B w), ((''POST'', ''/api/v1/templates''), siw_CreateTemplate B w),
      ((''DELETE'', ''/api/v1/templates/{id}''), siw_DeleteTemplate B w), ((''GET'', ''/api/v1/templates/{id}''), siw_GetTemplate B w),
      ((''PUT'', ''/api/v1/templates/{id}''), siw_ReplaceTemplate B w), ((''GET'', ''/healthz/live''), siw_GetHealthzLive w),
      ((''GET'', ''/healthz/ready''), siw_GetHealthzReady w), ((''GET'', ''/metrics''), siw_GetPrometheusMetrics w),
      ((''*'', ''/api/v1/ws/notifications''), \<lambda>_. dp_websocket D), ((''GET'', ''/docs''), \<lambda>_. serveSwaggerUI),
      ((''GET'', ''/docs/''), \<lambda>_. serveSwaggerUI), ((''GET'', ''/docs/openapi.yaml''), \<lambda>_. serveSpecYAML (dp_spec D))]"
  by (simp add: api_routes_def route_defs Let_def api_wrapper_def api_strict_def B_def w_def)

lemma id_refused:
  assumes "path_id B q = Inl e"
  shows "siw_GetBatch B w q r = siw_ErrorHandlerFunc w r e" "siw_GetNotification B w q r = siw_ErrorHandlerFunc w r e"
    "siw_CancelNotification B w q r = siw_ErrorHandlerFunc w r e" "siw_GetNotificationTrace B w q r = siw_ErrorHandlerFunc w r e"
    "siw_DeleteTemplate B w q r = siw_ErrorHandlerFunc w r e" "siw_GetTemplate B w q r = siw_ErrorHandlerFunc w r e"
    "siw_ReplaceTemplate B w q r = siw_ErrorHandlerFunc w r e"
  using assms by (simp_all add: siw_defs siw_serve_def)

lemma header_params_refused:
  assumes "header_param B q ''X-Correlation-ID'' = Inl e"
  shows "correlation_param B q = Inl e" "\<exists>e. write_params B q = Inl e"
  using assms by (auto simp: correlation_param_def write_params_def bind_res_def split: sum.split)

lemma header_refused:
  assumes "header_param B q ''X-Correlation-ID'' = Inl e"
  shows "\<exists>e. siw_GetJSONMetrics B w q r = siw_ErrorHandlerFunc w r e" "\<exists>e. siw_ListNotifications B w q r = siw_ErrorHandlerFunc w r e"
    "\<exists>e. siw_CreateNotification B w q r = siw_ErrorHandlerFunc w r e" "\<exists>e. siw_CreateBatch B w q r = siw_ErrorHandlerFunc w r e"
    "\<exists>e. siw_GetBatch B w q r = siw_ErrorHandlerFunc w r e" "\<exists>e. siw_GetNotification B w q r = siw_ErrorHandlerFunc w r e"
    "\<exists>e. siw_CancelNotification B w q r = siw_ErrorHandlerFunc w r e" "\<exists>e. siw_GetNotificationTrace B w q r = siw_ErrorHandlerFunc w r e"
    "\<exists>e. siw_ListTemplates B w q r = siw_ErrorHandlerFunc w r e" "\<exists>e. siw_CreateTemplate B w q r = siw_ErrorHandlerFunc w r e"
    "\<exists>e. siw_DeleteTemplate B w q r = siw_ErrorHandlerFunc w r e" "\<exists>e. siw_GetTemplate B w q r = siw_ErrorHandlerFunc w r e"
    "\<exists>e. siw_ReplaceTemplate B w q r = siw_ErrorHandlerFunc w r e"
  using header_params_refused [OF assms] assms
  by (auto simp: siw_defs siw_serve_def bind_res_def split: sum.splits)

text \<open>C24: Parameters that do not bind never reach an operation: on every route with an identifier in its
  path, an identifier that is no UUID, and on every operation of the API, a correlation header given
  more than once, is answered 400 at once, without a call to anything.\<close>

theorem bad_parameters_refused:
  assumes rt: "((m, pattern), h) \<in> set (api_routes D)"
  shows "(CHR ''{'' \<in> set pattern \<longrightarrow> bd_path_uuid (dp_binding D) ''id'' (in_URLParam inb ''id'') = Inl e \<longrightarrow>
      h inb r = Ret (http_Error (''Invalid format for parameter id: '' @ bind_error_Error e) 400)) \<and>
    (prefix ''/api/v1/'' pattern \<and> m \<noteq> ''*'' \<longrightarrow> in_Header inb ''X-Correlation-ID'' = Some values \<longrightarrow> length values \<noteq> 1 \<longrightarrow>
      (\<exists>msg. h inb r = Ret (http_Error msg 400)))"
proof -
  let ?B = "dp_binding D" and ?w = "api_wrapper D"
  have error: "siw_ErrorHandlerFunc ?w r e = Ret (http_Error (param_error_Error e) 400)" for r e
    by (simp add: api_wrapper_def)
  have "h inb r = Ret (http_Error (''Invalid format for parameter id: '' @ bind_error_Error e) 400)"
    if "CHR ''{'' \<in> set pattern" "bd_path_uuid ?B ''id'' (in_URLParam inb ''id'') = Inl e"
  proof -
    have id: "path_id ?B inb = Inl (InvalidParamFormatError ''id'' e)" using that(2) by (simp add: path_id_def)
    have "\<forall>((m, pattern), h) \<in> set (api_routes D). CHR ''{'' \<in> set pattern \<longrightarrow>
        h inb r = Ret (http_Error (''Invalid format for parameter id: '' @ bind_error_Error e) 400)"
      unfolding api_routes_table by (simp add: id_refused [OF id] error)
    with rt that(1) show ?thesis by auto
  qed
  moreover have "\<exists>msg. h inb r = Ret (http_Error msg 400)"
    if "prefix ''/api/v1/'' pattern \<and> m \<noteq> ''*''" "in_Header inb ''X-Correlation-ID'' = Some values" "length values \<noteq> 1"
  proof -
    have hd: "header_param ?B inb ''X-Correlation-ID'' = Inl (TooManyValuesForParamError ''X-Correlation-ID'' (int (length values)))"
      using that(2,3) by (simp add: header_param_def)
    have "\<forall>((m, pattern), h) \<in> set (api_routes D). prefix ''/api/v1/'' pattern \<and> m \<noteq> ''*'' \<longrightarrow>
        (\<exists>e. h inb r = siw_ErrorHandlerFunc ?w r e)"
      unfolding api_routes_table by (simp add: header_refused [OF hd])
    with rt that(1) have "\<exists>e. h inb r = siw_ErrorHandlerFunc ?w r e" by auto
    then show ?thesis by (auto simp: error)
  qed
  ultimately show ?thesis by blast
qed

theorem bad_parameters_refused_witness:
  "siw_GetNotification plain_binding (api_wrapper plain_deployment) (sms_inbound\<lparr>in_URLParam := \<lambda>_. ''42''\<rparr>) (bare_request ''/api/v1/notifications/42'') =
     Ret (http_Error ''Invalid format for parameter id: invalid UUID'' 400) \<and>
   (\<exists>msg. siw_GetNotification plain_binding (api_wrapper plain_deployment) (sms_inbound\<lparr>in_Header := \<lambda>_. Some [''a'', ''b'']\<rparr>)
     (bare_request ''/api/v1/notifications/42'') = Ret (http_Error msg 400))"
proof -
  have "((''GET'', ''/api/v1/notifications/{id}''), siw_GetNotification (dp_binding plain_deployment) (api_wrapper plain_deployment))
      \<in> set (api_routes plain_deployment)"
    unfolding api_routes_table by simp
  moreover have "dp_binding plain_deployment = plain_binding" by (simp add: plain_deployment_def)
  ultimately have rt: "((''GET'', ''/api/v1/notifications/{id}''), siw_GetNotification plain_binding (api_wrapper plain_deployment))
      \<in> set (api_routes plain_deployment)" and b: "dp_binding plain_deployment = plain_binding" by simp_all
  show ?thesis
    using bad_parameters_refused [OF rt, of "sms_inbound\<lparr>in_URLParam := \<lambda>_. ''42''\<rparr>" "BindError ''invalid UUID''"]
      bad_parameters_refused [OF rt, of "sms_inbound\<lparr>in_Header := \<lambda>_. Some [''a'', ''b'']\<rparr>" _ _ "[''a'', ''b'']"]
    by (simp add: b plain_binding_def)
qed

subsection \<open>Bodies\<close>

text \<open>The errors of \<open>time.Time\<close> and \<open>uuid.UUID\<close> on a text they cannot read are of no type the error handler
  knows.\<close>

definition codec_opaque :: "wire_codec \<Rightarrow> bool" where
  "codec_opaque K \<longleftrightarrow> (\<forall>s e. wc_time_read K s = Inl e \<longrightarrow> (\<exists>m. e = Opaque m)) \<and> (\<forall>s e. wc_uuid_read K s = Inl e \<longrightarrow> (\<exists>m. e = Opaque m))"

definition field_opaque :: "'s field \<Rightarrow> bool" where
  "field_opaque f \<longleftrightarrow> (\<forall>raw v s e. f raw v s = Inl e \<longrightarrow> (\<exists>m. e = Opaque m))"

lemma simple_fields_opaque [simp]:
  "field_opaque (string_field put)" "field_opaque (opt_string_field put')" "field_opaque (typed_field ok)"
  "field_opaque (opt_map_field K get put'')"
  by (simp_all add: field_opaque_def string_field_def opt_string_field_def typed_field_def opt_map_field_def)

lemma read_fields_opaque [simp]:
  assumes "codec_opaque K"
  shows "field_opaque (opt_time_field K put)" "field_opaque (opt_uuid_field K put')"
  using assms
  by (auto simp: field_opaque_def codec_opaque_def opt_time_field_def opt_uuid_field_def bind_res_eq_Inl split: json.splits)

lemma decode_members_opaque:
  "\<forall>(name, f) \<in> set fs. field_opaque f \<Longrightarrow> decode_members fs ms s = Inl e \<Longrightarrow> \<exists>m. e = Opaque m"
proof (induction ms arbitrary: s)
  case (Cons m ms)
  obtain k raw v where m: "m = (k, raw, v)" by (cases m) auto
  show ?case
  proof (cases "find (\<lambda>(name, _). names_field name k) fs")
    case None
    with Cons m show ?thesis by simp
  next
    case (Some nf)
    then have "nf \<in> set fs" by (metis find_Some_iff nth_mem)
    then have f: "field_opaque (snd nf)" using Cons.prems(1) by auto
    from Some Cons.prems(2) m consider "snd nf raw v s = Inl e" | s' where "decode_members fs ms s' = Inl e"
      by (cases nf) (auto simp: bind_res_eq_Inl)
    then show ?thesis using f Cons.IH Cons.prems(1) by cases (auto simp: field_opaque_def)
  qed
qed simp

lemma struct_opaque: "\<forall>(name, f) \<in> set fs. field_opaque f \<Longrightarrow> field_opaque (struct_field fs)"
  by (auto simp: field_opaque_def [of "struct_field fs"] struct_field_def intro: decode_members_opaque split: json.splits)

lemma decode_elements_opaque:
  "field_opaque f \<Longrightarrow> decode_elements zero f vs old = Inl e \<Longrightarrow> \<exists>m. e = Opaque m"
proof (induction vs arbitrary: old)
  case (Cons x vs)
  obtain raw v where "x = (raw, v)" by fastforce
  with Cons show ?case by (fastforce simp: bind_res_eq_Inl field_opaque_def)
qed simp

lemma slice_opaque: "field_opaque f \<Longrightarrow> field_opaque (slice_field zero f)"
  by (auto simp: field_opaque_def [of "slice_field zero f"] slice_field_def intro: decode_elements_opaque split: json.splits list.splits)

lemma body_fields_opaque:
  assumes "codec_opaque K"
  shows "field_opaque (struct_field (notification_fields K))" "field_opaque (struct_field (batch_fields K))"
  using assms by (auto intro!: struct_opaque slice_opaque simp: notification_fields_def batch_fields_def)

lemma template_fields_opaque: "field_opaque (struct_field template_fields)"
  by (auto intro!: struct_opaque simp: template_fields_def)

text \<open>The status of the answer to a body that is not decoded.\<close>

definition refusal_status :: "(string \<times> 's field) list \<Rightarrow> 's \<Rightarrow> string \<Rightarrow> int" where
  "refusal_status fs zero bs =
     (case raw_value bs of
        None \<Rightarrow> if skip_space bs = [] then 500 else 400
      | Some (raw, v, _) \<Rightarrow> (case struct_field fs raw v zero of Inl _ \<Rightarrow> 500 | Inr _ \<Rightarrow> 400))"

lemma respond_decode_error:
  "s \<in> {SyntaxError, UnmarshalTypeError, ErrUnexpectedEOF} \<Longrightarrow>
     \<exists>cs. RespondWithError r (Errorf f a (Sent s)) = Ret cs \<and> rp_status (sent cs) = 400"
  by (auto simp: RespondWithError_def isJSONDecodeError_def)

lemma respond_opaque: "\<exists>cs. outcome (RespondWithError r (Errorf f a (Opaque m))) = Some cs \<and> rp_status (sent cs) = 500"
  using unmapped_error [of "Errorf f a (Opaque m)" r] by (simp add: isJSONDecodeError_def internal_problem_def)

lemma with_body_refuses:
  assumes "field_opaque (struct_field fs)" and body: "rq_Body r = Some \<lparr>rd_bytes = bs, rd_fails = None\<rparr>"
    and e: "Decode fs zero (rq_Body r) = Inl e"
  shows "\<exists>cs. outcome (with_body fs zero f r) = Some cs \<and> rp_status (sent cs) = refusal_status fs zero bs"
proof -
  let ?answer = "RespondWithError r (Errorf ''can't decode JSON body: %w'' [] e)"
  consider (json) s where "e = Sent s" "s \<in> {SyntaxError, UnmarshalTypeError, ErrUnexpectedEOF}" "refusal_status fs zero bs = 400"
    | (other) m where "e = Opaque m" "refusal_status fs zero bs = 500"
  proof (cases "raw_value bs")
    case None
    have "scan_value (json_fuel bs) 0 bs = Truncated" if "skip_space bs = []"
      using that by (simp add: json_fuel_def scan_next_def)
    with None e that show ?thesis
      by (cases "skip_space bs = []") (auto simp: Decode_def next_value_def body refusal_status_def split: if_splits)
  next
    case (Some x)
    obtain raw v rest where x: "x = (raw, v, rest)" by (cases x) auto
    show ?thesis
    proof (cases "struct_field fs raw v zero")
      case (Inl e')
      moreover obtain m where "e' = Opaque m" using assms(1) Inl unfolding field_opaque_def by blast
      ultimately have "e = Opaque m" "refusal_status fs zero bs = 500"
        using Some x e by (simp_all add: Decode_def next_value_def body refusal_status_def)
      then show ?thesis by (rule that(2))
    next
      case (Inr sb)
      with Some x e that show ?thesis
        by (cases sb) (auto simp: Decode_def next_value_def body refusal_status_def split: if_splits)
    qed
  qed
  then have "\<exists>cs. outcome ?answer = Some cs \<and> rp_status (sent cs) = refusal_status fs zero bs"
  proof cases
    case json
    with respond_decode_error [OF json(2), of r] show ?thesis by (metis outcome.simps(1))
  next
    case other
    with respond_opaque [of r] show ?thesis by simp
  qed
  with e show ?thesis by (simp add: with_body_def)
qed

text \<open>C23: A body that cannot be decoded never reaches a use case, on all four operations that take one. The
  answer is 400 where the text is no JSON value, stops early or has a value of the wrong type; it is
  500 where the body is empty, or a delivery time or template id in it cannot be read.\<close>

theorem undecodable_bodies_refused:
  assumes K: "codec_opaque K" and body: "rq_Body r = Some \<lparr>rd_bytes = bs, rd_fails = None\<rparr>"
  shows "(Decode (notification_fields K) no_request (rq_Body r) = Inl e \<longrightarrow>
      (\<exists>cs. outcome (sh_CreateNotification P K sh params r) = Some cs \<and> rp_status (sent cs) = refusal_status (notification_fields K) no_request bs)) \<and>
    (Decode (batch_fields K) [] (rq_Body r) = Inl e \<longrightarrow>
      (\<exists>cs. outcome (sh_CreateBatch P K sh params r) = Some cs \<and> rp_status (sent cs) = refusal_status (batch_fields K) [] bs)) \<and>
    (Decode template_fields no_template (rq_Body r) = Inl e \<longrightarrow>
      (\<exists>cs. outcome (sh_CreateTemplate P K sh params r) = Some cs \<and> rp_status (sent cs) = refusal_status template_fields no_template bs) \<and>
      (\<exists>cs. outcome (sh_ReplaceTemplate P K sh i params r) = Some cs \<and> rp_status (sent cs) = refusal_status template_fields no_template bs))"
  unfolding sh_CreateNotification_def sh_CreateBatch_def sh_CreateTemplate_def sh_ReplaceTemplate_def
  by (intro conjI impI with_body_refuses body body_fields_opaque template_fields_opaque K)

theorem undecodable_bodies_refused_witness:
  "\<exists>cs cs'. outcome (sh_CreateNotification Inr plain_wire (api_strict plain_deployment) sms_params (keyed_request ''k1'' ''{'')) = Some cs \<and>
    rp_status (sent cs) = 400 \<and>
    outcome (sh_CreateNotification Inr plain_wire (api_strict plain_deployment) sms_params (keyed_request ''k1'' [])) = Some cs' \<and>
    rp_status (sent cs') = 500"
proof -
  have K: "codec_opaque plain_wire" by (auto simp: codec_opaque_def plain_wire_def split: sum.splits if_splits)
  have none: "raw_value ''{'' = None" "raw_value [] = None" "scan_value 4 0 ''{'' = Truncated" by code_simp+
  have "Decode (notification_fields plain_wire) no_request (rq_Body (keyed_request ''k1'' ''{'')) = Inl (Sent ErrUnexpectedEOF)"
    "Decode (notification_fields plain_wire) no_request (rq_Body (keyed_request ''k1'' [])) = Inl (Opaque ''EOF'')"
    by (simp_all add: Decode_def next_value_def none json_fuel_def scan_next_def skip_space_def dquote_def maxNestingDepth_def)
  with undecodable_bodies_refused [OF K, of "keyed_request ''k1'' ''{''" "''{''"]
    undecodable_bodies_refused [OF K, of "keyed_request ''k1'' []" "[]"]
  show ?thesis by (simp add: refusal_status_def none skip_space_def)
qed

end
