(* ===== verification/Hub.thy ===== *)
theory Hub
  imports Ports "HOL-Library.AList" "HOL-Library.Multiset"
begin

text \<open>
  The WebSocket hub (\<open>internal/adapters/websocket/hub.go\<close>) and the consumer that feeds it
  (\<open>consumer.go\<close>). A Go map is an association list with distinct keys; the critical sections
  under the hub's mutex are the operations below, and the order in which a map is ranged over is
  an argument.
\<close>

section \<open>Data\<close>

record StatusUpdate =
  su_NotificationID :: string
  su_Status :: string

text \<open>A client is its identifier and the connection behind it.\<close>

record Client =
  cl_ID :: string
  cl_conn :: nat

text \<open>\<open>metrics\<close> is the optional recorder, as the value its client gauge was last set to.\<close>

record Hub =
  subscribers :: "(NotificationID \<times> (string \<times> Client) list) list"
  clientSubs :: "(string \<times> NotificationID list) list"
  metrics :: "int option"

definition NewHub :: Hub where
  "NewHub = \<lparr>subscribers = [], clientSubs = [], metrics = None\<rparr>"

definition NewHubWithMetrics :: "int option \<Rightarrow> Hub" where
  "NewHubWithMetrics rec = NewHub\<lparr>metrics := rec\<rparr>"

definition SetWebSocketClients :: "Hub \<Rightarrow> Hub" where
  "SetWebSocketClients h = h\<lparr>metrics := map_option (\<lambda>_. int (length (clientSubs h))) (metrics h)\<rparr>"

section \<open>Operations\<close>

definition Subscribe :: "Client \<Rightarrow> NotificationID \<Rightarrow> Hub \<Rightarrow> Hub" where
  "Subscribe client nid h =
     (let clients = (case map_of (subscribers h) nid of Some cs \<Rightarrow> cs | None \<Rightarrow> []);
          subs = (case map_of (clientSubs h) (cl_ID client) of Some ns \<Rightarrow> ns | None \<Rightarrow> []) in
      SetWebSocketClients (h\<lparr>subscribers := AList.update nid (AList.update (cl_ID client) client clients) (subscribers h),
        clientSubs := AList.update (cl_ID client) (List.insert nid subs) (clientSubs h)\<rparr>))"

definition removeLocked :: "string \<Rightarrow> NotificationID \<Rightarrow> Hub \<Rightarrow> Hub" where
  "removeLocked clientID nid h =
     (let h = (case map_of (subscribers h) nid of None \<Rightarrow> h
           | Some clients \<Rightarrow>
               let clients = AList.delete clientID clients in
               h\<lparr>subscribers := (if clients = [] then AList.delete nid (subscribers h)
                   else AList.update nid clients (subscribers h))\<rparr>) in
      case map_of (clientSubs h) clientID of None \<Rightarrow> h
        | Some subs \<Rightarrow>
            let subs = removeAll nid subs in
            h\<lparr>clientSubs := (if subs = [] then AList.delete clientID (clientSubs h)
                else AList.update clientID subs (clientSubs h))\<rparr>)"

definition Unsubscribe :: "Client \<Rightarrow> NotificationID \<Rightarrow> Hub \<Rightarrow> Hub" where
  "Unsubscribe client nid h = removeLocked (cl_ID client) nid h"

definition UnsubscribeAll :: "Client \<Rightarrow> Hub \<Rightarrow> Hub" where
  "UnsubscribeAll client h =
     (case map_of (clientSubs h) (cl_ID client) of None \<Rightarrow> h
      | Some subs \<Rightarrow> SetWebSocketClients (fold (removeLocked (cl_ID client)) subs h))"

definition SubscriberCount :: "NotificationID \<Rightarrow> Hub \<Rightarrow> nat" where
  "SubscriberCount nid h = (case map_of (subscribers h) nid of None \<Rightarrow> 0 | Some cs \<Rightarrow> length cs)"

text \<open>The recipients are snapshot first, in the order \<open>pick\<close> the range statement happens to use;
  each gets the message, and is dropped when \<open>send\<close> reports a failure. The result also lists
  the messages pushed.\<close>

definition recipients :: "(Client list \<Rightarrow> Client list) \<Rightarrow> NotificationID \<Rightarrow> Hub \<Rightarrow> Client list" where
  "recipients pick nid h = pick (map snd (case map_of (subscribers h) nid of None \<Rightarrow> [] | Some cs \<Rightarrow> cs))"

fun push_all :: "(Client \<Rightarrow> StatusUpdate \<Rightarrow> bool) \<Rightarrow> StatusUpdate \<Rightarrow> Client list \<Rightarrow> Hub \<Rightarrow> Hub \<times> (Client \<times> StatusUpdate) list" where
  "push_all send msg [] h = (h, [])"
| "push_all send msg (c # cs) h =
     (case push_all send msg cs (if send c msg then h else UnsubscribeAll c h) of
        (h', pushed) \<Rightarrow> (h', (c, msg) # pushed))"

definition Broadcast ::
  "(Client \<Rightarrow> StatusUpdate \<Rightarrow> bool) \<Rightarrow> (Client list \<Rightarrow> Client list) \<Rightarrow> NotificationID \<Rightarrow> Status \<Rightarrow> Hub \<Rightarrow>
   Hub \<times> (Client \<times> StatusUpdate) list"
where
  "Broadcast send pick nid status h =
     push_all send \<lparr>su_NotificationID = nid, su_Status = status\<rparr> (recipients pick nid h) h"

section \<open>The consumer\<close>

text \<open>\<open>decoded\<close> is what \<open>json.Unmarshal\<close> makes of the payload.\<close>

definition dispatch ::
  "(Client \<Rightarrow> StatusUpdate \<Rightarrow> bool) \<Rightarrow> (Client list \<Rightarrow> Client list) \<Rightarrow> gerror + StatusUpdate \<Rightarrow> Hub \<Rightarrow>
   Hub \<times> (Client \<times> StatusUpdate) list"
where
  "dispatch send pick decoded h =
     (case decoded of Inl _ \<Rightarrow> (h, [])
      | Inr msg \<Rightarrow> (if su_NotificationID msg = [] \<or> su_Status msg = [] then (h, [])
          else Broadcast send pick (su_NotificationID msg) (su_Status msg) h))"

datatype consumer_event = CtxDone | ChannelClosed | Message "gerror + StatusUpdate"

text \<open>The loop of \<open>Run\<close> on the events of its select statement; it ends with the first event that
  is not a message. No result means it is still waiting for an event.\<close>

fun Consumer_loop ::
  "(Client \<Rightarrow> StatusUpdate \<Rightarrow> bool) \<Rightarrow> (Client list \<Rightarrow> Client list) \<Rightarrow> consumer_event list \<Rightarrow> Hub \<Rightarrow>
   gerror option \<times> Hub \<times> (Client \<times> StatusUpdate) list"
where
  "Consumer_loop send pick [] h = (None, h, [])"
| "Consumer_loop send pick (CtxDone # _) h = (Some (Opaque ''context canceled''), h, [])"
| "Consumer_loop send pick (ChannelClosed # _) h = (Some (Opaque ''redis pub/sub channel closed unexpectedly''), h, [])"
| "Consumer_loop send pick (Message decoded # events) h =
     (case dispatch send pick decoded h of (h, pushed) \<Rightarrow>
      case Consumer_loop send pick events h of (e, h, pushed') \<Rightarrow> (e, h, pushed @ pushed'))"

record Consumer =
  con_hub :: Hub
  con_ready :: bool

definition NewConsumer :: "Hub \<Rightarrow> Consumer" where
  "NewConsumer h = \<lparr>con_hub = h, con_ready = False\<rparr>"

definition IsReady :: "Consumer \<Rightarrow> bool" where
  "IsReady c = con_ready c"

text \<open>\<open>received\<close> is the reply to the SUBSCRIBE command.\<close>

definition Consumer_Run ::
  "(Client \<Rightarrow> StatusUpdate \<Rightarrow> bool) \<Rightarrow> (Client list \<Rightarrow> Client list) \<Rightarrow> gerror + unit \<Rightarrow> consumer_event list \<Rightarrow> Consumer \<Rightarrow>
   gerror option \<times> Consumer \<times> (Client \<times> StatusUpdate) list"
where
  "Consumer_Run send pick received events c =
     (case received of Inl e \<Rightarrow> (Some (Errorf ''subscribe confirmation: %w'' [] e), c, [])
      | Inr _ \<Rightarrow>
          case Consumer_loop send pick events (con_hub c) of
            (e, h, pushed) \<Rightarrow> (e, \<lparr>con_hub = h, con_ready = True\<rparr>, pushed))"

section \<open>Invariant and abstraction\<close>

definition clients_at :: "Hub \<Rightarrow> NotificationID \<Rightarrow> (string \<times> Client) list" where
  "clients_at h n = (case map_of (subscribers h) n of None \<Rightarrow> [] | Some cs \<Rightarrow> cs)"

definition notes_at :: "Hub \<Rightarrow> string \<Rightarrow> NotificationID list" where
  "notes_at h i = (case map_of (clientSubs h) i of None \<Rightarrow> [] | Some ns \<Rightarrow> ns)"

definition subs_of :: "Hub \<Rightarrow> (string \<times> NotificationID) set" where
  "subs_of h = {(i, n). i \<in> fst ` set (clients_at h n)}"

text \<open>The two indexes are in lock-step: distinct keys, no empty entry, a client filed under its own
  identifier, and the same pairs in both.\<close>

definition hub_ok :: "Hub \<Rightarrow> bool" where
  "hub_ok h \<longleftrightarrow>
     distinct (map fst (subscribers h)) \<and> distinct (map fst (clientSubs h)) \<and>
     (\<forall>n. map_of (subscribers h) n \<noteq> Some []) \<and> (\<forall>i. map_of (clientSubs h) i \<noteq> Some []) \<and>
     (\<forall>n. distinct (map fst (clients_at h n)) \<and> (\<forall>p \<in> set (clients_at h n). cl_ID (snd p) = fst p)) \<and>
     (\<forall>i. distinct (notes_at h i)) \<and>
     (\<forall>i n. i \<in> fst ` set (clients_at h n) \<longleftrightarrow> n \<in> set (notes_at h i))"

subsection \<open>Association lists\<close>

lemma in_update: "x \<in> set (AList.update k v al) \<Longrightarrow> x = (k, v) \<or> x \<in> set al"
  by (induction al) (auto split: if_splits)

lemma set_delete: "set (AList.delete k al) = {x \<in> set al. fst x \<noteq> k}"
  by (auto simp: AList.delete_eq)

lemma update_not_Nil [simp]: "AList.update k v al \<noteq> []"
  by (cases al) auto

lemma keys_update: "fst ` set (AList.update k v al) = insert k (fst ` set al)"
  by (simp add: dom_update)

lemma keys_delete: "fst ` set (AList.delete k al) = fst ` set al - {k}"
  by (auto simp: set_delete image_iff)

lemma map_of_update: "map_of (AList.update k v al) k' = (if k' = k then Some v else map_of al k')"
  by (simp add: update_conv')

lemma map_of_delete: "map_of (AList.delete k al) k' = (if k' = k then None else map_of al k')"
  by (simp add: delete_conv')

lemmas alist_rules = map_of_update map_of_delete keys_update keys_delete distinct_update distinct_delete

subsection \<open>The indexes after each critical section\<close>

lemma SetWebSocketClients_simps [simp]:
  "subscribers (SetWebSocketClients h) = subscribers h" "clientSubs (SetWebSocketClients h) = clientSubs h"
  "clients_at (SetWebSocketClients h) n = clients_at h n" "notes_at (SetWebSocketClients h) i = notes_at h i"
  "hub_ok (SetWebSocketClients h) = hub_ok h" "subs_of (SetWebSocketClients h) = subs_of h"
  by (simp_all add: SetWebSocketClients_def clients_at_def notes_at_def hub_ok_def subs_of_def)

lemma Subscribe_at:
  "clients_at (Subscribe c n h) m = (if m = n then AList.update (cl_ID c) c (clients_at h n) else clients_at h m)"
  "notes_at (Subscribe c n h) i = (if i = cl_ID c then List.insert n (notes_at h i) else notes_at h i)"
  by (auto simp: Subscribe_def Let_def clients_at_def notes_at_def alist_rules split: option.split)

lemma removeLocked_at:
  "clients_at (removeLocked i n h) m = (if m = n then AList.delete i (clients_at h n) else clients_at h m)"
  "notes_at (removeLocked i n h) j = (if j = i then removeAll n (notes_at h i) else notes_at h j)"
  by (auto simp: removeLocked_def Let_def clients_at_def notes_at_def alist_rules split: option.split)

lemma hub_okD:
  assumes "hub_ok h"
  shows "distinct (map fst (subscribers h))" "distinct (map fst (clientSubs h))"
    "map_of (subscribers h) n \<noteq> Some []" "map_of (clientSubs h) i \<noteq> Some []"
    "distinct (map fst (clients_at h n))" "p \<in> set (clients_at h n) \<Longrightarrow> cl_ID (snd p) = fst p"
    "distinct (notes_at h i)" "i \<in> fst ` set (clients_at h n) \<longleftrightarrow> n \<in> set (notes_at h i)"
  using assms by (auto simp: hub_ok_def)

lemma hub_okI:
  assumes "distinct (map fst (subscribers h))" "distinct (map fst (clientSubs h))"
    "\<And>n. map_of (subscribers h) n \<noteq> Some []" "\<And>i. map_of (clientSubs h) i \<noteq> Some []"
    "\<And>n. distinct (map fst (clients_at h n))" "\<And>n p. p \<in> set (clients_at h n) \<Longrightarrow> cl_ID (snd p) = fst p"
    "\<And>i. distinct (notes_at h i)" "\<And>i n. i \<in> fst ` set (clients_at h n) \<longleftrightarrow> n \<in> set (notes_at h i)"
  shows "hub_ok h"
  using assms unfolding hub_ok_def by blast

lemma Subscribe_ok:
  assumes "hub_ok h"
  shows "hub_ok (Subscribe c n h)"
proof (rule hub_okI)
  show "distinct (map fst (subscribers (Subscribe c n h)))" "distinct (map fst (clientSubs (Subscribe c n h)))"
    using hub_okD(1,2) [OF assms] by (simp_all add: Subscribe_def Let_def distinct_update)
  show "map_of (subscribers (Subscribe c n h)) m \<noteq> Some []" "map_of (clientSubs (Subscribe c n h)) i \<noteq> Some []" for m i
    using hub_okD(3,4) [OF assms]
    by (auto simp: Subscribe_def Let_def alist_rules List.insert_def split: option.splits)
qed (use hub_okD(5-) [OF assms] in \<open>auto simp: Subscribe_at keys_update distinct_update dest!: in_update split: if_splits\<close>)

lemma removeLocked_ok:
  assumes "hub_ok h"
  shows "hub_ok (removeLocked i n h)"
proof (rule hub_okI)
  show "distinct (map fst (subscribers (removeLocked i n h)))" "distinct (map fst (clientSubs (removeLocked i n h)))"
    using hub_okD(1,2) [OF assms]
    by (auto simp: removeLocked_def Let_def distinct_update distinct_delete split: option.split)
  show "map_of (subscribers (removeLocked i n h)) m \<noteq> Some []" "map_of (clientSubs (removeLocked i n h)) j \<noteq> Some []" for m j
    using hub_okD(3,4) [OF assms]
    by (auto simp: removeLocked_def Let_def alist_rules split: option.splits if_splits)
  show "cl_ID (snd p) = fst p" if "p \<in> set (clients_at (removeLocked i n h) m)" for p m
    using that hub_okD(6) [OF assms] by (auto simp: removeLocked_at set_delete split: if_splits)
  show "distinct (notes_at (removeLocked i n h) j)" for j
    using hub_okD(7) [OF assms] by (simp add: removeLocked_at distinct_removeAll)
  show "j \<in> fst ` set (clients_at (removeLocked i n h) m) \<longleftrightarrow> m \<in> set (notes_at (removeLocked i n h) j)" for j m
    using hub_okD(8) [OF assms] by (auto simp: removeLocked_at keys_delete)
qed (use hub_okD(5) [OF assms] in \<open>simp add: removeLocked_at distinct_delete\<close>)

lemma subs_of_at: "(i, n) \<in> subs_of h \<longleftrightarrow> i \<in> fst ` set (clients_at h n)"
  by (simp add: subs_of_def)

lemma Subscribe_subs: "subs_of (Subscribe c n h) = insert (cl_ID c, n) (subs_of h)"
  by (auto simp: subs_of_def Subscribe_at keys_update)

lemma removeLocked_subs: "subs_of (removeLocked i n h) = subs_of h - {(i, n)}"
  by (auto simp: subs_of_def removeLocked_at keys_delete)

lemma fold_removeLocked:
  "hub_ok h \<Longrightarrow> hub_ok (fold (removeLocked i) ns h) \<and> subs_of (fold (removeLocked i) ns h) = subs_of h - {i} \<times> set ns"
proof (induction ns arbitrary: h)
  case (Cons n ns)
  from Cons.IH [OF removeLocked_ok [OF Cons.prems, of i n]] show ?case by (auto simp: removeLocked_subs)
qed simp

lemma UnsubscribeAll_ok:
  assumes "hub_ok h"
  shows "hub_ok (UnsubscribeAll c h)" and "subs_of (UnsubscribeAll c h) = {p \<in> subs_of h. fst p \<noteq> cl_ID c}"
proof -
  have pairs: "(cl_ID c, n) \<in> subs_of h \<longleftrightarrow> n \<in> set (notes_at h (cl_ID c))" for n
    using hub_okD(8) [OF assms] by (simp add: subs_of_at)
  show "hub_ok (UnsubscribeAll c h)" using fold_removeLocked [OF assms] assms by (simp add: UnsubscribeAll_def split: option.split)
  show "subs_of (UnsubscribeAll c h) = {p \<in> subs_of h. fst p \<noteq> cl_ID c}"
    using fold_removeLocked [OF assms, of "cl_ID c"] pairs
    by (auto simp: UnsubscribeAll_def notes_at_def split: option.splits)
qed

section \<open>The contract of a subscription registry\<close>

text \<open>What the WebSocket handler and the consumer rely on: the registry behaves like a set of pairs
  of client and notification.\<close>

datatype hub_call = CallSubscribe Client NotificationID | CallUnsubscribe Client NotificationID | CallUnsubscribeAll Client

fun on_pairs :: "hub_call \<Rightarrow> (string \<times> NotificationID) set \<Rightarrow> (string \<times> NotificationID) set" where
  "on_pairs (CallSubscribe c n) R = insert (cl_ID c, n) R"
| "on_pairs (CallUnsubscribe c n) R = R - {(cl_ID c, n)}"
| "on_pairs (CallUnsubscribeAll c) R = {p \<in> R. fst p \<noteq> cl_ID c}"

locale registry =
  fixes empty :: 'h and call :: "hub_call \<Rightarrow> 'h \<Rightarrow> 'h" and pairs :: "'h \<Rightarrow> (string \<times> NotificationID) set"
    and ok :: "'h \<Rightarrow> bool" and count :: "NotificationID \<Rightarrow> 'h \<Rightarrow> nat"
  assumes ok_empty: "ok empty" and pairs_empty: "pairs empty = {}"
    and ok_call: "ok h \<Longrightarrow> ok (call k h)" and pairs_call: "ok h \<Longrightarrow> pairs (call k h) = on_pairs k (pairs h)"
    and count_pairs: "ok h \<Longrightarrow> count n h = card {i. (i, n) \<in> pairs h}"
begin

lemma calls_ok: "ok h \<Longrightarrow> ok (fold call ks h) \<and> pairs (fold call ks h) = fold on_pairs ks (pairs h)"
  by (induction ks arbitrary: h) (simp_all add: ok_call pairs_call)

lemma calls_from_empty:
  "ok (fold call ks empty) \<and> pairs (fold call ks empty) = fold on_pairs ks {} \<and>
   count n (fold call ks empty) = card {i. (i, n) \<in> fold on_pairs ks {}}"
  using calls_ok [OF ok_empty, of ks] by (simp add: count_pairs pairs_empty)

end

fun hub_apply :: "hub_call \<Rightarrow> Hub \<Rightarrow> Hub" where
  "hub_apply (CallSubscribe c n) h = Subscribe c n h"
| "hub_apply (CallUnsubscribe c n) h = Unsubscribe c n h"
| "hub_apply (CallUnsubscribeAll c) h = UnsubscribeAll c h"

lemma SubscriberCount_card:
  assumes "hub_ok h"
  shows "SubscriberCount n h = card {i. (i, n) \<in> subs_of h}"
proof -
  have "{i. (i, n) \<in> subs_of h} = set (map fst (clients_at h n))" by (simp add: subs_of_def)
  moreover have "card (set (map fst (clients_at h n))) = length (map fst (clients_at h n))"
    by (rule distinct_card [OF hub_okD(5) [OF assms]])
  ultimately show ?thesis by (simp add: SubscriberCount_def clients_at_def split: option.splits)
qed

interpretation hub: registry "NewHubWithMetrics m" hub_apply subs_of hub_ok SubscriberCount for m
proof
  show "hub_ok (NewHubWithMetrics m)" "subs_of (NewHubWithMetrics m) = {}"
    by (simp_all add: hub_ok_def subs_of_def clients_at_def notes_at_def NewHubWithMetrics_def NewHub_def)
  show "hub_ok h \<Longrightarrow> hub_ok (hub_apply k h)" "hub_ok h \<Longrightarrow> subs_of (hub_apply k h) = on_pairs k (subs_of h)" for h k
    by (cases k; simp add: Subscribe_ok Subscribe_subs Unsubscribe_def removeLocked_ok removeLocked_subs UnsubscribeAll_ok)+
qed (rule SubscriberCount_card)

text \<open>C36: Through any sequence of subscriptions, unsubscriptions and disconnects, the hub's two indexes
  stay in lock-step (the same pairs in both, no empty entries, no duplicates), hold exactly the pairs
  a set of subscriptions would hold, and the subscriber count is the number of distinct clients.\<close>

theorem hub_refines_subscriptions:
  "hub_ok (fold hub_apply ks (NewHubWithMetrics m)) \<and>
   subs_of (fold hub_apply ks (NewHubWithMetrics m)) = fold on_pairs ks {} \<and>
   SubscriberCount n (fold hub_apply ks (NewHubWithMetrics m)) = card {i. (i, n) \<in> fold on_pairs ks {}}"
  by (rule hub.calls_from_empty)

section \<open>Broadcasts\<close>

lemma push_all_ok:
  "push_all send msg cs h = (h', pushed) \<Longrightarrow> hub_ok h \<Longrightarrow>
   pushed = map (\<lambda>c. (c, msg)) cs \<and> hub_ok h' \<and>
   subs_of h' = {p \<in> subs_of h. \<forall>c \<in> set cs. fst p = cl_ID c \<longrightarrow> send c msg}"
proof (induction cs arbitrary: h pushed)
  case (Cons c cs)
  define g where "g = (if send c msg then h else UnsubscribeAll c h)"
  from Cons.prems(1) obtain rest where r: "push_all send msg cs g = (h', rest)" "pushed = (c, msg) # rest"
    by (auto simp: g_def split: prod.splits)
  have g: "hub_ok g" "subs_of g = {p \<in> subs_of h. fst p = cl_ID c \<longrightarrow> send c msg}"
    using Cons.prems(2) UnsubscribeAll_ok [of h c] by (auto simp: g_def)
  from Cons.IH [OF r(1) g(1)] have "rest = map (\<lambda>c. (c, msg)) cs" "hub_ok h'"
    "subs_of h' = {p \<in> subs_of g. \<forall>c \<in> set cs. fst p = cl_ID c \<longrightarrow> send c msg}" by simp_all
  then show ?case unfolding r(2) g(2) by simp
qed simp

text \<open>A broadcast pushes the update exactly once to every client subscribed to the notification and
  to nobody else, in whatever order the map is ranged over; a client whose push fails loses all its
  subscriptions and every other subscription is kept.\<close>

theorem broadcast_reaches_subscribers:
  assumes "hub_ok h" and "\<And>xs. mset (pick xs) = mset xs"
    and "Broadcast send pick n st h = (h', pushed)" and "msg = \<lparr>su_NotificationID = n, su_Status = st\<rparr>"
  shows "distinct (map (cl_ID \<circ> fst) pushed) \<and> set (map (cl_ID \<circ> fst) pushed) = {i. (i, n) \<in> subs_of h} \<and>
    (\<forall>p \<in> set pushed. snd p = msg) \<and> hub_ok h' \<and>
    subs_of h' = {p \<in> subs_of h. \<forall>c \<in> fst ` set pushed. fst p = cl_ID c \<longrightarrow> send c msg}"
proof -
  let ?cs = "recipients pick n h"
  have push: "pushed = map (\<lambda>c. (c, msg)) ?cs" "hub_ok h'"
    "subs_of h' = {p \<in> subs_of h. \<forall>c \<in> set ?cs. fst p = cl_ID c \<longrightarrow> send c msg}"
    using push_all_ok [of send msg ?cs h h' pushed] assms(1,3,4) by (simp_all add: Broadcast_def)
  have same: "mset ?cs = mset (map snd (clients_at h n))"
    unfolding recipients_def clients_at_def by (rule assms(2))
  have "map cl_ID (map snd (clients_at h n)) = map fst (clients_at h n)"
    using hub_okD(6) [OF assms(1)] by simp
  then have "mset (map cl_ID ?cs) = mset (map fst (clients_at h n))" using same by (metis mset_map)
  then have "distinct (map cl_ID ?cs)" "set (map cl_ID ?cs) = fst ` set (clients_at h n)"
    using hub_okD(5) [OF assms(1), of n] by (metis mset_eq_imp_distinct_iff, metis list.set_map mset_eq_setD)
  with push show ?thesis by (simp add: comp_def subs_of_def image_image)
qed

theorem broadcast_reaches_subscribers_witness:
  "\<exists>h' pushed. Broadcast (\<lambda>c _. cl_ID c \<noteq> ''b'') rev ''n1'' StatusDelivered
      (fold hub_apply [CallSubscribe \<lparr>cl_ID = ''a'', cl_conn = 1\<rparr> ''n1'', CallSubscribe \<lparr>cl_ID = ''b'', cl_conn = 2\<rparr> ''n1'']
        (NewHubWithMetrics None)) = (h', pushed) \<and>
    set (map (cl_ID \<circ> fst) pushed) = {''a'', ''b''} \<and> (''b'', ''n1'') \<notin> subs_of h'"
proof -
  let ?ks = "[CallSubscribe \<lparr>cl_ID = ''a'', cl_conn = 1\<rparr> ''n1'', CallSubscribe \<lparr>cl_ID = ''b'', cl_conn = 2\<rparr> ''n1'']"
  let ?h = "fold hub_apply ?ks (NewHubWithMetrics None)"
  obtain h' pushed where b: "Broadcast (\<lambda>c _. cl_ID c \<noteq> ''b'') rev ''n1'' StatusDelivered ?h = (h', pushed)"
    by fastforce
  note ok = hub.calls_from_empty [of ?ks None]
  have pairs: "fold on_pairs ?ks {} = {(''a'', ''n1''), (''b'', ''n1'')}" by auto
  from broadcast_reaches_subscribers [OF _ _ b refl] ok
  have r: "set (map (cl_ID \<circ> fst) pushed) = {i. (i, ''n1'') \<in> subs_of ?h}"
    "subs_of h' = {p \<in> subs_of ?h. \<forall>c \<in> fst ` set pushed. fst p = cl_ID c \<longrightarrow> cl_ID c \<noteq> ''b''}"
    by (simp_all del: fold_simps)
  have "subs_of ?h = {(''a'', ''n1''), (''b'', ''n1'')}" using ok pairs by simp
  with r(1) have ids: "set (map (cl_ID \<circ> fst) pushed) = {''a'', ''b''}" by auto
  then have "''b'' \<in> cl_ID ` fst ` set pushed" by (simp add: image_comp)
  then have "\<exists>c \<in> fst ` set pushed. cl_ID c = ''b''" by (metis imageE)
  then have "(''b'', ''n1'') \<notin> subs_of h'" unfolding r(2) by force
  with b ids show ?thesis by blast
qed

text \<open>The consumer keeps the invariant, whatever the messages.\<close>

lemma Consumer_loop_ok:
  "Consumer_loop send pick events h = (e, h', pushed) \<Longrightarrow> hub_ok h \<Longrightarrow> hub_ok h' \<and> subs_of h' \<subseteq> subs_of h"
proof (induction send pick events h arbitrary: e h' pushed rule: Consumer_loop.induct)
  case (4 send pick decoded events h)
  obtain h1 p1 where d: "dispatch send pick decoded h = (h1, p1)" by fastforce
  obtain p2 where r: "Consumer_loop send pick events h1 = (e, h', p2)"
    using 4(2) d by (auto split: prod.splits)
  have "hub_ok h1 \<and> subs_of h1 \<subseteq> subs_of h"
    using d 4(3) push_all_ok by (fastforce simp: dispatch_def Broadcast_def split: sum.splits if_splits)
  with 4(1) [OF d [symmetric] r] show ?case by blast
qed auto

corollary Consumer_Run_ok:
  assumes "Consumer_Run send pick received events c = (e, c', pushed)" and "hub_ok (con_hub c)"
  shows "hub_ok (con_hub c') \<and> subs_of (con_hub c') \<subseteq> subs_of (con_hub c)"
  using assms Consumer_loop_ok by (fastforce simp: Consumer_Run_def split: sum.splits prod.splits)

end
