(* ===== verification/Websocket.thy ===== *)
theory Websocket
  imports Hub Json
begin

text \<open>
  The WebSocket endpoint (\<open>internal/adapters/http/websocket_handler.go\<close>) over the hub: the messages
  clients send, the read loop of a connection, the client that writes to it, and the way from a
  published status message (\<open>internal/adapters/redis/status_broadcaster.go\<close>) to the frames of the
  subscribed connections.

  Connections are numbered in the order of their handshakes. Connections, and the consumer of the
  Redis channel, are goroutines of one process that share the hub; a run is the sequence of their
  critical sections.
\<close>

section \<open>Structs of strings in JSON\<close>

text \<open>\<open>json.Unmarshal\<close> into a struct whose fields are all strings, given by their names.\<close>

definition string_member ::
  "string list \<Rightarrow> string \<times> json \<Rightarrow> (string \<Rightarrow> string) option \<Rightarrow> (string \<Rightarrow> string) option"
where
  "string_member names m acc =
     (case acc of None \<Rightarrow> None
      | Some f \<Rightarrow>
          (case find (\<lambda>n. names_field n (fst m)) names of
             None \<Rightarrow> Some f
           | Some n \<Rightarrow> map_option (\<lambda>v. f(n := v)) (decode_string (snd m) (f n))))"

definition decode_strings :: "string list \<Rightarrow> string \<Rightarrow> (string \<Rightarrow> string) option" where
  "decode_strings names raw =
     (case json_parse raw of
        Some (JObject ms) \<Rightarrow> fold (string_member names) ms (Some (\<lambda>_. []))
      | Some JNull \<Rightarrow> Some (\<lambda>_. [])
      | _ \<Rightarrow> None)"

lemma decode_strings_pair:
  assumes "ascii a" "ascii b" "ascii u" "ascii v" "\<not> names_field a b"
  shows "decode_strings [a, b] (json_text (JObject [(a, JString u), (b, JString v)])) = Some ((\<lambda>_. [])(a := u, b := v))"
proof -
  have "json_parse (json_text (JObject [(a, JString u), (b, JString v)])) = Some (JObject [(a, JString u), (b, JString v)])"
    using assms by (intro json_parse_flat) simp_all
  then show ?thesis using assms(5) by (simp add: decode_strings_def string_member_def decode_string_def names_field_def)
qed

section \<open>Messages\<close>

definition subscribeAction :: string where "subscribeAction = ''subscribe''"
definition unsubscribeAction :: string where "unsubscribeAction = ''unsubscribe''"

record clientMessage =
  cm_Action :: string
  cm_NotificationID :: string

definition decode_clientMessage :: "string \<Rightarrow> clientMessage option" where
  "decode_clientMessage payload =
     map_option (\<lambda>f. \<lparr>cm_Action = f ''action'', cm_NotificationID = f ''notification_id''\<rparr>)
       (decode_strings [''action'', ''notification_id''] payload)"

text \<open>A status message as it is published, as the consumer reads it, and as a client receives it.\<close>

definition statusMessage :: "NotificationID \<Rightarrow> Status \<Rightarrow> string" where
  "statusMessage nid st = json_text (JObject [(''notification_id'', JString nid), (''status'', JString st)])"

definition decode_StatusUpdate :: "string \<Rightarrow> gerror + StatusUpdate" where
  "decode_StatusUpdate payload =
     (case decode_strings [''notification_id'', ''status''] payload of
        None \<Rightarrow> Inl (Sent SyntaxError)
      | Some f \<Rightarrow> Inr \<lparr>su_NotificationID = f ''notification_id'', su_Status = f ''status''\<rparr>)"

definition StatusUpdate_text :: "StatusUpdate \<Rightarrow> string" where
  "StatusUpdate_text msg =
     json_text (JObject [(''notification_id'', JString (su_NotificationID msg)), (''status'', JString (su_Status msg))])"

lemma message_names:
  "ascii ''notification_id''" "ascii ''status''" "ascii ''action''"
  "\<not> names_field ''notification_id'' ''status''" "\<not> names_field ''action'' ''notification_id''"
  by (simp_all add: is_ascii_def names_field_def less_eq_char_def)

lemma statusMessage_decodes:
  "ascii nid \<Longrightarrow> ascii st \<Longrightarrow> decode_StatusUpdate (statusMessage nid st) = Inr \<lparr>su_NotificationID = nid, su_Status = st\<rparr>"
  by (simp add: decode_StatusUpdate_def statusMessage_def decode_strings_pair [OF message_names(1,2) _ _ message_names(4)]
      del: json_text.simps)

lemma clientMessage_decodes:
  "ascii act \<Longrightarrow> ascii nid \<Longrightarrow>
   decode_clientMessage (json_text (JObject [(''action'', JString act), (''notification_id'', JString nid)])) =
     Some \<lparr>cm_Action = act, cm_NotificationID = nid\<rparr>"
  by (simp add: decode_clientMessage_def decode_strings_pair [OF message_names(3,1) _ _ message_names(5)]
      del: json_text.simps)

section \<open>The endpoint\<close>

definition ws_dispatch :: "Client \<Rightarrow> clientMessage \<Rightarrow> Hub \<Rightarrow> Hub" where
  "ws_dispatch client msg h =
     (if cm_NotificationID msg = [] then h
      else if cm_Action msg = subscribeAction then Subscribe client (cm_NotificationID msg) h
      else if cm_Action msg = unsubscribeAction then Unsubscribe client (cm_NotificationID msg) h
      else h)"

text \<open>One iteration of the read loop that got a payload: a malformed one is ignored.\<close>

definition read_iteration :: "Client \<Rightarrow> string \<Rightarrow> Hub \<Rightarrow> Hub" where
  "read_iteration client payload h =
     (case decode_clientMessage payload of None \<Rightarrow> h | Some msg \<Rightarrow> ws_dispatch client msg h)"

text \<open>The loop ends when the request's context is done or a read fails, whatever the error; the
  deferred call then removes the client from the hub.\<close>

datatype read_event = Read_Payload string | Read_Error gerror | Ctx_Done

fun serve_loop :: "Client \<Rightarrow> read_event list \<Rightarrow> Hub \<Rightarrow> Hub" where
  "serve_loop client [] h = h"
| "serve_loop client (Read_Payload payload # evs) h = serve_loop client evs (read_iteration client payload h)"
| "serve_loop client (Read_Error e # evs) h = UnsubscribeAll client h"
| "serve_loop client (Ctx_Done # evs) h = UnsubscribeAll client h"

text \<open>A refused handshake ends the request at once.\<close>

definition WebSocketHandler_ServeHTTP :: "gerror option \<Rightarrow> Client \<Rightarrow> read_event list \<Rightarrow> Hub \<Rightarrow> Hub" where
  "WebSocketHandler_ServeHTTP refused client evs h = (case refused of Some _ \<Rightarrow> h | None \<Rightarrow> serve_loop client evs h)"

text \<open>The client around a connection, with the text frames written so far; \<open>written\<close> is the answer
  of \<open>conn.Write\<close>. \<open>cc_done\<close> says that its handler has returned.\<close>

record connClient =
  cc_id :: string
  cc_closed :: bool
  cc_frames :: "string list"
  cc_done :: bool

definition newConnClient :: "string \<Rightarrow> connClient" where
  "newConnClient u = \<lparr>cc_id = ''ws-'' @ u, cc_closed = False, cc_frames = [], cc_done = False\<rparr>"

definition connClient_Send :: "gerror option \<Rightarrow> StatusUpdate \<Rightarrow> connClient \<Rightarrow> gerror option \<times> connClient" where
  "connClient_Send written msg c =
     (if cc_closed c then (Some (Opaque ''websocket client already closed''), c)
      else case written of
          Some e \<Rightarrow> (Some (Errorf ''ws write: %w'' [] e), c\<lparr>cc_closed := True\<rparr>)
        | None \<Rightarrow> (None, c\<lparr>cc_frames := cc_frames c @ [StatusUpdate_text msg]\<rparr>))"

section \<open>Runs of an instance\<close>

record api_instance =
  in_hub :: Hub
  in_conns :: "connClient list"

definition client_of :: "api_instance \<Rightarrow> nat \<Rightarrow> Client" where
  "client_of w k = \<lparr>cl_ID = cc_id (in_conns w ! k), cl_conn = k\<rparr>"

text \<open>What happens: a handshake (with the identifier drawn for it), an event of a connection's read
  loop, a message on the Redis channel (with what each write will answer and the order the
  subscribers are ranged over).\<close>

datatype ws_event =
    Handshake string
  | On_Read nat read_event
  | On_Redis string "nat \<Rightarrow> gerror option" "Client list \<Rightarrow> Client list"

definition serving :: "api_instance \<Rightarrow> nat \<Rightarrow> bool" where
  "serving w k \<longleftrightarrow> k < length (in_conns w) \<and> \<not> cc_done (in_conns w ! k)"

definition write_frame :: "(nat \<Rightarrow> gerror option) \<Rightarrow> Client \<times> StatusUpdate \<Rightarrow> connClient list \<Rightarrow> connClient list" where
  "write_frame written p cs =
     (let k = cl_conn (fst p) in cs[k := snd (connClient_Send (written k) (snd p) (cs ! k))])"

fun ws_step :: "ws_event \<Rightarrow> api_instance \<Rightarrow> api_instance" where
  "ws_step (Handshake u) w = w\<lparr>in_conns := in_conns w @ [newConnClient u]\<rparr>"
| "ws_step (On_Read k ev) w =
     (if \<not> serving w k then w
      else w\<lparr>in_hub := serve_loop (client_of w k) [ev] (in_hub w),
             in_conns := (case ev of Read_Payload _ \<Rightarrow> in_conns w
               | _ \<Rightarrow> (in_conns w)[k := (in_conns w ! k)\<lparr>cc_done := True\<rparr>])\<rparr>)"
| "ws_step (On_Redis payload written pick) w =
     (case dispatch
         (\<lambda>c msg. fst (connClient_Send (written (cl_conn c)) msg (in_conns w ! cl_conn c)) = None)
         pick (decode_StatusUpdate payload) (in_hub w) of
        (h, pushed) \<Rightarrow> w\<lparr>in_hub := h, in_conns := fold (write_frame written) pushed (in_conns w)\<rparr>)"

definition ws_run :: "ws_event list \<Rightarrow> api_instance" where
  "ws_run es = fold ws_step es \<lparr>in_hub = NewHub, in_conns = []\<rparr>"

section \<open>An abstract publish/subscribe machine\<close>

text \<open>What the endpoint promises, over connection numbers: who is subscribed to what, which connections
  are still served, which have failed a write, and the frames each has received.\<close>

record pubsub =
  ps_subs :: "(nat \<times> NotificationID) set"
  ps_serving :: "nat set"
  ps_dead :: "nat set"
  ps_count :: nat
  ps_frames :: "nat \<Rightarrow> string list"

definition pubsub_message :: "nat \<Rightarrow> clientMessage option \<Rightarrow> pubsub \<Rightarrow> pubsub" where
  "pubsub_message k m p =
     (case m of None \<Rightarrow> p
      | Some m \<Rightarrow>
          if cm_NotificationID m = [] then p
          else if cm_Action m = subscribeAction then p\<lparr>ps_subs := insert (k, cm_NotificationID m) (ps_subs p)\<rparr>
          else if cm_Action m = unsubscribeAction then p\<lparr>ps_subs := ps_subs p - {(k, cm_NotificationID m)}\<rparr>
          else p)"

definition pubsub_publish :: "(nat \<Rightarrow> bool) \<Rightarrow> StatusUpdate \<Rightarrow> pubsub \<Rightarrow> pubsub" where
  "pubsub_publish fails u p =
     (let hit = {k. (k, su_NotificationID u) \<in> ps_subs p};
          lost = {k \<in> hit. k \<in> ps_dead p \<or> fails k} in
      p\<lparr>ps_subs := {q \<in> ps_subs p. fst q \<notin> lost}, ps_dead := ps_dead p \<union> lost,
        ps_frames := (\<lambda>k. ps_frames p k @ (if k \<in> hit - lost then [StatusUpdate_text u] else []))\<rparr>)"

fun pubsub_step :: "ws_event \<Rightarrow> pubsub \<Rightarrow> pubsub" where
  "pubsub_step (Handshake u) p = p\<lparr>ps_serving := insert (ps_count p) (ps_serving p), ps_count := Suc (ps_count p)\<rparr>"
| "pubsub_step (On_Read k ev) p =
     (if k \<notin> ps_serving p then p
      else case ev of Read_Payload payload \<Rightarrow> pubsub_message k (decode_clientMessage payload) p
        | _ \<Rightarrow> p\<lparr>ps_subs := {q \<in> ps_subs p. fst q \<noteq> k}, ps_serving := ps_serving p - {k}\<rparr>)"
| "pubsub_step (On_Redis payload written pick) p =
     (case decode_StatusUpdate payload of
        Inl _ \<Rightarrow> p
      | Inr u \<Rightarrow> if su_NotificationID u = [] \<or> su_Status u = [] then p
          else pubsub_publish (\<lambda>k. written k \<noteq> None) u p)"

definition pubsub_run :: "ws_event list \<Rightarrow> pubsub" where
  "pubsub_run es = fold pubsub_step es
     \<lparr>ps_subs = {}, ps_serving = {}, ps_dead = {}, ps_count = 0, ps_frames = (\<lambda>_. [])\<rparr>"

section \<open>The endpoint implements it\<close>

definition conns_ok :: "api_instance \<Rightarrow> bool" where
  "conns_ok w \<longleftrightarrow> hub_ok (in_hub w) \<and> distinct (map cc_id (in_conns w)) \<and>
     (\<forall>n. \<forall>q \<in> set (clients_at (in_hub w) n). serving w (cl_conn (snd q)) \<and> snd q = client_of w (cl_conn (snd q)))"

definition subscribed :: "api_instance \<Rightarrow> (nat \<times> NotificationID) set" where
  "subscribed w = {(k, n). k < length (in_conns w) \<and> (cc_id (in_conns w ! k), n) \<in> subs_of (in_hub w)}"

definition pubsub_of :: "api_instance \<Rightarrow> pubsub" where
  "pubsub_of w = \<lparr>ps_subs = subscribed w, ps_serving = {k. serving w k},
     ps_dead = {k. k < length (in_conns w) \<and> cc_closed (in_conns w ! k)}, ps_count = length (in_conns w),
     ps_frames = (\<lambda>k. if k < length (in_conns w) then cc_frames (in_conns w ! k) else [])\<rparr>"

subsection \<open>Entries of the hub\<close>

lemma removeLocked_clients: "set (clients_at (removeLocked i n h) m) \<subseteq> set (clients_at h m)"
  by (auto simp: removeLocked_at set_delete)

lemma fold_removeLocked_clients: "set (clients_at (fold (removeLocked i) ns h) m) \<subseteq> set (clients_at h m)"
proof (induction ns arbitrary: h)
  case (Cons n ns)
  from Cons.IH [of "removeLocked i n h"] removeLocked_clients [of i n h m] show ?case by auto
qed simp

lemma UnsubscribeAll_clients: "set (clients_at (UnsubscribeAll c h) m) \<subseteq> set (clients_at h m)"
  using fold_removeLocked_clients by (auto simp: UnsubscribeAll_def split: option.split)

lemma push_all_clients:
  "push_all send msg cs h = (h', pushed) \<Longrightarrow> set (clients_at h' m) \<subseteq> set (clients_at h m)"
proof (induction cs arbitrary: h pushed)
  case (Cons c cs)
  then obtain rest where "push_all send msg cs (if send c msg then h else UnsubscribeAll c h) = (h', rest)"
    by (auto split: prod.splits)
  from Cons.IH [OF this] UnsubscribeAll_clients [of c h m] show ?case by (auto split: if_splits)
qed simp

lemma entry_serving:
  assumes "conns_ok w" "(i, n) \<in> subs_of (in_hub w)"
  obtains k where "serving w k" "i = cc_id (in_conns w ! k)" "(i, client_of w k) \<in> set (clients_at (in_hub w) n)"
proof -
  from assms(2) obtain q where q: "q \<in> set (clients_at (in_hub w) n)" "i = fst q" by (auto simp: subs_of_at)
  let ?k = "cl_conn (snd q)"
  from assms(1) q have k: "serving w ?k" "snd q = client_of w ?k" "cl_ID (snd q) = fst q"
    by (auto simp: conns_ok_def dest: hub_okD(6))
  from k(2,3) have "i = cc_id (in_conns w ! ?k)" by (metis client_of_def Client.simps(1) q(2))
  moreover from q k(2) have "(i, client_of w ?k) \<in> set (clients_at (in_hub w) n)" by (metis prod.collapse)
  ultimately show thesis using k(1) that by blast
qed

lemma id_unique:
  "conns_ok w \<Longrightarrow> j < length (in_conns w) \<Longrightarrow> k < length (in_conns w) \<Longrightarrow>
   cc_id (in_conns w ! j) = cc_id (in_conns w ! k) \<longleftrightarrow> j = k"
  using nth_eq_iff_index_eq [of "map cc_id (in_conns w)" j k] by (simp add: conns_ok_def)

lemma serving_bound: "serving w k \<Longrightarrow> k < length (in_conns w)"
  by (simp add: serving_def)

lemma client_of_ID [simp]: "cl_ID (client_of w k) = cc_id (in_conns w ! k)" "cl_conn (client_of w k) = k"
  by (simp_all add: client_of_def)

text \<open>A step that leaves the connections alone and files only the served client \<open>k\<close> anew.\<close>

lemma conns_ok_hub:
  assumes "conns_ok w" "hub_ok h" "serving w k"
    "\<And>n. set (clients_at h n) \<subseteq> insert (cc_id (in_conns w ! k), client_of w k) (set (clients_at (in_hub w) n))"
  shows "conns_ok (w\<lparr>in_hub := h\<rparr>)"
proof -
  have same: "serving (w\<lparr>in_hub := h\<rparr>) j = serving w j" "client_of (w\<lparr>in_hub := h\<rparr>) j = client_of w j" for j
    by (simp_all add: serving_def client_of_def)
  have "serving w (cl_conn (snd q)) \<and> snd q = client_of w (cl_conn (snd q))" if "q \<in> set (clients_at h n)" for n q
  proof -
    from that assms(4) have "q = (cc_id (in_conns w ! k), client_of w k) \<or> q \<in> set (clients_at (in_hub w) n)" by blast
    then show ?thesis using assms(1,3) by (auto simp: conns_ok_def)
  qed
  with assms(1,2) show ?thesis by (simp add: conns_ok_def same)
qed

subsection \<open>One step\<close>

lemma handshake_sim:
  assumes "conns_ok w" "''ws-'' @ u \<notin> set (map cc_id (in_conns w))"
  shows "conns_ok (ws_step (Handshake u) w)"
    and "pubsub_of (ws_step (Handshake u) w) = pubsub_step (Handshake u) (pubsub_of w)"
proof -
  define w' where "w' = ws_step (Handshake u) w"
  let ?m = "length (in_conns w)"
  have w': "in_hub w' = in_hub w" "length (in_conns w') = Suc ?m" "k < ?m \<Longrightarrow> in_conns w' ! k = in_conns w ! k"
    "in_conns w' ! ?m = newConnClient u" "distinct (map cc_id (in_conns w'))" for k
    using assms by (auto simp: w'_def nth_append conns_ok_def newConnClient_def)
  have serv: "serving w' k \<longleftrightarrow> serving w k \<or> k = ?m" for k
    using w' by (auto simp: serving_def less_Suc_eq newConnClient_def)
  have old: "client_of w' k = client_of w k" if "serving w k" for k
    using that w' by (simp add: serving_def client_of_def)
  show "conns_ok (ws_step (Handshake u) w)"
    using assms(1) w'(1,5) unfolding w'_def [symmetric] by (auto simp: conns_ok_def serv old)
  have "(''ws-'' @ u, n) \<notin> subs_of (in_hub w)" for n
    using assms by (auto elim!: entry_serving dest: serving_bound)
  then have "subscribed w' = subscribed w"
    using w' by (auto simp: subscribed_def less_Suc_eq newConnClient_def)
  then show "pubsub_of (ws_step (Handshake u) w) = pubsub_step (Handshake u) (pubsub_of w)"
    unfolding w'_def [symmetric] using w' serv
    by (auto simp: pubsub_of_def less_Suc_eq newConnClient_def fun_eq_iff)
qed

lemma payload_sim:
  assumes "conns_ok w" "serving w k"
  shows "conns_ok (ws_step (On_Read k (Read_Payload payload)) w)"
    and "pubsub_of (ws_step (On_Read k (Read_Payload payload)) w) = pubsub_step (On_Read k (Read_Payload payload)) (pubsub_of w)"
proof -
  let ?h = "read_iteration (client_of w k) payload (in_hub w)"
  have ok: "hub_ok (in_hub w)" using assms(1) by (simp add: conns_ok_def)
  have w: "ws_step (On_Read k (Read_Payload payload)) w = w\<lparr>in_hub := ?h\<rparr>"
    using assms(2) by simp
  have "hub_ok ?h"
    using ok by (auto simp: read_iteration_def ws_dispatch_def Unsubscribe_def Subscribe_ok removeLocked_ok split: option.split)
  moreover have "set (clients_at ?h n) \<subseteq> insert (cc_id (in_conns w ! k), client_of w k) (set (clients_at (in_hub w) n))" for n
    by (auto simp: read_iteration_def ws_dispatch_def Unsubscribe_def Subscribe_at removeLocked_at set_delete
        dest!: in_update split: option.splits if_splits)
  ultimately show "conns_ok (ws_step (On_Read k (Read_Payload payload)) w)"
    unfolding w by (intro conns_ok_hub [OF assms(1) _ assms(2)])
  have ids: "j < length (in_conns w) \<Longrightarrow> cc_id (in_conns w ! j) = cc_id (in_conns w ! k) \<longleftrightarrow> j = k" for j
    using id_unique [OF assms(1)] serving_bound [OF assms(2)] by blast
  have "subscribed (w\<lparr>in_hub := ?h\<rparr>) = ps_subs (pubsub_message k (decode_clientMessage payload) (pubsub_of w))"
    using serving_bound [OF assms(2)] ids
    by (auto simp: subscribed_def pubsub_of_def pubsub_message_def read_iteration_def ws_dispatch_def Unsubscribe_def
        Subscribe_subs removeLocked_subs split: option.split)
  then show "pubsub_of (ws_step (On_Read k (Read_Payload payload)) w) = pubsub_step (On_Read k (Read_Payload payload)) (pubsub_of w)"
    unfolding w using assms(2)
    by (auto simp: pubsub_of_def pubsub_message_def serving_def split: option.splits)
qed

lemma end_sim:
  assumes "conns_ok w" "serving w k" "\<forall>payload. ev \<noteq> Read_Payload payload"
  shows "conns_ok (ws_step (On_Read k ev) w)"
    and "pubsub_of (ws_step (On_Read k ev) w) = pubsub_step (On_Read k ev) (pubsub_of w)"
proof -
  define w' where "w' = ws_step (On_Read k ev) w"
  have k: "k < length (in_conns w)" by (rule serving_bound [OF assms(2)])
  have w': "in_hub w' = UnsubscribeAll (client_of w k) (in_hub w)"
    "in_conns w' = (in_conns w)[k := (in_conns w ! k)\<lparr>cc_done := True\<rparr>]"
    using assms(2,3) by (auto simp: w'_def split: read_event.split) (cases ev; simp)+
  have at: "j < length (in_conns w) \<Longrightarrow>
      in_conns w' ! j = (if j = k then (in_conns w ! k)\<lparr>cc_done := True\<rparr> else in_conns w ! j)"
    "length (in_conns w') = length (in_conns w)" for j
    by (simp_all add: w'(2) nth_list_update)
  have ids: "map cc_id (in_conns w') = map cc_id (in_conns w)"
    by (simp add: w'(2) map_update list_update_same_conv k)
  have ok: "hub_ok (in_hub w)" using assms(1) by (simp add: conns_ok_def)
  note hub = UnsubscribeAll_ok [OF ok, of "client_of w k", folded w'(1)]
  have serv: "serving w' j \<longleftrightarrow> serving w j \<and> j \<noteq> k" for j
    using k at by (auto simp: serving_def split: if_splits)
  have same: "client_of w' j = client_of w j" if "serving w j" for j
    using that at k by (simp add: client_of_def serving_def)
  have "serving w' (cl_conn (snd q)) \<and> snd q = client_of w' (cl_conn (snd q))" if q: "q \<in> set (clients_at (in_hub w') n)" for n q
  proof -
    from q UnsubscribeAll_clients have old: "q \<in> set (clients_at (in_hub w) n)" unfolding w'(1) by blast
    from q have "(fst q, n) \<in> subs_of (in_hub w')" by (auto simp: subs_of_at)
    with hub(2) have "fst q \<noteq> cc_id (in_conns w ! k)" by auto
    moreover from old assms(1) have "serving w (cl_conn (snd q))" "snd q = client_of w (cl_conn (snd q))" "cl_ID (snd q) = fst q"
      by (auto simp: conns_ok_def dest: hub_okD(6))
    ultimately show ?thesis by (metis client_of_ID(1) same serv)
  qed
  then show "conns_ok (ws_step (On_Read k ev) w)"
    unfolding w'_def [symmetric] using hub(1) assms(1) ids by (simp add: conns_ok_def)
  have "subscribed w' = {q \<in> subscribed w. fst q \<noteq> k}"
    using hub(2) at id_unique [OF assms(1) _ k] k by (auto simp: subscribed_def split: if_splits)
  then show "pubsub_of (ws_step (On_Read k ev) w) = pubsub_step (On_Read k ev) (pubsub_of w)"
    unfolding w'_def [symmetric] using assms(2,3) serv k at
    by (cases ev) (auto simp: pubsub_of_def fun_eq_iff split: if_splits)
qed

subsection \<open>A published message\<close>

lemma write_frames:
  assumes "distinct (map cl_conn cl)" "cl_conn ` set cl \<subseteq> {..<length cs}"
  shows "length (fold (write_frame written) (map (\<lambda>c. (c, u)) cl) cs) = length cs \<and>
    (\<forall>k < length cs. fold (write_frame written) (map (\<lambda>c. (c, u)) cl) cs ! k =
      (if k \<in> cl_conn ` set cl then snd (connClient_Send (written k) u (cs ! k)) else cs ! k))"
  using assms
proof (induction cl arbitrary: cs)
  case (Cons c cl)
  let ?cs = "write_frame written (c, u) cs"
  have len: "length ?cs = length cs" by (simp add: write_frame_def Let_def)
  have "?cs ! k = (if k = cl_conn c then snd (connClient_Send (written k) u (cs ! k)) else cs ! k)" if "k < length cs" for k
    using that by (auto simp: write_frame_def Let_def)
  with Cons.IH [of ?cs] Cons.prems len show ?case by auto
qed simp

lemma recipients_conns:
  assumes "conns_ok w" "\<And>xs. mset (pick xs) = mset xs"
  shows "distinct (map cl_conn (recipients pick n (in_hub w)))"
    and "c \<in> set (recipients pick n (in_hub w)) \<Longrightarrow> c = client_of w (cl_conn c)"
    and "c \<in> set (recipients pick n (in_hub w)) \<Longrightarrow> cl_conn c < length (in_conns w)"
    and "cl_conn ` set (recipients pick n (in_hub w)) = {k. (k, n) \<in> subscribed w}"
proof -
  let ?R = "recipients pick n (in_hub w)" and ?C = "clients_at (in_hub w) n"
  have same: "mset ?R = mset (map snd ?C)" unfolding recipients_def clients_at_def by (rule assms(2))
  then have R: "set ?R = snd ` set ?C" by (metis list.set_map mset_eq_setD)
  show c: "c = client_of w (cl_conn c)" "cl_conn c < length (in_conns w)" if "c \<in> set ?R" for c
    using that assms(1) unfolding R by (auto simp: conns_ok_def dest: serving_bound)
  have ok: "hub_ok (in_hub w)" using assms(1) by (simp add: conns_ok_def)
  have "map cl_ID (map snd ?C) = map fst ?C" using hub_okD(6) [OF ok] by simp
  then have "mset (map cl_ID ?R) = mset (map fst ?C)" using same by (metis mset_map)
  then have "distinct (map cl_ID ?R)" using hub_okD(5) [OF ok] by (metis mset_eq_imp_distinct_iff)
  moreover have "map cl_ID ?R = map (\<lambda>k. cc_id (in_conns w ! k)) (map cl_conn ?R)"
    using c(1) by simp (metis client_of_ID(1))
  ultimately show "distinct (map cl_conn ?R)" by (metis distinct_map)
  show "cl_conn ` set ?R = {k. (k, n) \<in> subscribed w}"
  proof (intro set_eqI iffI)
    fix k assume "k \<in> cl_conn ` set ?R"
    then obtain q where q: "q \<in> set ?C" "k = cl_conn (snd q)" unfolding R by auto
    then have "snd q \<in> set ?R" unfolding R by simp
    from c [OF this] q have "cl_ID (snd q) = cc_id (in_conns w ! k)" "k < length (in_conns w)" by (metis client_of_ID(1))+
    moreover have "cl_ID (snd q) = fst q" using hub_okD(6) [OF ok q(1)] .
    ultimately show "k \<in> {k. (k, n) \<in> subscribed w}"
      using rev_image_eqI [OF q(1), of "cc_id (in_conns w ! k)" fst] by (simp add: subscribed_def subs_of_at)
  next
    fix k assume "k \<in> {k. (k, n) \<in> subscribed w}"
    then have k: "k < length (in_conns w)" "(cc_id (in_conns w ! k), n) \<in> subs_of (in_hub w)" by (auto simp: subscribed_def)
    from entry_serving [OF assms(1) k(2)] obtain j where j: "serving w j" "cc_id (in_conns w ! k) = cc_id (in_conns w ! j)"
      "(cc_id (in_conns w ! k), client_of w j) \<in> set ?C" by blast
    with k(1) have "j = k" using id_unique [OF assms(1)] serving_bound by metis
    with j(3) show "k \<in> cl_conn ` set ?R" unfolding R by (metis client_of_ID(2) imageI snd_conv)
  qed
qed

lemma Send_answers:
  "fst (connClient_Send a u c) = None \<longleftrightarrow> \<not> cc_closed c \<and> a = None"
  "cc_id (snd (connClient_Send a u c)) = cc_id c" "cc_done (snd (connClient_Send a u c)) = cc_done c"
  "cc_closed (snd (connClient_Send a u c)) \<longleftrightarrow> cc_closed c \<or> a \<noteq> None"
  "cc_frames (snd (connClient_Send a u c)) =
     cc_frames c @ (if \<not> cc_closed c \<and> a = None then [StatusUpdate_text u] else [])"
  by (auto simp: connClient_Send_def split: option.split)

lemma StatusUpdate_eta: "\<lparr>su_NotificationID = su_NotificationID u, su_Status = su_Status u\<rparr> = (u :: StatusUpdate)"
  by (cases u) simp

lemma broadcast_sim:
  assumes "conns_ok w" "\<And>xs. mset (pick xs) = mset xs"
    and "decode_StatusUpdate payload = Inr u" "su_NotificationID u \<noteq> []" "su_Status u \<noteq> []"
  shows "conns_ok (ws_step (On_Redis payload written pick) w)"
    and "pubsub_of (ws_step (On_Redis payload written pick) w) = pubsub_publish (\<lambda>k. written k \<noteq> None) u (pubsub_of w)"
proof -
  define w' where "w' = ws_step (On_Redis payload written pick) w"
  let ?n = "su_NotificationID u" and ?R = "recipients pick (su_NotificationID u) (in_hub w)"
  let ?send = "\<lambda>c msg. fst (connClient_Send (written (cl_conn c)) msg (in_conns w ! cl_conn c)) = None"
  have ok: "hub_ok (in_hub w)" using assms(1) by (simp add: conns_ok_def)
  obtain h pushed where push: "push_all ?send u ?R (in_hub w) = (h, pushed)" by fastforce
  note hub = push_all_ok [OF push ok]
  note R = recipients_conns [OF assms(1,2), where n = ?n]
  have w': "in_hub w' = h" "in_conns w' = fold (write_frame written) (map (\<lambda>c. (c, u)) ?R) (in_conns w)"
    using push hub assms(3-5) by (simp_all add: w'_def dispatch_def Broadcast_def StatusUpdate_eta)
  have "cl_conn ` set ?R \<subseteq> {..<length (in_conns w)}" using R(3) by auto
  note frames = write_frames [OF R(1) this, of written u]
  have len: "length (in_conns w') = length (in_conns w)"
    using frames unfolding w' by simp
  have at: "in_conns w' ! k = (if (k, ?n) \<in> subscribed w then snd (connClient_Send (written k) u (in_conns w ! k)) else in_conns w ! k)"
    if "k < length (in_conns w)" for k
    using frames that unfolding w' by (simp add: R(4))
  have ids: "cc_id (in_conns w' ! k) = cc_id (in_conns w ! k)" "cc_done (in_conns w' ! k) = cc_done (in_conns w ! k)"
    if "k < length (in_conns w)" for k
    using at [OF that] by (simp_all add: Send_answers)
  have idmap: "map cc_id (in_conns w') = map cc_id (in_conns w)"
    by (rule nth_equalityI) (simp_all add: len ids)
  have serv: "serving w' k = serving w k" "serving w k \<Longrightarrow> client_of w' k = client_of w k" for k
    using ids len by (auto simp: serving_def client_of_def)
  have "set (clients_at h m) \<subseteq> set (clients_at (in_hub w) m)" for m by (rule push_all_clients [OF push])
  then show "conns_ok (ws_step (On_Redis payload written pick) w)"
    unfolding w'_def [symmetric] using assms(1) hub w'(1) idmap serv by (fastforce simp: conns_ok_def)
  have lost: "(\<forall>c \<in> set ?R. cc_id (in_conns w ! k) = cl_ID c \<longrightarrow> ?send c u) \<longleftrightarrow>
      ((k, ?n) \<in> subscribed w \<longrightarrow> \<not> cc_closed (in_conns w ! k) \<and> written k = None)" if k: "k < length (in_conns w)" for k
  proof -
    have "c \<in> set ?R \<Longrightarrow> cc_id (in_conns w ! k) = cl_ID c \<longleftrightarrow> k = cl_conn c" for c
      using R(2,3) id_unique [OF assms(1) k] by (metis client_of_ID(1))
    then have "(\<forall>c \<in> set ?R. cc_id (in_conns w ! k) = cl_ID c \<longrightarrow> ?send c u) \<longleftrightarrow>
        (k \<in> cl_conn ` set ?R \<longrightarrow> fst (connClient_Send (written k) u (in_conns w ! k)) = None)" by auto
    then show ?thesis by (simp add: R(4) Send_answers(1))
  qed
  have "(k, m) \<in> subscribed w' \<longleftrightarrow> (k, m) \<in> subscribed w \<and>
      ((k, ?n) \<in> subscribed w \<longrightarrow> \<not> cc_closed (in_conns w ! k) \<and> written k = None)" for k m
    using lost [of k] hub ids(1) [of k] by (cases "k < length (in_conns w)") (auto simp: subscribed_def w'(1) len)
  moreover have bound: "(k, m) \<in> subscribed w \<Longrightarrow> k < length (in_conns w)" for k m by (simp add: subscribed_def)
  ultimately have "subscribed w' = {q \<in> subscribed w. \<not> ((fst q, ?n) \<in> subscribed w \<and> (cc_closed (in_conns w ! fst q) \<or> written (fst q) \<noteq> None))}"
    by auto
  then show "pubsub_of (ws_step (On_Redis payload written pick) w) = pubsub_publish (\<lambda>k. written k \<noteq> None) u (pubsub_of w)"
    unfolding w'_def [symmetric] using len at serv(1) bound
    by (auto simp: pubsub_of_def pubsub_publish_def Let_def fun_eq_iff Send_answers split: if_splits)
qed

section \<open>Whole runs\<close>

text \<open>The identifiers drawn for the connections, and the runs considered: identifiers do not repeat
  and a map is ranged over in some order.\<close>

fun handshake_ids :: "ws_event list \<Rightarrow> string list" where
  "handshake_ids [] = []"
| "handshake_ids (Handshake u # es) = u # handshake_ids es"
| "handshake_ids (_ # es) = handshake_ids es"

definition orderly :: "ws_event list \<Rightarrow> bool" where
  "orderly es \<longleftrightarrow> distinct (handshake_ids es) \<and>
     (\<forall>payload written pick. On_Redis payload written pick \<in> set es \<longrightarrow> (\<forall>xs. mset (pick xs) = mset xs))"

lemma handshake_ids_append [simp]: "handshake_ids (es @ fs) = handshake_ids es @ handshake_ids fs"
  by (induction es rule: handshake_ids.induct) auto

lemma redis_sim:
  assumes "conns_ok w" "\<And>xs. mset (pick xs) = mset xs"
  shows "conns_ok (ws_step (On_Redis payload written pick) w) \<and>
    pubsub_of (ws_step (On_Redis payload written pick) w) = pubsub_step (On_Redis payload written pick) (pubsub_of w)"
proof (cases "\<exists>u. decode_StatusUpdate payload = Inr u \<and> su_NotificationID u \<noteq> [] \<and> su_Status u \<noteq> []")
  case True
  then obtain u where u: "decode_StatusUpdate payload = Inr u" "su_NotificationID u \<noteq> []" "su_Status u \<noteq> []" by blast
  from broadcast_sim [OF assms u] u show ?thesis by simp
next
  case False
  then have "dispatch send pick (decode_StatusUpdate payload) (in_hub w) = (in_hub w, [])" for send
    by (auto simp: dispatch_def split: sum.split)
  moreover from False have "pubsub_step (On_Redis payload written pick) (pubsub_of w) = pubsub_of w"
    by (auto split: sum.split)
  ultimately show ?thesis using assms(1) by (simp del: pubsub_step.simps)
qed

lemma read_sim:
  assumes "conns_ok w"
  shows "conns_ok (ws_step (On_Read k ev) w)"
    and "pubsub_of (ws_step (On_Read k ev) w) = pubsub_step (On_Read k ev) (pubsub_of w)"
proof -
  have idle: "ws_step (On_Read k ev) w = w \<and> pubsub_step (On_Read k ev) (pubsub_of w) = pubsub_of w" if "\<not> serving w k"
    using that by (simp add: pubsub_of_def)
  show "conns_ok (ws_step (On_Read k ev) w)"
    using idle assms payload_sim(1) [OF assms] end_sim(1) [OF assms]
    by (cases "serving w k"; cases ev) (simp_all del: ws_step.simps)
  show "pubsub_of (ws_step (On_Read k ev) w) = pubsub_step (On_Read k ev) (pubsub_of w)"
    using idle payload_sim(2) [OF assms] end_sim(2) [OF assms]
    by (cases "serving w k"; cases ev) (simp_all del: ws_step.simps pubsub_step.simps)
qed

lemma map_update_same: "f x = f (xs ! k) \<Longrightarrow> map f (xs[k := x]) = map f xs"
  by (metis list_update_id map_update)

lemma Send_fold_ids:
  "map cc_id (fold (write_frame written) ps cs) = map cc_id cs"
proof (induction ps arbitrary: cs)
  case (Cons p ps)
  have "map cc_id (write_frame written p cs) = map cc_id cs"
    by (simp add: write_frame_def Let_def map_update_same Send_answers)
  with Cons show ?case by simp
qed simp

lemma step_ids: "map cc_id (in_conns (ws_step e w)) = map cc_id (in_conns w) @ map ((@) ''ws-'') (handshake_ids [e])"
proof (cases e)
  case (On_Read k ev)
  have "map cc_id ((in_conns w)[k := (in_conns w ! k)\<lparr>cc_done := True\<rparr>]) = map cc_id (in_conns w)"
    by (simp add: map_update_same)
  with On_Read show ?thesis by (auto split: read_event.split)
qed (auto simp: newConnClient_def Send_fold_ids split: prod.split)

lemma run_sim:
  "orderly es \<Longrightarrow> conns_ok (ws_run es) \<and> pubsub_of (ws_run es) = pubsub_run es \<and>
   map cc_id (in_conns (ws_run es)) = map ((@) ''ws-'') (handshake_ids es)"
proof (induction es rule: rev_induct)
  case Nil
  show ?case
    using hub.ok_empty [of None] hub.pairs_empty [of None]
    by (auto simp: ws_run_def pubsub_run_def conns_ok_def pubsub_of_def subscribed_def serving_def
        NewHubWithMetrics_def NewHub_def clients_at_def)
next
  case (snoc e es)
  let ?w = "ws_run es"
  from snoc.prems have ord: "orderly es" "distinct (handshake_ids es @ handshake_ids [e])"
    "e = On_Redis payload written pick \<Longrightarrow> mset (pick xs) = mset xs" for payload written pick xs
    by (auto simp: orderly_def)
  from snoc.IH [OF ord(1)] have IH: "conns_ok ?w" "pubsub_of ?w = pubsub_run es"
    "map cc_id (in_conns ?w) = map ((@) ''ws-'') (handshake_ids es)" by blast+
  have run: "ws_run (es @ [e]) = ws_step e ?w" "pubsub_run (es @ [e]) = pubsub_step e (pubsub_run es)"
    by (simp_all add: ws_run_def pubsub_run_def)
  have ids: "map cc_id (in_conns (ws_step e ?w)) = map ((@) ''ws-'') (handshake_ids (es @ [e]))"
    unfolding step_ids IH(3) handshake_ids_append map_append ..
  have "conns_ok (ws_step e ?w) \<and> pubsub_of (ws_step e ?w) = pubsub_step e (pubsub_of ?w)"
  proof (cases e)
    case (Handshake u)
    with ord(2) have "''ws-'' @ u \<notin> set (map cc_id (in_conns ?w))" unfolding IH(3) by auto
    with handshake_sim [OF IH(1)] Handshake show ?thesis by blast
  next
    case (On_Read k ev)
    with read_sim [OF IH(1)] show ?thesis by blast
  next
    case (On_Redis payload written pick)
    with redis_sim [OF IH(1) ord(3) [OF On_Redis]] show ?thesis by blast
  qed
  with ids IH(2) run show ?case by simp
qed

lemma subs_of_subscribed:
  assumes "conns_ok w"
  shows "subs_of (in_hub w) = {(cc_id (in_conns w ! k), n) | k n. (k, n) \<in> subscribed w}"
proof (intro set_eqI iffI)
  fix q assume q: "q \<in> subs_of (in_hub w)"
  then obtain i n where "q = (i, n)" by fastforce
  with q assms show "q \<in> {(cc_id (in_conns w ! k), n) | k n. (k, n) \<in> subscribed w}"
    using serving_bound by (auto simp: subscribed_def elim!: entry_serving)
qed (auto simp: subscribed_def)



text \<open>C38: A status change published for a notification reaches every WebSocket connection subscribed to it
  whose writes succeed as one text frame, byte for byte the published message; every other connection
  receives nothing.\<close>

theorem published_update_delivered:
  assumes "orderly (es @ [On_Redis (statusMessage nid st) written pick])"
    and "ascii nid" "nid \<noteq> []" "ascii st" "st \<noteq> []" and "k < length (in_conns (ws_run es))"
  shows "cc_frames (in_conns (ws_run (es @ [On_Redis (statusMessage nid st) written pick])) ! k) =
    cc_frames (in_conns (ws_run es) ! k) @
      (if (k, nid) \<in> ps_subs (pubsub_run es) \<and> k \<notin> ps_dead (pubsub_run es) \<and> written k = None
       then [statusMessage nid st] else [])"
proof -
  let ?e = "On_Redis (statusMessage nid st) written pick" and ?u = "\<lparr>su_NotificationID = nid, su_Status = st\<rparr>"
  have "orderly es" using assms(1) by (auto simp: orderly_def)
  note before = run_sim [OF this] and after = run_sim [OF assms(1)]
  have step: "pubsub_run (es @ [?e]) = pubsub_publish (\<lambda>k. written k \<noteq> None) ?u (pubsub_run es)"
    using assms(2-5) by (simp add: pubsub_run_def statusMessage_decodes)
  have len: "length (in_conns (ws_run (es @ [?e]))) = length (in_conns (ws_run es))"
    using before after by (metis handshake_ids.simps(1,4) handshake_ids_append length_map append_Nil2)
  have frames: "ps_frames (pubsub_of w) k = cc_frames (in_conns w ! k)" if "k < length (in_conns w)" for w
    using that by (simp add: pubsub_of_def)
  have "cc_frames (in_conns (ws_run (es @ [?e])) ! k) = ps_frames (pubsub_run (es @ [?e])) k"
    using frames [of "ws_run (es @ [?e])"] after assms(6) len by simp
  also have "\<dots> = ps_frames (pubsub_run es) k @
      (if (k, nid) \<in> ps_subs (pubsub_run es) \<and> k \<notin> ps_dead (pubsub_run es) \<and> written k = None then [statusMessage nid st] else [])"
    unfolding step by (simp add: pubsub_publish_def Let_def StatusUpdate_text_def statusMessage_def)
  also have "ps_frames (pubsub_run es) k = cc_frames (in_conns (ws_run es) ! k)"
    using frames [OF assms(6)] before by simp
  finally show ?thesis .
qed

theorem published_update_delivered_witness:
  "cc_frames (in_conns (ws_run [Handshake ''u'',
      On_Read 0 (Read_Payload (json_text (JObject [(''action'', JString ''subscribe''), (''notification_id'', JString ''n1'')]))),
      On_Redis (statusMessage ''n1'' StatusDelivered) (\<lambda>_. None) rev]) ! 0) = [statusMessage ''n1'' StatusDelivered]"
proof -
  let ?es = "[Handshake ''u'', On_Read 0 (Read_Payload (json_text (JObject
      [(''action'', JString ''subscribe''), (''notification_id'', JString ''n1'')])))]"
  have msg: "decode_clientMessage (json_text (JObject [(''action'', JString ''subscribe''), (''notification_id'', JString ''n1'')])) =
      Some \<lparr>cm_Action = ''subscribe'', cm_NotificationID = ''n1''\<rparr>"
    by (rule clientMessage_decodes) (simp_all add: is_ascii_def)
  have run: "in_conns (ws_run ?es) = [newConnClient ''u'']"
    by (simp add: ws_run_def serving_def newConnClient_def del: json_text.simps)
  have spec: "(0, ''n1'') \<in> ps_subs (pubsub_run ?es)" "0 \<notin> ps_dead (pubsub_run ?es)"
    using msg by (simp_all add: pubsub_run_def pubsub_message_def subscribeAction_def del: json_text.simps)
  have "orderly (?es @ [On_Redis (statusMessage ''n1'' StatusDelivered) (\<lambda>_. None) rev])"
    by (simp add: orderly_def)
  from published_update_delivered [OF this _ _ _ _, of 0] run spec show ?thesis
    by (simp add: newConnClient_def is_ascii_def StatusDelivered_def del: json_text.simps)
qed

end
