(* ===== verification/Retry.thy ===== *)
theory Retry
  imports Scenario
begin

text \<open>
  The retry loop across deliveries: the task queue hands a task to the worker again for as long as
  its handler returns an error (\<open>internal/adapters/asynq/processor.go\<close>, \<open>tasks.go\<close>). The loop below has no
  bound of its own; it ends because the worker stops answering with an error.
\<close>

section \<open>The loop\<close>

text \<open>The provider may answer differently each time: \<open>ans k\<close> answers the \<open>k\<close>-th delivery. The result
  is the number of the delivery the handler accepted, and the state it left.\<close>

abbreviation answering :: "world \<Rightarrow> (http_request \<Rightarrow> http_answer) \<Rightarrow> world" where
  "answering W a \<equiv> W\<lparr>w_http := a\<rparr>"

definition deliver_task ::
  "pg_codec \<Rightarrow> world \<Rightarrow> worker_config \<Rightarrow> string \<Rightarrow> string \<Rightarrow> hold \<times> db \<times> calm_state \<times> post list \<Rightarrow>
   gerror option \<times> hold \<times> db \<times> calm_state \<times> post list"
where
  "deliver_task C W cfg ctx nid =
     trail C (calm W) (HandleProcessNotification (Inr nid) (ProcessNotification_Execute (processUC C cfg) ctx))"

partial_function (option) redeliver ::
  "pg_codec \<Rightarrow> world \<Rightarrow> (nat \<Rightarrow> http_request \<Rightarrow> http_answer) \<Rightarrow> worker_config \<Rightarrow> string \<Rightarrow> string \<Rightarrow> nat \<Rightarrow>
   hold \<times> db \<times> calm_state \<times> post list \<Rightarrow> (nat \<times> hold \<times> db \<times> calm_state \<times> post list) option"
where
  "redeliver C W ans cfg ctx nid k w =
     (case deliver_task C (answering W (ans k)) cfg ctx nid w of
        (None, w') \<Rightarrow> Some (k, w')
      | (Some _, w') \<Rightarrow> redeliver C W ans cfg ctx nid (Suc k) w')"

lemma redeliver_step:
  "deliver_task C (answering W (ans k)) cfg ctx nid w = (None, w') \<Longrightarrow> redeliver C W ans cfg ctx nid k w = Some (k, w')"
  "deliver_task C (answering W (ans k)) cfg ctx nid w = (Some e, w') \<Longrightarrow>
     redeliver C W ans cfg ctx nid k w = redeliver C W ans cfg ctx nid (Suc k) w'"
  by (subst redeliver.simps, simp)+

section \<open>It ends\<close>

lemma sint_step: "0 \<le> sint (n :: 32 word) \<Longrightarrow> sint n < 5 \<Longrightarrow> sint (n + 1) = sint n + 1"
  by (simp add: sint_word_ariths signed_take_bit_int_eq_self)

lemma supply_answering [simp]: "id_supply C (answering W a) u m x d = id_supply C W u m x d"
  by (simp add: id_supply_def)

text \<open>What the loop needs to know of the row it works on.\<close>

definition retryable_row :: "pg_codec \<Rightarrow> string \<Rightarrow> NotificationRow \<Rightarrow> bool" where
  "retryable_row C nid r \<longleftrightarrow> wf_id (r_id r) \<and> nid \<noteq> [] \<and> parseUUID C nid = Inr (r_id r) \<and>
     r_status r \<in> {StatusQueued, StatusRetrying} \<and> 0 \<le> sint (r_attempts r) \<and> sint (r_attempts r) < 5 \<and>
     r_correlation_id r \<noteq> [] \<and> r_channel r \<in> set sql_channels"

lemma one_delivery:
  assumes "codec_ok C" "db_ok d" "r \<in> set (t_notifications d)" "retryable_row C nid r"
    and "id_supply C W u (9 + m) x d" "fst (w_limit W) = 1" "w_admit W = Inr g" "wp_url_error (wc_webhook cfg) = None"
  obtains q e d' x' p where
    "deliver_task C (answering W a) cfg ctx nid (Idle, d, x, ps) = (e, Idle, d', x', ps @ [p])"
    "e = None \<longleftrightarrow> r_status q \<in> {StatusDelivered, StatusFailed}"
    "r_status q = verdict (a (webhook_request (wc_webhook cfg) r)) (sint (r_attempts q))"
    "t_notifications d' = replace_row q (t_notifications d)" "r_id q = r_id r" "r_attempts q = r_attempts r + 1"
    "payload q = payload r" "r_correlation_id q = r_correlation_id r" "db_ok d'" "id_supply C W u m x' d'"
    "p_id p = r_id r"
proof -
  let ?W = "answering W a" and ?a = "a (webhook_request (wc_webhook cfg) r)" and ?n = "sint (r_attempts r + 1)"
  let ?q = "attempt_row C ?W cfg x r"
  have r: "wf_id (r_id r)" "nid \<noteq> []" "parseUUID C nid = Inr (r_id r)" "r_status r \<in> {StatusQueued, StatusRetrying}"
    "r_correlation_id r \<noteq> []" "r_channel r \<in> set sql_channels" "sint (r_attempts r) < 5"
    using assms(4) by (simp_all add: retryable_row_def)
  have top: "r_attempts r \<noteq> int4_max" using r(7) by (auto simp: int4_max_def)
  have sup: "id_supply C ?W u 8 x d" by (simp, rule id_supply_later [OF assms(5)]) simp_all
  have "fst (w_limit ?W) = 1" "w_admit ?W = Inr g" using assms(6,7) by simp_all
  from trail_process_calls [OF assms(1-3) r(1,3,4) top r(5,6) sup this assms(8) refl refl, of ctx ps] obtain logs x' where
    run: "trail C (calm ?W) (ProcessNotification_Execute (processUC C cfg) ctx nid) (Idle, d, x, ps) =
      (if verdict ?a ?n = StatusRetrying
       then Some (Errorf ''transient failure on %s: %w'' [n_ID (entity_of r)] (Sent ErrProviderTransient)) else None,
       Idle, d\<lparr>t_notifications := replace_row ?q (t_notifications d), t_logs := t_logs d @ logs\<rparr>, x',
       ps @ [\<lparr>p_id = r_id r, p_attempt = r_attempts r + 1, p_request = webhook_request (wc_webhook cfg) r, p_answer = ?a\<rparr>])"
    and logs: "map lr_id logs = [Some (u (cs_calls x + 1)), Some (u (cs_calls x + 7))]" and x': "cs_calls x' = cs_calls x + 9"
    by auto
  let ?d = "d\<lparr>t_notifications := replace_row ?q (t_notifications d), t_logs := t_logs d @ logs\<rparr>"
  have q: "r_id ?q = r_id r" "r_attempts ?q = r_attempts r + 1" "payload ?q = payload r"
    "r_correlation_id ?q = r_correlation_id r" "r_status ?q = verdict ?a ?n"
    by (simp_all add: attempt_row_def settled_def payload_def Let_def)
  have "lr_id ` set logs = {Some (u (cs_calls x + 1)), Some (u (cs_calls x + 7))}" using arg_cong [OF logs, of set] by simp
  then have "lr_id ` set logs \<subseteq> Some ` u ` {cs_calls x ..< cs_calls x'}" by (simp add: x')
  then have "id_supply C W u m x' ?d"
    by (intro id_supply_advance [OF assms(5)]) (auto simp: used_ids_def image_Un x')
  moreover have "db_ok ?d" using assms(2) by (simp add: db_ok_def)
  moreover have "verdict ?a ?n = StatusRetrying \<longleftrightarrow> verdict ?a ?n \<notin> {StatusDelivered, StatusFailed}"
    by (simp add: verdict_def)
  ultimately have after: "id_supply C W u m x' ?d" "db_ok ?d"
    "(if verdict ?a ?n = StatusRetrying then Some err else None) = None \<longleftrightarrow> r_status ?q \<in> {StatusDelivered, StatusFailed}" for err
    by (simp_all add: q(5))
  from run r(2) have "deliver_task C ?W cfg ctx nid (Idle, d, x, ps) = trail C (calm ?W) (ProcessNotification_Execute (processUC C cfg) ctx nid) (Idle, d, x, ps)"
    by (simp add: deliver_task_def HandleProcessNotification_def)
  from that [OF this [unfolded run] after(3)] show thesis by (simp add: q after(1,2))
qed

lemma replace_row_same_ids: "r_id q = r_id r \<Longrightarrow> r \<in> set rows \<Longrightarrow> q \<in> set (replace_row q rows)"
  by (rule replace_row_mem) (metis imageI)

lemma redeliver_ends:
  assumes "codec_ok C" "fst (w_limit W) = 1" "w_admit W = Inr g" "wp_url_error (wc_webhook cfg) = None"
    and "m = nat (5 - sint (r_attempts r))"
    and "db_ok d" "r \<in> set (t_notifications d)" "retryable_row C nid r" "id_supply C W u (9 * m) x d"
  shows "\<exists>j q d' x' new. redeliver C W ans cfg ctx nid k (Idle, d, x, ps) = Some (k + j, Idle, d', x', ps @ new) \<and>
    j < m \<and> length new = Suc j \<and> (\<forall>p \<in> set new. p_id p = r_id r) \<and>
    t_notifications d' = replace_row q (t_notifications d) \<and> r_id q = r_id r \<and> payload q = payload r \<and>
    sint (r_attempts q) = sint (r_attempts r) + int (Suc j) \<and> r_status q \<in> {StatusDelivered, StatusFailed} \<and>
    (r_status q = StatusDelivered \<longleftrightarrow> accepted (ans (k + j) (webhook_request (wc_webhook cfg) r)))"
  using assms(5-)
proof (induction m arbitrary: r d x k ps)
  case 0
  then show ?case by (simp add: retryable_row_def)
next
  case (Suc m)
  let ?req = "webhook_request (wc_webhook cfg) r"
  have "id_supply C W u (9 + 9 * m) x d" using Suc.prems(5) by (simp add: algebra_simps)
  from one_delivery [OF assms(1) Suc.prems(2-4) this assms(2-4), of "ans k" ctx ps] obtain q e d' x' p where
    run: "deliver_task C (answering W (ans k)) cfg ctx nid (Idle, d, x, ps) = (e, Idle, d', x', ps @ [p])"
    and e: "e = None \<longleftrightarrow> r_status q \<in> {StatusDelivered, StatusFailed}"
    and v: "r_status q = verdict (ans k ?req) (sint (r_attempts q))"
    and q: "t_notifications d' = replace_row q (t_notifications d)" "r_id q = r_id r" "r_attempts q = r_attempts r + 1"
      "payload q = payload r" "r_correlation_id q = r_correlation_id r" "db_ok d'" "id_supply C W u (9 * m) x' d'" "p_id p = r_id r"
    by metis
  have n: "sint (r_attempts q) = sint (r_attempts r) + 1"
    using Suc.prems(4) by (simp add: q(3) retryable_row_def sint_step)
  show ?case
  proof (cases "e = None")
    case True
    with run have "redeliver C W ans cfg ctx nid k (Idle, d, x, ps) = Some (k + 0, Idle, d', x', ps @ [p])"
      by (simp add: redeliver_step(1))
    moreover have "r_status q = StatusDelivered \<longleftrightarrow> accepted (ans k ?req)" by (simp add: v verdict_def)
    ultimately show ?thesis using True e q n
      by (intro exI [of _ 0] exI [of _ q] exI [of _ d'] exI [of _ x'] exI [of _ "[p]"]) simp
  next
    case False
    then obtain err where "e = Some err" by blast
    with run have again: "redeliver C W ans cfg ctx nid k (Idle, d, x, ps) = redeliver C W ans cfg ctx nid (Suc k) (Idle, d', x', ps @ [p])"
      by (simp add: redeliver_step(2))
    from False e v have retry: "r_status q = StatusRetrying" "sint (r_attempts q) < 5"
      by (auto simp: verdict_def split: if_splits)
    have "q \<in> set (t_notifications d')" unfolding q(1) by (rule replace_row_same_ids [OF q(2) Suc.prems(3)])
    moreover have "retryable_row C nid q"
      using Suc.prems(4) retry q n by (auto simp: retryable_row_def payload_def)
    moreover have "m = nat (5 - sint (r_attempts q))" using Suc.prems(1) n by simp
    ultimately obtain j q' d'' x'' new where
      more: "redeliver C W ans cfg ctx nid (Suc k) (Idle, d', x', ps @ [p]) = Some (Suc k + j, Idle, d'', x'', (ps @ [p]) @ new)"
      "j < m" "length new = Suc j" "\<forall>p \<in> set new. p_id p = r_id q" "t_notifications d'' = replace_row q' (t_notifications d')"
      "r_id q' = r_id q" "payload q' = payload q" "sint (r_attempts q') = sint (r_attempts q) + int (Suc j)"
      "r_status q' \<in> {StatusDelivered, StatusFailed}"
      "r_status q' = StatusDelivered \<longleftrightarrow> accepted (ans (Suc k + j) (webhook_request (wc_webhook cfg) q))"
      using Suc.IH [of q d' x' "Suc k" "ps @ [p]"] q(6,7) by blast
    have "webhook_request (wc_webhook cfg) q = ?req" using q(4) by (simp add: webhook_request_def payload_def)
    then show ?thesis using again more q n
      by (intro exI [of _ "Suc j"] exI [of _ q'] exI [of _ d''] exI [of _ x''] exI [of _ "p # new"]) simp
  qed
qed



end
