(* ===== verification/Config.thy ===== *)
theory Config
  imports Go_Numbers Ports
begin

text \<open>
  The configuration (\<open>internal/infrastructure/config/config.go\<close>): every binary calls \<open>Load\<close> once and
  refuses to start on an error. The environment is a map from names to values; an error is a value
  that says which variable is at fault and why.
\<close>

section \<open>The configuration\<close>

record Config =
  c_Env :: string
  c_LogLevel :: string
  c_DatabaseURL :: string
  c_RedisAddr :: string
  c_HTTPAddr :: string
  c_InboundRateLimit :: int
  c_InboundRateWindow :: Duration
  c_IdempotencyTTL :: Duration
  c_WebhookProviderURL :: string
  c_WebhookProviderToken :: string
  c_WorkerConcurrency :: int
  c_OutboundRateLimit :: int
  c_OutboundRateWindow :: Duration
  c_MockProviderSuccessRate :: float64
  c_MockProviderFailureMode :: string
  c_CircuitMaxFailures :: int
  c_CircuitWindow :: Duration
  c_CircuitOpenTimeout :: Duration
  c_ReconcilerInterval :: Duration
  c_OTLPEndpoint :: string
  c_MetricsAddr :: string

datatype config_error =
    Invalid_Integer string num_error
  | Invalid_Float string num_error
  | Invalid_Duration string
  | Rate_Out_Of_Range float64
  | Unknown_Failure_Mode string
  | Not_Positive_Integer string int
  | Not_Positive_Duration string Duration
  | Variable_Required string

type_synonym environ = "string \<rightharpoonup> string"

section \<open>Reading one variable\<close>

text \<open>\<open>os.LookupEnv\<close>, ignoring a blank value.\<close>

definition lookup_env :: "environ \<Rightarrow> string \<Rightarrow> string option" where
  "lookup_env env key = (case env key of None \<Rightarrow> None | Some v \<Rightarrow> if strings_TrimSpace v = [] then None else Some v)"

definition os_Getenv :: "environ \<Rightarrow> string \<Rightarrow> string" where
  "os_Getenv env key = (case env key of None \<Rightarrow> [] | Some v \<Rightarrow> v)"

definition getString :: "environ \<Rightarrow> string \<Rightarrow> string \<Rightarrow> string" where
  "getString env key fallback = (case lookup_env env key of None \<Rightarrow> fallback | Some v \<Rightarrow> v)"

definition getInt :: "environ \<Rightarrow> string \<Rightarrow> int \<Rightarrow> config_error + int" where
  "getInt env key fallback =
     (case lookup_env env key of None \<Rightarrow> Inr fallback
      | Some raw \<Rightarrow> (case strconv_Atoi raw of Inl e \<Rightarrow> Inl (Invalid_Integer key e) | Inr v \<Rightarrow> Inr v))"

definition getFloat :: "environ \<Rightarrow> string \<Rightarrow> float64 \<Rightarrow> config_error + float64" where
  "getFloat env key fallback =
     (case lookup_env env key of None \<Rightarrow> Inr fallback
      | Some raw \<Rightarrow> (case strconv_ParseFloat raw of Inl e \<Rightarrow> Inl (Invalid_Float key e) | Inr v \<Rightarrow> Inr v))"

definition getDuration :: "environ \<Rightarrow> string \<Rightarrow> Duration \<Rightarrow> config_error + Duration" where
  "getDuration env key fallback =
     (case lookup_env env key of None \<Rightarrow> Inr fallback
      | Some raw \<Rightarrow> (case time_ParseDuration raw of None \<Rightarrow> Inl (Invalid_Duration key) | Some v \<Rightarrow> Inr v))"

section \<open>Loading\<close>

definition loadMockProvider :: "environ \<Rightarrow> Config \<Rightarrow> config_error + Config" where
  "loadMockProvider env cfg =
     bind_res (getFloat env ''MOCK_PROVIDER_SUCCESS_RATE'' (F_Num 1)) (\<lambda>rate.
     if float_less rate (F_Num 0) \<or> float_less (F_Num 1) rate then Inl (Rate_Out_Of_Range rate)
     else let mode = getString env ''MOCK_PROVIDER_FAILURE_MODE'' ''transient'' in
       if mode \<noteq> ''transient'' \<and> mode \<noteq> ''permanent'' then Inl (Unknown_Failure_Mode mode)
       else Inr (cfg\<lparr>c_MockProviderSuccessRate := rate, c_MockProviderFailureMode := mode\<rparr>))"

definition loadCircuitBreaker :: "environ \<Rightarrow> Config \<Rightarrow> config_error + Config" where
  "loadCircuitBreaker env cfg =
     bind_res (getInt env ''CIRCUIT_MAX_FAILURES'' 5) (\<lambda>failures.
     if failures \<le> 0 then Inl (Not_Positive_Integer ''CIRCUIT_MAX_FAILURES'' failures)
     else bind_res (getDuration env ''CIRCUIT_WINDOW'' (10 * Second)) (\<lambda>window.
     if sint window \<le> 0 then Inl (Not_Positive_Duration ''CIRCUIT_WINDOW'' window)
     else bind_res (getDuration env ''CIRCUIT_OPEN_TIMEOUT'' (30 * Second)) (\<lambda>timeout.
     if sint timeout \<le> 0 then Inl (Not_Positive_Duration ''CIRCUIT_OPEN_TIMEOUT'' timeout)
     else Inr (cfg\<lparr>c_CircuitMaxFailures := failures, c_CircuitWindow := window, c_CircuitOpenTimeout := timeout\<rparr>))))"

definition loadStrings :: "environ \<Rightarrow> Config" where
  "loadStrings env =
    \<lparr>c_Env = getString env ''APP_ENV'' ''dev'', c_LogLevel = getString env ''LOG_LEVEL'' ''info'',
     c_DatabaseURL = os_Getenv env ''DATABASE_URL'', c_RedisAddr = getString env ''REDIS_ADDR'' ''localhost:6379'',
     c_HTTPAddr = getString env ''HTTP_ADDR'' '':8080'', c_InboundRateLimit = 0, c_InboundRateWindow = 0, c_IdempotencyTTL = 0,
     c_WebhookProviderURL = getString env ''WEBHOOK_PROVIDER_URL'' [], c_WebhookProviderToken = getString env ''WEBHOOK_PROVIDER_TOKEN'' [],
     c_WorkerConcurrency = 0, c_OutboundRateLimit = 0, c_OutboundRateWindow = 0, c_MockProviderSuccessRate = F_Num 0,
     c_MockProviderFailureMode = [], c_CircuitMaxFailures = 0, c_CircuitWindow = 0, c_CircuitOpenTimeout = 0, c_ReconcilerInterval = 0,
     c_OTLPEndpoint = getString env ''OTEL_EXPORTER_OTLP_ENDPOINT'' [], c_MetricsAddr = getString env ''METRICS_ADDR'' '':9090''\<rparr>"

definition Load :: "environ \<Rightarrow> config_error + Config" where
  "Load env =
     bind_res (getInt env ''INBOUND_RATE_LIMIT'' 60) (\<lambda>inbound.
     bind_res (getDuration env ''INBOUND_RATE_WINDOW'' Minute) (\<lambda>inboundWindow.
     bind_res (getDuration env ''IDEMPOTENCY_TTL'' (24 * 60 * Minute)) (\<lambda>ttl.
     bind_res (getInt env ''WORKER_CONCURRENCY'' 25) (\<lambda>concurrency.
     bind_res (getInt env ''OUTBOUND_RATE_LIMIT'' 100) (\<lambda>outbound.
     bind_res (getDuration env ''OUTBOUND_RATE_WINDOW'' Second) (\<lambda>outboundWindow.
     bind_res (getDuration env ''RECONCILER_INTERVAL'' Minute) (\<lambda>interval.
     bind_res (loadMockProvider env ((loadStrings env)\<lparr>c_InboundRateLimit := inbound, c_InboundRateWindow := inboundWindow,
       c_IdempotencyTTL := ttl, c_WorkerConcurrency := concurrency, c_OutboundRateLimit := outbound,
       c_OutboundRateWindow := outboundWindow, c_ReconcilerInterval := interval\<rparr>)) (\<lambda>cfg.
     bind_res (loadCircuitBreaker env cfg) (\<lambda>cfg.
     if c_DatabaseURL cfg = [] then Inl (Variable_Required ''DATABASE_URL'')
     else if c_RedisAddr cfg = [] then Inl (Variable_Required ''REDIS_ADDR'')
     else Inr cfg)))))))))"

section \<open>Failing fast\<close>

text \<open>What each variable has to satisfy, one by one. A variable not listed accepts anything.\<close>

datatype requirement = An_Integer | A_Positive_Integer | A_Duration | A_Positive_Duration | A_Rate | A_Mode | Not_Empty

definition requirements :: "(string \<times> requirement) list" where
  "requirements =
    [(''INBOUND_RATE_LIMIT'', An_Integer), (''INBOUND_RATE_WINDOW'', A_Duration), (''IDEMPOTENCY_TTL'', A_Duration),
     (''WORKER_CONCURRENCY'', An_Integer), (''OUTBOUND_RATE_LIMIT'', An_Integer), (''OUTBOUND_RATE_WINDOW'', A_Duration),
     (''RECONCILER_INTERVAL'', A_Duration), (''MOCK_PROVIDER_SUCCESS_RATE'', A_Rate), (''MOCK_PROVIDER_FAILURE_MODE'', A_Mode),
     (''CIRCUIT_MAX_FAILURES'', A_Positive_Integer), (''CIRCUIT_WINDOW'', A_Positive_Duration),
     (''CIRCUIT_OPEN_TIMEOUT'', A_Positive_Duration), (''DATABASE_URL'', Not_Empty)]"

definition a_rate :: "float64 \<Rightarrow> bool" where
  "a_rate x \<longleftrightarrow> x = F_NaN \<or> (\<exists>q. x = F_Num q \<and> 0 \<le> q \<and> q \<le> 1)"

fun acceptable :: "requirement \<Rightarrow> string \<Rightarrow> bool" where
  "acceptable An_Integer v \<longleftrightarrow> (\<exists>n. strconv_Atoi v = Inr n)"
| "acceptable A_Positive_Integer v \<longleftrightarrow> (\<exists>n. strconv_Atoi v = Inr n \<and> 0 < n)"
| "acceptable A_Duration v \<longleftrightarrow> time_ParseDuration v \<noteq> None"
| "acceptable A_Positive_Duration v \<longleftrightarrow> (\<exists>d. time_ParseDuration v = Some d \<and> 0 < sint d)"
| "acceptable A_Rate v \<longleftrightarrow> (\<exists>x. strconv_ParseFloat v = Inr x \<and> a_rate x)"
| "acceptable A_Mode v \<longleftrightarrow> v = ''transient'' \<or> v = ''permanent''"
| "acceptable Not_Empty v \<longleftrightarrow> True"

definition variable_ok :: "environ \<Rightarrow> string \<Rightarrow> bool" where
  "variable_ok env k = (case map_of requirements k of
       None \<Rightarrow> True
     | Some req \<Rightarrow> (\<forall>v. lookup_env env k = Some v \<longrightarrow> acceptable req v) \<and> (req = Not_Empty \<longrightarrow> os_Getenv env k \<noteq> []))"

fun blamed :: "config_error \<Rightarrow> string" where
  "blamed (Invalid_Integer k e) = k"
| "blamed (Invalid_Float k e) = k"
| "blamed (Invalid_Duration k) = k"
| "blamed (Rate_Out_Of_Range x) = ''MOCK_PROVIDER_SUCCESS_RATE''"
| "blamed (Unknown_Failure_Mode v) = ''MOCK_PROVIDER_FAILURE_MODE''"
| "blamed (Not_Positive_Integer k n) = k"
| "blamed (Not_Positive_Duration k d) = k"
| "blamed (Variable_Required k) = k"

lemma getInt_cases:
  "getInt env k d = Inl e \<longleftrightarrow> (\<exists>v c. lookup_env env k = Some v \<and> strconv_Atoi v = Inl c \<and> e = Invalid_Integer k c)"
  "getInt env k d = Inr n \<longleftrightarrow> (lookup_env env k = None \<and> n = d \<or> (\<exists>v. lookup_env env k = Some v \<and> strconv_Atoi v = Inr n))"
  by (auto simp: getInt_def split: option.splits sum.splits)

lemma getDuration_cases:
  "getDuration env k d = Inl e \<longleftrightarrow> (\<exists>v. lookup_env env k = Some v \<and> time_ParseDuration v = None \<and> e = Invalid_Duration k)"
  "getDuration env k d = Inr n \<longleftrightarrow> (lookup_env env k = None \<and> n = d \<or> (\<exists>v. lookup_env env k = Some v \<and> time_ParseDuration v = Some n))"
  by (auto simp: getDuration_def split: option.splits)

lemma getFloat_cases:
  "getFloat env k d = Inl e \<longleftrightarrow> (\<exists>v c. lookup_env env k = Some v \<and> strconv_ParseFloat v = Inl c \<and> e = Invalid_Float k c)"
  "getFloat env k d = Inr n \<longleftrightarrow> (lookup_env env k = None \<and> n = d \<or> (\<exists>v. lookup_env env k = Some v \<and> strconv_ParseFloat v = Inr n))"
  by (auto simp: getFloat_def split: option.splits sum.splits)

lemma rate_check: "\<not> float_less x (F_Num 0) \<and> \<not> float_less (F_Num 1) x \<longleftrightarrow> a_rate x"
  by (cases x) (auto simp: float_less_def a_rate_def)

lemma getInt_checks:
  assumes "map_of requirements k = Some An_Integer"
  shows "getInt env k d = Inl e \<Longrightarrow> \<not> variable_ok env (blamed e)" and "getInt env k d = Inr n \<Longrightarrow> variable_ok env k"
  by (auto simp: getInt_cases variable_ok_def assms)

lemma getDuration_checks:
  assumes "map_of requirements k = Some A_Duration"
  shows "getDuration env k d = Inl e \<Longrightarrow> \<not> variable_ok env (blamed e)" and "getDuration env k d = Inr n \<Longrightarrow> variable_ok env k"
  by (auto simp: getDuration_cases variable_ok_def assms)

lemma required:
  "map_of requirements ''INBOUND_RATE_LIMIT'' = Some An_Integer" "map_of requirements ''INBOUND_RATE_WINDOW'' = Some A_Duration"
  "map_of requirements ''IDEMPOTENCY_TTL'' = Some A_Duration" "map_of requirements ''WORKER_CONCURRENCY'' = Some An_Integer"
  "map_of requirements ''OUTBOUND_RATE_LIMIT'' = Some An_Integer" "map_of requirements ''OUTBOUND_RATE_WINDOW'' = Some A_Duration"
  "map_of requirements ''RECONCILER_INTERVAL'' = Some A_Duration" "map_of requirements ''MOCK_PROVIDER_SUCCESS_RATE'' = Some A_Rate"
  "map_of requirements ''MOCK_PROVIDER_FAILURE_MODE'' = Some A_Mode" "map_of requirements ''CIRCUIT_MAX_FAILURES'' = Some A_Positive_Integer"
  "map_of requirements ''CIRCUIT_WINDOW'' = Some A_Positive_Duration" "map_of requirements ''CIRCUIT_OPEN_TIMEOUT'' = Some A_Positive_Duration"
  "map_of requirements ''DATABASE_URL'' = Some Not_Empty"
  by (simp_all add: requirements_def)

lemma rate_variable:
  "getFloat env ''MOCK_PROVIDER_SUCCESS_RATE'' (F_Num 1) = Inl e \<Longrightarrow> \<not> variable_ok env (blamed e)"
  "getFloat env ''MOCK_PROVIDER_SUCCESS_RATE'' (F_Num 1) = Inr x \<Longrightarrow> variable_ok env ''MOCK_PROVIDER_SUCCESS_RATE'' \<longleftrightarrow> a_rate x"
  by (auto simp: getFloat_cases variable_ok_def required(8)) (simp add: a_rate_def)

lemma mode_variable:
  "variable_ok env ''MOCK_PROVIDER_FAILURE_MODE'' \<longleftrightarrow>
     getString env ''MOCK_PROVIDER_FAILURE_MODE'' ''transient'' \<in> {''transient'', ''permanent''}"
  by (simp add: getString_def variable_ok_def required(9) split: option.split)

lemma positive_variable:
  "getInt env ''CIRCUIT_MAX_FAILURES'' 5 = Inl e \<Longrightarrow> \<not> variable_ok env (blamed e)"
  "getInt env ''CIRCUIT_MAX_FAILURES'' 5 = Inr n \<Longrightarrow> variable_ok env ''CIRCUIT_MAX_FAILURES'' \<longleftrightarrow> 0 < n"
  by (auto simp: getInt_cases variable_ok_def required(10))

lemma positive_duration_variable:
  assumes "map_of requirements k = Some A_Positive_Duration" and "0 < sint d"
  shows "getDuration env k d = Inl e \<Longrightarrow> \<not> variable_ok env (blamed e)"
    and "getDuration env k d = Inr t \<Longrightarrow> variable_ok env k \<longleftrightarrow> 0 < sint t"
  using assms(2) by (auto simp: getDuration_cases variable_ok_def assms(1))

lemma loadMockProvider_checks:
  "loadMockProvider env cfg = Inl e \<Longrightarrow> \<not> variable_ok env (blamed e)"
  "loadMockProvider env cfg = Inr cfg' \<Longrightarrow>
     variable_ok env ''MOCK_PROVIDER_SUCCESS_RATE'' \<and> variable_ok env ''MOCK_PROVIDER_FAILURE_MODE'' \<and>
     a_rate (c_MockProviderSuccessRate cfg') \<and> c_MockProviderFailureMode cfg' \<in> {''transient'', ''permanent''} \<and>
     c_DatabaseURL cfg' = c_DatabaseURL cfg \<and> c_RedisAddr cfg' = c_RedisAddr cfg"
proof -
  let ?x = "getFloat env ''MOCK_PROVIDER_SUCCESS_RATE'' (F_Num 1)"
  let ?mode = "getString env ''MOCK_PROVIDER_FAILURE_MODE'' ''transient''"
  have load: "loadMockProvider env cfg = bind_res ?x (\<lambda>x. if \<not> a_rate x then Inl (Rate_Out_Of_Range x)
      else if ?mode \<notin> {''transient'', ''permanent''} then Inl (Unknown_Failure_Mode ?mode)
      else Inr (cfg\<lparr>c_MockProviderSuccessRate := x, c_MockProviderFailureMode := ?mode\<rparr>))"
    unfolding loadMockProvider_def Let_def rate_check [symmetric] by (rule arg_cong [where f = "bind_res ?x"]) auto
  show "loadMockProvider env cfg = Inl e \<Longrightarrow> \<not> variable_ok env (blamed e)"
    unfolding load by (cases ?x) (use rate_variable [of env] mode_variable [of env] in \<open>auto split: if_splits\<close>)
  show "loadMockProvider env cfg = Inr cfg' \<Longrightarrow>
     variable_ok env ''MOCK_PROVIDER_SUCCESS_RATE'' \<and> variable_ok env ''MOCK_PROVIDER_FAILURE_MODE'' \<and>
     a_rate (c_MockProviderSuccessRate cfg') \<and> c_MockProviderFailureMode cfg' \<in> {''transient'', ''permanent''} \<and>
     c_DatabaseURL cfg' = c_DatabaseURL cfg \<and> c_RedisAddr cfg' = c_RedisAddr cfg"
    unfolding load by (cases ?x) (use rate_variable [of env] mode_variable [of env] in \<open>auto split: if_splits\<close>)
qed

lemma loadCircuitBreaker_checks:
  "loadCircuitBreaker env cfg = Inl e \<Longrightarrow> \<not> variable_ok env (blamed e)"
  "loadCircuitBreaker env cfg = Inr cfg' \<Longrightarrow>
     variable_ok env ''CIRCUIT_MAX_FAILURES'' \<and> variable_ok env ''CIRCUIT_WINDOW'' \<and> variable_ok env ''CIRCUIT_OPEN_TIMEOUT'' \<and>
     0 < c_CircuitMaxFailures cfg' \<and> 0 < sint (c_CircuitWindow cfg') \<and> 0 < sint (c_CircuitOpenTimeout cfg') \<and>
     c_DatabaseURL cfg' = c_DatabaseURL cfg \<and> c_RedisAddr cfg' = c_RedisAddr cfg \<and>
     c_MockProviderSuccessRate cfg' = c_MockProviderSuccessRate cfg \<and> c_MockProviderFailureMode cfg' = c_MockProviderFailureMode cfg"
proof -
  let ?n = "getInt env ''CIRCUIT_MAX_FAILURES'' 5" and ?w = "getDuration env ''CIRCUIT_WINDOW'' (10 * Second)"
    and ?t = "getDuration env ''CIRCUIT_OPEN_TIMEOUT'' (30 * Second)"
  have pos: "0 < sint (10 * Second)" "0 < sint (30 * Second)" by (simp_all add: Second_def)
  note vars = positive_variable [of env] positive_duration_variable [OF required(11) pos(1), of env]
    positive_duration_variable [OF required(12) pos(2), of env]
  show "loadCircuitBreaker env cfg = Inl e \<Longrightarrow> \<not> variable_ok env (blamed e)"
    unfolding loadCircuitBreaker_def
    by (cases ?n; cases ?w; cases ?t) (use vars in \<open>auto split: if_splits\<close>)
  show "loadCircuitBreaker env cfg = Inr cfg' \<Longrightarrow>
     variable_ok env ''CIRCUIT_MAX_FAILURES'' \<and> variable_ok env ''CIRCUIT_WINDOW'' \<and> variable_ok env ''CIRCUIT_OPEN_TIMEOUT'' \<and>
     0 < c_CircuitMaxFailures cfg' \<and> 0 < sint (c_CircuitWindow cfg') \<and> 0 < sint (c_CircuitOpenTimeout cfg') \<and>
     c_DatabaseURL cfg' = c_DatabaseURL cfg \<and> c_RedisAddr cfg' = c_RedisAddr cfg \<and>
     c_MockProviderSuccessRate cfg' = c_MockProviderSuccessRate cfg \<and> c_MockProviderFailureMode cfg' = c_MockProviderFailureMode cfg"
    unfolding loadCircuitBreaker_def
    by (cases ?n; cases ?w; cases ?t) (use vars in \<open>auto split: if_splits\<close>)
qed

lemma lookup_env_nonempty: "lookup_env env k = Some v \<Longrightarrow> v \<noteq> []"
proof
  assume v: "lookup_env env k = Some v" "v = []"
  have "strings_TrimSpace [] = []"
    by (simp add: strings_TrimSpace_def trim_left.simps [of "[]"] trim_right.simps [of "[]"]
        space_runes_def wide_spaces_def ascii_spaces_def)
  with v show False by (simp add: lookup_env_def split: option.splits if_splits)
qed

lemma getString_nonempty: "fallback \<noteq> [] \<Longrightarrow> getString env k fallback \<noteq> []"
  by (auto simp: getString_def split: option.split dest: lookup_env_nonempty)

lemma Load_blames: "Load env = Inl e \<Longrightarrow> \<not> variable_ok env (blamed e)"
proof -
  assume e: "Load env = Inl e"
  have redis: "c_RedisAddr (loadStrings env) \<noteq> []" by (simp add: loadStrings_def getString_nonempty)
  from e show ?thesis
    unfolding Load_def bind_res_eq_Inl
    apply (elim disjE exE conjE)
    subgoal using getInt_checks(1) [OF required(1)] by blast
    subgoal using getDuration_checks(1) [OF required(2)] by blast
    subgoal using getDuration_checks(1) [OF required(3)] by blast
    subgoal using getInt_checks(1) [OF required(4)] by blast
    subgoal using getInt_checks(1) [OF required(5)] by blast
    subgoal using getDuration_checks(1) [OF required(6)] by blast
    subgoal using getDuration_checks(1) [OF required(7)] by blast
    subgoal using loadMockProvider_checks(1) by blast
    subgoal using loadCircuitBreaker_checks(1) by blast
    subgoal by (drule loadMockProvider_checks(2), drule loadCircuitBreaker_checks(2))
        (use redis in \<open>auto simp: variable_ok_def required(13) loadStrings_def split: if_splits\<close>)
    done
qed

lemma only_required:
  assumes "\<And>k. k \<in> fst ` set requirements \<Longrightarrow> variable_ok env k"
  shows "variable_ok env k"
proof (cases "map_of requirements k")
  case None
  then show ?thesis by (simp add: variable_ok_def)
next
  case (Some req)
  from map_of_SomeD [OF this] have "k \<in> fst ` set requirements" by (metis fst_conv imageI)
  then show ?thesis by (rule assms)
qed

lemma Load_accepts:
  assumes "Load env = Inr cfg"
  shows "(\<forall>k. variable_ok env k) \<and> c_DatabaseURL cfg = os_Getenv env ''DATABASE_URL'' \<and>
    c_DatabaseURL cfg \<noteq> [] \<and> c_RedisAddr cfg \<noteq> [] \<and> 0 < c_CircuitMaxFailures cfg \<and>
    0 < sint (c_CircuitWindow cfg) \<and> 0 < sint (c_CircuitOpenTimeout cfg) \<and>
    a_rate (c_MockProviderSuccessRate cfg) \<and> c_MockProviderFailureMode cfg \<in> {''transient'', ''permanent''}"
proof -
  from assms obtain a1 a2 a3 a4 a5 a6 a7 c1 c2 where
    steps: "getInt env ''INBOUND_RATE_LIMIT'' 60 = Inr a1" "getDuration env ''INBOUND_RATE_WINDOW'' Minute = Inr a2"
      "getDuration env ''IDEMPOTENCY_TTL'' (24 * 60 * Minute) = Inr a3" "getInt env ''WORKER_CONCURRENCY'' 25 = Inr a4"
      "getInt env ''OUTBOUND_RATE_LIMIT'' 100 = Inr a5" "getDuration env ''OUTBOUND_RATE_WINDOW'' Second = Inr a6"
      "getDuration env ''RECONCILER_INTERVAL'' Minute = Inr a7"
    and mock: "loadMockProvider env ((loadStrings env)\<lparr>c_InboundRateLimit := a1, c_InboundRateWindow := a2,
       c_IdempotencyTTL := a3, c_WorkerConcurrency := a4, c_OutboundRateLimit := a5,
       c_OutboundRateWindow := a6, c_ReconcilerInterval := a7\<rparr>) = Inr c1"
    and circuit: "loadCircuitBreaker env c1 = Inr c2"
    and last: "(if c_DatabaseURL c2 = [] then Inl (Variable_Required ''DATABASE_URL'')
      else if c_RedisAddr c2 = [] then Inl (Variable_Required ''REDIS_ADDR'') else Inr c2) = Inr cfg"
    unfolding Load_def bind_res_eq_Inr by blast
  from last have cfg: "cfg = c2" "c_DatabaseURL c2 \<noteq> []" "c_RedisAddr c2 \<noteq> []" by (auto split: if_splits)
  note m = loadMockProvider_checks(2) [OF mock] and c = loadCircuitBreaker_checks(2) [OF circuit]
  have db: "c_DatabaseURL cfg = os_Getenv env ''DATABASE_URL''" using m c cfg(1) by (simp add: loadStrings_def)
  have "variable_ok env ''DATABASE_URL''" using db cfg by (simp add: variable_ok_def required(13))
  moreover note getInt_checks(2) [OF required(1) steps(1)] getDuration_checks(2) [OF required(2) steps(2)]
    getDuration_checks(2) [OF required(3) steps(3)] getInt_checks(2) [OF required(4) steps(4)]
    getInt_checks(2) [OF required(5) steps(5)] getDuration_checks(2) [OF required(6) steps(6)]
    getDuration_checks(2) [OF required(7) steps(7)]
  ultimately have "variable_ok env k" if "k \<in> fst ` set requirements" for k
    using that m c unfolding requirements_def by (simp del: variable_ok_def) (elim disjE; simp)
  then have "variable_ok env k" for k by (rule only_required)
  with db cfg m c show ?thesis by simp
qed

text \<open>C39: Every binary either starts with a configuration in which every checked variable holds an acceptable
  value (thresholds of the circuit breaker positive, a database, a known failure mode, and a success
  rate between 0 and 1 unless it is not a number), or refuses with an error that names a variable
  that is at fault.\<close>

theorem Load_fails_fast:
  "case Load env of
     Inl e \<Rightarrow> \<not> variable_ok env (blamed e)
   | Inr cfg \<Rightarrow> (\<forall>k. variable_ok env k) \<and> c_DatabaseURL cfg = os_Getenv env ''DATABASE_URL'' \<and>
       c_DatabaseURL cfg \<noteq> [] \<and> c_RedisAddr cfg \<noteq> [] \<and> 0 < c_CircuitMaxFailures cfg \<and>
       0 < sint (c_CircuitWindow cfg) \<and> 0 < sint (c_CircuitOpenTimeout cfg) \<and>
       a_rate (c_MockProviderSuccessRate cfg) \<and> c_MockProviderFailureMode cfg \<in> {''transient'', ''permanent''}"
proof (cases "Load env")
  case (Inl e)
  from Load_blames [OF Inl] Inl show ?thesis by simp
next
  case (Inr cfg)
  show ?thesis unfolding Inr sum.case by (rule Load_accepts [OF Inr])
qed

end
