(* ===== verification/Worker_Main.thy ===== *)
theory Worker_Main
  imports Reconciler Worker Gateways
begin

text \<open>
  The helpers of \<open>cmd/worker/main.go\<close> that carry policy: the jittered retry delay handed to
  the queue, the trip condition of the circuit breaker and the queue-depth sample, with the
  inspector's \<open>QueueDepths\<close>.
\<close>

section \<open>Retry delays\<close>

definition maxRetryJitter :: Duration where "maxRetryJitter = 30 * Second"

text \<open>\<open>draw\<close> is \<open>rand.Int64N\<close>. Durations are signed, so they are compared as such.\<close>

definition withJitter :: "Duration \<Rightarrow> (64 word \<Rightarrow> 64 word) \<Rightarrow> Duration" where
  "withJitter base draw =
     (if sint base \<le> 0 then base
      else let bound = (if sint maxRetryJitter < sint base then maxRetryJitter else base) in
        base + draw bound)"

definition retryDelay :: "(64 word \<Rightarrow> 64 word) \<Rightarrow> int \<Rightarrow> gerror \<Rightarrow> Duration" where
  "retryDelay draw n err = withJitter (RetryDelayFor n err) draw"

section \<open>The breaker and the mock provider's settings\<close>

record Counts =
  TotalFailures :: "32 word"

definition ReadyToTrip :: "int \<Rightarrow> Counts \<Rightarrow> bool" where
  "ReadyToTrip maxFailures c \<longleftrightarrow> maxFailures \<le> uint (TotalFailures c)"

datatype breaker_state = StateClosed | StateHalfOpen | StateOpen

datatype CircuitBreakerState = CircuitClosed | CircuitOpen | CircuitHalfOpen

definition breakerStateToMetric :: "breaker_state \<Rightarrow> CircuitBreakerState" where
  "breakerStateToMetric s = (case s of StateOpen \<Rightarrow> CircuitOpen | StateHalfOpen \<Rightarrow> CircuitHalfOpen | _ \<Rightarrow> CircuitClosed)"

datatype FailureMode = FailureTransient | FailurePermanent

definition mockFailureMode :: "string \<Rightarrow> FailureMode" where
  "mockFailureMode mode = (if mode = ''permanent'' then FailurePermanent else FailureTransient)"

section \<open>Queue depths\<close>

text \<open>\<open>QueueDepths\<close> on the inspector's answers: the queues it knows, and the pending count of
  one.\<close>

fun depths_of :: "string list \<Rightarrow> (string \<Rightarrow> gerror + int) \<Rightarrow> string list \<Rightarrow> gerror + (string \<times> int) list" where
  "depths_of known info [] = Inr []"
| "depths_of known info (name # names) =
     (if name \<notin> set known then bind_res (depths_of known info names) (\<lambda>ds. Inr ((name, 0) # ds))
      else case info name of
          Inl e \<Rightarrow> Inl (Errorf ''queue info %s: %w'' [name] e)
        | Inr pending \<Rightarrow> bind_res (depths_of known info names) (\<lambda>ds. Inr ((name, pending) # ds)))"

definition QueueDepths :: "gerror + string list \<Rightarrow> (string \<Rightarrow> gerror + int) \<Rightarrow> gerror + (string \<times> int) list" where
  "QueueDepths queues info =
     (case queues of Inl e \<Rightarrow> Inl (Errorf ''list queues: %w'' [] e) | Inr known \<Rightarrow> depths_of known info queueNames)"

section \<open>Bounds\<close>

lemma duration_defs: "backoffBase = 30000000000" "rateLimitBackoff = 1000000000" "maxRetryJitter = 30000000000"
  "overdueRetryingThreshold = 600000000000"
  by (simp_all add: backoffBase_def rateLimitBackoff_def maxRetryJitter_def threshold_defs)

text \<open>Small non-negative integers are kept by the 64-bit representation.\<close>

lemma duration_sint: "0 \<le> k \<Longrightarrow> k < 2 ^ 63 \<Longrightarrow> sint (word_of_int k :: 64 word) = k"
  by (subst sint_sbintrunc') (simp add: signed_take_bit_int_eq_self)

lemma backoff_word: "1 \<le> n \<Longrightarrow> backoffFor n = word_of_int (30000000000 * 2 ^ nat (n - 1))"
  by (simp add: backoffFor_def duration_defs push_bit_eq_mult)

lemma backoff_bound:
  assumes "1 \<le> n" "n \<le> 29"
  shows "30000000000 * 2 ^ nat (n - 1) < (2 ^ 63 - 2 ^ 60 :: int)"
proof -
  have "(2 :: int) ^ nat (n - 1) \<le> 2 ^ 28" by (rule power_increasing) (use assms in auto)
  then show ?thesis by simp
qed

lemma backoff_sint:
  assumes "1 \<le> n" "n \<le> 29"
  shows "sint (backoffFor n) = 30000000000 * 2 ^ nat (n - 1)"
  unfolding backoff_word [OF assms(1)] by (rule duration_sint) (use backoff_bound [OF assms] in simp_all)

text \<open>C34: The backoff after attempt \<open>n\<close> is exactly 30 seconds times \<open>2^(n-1)\<close> nanoseconds up to the 29th
  attempt; from there the 64-bit duration wraps, and after the 30th attempt it is negative.\<close>

theorem backoff_schedule:
  assumes "1 \<le> n" and "n \<le> 29"
  shows "sint (backoffFor n) = 30 * 10 ^ 9 * 2 ^ nat (n - 1) \<and> sint (backoffFor 30) < 0"
proof -
  have "sint (backoffFor 30) < 0" by (simp add: backoffFor_def duration_defs push_bit_eq_mult)
  with backoff_sint [OF assms] show ?thesis by simp
qed

theorem backoff_schedule_witness: "sint (backoffFor 5) = 480 * 10 ^ 9"
  using backoff_schedule [of 5] by simp

text \<open>\<open>rand.Int64N\<close>: a value below its positive argument.\<close>

definition draws_below :: "(64 word \<Rightarrow> 64 word) \<Rightarrow> bool" where
  "draws_below draw \<longleftrightarrow> (\<forall>b. 0 < sint b \<longrightarrow> 0 \<le> sint (draw b) \<and> sint (draw b) < sint b)"

lemma sint_add_small:
  fixes a b :: "64 word"
  assumes "0 \<le> sint a" "0 \<le> sint b" "sint a + sint b < 2 ^ 63"
  shows "sint (a + b) = sint a + sint b"
  using assms by (simp add: sint_word_ariths signed_take_bit_int_eq_self)

lemma withJitter_bounds:
  assumes "draws_below draw" and "0 < sint base" and "sint base < 2 ^ 63 - 2 ^ 60"
  shows "sint base \<le> sint (withJitter base draw)"
    and "sint (withJitter base draw) < sint base + min (sint base) (sint maxRetryJitter)"
proof -
  let ?b = "if sint maxRetryJitter < sint base then maxRetryJitter else base"
  have jit: "sint maxRetryJitter = 30000000000" by (simp add: duration_defs)
  have b: "0 < sint ?b" "sint ?b = min (sint base) (sint maxRetryJitter)" using assms(2) jit by auto
  have d: "0 \<le> sint (draw ?b)" "sint (draw ?b) < sint ?b" using assms(1) b(1) unfolding draws_below_def by blast+
  have "sint (base + draw ?b) = sint base + sint (draw ?b)"
    using d b(2) assms(2,3) jit by (intro sint_add_small) auto
  moreover have "withJitter base draw = base + draw ?b" using assms(2) by (simp add: withJitter_def Let_def)
  ultimately show "sint base \<le> sint (withJitter base draw)"
    "sint (withJitter base draw) < sint base + min (sint base) (sint maxRetryJitter)"
    using d b(2) by simp_all
qed



end
