(* ===== verification/Mock.thy ===== *)
theory Mock
  imports Config Worker_Main Wiring
begin

text \<open>
  The mock provider (\<open>internal/adapters/provider/mock.go\<close>), which the worker uses when no webhook is
  configured, and the choice between the two (\<open>buildProvider\<close> of \<open>cmd/worker/main.go\<close>).
\<close>

section \<open>The provider\<close>

record mock_call =
  mc_Channel :: string
  mc_Recipient :: string
  mc_Content :: string

record MockProvider =
  mp_successRate :: float64
  mp_failureMode :: FailureMode
  mp_latency :: Duration
  mp_calls :: "mock_call list"
  mp_counter :: "64 word"

type_synonym MockProviderOption = "MockProvider \<Rightarrow> MockProvider"

definition float_le :: "float64 \<Rightarrow> float64 \<Rightarrow> bool" where
  "float_le a b \<longleftrightarrow> float_less a b \<or> a = b \<and> a \<noteq> F_NaN"

definition WithSuccessRate :: "float64 \<Rightarrow> MockProviderOption" where
  "WithSuccessRate rate p =
     p\<lparr>mp_successRate := if float_le rate (F_Num 0) then F_Num 0 else if float_le (F_Num 1) rate then F_Num 1 else rate\<rparr>"

definition WithFailureMode :: "FailureMode \<Rightarrow> MockProviderOption" where
  "WithFailureMode mode p = p\<lparr>mp_failureMode := mode\<rparr>"

definition WithLatency :: "Duration \<Rightarrow> MockProviderOption" where
  "WithLatency d p = p\<lparr>mp_latency := d\<rparr>"

definition NewMockProvider :: "MockProviderOption list \<Rightarrow> MockProvider" where
  "NewMockProvider opts = fold (\<lambda>opt p. opt p) opts
     \<lparr>mp_successRate = F_Num 1, mp_failureMode = FailureTransient, mp_latency = 0, mp_calls = [], mp_counter = 0\<rparr>"

definition MockProvider_Configure :: "MockProviderOption list \<Rightarrow> MockProvider \<Rightarrow> MockProvider" where
  "MockProvider_Configure opts p = fold (\<lambda>opt p. opt p) opts p"

text \<open>The number of successes in a period of a hundred ticks. The conversion of NaN to an unsigned
  integer is left to the implementation of Go: \<open>nanval\<close> stands for what it gives.\<close>

definition success_ticks :: "64 word \<Rightarrow> float64 \<Rightarrow> 64 word" where
  "success_ticks nanval rate =
     (case rate of F_Num q \<Rightarrow>
        (case to_float64 (q * 100) of F_Num y \<Rightarrow> word_of_int \<lfloor>y\<rfloor> | _ \<Rightarrow> nanval)
      | _ \<Rightarrow> nanval)"

definition shouldSucceed :: "64 word \<Rightarrow> MockProvider \<Rightarrow> bool \<times> MockProvider" where
  "shouldSucceed nanval p =
     (if float_le (F_Num 1) (mp_successRate p) then (True, p)
      else if float_le (mp_successRate p) (F_Num 0) then (False, p)
      else let tick = mp_counter p in
        (tick mod 100 < success_ticks nanval (mp_successRate p), p\<lparr>mp_counter := tick + 1\<rparr>))"

text \<open>\<open>cancelled\<close> is the error of the context when it is done before the latency has passed, \<open>elapsed\<close>
  the time since the start of the call.\<close>

definition MockProvider_Send ::
  "64 word \<Rightarrow> string option \<Rightarrow> Duration \<Rightarrow> string \<Rightarrow> string \<Rightarrow> string \<Rightarrow> MockProvider \<Rightarrow> DeliveryResult \<times> MockProvider"
where
  "MockProvider_Send nanval cancelled elapsed channel recipient content p =
     (let p = p\<lparr>mp_calls := mp_calls p @ [\<lparr>mc_Channel = channel, mc_Recipient = recipient, mc_Content = content\<rparr>]\<rparr> in
      case (if 0 < sint (mp_latency p) then cancelled else None) of
        Some e \<Rightarrow> (TransientFailureResult (''mock provider: context cancelled: '' @ e) 0 elapsed, p)
      | None \<Rightarrow>
          (case shouldSucceed nanval p of (ok, p) \<Rightarrow>
             (if ok then DeliveredResult (''mock-msg-'' @ channel) elapsed
              else if mp_failureMode p = FailurePermanent
              then PermanentFailureResult ''mock provider: permanent failure'' 400 elapsed
              else TransientFailureResult ''mock provider: transient failure'' 503 elapsed, p)))"

definition MockProvider_Calls :: "MockProvider \<Rightarrow> mock_call list" where
  "MockProvider_Calls p = mp_calls p"

definition MockProvider_Reset :: "MockProvider \<Rightarrow> MockProvider" where
  "MockProvider_Reset p = p\<lparr>mp_calls := [], mp_counter := 0\<rparr>"

section \<open>Choosing a provider\<close>

datatype chosen_provider = Chosen_Webhook WebhookProvider | Chosen_Mock MockProvider

definition buildProvider :: "(string \<Rightarrow> WebhookProvider) \<Rightarrow> Config \<Rightarrow> chosen_provider" where
  "buildProvider webhook cfg =
     (if c_WebhookProviderURL cfg \<noteq> [] then Chosen_Webhook (webhook (c_WebhookProviderURL cfg))
      else Chosen_Mock (NewMockProvider [WithSuccessRate (c_MockProviderSuccessRate cfg),
        WithFailureMode (mockFailureMode (c_MockProviderFailureMode cfg))]))"

section \<open>The share of successes\<close>

text \<open>A sequence of calls, none of them cancelled.\<close>

fun send_all :: "64 word \<Rightarrow> Duration \<Rightarrow> mock_call list \<Rightarrow> MockProvider \<Rightarrow> DeliveryResult list \<times> MockProvider" where
  "send_all nanval elapsed [] p = ([], p)"
| "send_all nanval elapsed (c # cs) p =
     (case MockProvider_Send nanval None elapsed (mc_Channel c) (mc_Recipient c) (mc_Content c) p of (r, p) \<Rightarrow>
      case send_all nanval elapsed cs p of (rs, p) \<Rightarrow> (r # rs, p))"

lemma residues: "inj_on (\<lambda>k. (c + k) mod 100) {..<100 :: nat}"
proof (rule linorder_inj_onI)
  fix j k :: nat
  assume jk: "j < k" "j \<in> {..<100}" "k \<in> {..<100}"
  show "(c + j) mod 100 \<noteq> (c + k) mod 100"
  proof
    assume "(c + j) mod 100 = (c + k) mod 100"
    then have "100 dvd (c + k) - (c + j)" using jk(1) by (metis add_le_cancel_left less_imp_le mod_eq_dvd_iff_nat)
    then have "100 dvd k - j" by simp
    with jk show False using nat_dvd_not_less [of "k - j" 100] by simp
  qed
qed auto

lemma residue_count: "card {k \<in> {..<100}. (c + k) mod 100 < m} = min 100 (m :: nat)"
proof -
  let ?f = "\<lambda>k. (c + k) mod 100"
  have onto: "?f ` {..<100} = {..<100}"
    by (rule card_subset_eq) (auto simp: card_image [OF residues])
  have "?f ` {k \<in> {..<100}. ?f k < m} = {r \<in> ?f ` {..<100}. r < m}" by auto
  also have "\<dots> = {..<min 100 m}" unfolding onto by auto
  finally have "card (?f ` {k \<in> {..<100}. ?f k < m}) = min 100 m" by simp
  moreover have "card (?f ` {k \<in> {..<100}. ?f k < m}) = card {k \<in> {..<100}. ?f k < m}"
    by (rule card_image) (rule inj_on_subset [OF residues], auto)
  ultimately show ?thesis by simp
qed

definition fractional :: "MockProvider \<Rightarrow> bool" where
  "fractional p \<longleftrightarrow> (\<exists>q. mp_successRate p = F_Num q \<and> 0 < q \<and> q < 1) \<and> sint (mp_latency p) \<le> 0"

lemma send_one:
  assumes "fractional p"
  shows "\<exists>r. MockProvider_Send nanval None elapsed ch rc co p =
      (r, p\<lparr>mp_calls := mp_calls p @ [\<lparr>mc_Channel = ch, mc_Recipient = rc, mc_Content = co\<rparr>], mp_counter := mp_counter p + 1\<rparr>) \<and>
    (d_Success r \<longleftrightarrow> mp_counter p mod 100 < success_ticks nanval (mp_successRate p)) \<and>
    (d_Success r \<or> (d_Retryable r \<longleftrightarrow> mp_failureMode p = FailureTransient))"
  using assms
  by (cases "mp_failureMode p")
    (auto simp: fractional_def MockProvider_Send_def shouldSucceed_def float_le_def float_less_def Let_def delivery_defs)

lemma send_all_spec:
  assumes "fractional p"
  shows "map d_Success (fst (send_all nanval elapsed cs p)) =
      map (\<lambda>k. (mp_counter p + of_nat k) mod 100 < success_ticks nanval (mp_successRate p)) [0..<length cs] \<and>
    (\<forall>r \<in> set (fst (send_all nanval elapsed cs p)). d_Success r \<or> (d_Retryable r \<longleftrightarrow> mp_failureMode p = FailureTransient)) \<and>
    mp_calls (snd (send_all nanval elapsed cs p)) = mp_calls p @ cs"
  using assms
proof (induction cs arbitrary: p)
  case (Cons c cs)
  let ?p = "p\<lparr>mp_calls := mp_calls p @ [c], mp_counter := mp_counter p + 1\<rparr>"
  have c: "\<lparr>mc_Channel = mc_Channel c, mc_Recipient = mc_Recipient c, mc_Content = mc_Content c\<rparr> = c" by (cases c) simp
  from send_one [OF Cons.prems, of nanval elapsed "mc_Channel c" "mc_Recipient c" "mc_Content c", unfolded c] obtain r where
    r: "MockProvider_Send nanval None elapsed (mc_Channel c) (mc_Recipient c) (mc_Content c) p = (r, ?p)"
    "d_Success r \<longleftrightarrow> mp_counter p mod 100 < success_ticks nanval (mp_successRate p)"
    "d_Success r \<or> (d_Retryable r \<longleftrightarrow> mp_failureMode p = FailureTransient)" by auto
  have "fractional ?p" using Cons.prems by (simp add: fractional_def)
  note IH = Cons.IH [OF this]
  have "[0..<Suc n] = 0 # map Suc [0..<n]" for n by (simp add: map_Suc_upt upt_conv_Cons del: upt_Suc)
  with IH r show ?case by (simp add: case_prod_beta comp_def add.assoc del: upt_Suc)
qed simp

lemma tick_less:
  assumes "unat c + k < 2 ^ 64"
  shows "(c + of_nat k) mod 100 < (t :: 64 word) \<longleftrightarrow> (unat c + k) mod 100 < unat t"
proof -
  have "k < 2 ^ 64" using assms by simp
  then have "unat (c + of_nat k) = unat c + k"
    using assms by (simp add: unat_word_ariths unat_of_nat)
  then show ?thesis by (simp add: word_less_nat_alt unat_mod_distrib)
qed

text \<open>C40: With a success rate strictly between 0 and 1 and no latency, the mock provider is periodic: of any
  hundred consecutive calls exactly as many succeed as the rate times a hundred has, rounded to a
  float and truncated; the others fail in the configured mode, and every call is recorded.\<close>

theorem mock_success_share:
  assumes "mp_successRate p = F_Num q" "0 < q" "q < 1" and "sint (mp_latency p) \<le> 0"
    and "length cs = 100" and "unat (mp_counter p) + 100 \<le> 2 ^ 64"
    and "send_all nanval elapsed cs p = (rs, p')"
  shows "length (filter d_Success rs) = min 100 (unat (success_ticks nanval (F_Num q))) \<and> length rs = 100 \<and>
    (\<forall>r. r \<in> set rs \<and> \<not> d_Success r \<longrightarrow> d_Retryable r = (mp_failureMode p = FailureTransient)) \<and>
    mp_calls p' = mp_calls p @ cs"
proof -
  let ?t = "success_ticks nanval (F_Num q)" and ?c = "mp_counter p"
  have "fractional p" using assms(1-4) by (simp add: fractional_def)
  from send_all_spec [OF this, of nanval elapsed cs] assms(1,5,7)
  have rs: "map d_Success rs = map (\<lambda>k. (?c + of_nat k) mod 100 < ?t) [0..<100]"
    "\<forall>r \<in> set rs. d_Success r \<or> (d_Retryable r \<longleftrightarrow> mp_failureMode p = FailureTransient)" "mp_calls p' = mp_calls p @ cs"
    by simp_all
  have "(?c + of_nat k) mod 100 < ?t \<longleftrightarrow> (unat ?c + k) mod 100 < unat ?t" if "k \<in> set [0..<100]" for k
    using that assms(6) by (intro tick_less) simp
  then have ticks: "map d_Success rs = map (\<lambda>k. (unat ?c + k) mod 100 < unat ?t) [0..<100]"
    unfolding rs(1) by (intro map_cong refl)
  have "length (filter d_Success rs) = length (filter id (map d_Success rs))" by (simp add: filter_map comp_def)
  also have "\<dots> = length (filter (\<lambda>k. (unat ?c + k) mod 100 < unat ?t) [0..<100])"
    unfolding ticks by (simp add: filter_map comp_def)
  also have "\<dots> = card (set (filter (\<lambda>k. (unat ?c + k) mod 100 < unat ?t) [0..<100]))"
    by (rule distinct_card [symmetric]) simp
  also have "set (filter (\<lambda>k. (unat ?c + k) mod 100 < unat ?t) [0..<100]) = {k \<in> {..<100}. (unat ?c + k) mod 100 < unat ?t}"
    by auto
  finally have "length (filter d_Success rs) = min 100 (unat ?t)" unfolding residue_count .
  moreover have "length rs = 100" using arg_cong [OF ticks, of length] by simp
  ultimately show ?thesis using rs(2,3) by auto
qed

text \<open>Half of the calls succeed at the rate 0.5; at the rate 0.29 it is 28 calls of a hundred, because
  the product is rounded below 29.\<close>

lemma half_ticks: "success_ticks nanval (F_Num (1 / 2)) = 50"
proof -
  have "to_float64 (1 / 2 * 100) = F_Num 50" by code_simp
  then show ?thesis by (simp add: success_ticks_def)
qed

lemma rate_29_ticks: "success_ticks nanval (to_float64 (29 / 100)) = 28"
proof -
  have "to_float64 (29 / 100) = F_Num (5224175567749775 / 18014398509481984)" by code_simp
  moreover have "to_float64 (5224175567749775 / 18014398509481984 * 100) = F_Num (8162774324609023 / 281474976710656)" by code_simp
  ultimately show ?thesis by (simp add: success_ticks_def floor_divide_of_int_eq [where ?'a = rat, of 8162774324609023 281474976710656, simplified])
qed

theorem mock_success_share_witness:
  "\<exists>rs p'. send_all 0 0 (replicate 100 \<lparr>mc_Channel = ''sms'', mc_Recipient = ''+1'', mc_Content = ''x''\<rparr>)
      (NewMockProvider [WithSuccessRate (F_Num (1 / 2))]) = (rs, p') \<and> length (filter d_Success rs) = 50"
proof -
  let ?p = "NewMockProvider [WithSuccessRate (F_Num (1 / 2))]"
  let ?cs = "replicate 100 \<lparr>mc_Channel = ''sms'', mc_Recipient = ''+1'', mc_Content = ''x''\<rparr>"
  obtain rs p' where run: "send_all 0 0 ?cs ?p = (rs, p')" by fastforce
  have "mp_successRate ?p = F_Num (1 / 2)" "sint (mp_latency ?p) \<le> 0" "mp_counter ?p = 0"
    by (simp_all add: NewMockProvider_def WithSuccessRate_def float_le_def float_less_def)
  with mock_success_share [OF _ _ _ _ _ _ run, of "1 / 2"] have "length (filter d_Success rs) = 50" by (simp add: half_ticks)
  with run show ?thesis by blast
qed

end
