(* ===== verification/Spec2Isabelle.thy ===== *)
theory Spec2Isabelle
  imports Openapi Websocket Retry Mock
begin

text \<open>
  A notification service: clients post notifications to an HTTP API, a worker delivers them to a
  provider, a reconciler repairs what a crash left behind, and WebSocket clients follow the
  status. PostgreSQL holds the rows, Redis the task queue, the rate limits, the idempotency
  entries and the status channel. This development models the Go sources under \<open>src/\<close> as HOL
  definitions with the names of the code, and proves what they promise.

  \<^bold>\<open>How the parts interact.\<close> The API (\<open>cmd/api\<close>) passes a request through a chain of
  middlewares to a handler, which calls a use case of \<open>internal/application\<close>. The use case
  works on entities of \<open>internal/domain\<close> and reaches the outside only through the interfaces of
  \<open>internal/ports\<close>, implemented under \<open>internal/adapters\<close>. Creating a notification inserts a
  row, moves it to \<open>queued\<close> and enqueues a task; the worker (\<open>cmd/worker\<close>) claims the row of a
  task with one guarded UPDATE, asks the rate limiter and the circuit breaker, posts to the
  provider and writes the outcome with another guarded UPDATE, publishing each status; the queue
  redelivers the task while its handler reports an error; the reconciler (\<open>cmd/reconciler\<close>)
  sweeps rows that were left in a status too long.

  \<^bold>\<open>Effects.\<close> A method that leaves the process is a value of the type \<open>prog\<close> of \<open>Effects\<close>: a tree
  of calls in the order the source makes them, each with the continuation of its answer. SQL
  statements get their meaning as functions on tables in \<open>Sql\<close>; every other call is answered by
  an environment that the theorems quantify over. Two semantics run such programs: \<open>System\<close> has an
  inductive step relation in which any number of programs interleave call by call, calls fail, and
  programs stop for ever at any point (a crash); \<open>Execution\<close> runs one program to its end, and
  every such run is a run of the step relation.

  \<^bold>\<open>Theories and sources.\<close>
  \<^item> Foundations: \<open>Prelude\<close> (Go strings, shared lemmas), \<open>Go_Errors\<close> (\<open>domain/errors.go\<close>, wrapping,
    \<open>errors.Is\<close>), \<open>Regex\<close> (the patterns of \<open>domain\<close>), \<open>Base64\<close>, \<open>Json\<close>, \<open>Sha256\<close>, \<open>Go_Numbers\<close>
    (what the code uses of the Go library).
  \<^item> Domain: \<open>Value_Objects\<close> (\<open>status.go\<close>, \<open>channel.go\<close>, \<open>priority.go\<close>), \<open>Notification_Entity\<close>
    (\<open>notification.go\<close>), \<open>Entities\<close> (\<open>batch.go\<close>, \<open>template.go\<close>, \<open>notification_log.go\<close>,
    \<open>delivery_result.go\<close>).
  \<^item> Use cases over \<open>Ports\<close> (\<open>ports.go\<close>): \<open>Intake\<close> (create one, a batch, scheduled), \<open>Worker\<close>
    (\<open>process_notification.go\<close>), \<open>Reconciler\<close> (also cancellation), \<open>Catalog\<close> (reads, templates).
  \<^item> Adapters: \<open>Sql\<close> (the statements of \<open>postgres/sqlc\<close> under the constraints of
    \<open>db/migrations\<close>), \<open>Postgres\<close> (the repositories), \<open>Gateways\<close> (asynq, Redis, providers, circuit
    breaker), \<open>Hub\<close> and \<open>Websocket\<close> (\<open>adapters/websocket\<close>, \<open>websocket_handler.go\<close>), \<open>Http\<close>,
    \<open>Middleware\<close>, \<open>Idempotency\<close>, \<open>Handlers\<close> (\<open>adapters/http\<close>), \<open>Wire\<close> and \<open>Openapi\<close> (the generated
    \<open>adapters/http/api\<close>: JSON of the wire types, parameters, bodies, routes), \<open>Mock\<close> (\<open>provider/mock.go\<close>).
  \<^item> Wiring: \<open>Wiring\<close>, \<open>Api\<close> and the end of \<open>Openapi\<close> assemble the program as \<open>cmd/*\<close> does, \<open>Worker_Main\<close> has the
    worker's retry policy, \<open>Config\<close> is \<open>infrastructure/config\<close>.
  \<^item> Reasoning: \<open>Discipline\<close> and \<open>Contracts\<close> (what a program may do with a claimed row, as
    locales interpreted on the adapters), \<open>Protocol\<close>, \<open>System\<close>, \<open>Guarantees\<close> (invariants of all
    reachable states), \<open>Execution\<close>, \<open>Calm\<close>, \<open>Attempt\<close>, \<open>Intake_Run\<close>, \<open>Reconcile_Run\<close>,
    \<open>Cancel_Run\<close>, \<open>Retry\<close> (single runs when no call fails), \<open>Pagination\<close>, \<open>Rate_Limit\<close>, \<open>Replay\<close>,
    \<open>Scenario\<close> (the concrete codec, worlds and rows the witnesses use).

  \<^bold>\<open>What is shown.\<close> Of every reachable state of the system, under every interleaving, failure and
  crash: attempts are posted at most once and at most five times, claims are exclusive, rows
  follow the state machine, settled rows stay settled and are not posted again, delivered means
  accepted by the provider. Of single runs when the infrastructure answers: what an attempt, a
  request, a cancellation and a reconciler pass leave behind, down to the log lines and tasks; that
  retries end; that a created notification reads back, also through the pages of the listing. Of the
  HTTP side: that a request survives its JSON, which requests are refused before they reach a use
  case and with what status, the translation of errors, the replay of requests by idempotency key
  from the bytes through the whole chain, the rate-limit window and its Retry-After. Of the hub and the WebSocket endpoint: a
  refinement of a set of subscriptions and of a publish/subscribe machine. Of the domain: exact
  acceptance conditions of constructors and parsers, and the state machine as a refinement of an
  abstract lifecycle.

  \<^bold>\<open>Parameters and hypotheses.\<close> The pgx codecs (UUID scanning, RFC 3339 times, the storage precision
  of timestamps) are a record \<open>pg_codec\<close> with the laws \<open>codec_ok\<close>; \<open>text/template\<close>, \<open>uuid.Parse\<close>,
  gobreaker's admission, the router \<open>chi\<close>, the binding functions of the oapi-codegen runtime and the
  JSON of times, UUIDs and values of type \<open>any\<close> (\<open>wire_codec\<close>) are parameters. \<open>id_supply m\<close> says that the next \<open>m\<close> generated identifiers
  are fresh: 4 for a creation, 8 for an attempt, 9 for each redelivery, 2 for a cancellation and
  401 for a reconciler pass of four sweeps of a hundred rows. Every hypothesis is met by a
  concrete instance in a witness.

  \<^bold>\<open>Bounds and fuel.\<close> The JSON parser has fuel \<open>2 * length + 2\<close> and its string scanner the length of
  its input, since every call consumes a character; the scanner that tells a malformed body from one
  that stops early has the same fuel; the duration parser likewise; following the
  pages of a listing has one step per row and one more. The redelivery loop has no fuel: it is a
  partial function proved to return.

  \<^bold>\<open>Not modelled.\<close> In the generated \<open>api.gen.go\<close> the error responses no handler returns, the
  stubs, the enum helpers and the embedded specification; the Prometheus, slog and
  OpenTelemetry set-up (calls to them appear as \<open>Emit\<close> nodes nobody reads); the migration command;
  start-up, signals and shutdown of the binaries; Hijack and Flush of wrapped writers. A broadcast
  of the hub is one step, though the code releases its lock between the snapshot and the sends.
\<close>

section \<open>The running system\<close>

text \<open>C1: In every reachable state of the system, whatever the interleaving of requests, tasks and
  reconciler passes and whatever calls failed, no delivery attempt of a notification was posted to
  the provider twice, and every post carried the channel, recipient and content of its row.\<close>

theorem attempts_posted_once:
  assumes "codec_ok C" and "reachable C E cfg s"
  shows "distinct (map post_key (y_posts s)) \<and>
    (\<forall>p \<in> set (y_posts s). \<exists>r \<in> set (t_notifications (y_db s)). r_id r = p_id p \<and>
       hq_channel (p_request p) = r_channel r \<and> hq_to (p_request p) = r_recipient r \<and>
       hq_content (p_request p) = r_content r)"
  using reachable_posts(1,3) [OF assms] by (fastforce simp: payload_def request_payload_def)

theorem attempts_posted_once_witness:
  "\<exists>s p r. reachable plain_codec no_templates hook_config s \<and> y_posts s = [p] \<and>
     t_notifications (y_db s) = [r] \<and> hq_to (p_request p) = r_recipient r"
proof -
  obtain s r p where s: "sms_state r [p] 12 s" using sms_answered [of 503] by blast
  then have "reachable plain_codec no_templates hook_config s" "y_posts s = [p]" "t_notifications (y_db s) = [r]"
    by (auto simp: sms_state_def)
  with attempts_posted_once [OF plain_codec_ok, of no_templates hook_config s] show ?thesis by auto
qed

text \<open>C2: In every reachable state at most five posts were made for one notification.\<close>

theorem at_most_five_posts:
  assumes "codec_ok C" and "reachable C E cfg s"
  shows "length (filter (\<lambda>p. p_id p = i) (y_posts s)) \<le> 5"
  using reachable_posts(2) [OF assms] .

theorem at_most_five_posts_witness:
  "\<exists>s p. reachable plain_codec no_templates hook_config s \<and> y_posts s = [p] \<and>
     length (filter (\<lambda>q. p_id q = p_id p) (y_posts s)) \<le> 5"
proof -
  obtain s r p where "sms_state r [p] 12 s" using sms_answered [of 503] by blast
  then have "reachable plain_codec no_templates hook_config s" "y_posts s = [p]" by (auto simp: sms_state_def)
  with at_most_five_posts [OF plain_codec_ok this(1), of "p_id p"] show ?thesis by blast
qed

text \<open>C3: A notification is delivered only after a post that the provider answered with a 2xx
  status.\<close>

theorem delivered_means_accepted:
  assumes "codec_ok C" and "reachable C E cfg s"
    and "r \<in> set (t_notifications (y_db s))" and "r_status r = StatusDelivered"
  shows "\<exists>p \<in> set (y_posts s). p_id p = r_id r \<and>
    (\<exists>resp. p_answer p = Inr resp \<and> 200 \<le> hr_code resp \<and> hr_code resp < 300)"
  using reachable_delivered [OF assms] by (force simp: accepted_def split: sum.splits)

theorem delivered_means_accepted_witness:
  "\<exists>s r p resp. reachable plain_codec no_templates hook_config s \<and> t_notifications (y_db s) = [r] \<and>
     r_status r = StatusDelivered \<and> p \<in> set (y_posts s) \<and> p_answer p = Inr resp \<and> hr_code resp < 300"
proof -
  obtain s r p where "sms_state r [p] 12 s" and st: "r_status r = StatusDelivered"
    using sms_answered [of 202] by auto
  then have "reachable plain_codec no_templates hook_config s" "t_notifications (y_db s) = [r]"
    by (auto simp: sms_state_def)
  with delivered_means_accepted [OF plain_codec_ok this(1), of r] st show ?thesis by fastforce
qed

text \<open>C4: Along every run from a reachable state, a notification that is delivered, failed or
  cancelled keeps its status, its attempt count and its payload.\<close>

theorem settled_rows_stay:
  assumes "codec_ok C" and "reachable C E cfg s" and "(step C E cfg)\<^sup>*\<^sup>* s s'"
    and "r \<in> set (t_notifications (y_db s))" and "Status_IsTerminal (r_status r)"
  shows "\<exists>r' \<in> set (t_notifications (y_db s')). r_id r' = r_id r \<and> r_status r' = r_status r \<and>
    r_attempts r' = r_attempts r \<and> r_channel r' = r_channel r \<and> r_recipient r' = r_recipient r \<and>
    r_content r' = r_content r"
proof -
  have inv: "system_inv s" using assms(1,2) by (rule reachable_inv)
  note fixed = steps_terminal [OF assms(3,1) inv system_rows(1) [OF inv assms(4)]]
  have "view (y_db s') (r_id r) = Some (cell_of r)" using fixed assms(5) by (simp add: cell_of_def)
  from system_rows(2) [OF steps_inv [OF assms(3,1) inv] this] show ?thesis
    by (auto simp: cell_of_def payload_def)
qed

theorem settled_rows_stay_witness:
  "\<exists>s s' r r'. reachable plain_codec no_templates hook_config s \<and> step plain_codec no_templates hook_config s s' \<and>
     t_notifications (y_db s) = [r] \<and> r_status r = StatusCancelled \<and>
     r' \<in> set (t_notifications (y_db s')) \<and> r_status r' = StatusCancelled"
proof -
  obtain s0 where "sms_state sms_row [] 4 s0" using sms_queued by blast
  from sms_cancelled [OF this] obtain s r where "sms_state r [] 6 s" and st: "r_status r = StatusCancelled"
    by (auto simp: CanTransitionTo_iff)
  then have s: "reachable plain_codec no_templates hook_config s" "t_notifications (y_db s) = [r]"
    by (auto simp: sms_state_def)
  note go = reconciler_starts [of plain_codec no_templates hook_config s]
  from settled_rows_stay [OF plain_codec_ok s(1) r_into_rtranclp [of "step plain_codec no_templates hook_config", OF go], of r]
    s st go show ?thesis by (fastforce simp: Status_IsTerminal_def)
qed

text \<open>C5: Once a notification is cancelled or delivered, nothing is posted for it any more.\<close>

theorem no_post_after_settlement:
  assumes "codec_ok C" and "reachable C E cfg s" and "(step C E cfg)\<^sup>*\<^sup>* s s'"
    and "r \<in> set (t_notifications (y_db s))" and "r_status r \<in> {StatusCancelled, StatusDelivered}"
  shows "filter (\<lambda>p. p_id p = r_id r) (y_posts s') = filter (\<lambda>p. p_id p = r_id r) (y_posts s)"
proof -
  have inv: "system_inv s" using assms(1,2) by (rule reachable_inv)
  from steps_no_more_posts [OF assms(3,1) inv system_rows(1) [OF inv assms(4)]] assms(5)
  show ?thesis by (simp add: cell_of_def)
qed

theorem no_post_after_settlement_witness:
  "\<exists>s s' r. reachable plain_codec no_templates hook_config s \<and> step plain_codec no_templates hook_config s s' \<and>
     t_notifications (y_db s) = [r] \<and> r_status r = StatusDelivered \<and>
     filter (\<lambda>p. p_id p = r_id r) (y_posts s') = filter (\<lambda>p. p_id p = r_id r) (y_posts s)"
proof -
  obtain s r p where "sms_state r [p] 12 s" and st: "r_status r = StatusDelivered"
    using sms_answered [of 202] by auto
  then have s: "reachable plain_codec no_templates hook_config s" "t_notifications (y_db s) = [r]"
    by (auto simp: sms_state_def)
  note go = reconciler_starts [of plain_codec no_templates hook_config s]
  from no_post_after_settlement [OF plain_codec_ok s(1) r_into_rtranclp [of "step plain_codec no_templates hook_config", OF go], of r]
    s st go show ?thesis by fastforce
qed

text \<open>C6: Each step of the system moves every stored notification along the state machine or
  leaves its status and attempts alone, keeps its payload, and adds rows only as pending ones with no
  attempts.\<close>

theorem rows_follow_fsm:
  assumes "codec_ok C" and "reachable C E cfg s" and "step C E cfg s s'"
  shows "(\<forall>r \<in> set (t_notifications (y_db s)). \<exists>r' \<in> set (t_notifications (y_db s')). r_id r' = r_id r \<and>
      payload r' = payload r \<and>
      (r_status r' = r_status r \<and> r_attempts r' = r_attempts r \<or> CanTransitionTo (r_status r) (r_status r'))) \<and>
    (\<forall>r' \<in> set (t_notifications (y_db s')). r_id r' \<notin> r_id ` set (t_notifications (y_db s)) \<longrightarrow>
      r_status r' = StatusPending \<and> r_attempts r' = 0)"
proof -
  have inv: "system_inv s" "system_inv s'" using assms reachable_inv step_inv by blast+
  note ev = step_evolves(1) [OF assms(1) inv(1) assms(3)]
  show ?thesis
  proof (intro conjI ballI impI)
    fix r assume "r \<in> set (t_notifications (y_db s))"
    from system_rows(1) [OF inv(1) this] ev obtain c' where
      "view (y_db s') (r_id r) = Some c'" "cell_step (cell_of r) c'" unfolding evolves_def by blast
    with system_rows(2) [OF inv(2)] show "\<exists>r' \<in> set (t_notifications (y_db s')). r_id r' = r_id r \<and>
      payload r' = payload r \<and>
      (r_status r' = r_status r \<and> r_attempts r' = r_attempts r \<or> CanTransitionTo (r_status r) (r_status r'))"
      by (fastforce simp: cell_step_def cell_of_def)
  next
    fix r' assume r': "r' \<in> set (t_notifications (y_db s'))" "r_id r' \<notin> r_id ` set (t_notifications (y_db s))"
    then have "view (y_db s) (r_id r') = None" by (simp add: view_None)
    with system_rows(1) [OF inv(2) r'(1)] ev have "fresh_cell (cell_of r')" unfolding evolves_def by blast
    then show "r_status r' = StatusPending" "r_attempts r' = 0" by (simp_all add: fresh_cell_def cell_of_def)
  qed
qed

theorem rows_follow_fsm_witness:
  "\<exists>s s' r r'. reachable plain_codec no_templates hook_config s \<and> step plain_codec no_templates hook_config s s' \<and>
     t_notifications (y_db s) = [r] \<and> r_status r = StatusRetrying \<and> r' \<in> set (t_notifications (y_db s')) \<and>
     payload r' = payload r"
proof -
  obtain s r p where "sms_state r [p] 12 s" and st: "r_status r = StatusRetrying"
    using sms_answered [of 503] by auto
  then have s: "reachable plain_codec no_templates hook_config s" "t_notifications (y_db s) = [r]"
    by (auto simp: sms_state_def)
  note go = reconciler_starts [of plain_codec no_templates hook_config s]
  from rows_follow_fsm [OF plain_codec_ok s(1) go] s st go show ?thesis by fastforce
qed

text \<open>C7: No two running processes hold the same notification, and what a holder holds is in the table
  with the same payload, still processing its attempt or failed by a reconciler: a claim is exclusive
  until its holder writes the outcome.\<close>

theorem claims_are_exclusive:
  assumes "codec_ok C" and "reachable C E cfg s"
  shows "distinct (List.map_filter (\<lambda>p. held (pr_hold p)) (y_procs s)) \<and>
    (\<forall>p \<in> set (y_procs s). \<forall>r a. pr_hold p = Holding r a \<longrightarrow>
       (\<exists>q \<in> set (t_notifications (y_db s)). r_id q = r_id r \<and> payload q = payload r \<and>
          (r_status q = StatusProcessing \<and> r_attempts q = r_attempts r \<or> r_status q = StatusFailed)))"
proof -
  have inv: "system_inv s" using assms by (rule reachable_inv)
  then have pinv: "protocol_inv (view (y_db s)) (map pr_hold (y_procs s)) (y_posts s)" by (simp add: system_inv_def)
  have "distinct (List.map_filter held (map pr_hold (y_procs s)))"
    using protocol_invD(3) [OF pinv] by (rule exclusive_distinct)
  moreover have "\<exists>q \<in> set (t_notifications (y_db s)). r_id q = r_id r \<and> payload q = payload r \<and>
      (r_status q = StatusProcessing \<and> r_attempts q = r_attempts r \<or> r_status q = StatusFailed)"
    if "p \<in> set (y_procs s)" "pr_hold p = Holding r a" for p r a
  proof -
    have "Holding r a \<in> set (map pr_hold (y_procs s))" using that by force
    from hold_okD [OF protocol_invD(2) [OF pinv this]] system_rows(2) [OF inv, of "r_id r"] show ?thesis
      by (fastforce simp: cell_of_def)
  qed
  ultimately show ?thesis by (auto simp: List.map_filter_def comp_def filter_map)
qed

theorem claims_are_exclusive_witness:
  "\<exists>s. reachable plain_codec no_templates hook_config s \<and> y_posts s \<noteq> [] \<and>
     distinct (List.map_filter (\<lambda>p. held (pr_hold p)) (y_procs s))"
proof -
  obtain s r p where "sms_state r [p] 12 s" using sms_answered [of 202] by blast
  then have "reachable plain_codec no_templates hook_config s" "y_posts s = [p]" by (auto simp: sms_state_def)
  with claims_are_exclusive [OF plain_codec_ok this(1)] show ?thesis by (intro exI [of _ s]) simp
qed

section \<open>What a run leaves behind\<close>

text \<open>C8: In a calm world (no call of the infrastructure fails, the limiter and the breaker let the
  request pass), a delivery attempt on a queued or retrying notification posts exactly once, and
  leaves the row delivered on a 2xx answer, failed on a 4xx answer or when the attempt was the fifth,
  and otherwise retrying, with the attempt counted, the reason and the retry time recorded, two log
  lines, and a transient error for the queue exactly in the retrying case.\<close>

theorem attempt_outcome:
  assumes "codec_ok C" and "db_ok d" and "r \<in> set (t_notifications d)" and "wf_id (r_id r)"
    and "parseUUID C nid = Inr (r_id r)" and "r_status r \<in> {StatusQueued, StatusRetrying}"
    and "r_attempts r \<noteq> int4_max" and "r_correlation_id r \<noteq> []" and "r_channel r \<in> set sql_channels"
    and "id_supply C W u 8 x d" and "fst (w_limit W) = 1" and "w_admit W = Inr g" and "wp_url_error (wc_webhook cfg) = None"
    and a: "a = w_http W (webhook_request (wc_webhook cfg) r)" and n: "n = sint (r_attempts r + 1)"
  shows "\<exists>logs x'. trail C (calm W) (ProcessNotification_Execute (processUC C cfg) ctx nid) (Idle, d, x, ps) =
      (if verdict a n = StatusRetrying
       then Some (Errorf ''transient failure on %s: %w'' [n_ID (entity_of r)] (Sent ErrProviderTransient)) else None,
       Idle,
       d\<lparr>t_notifications := replace_row (settled C a (w_now W (cs_calls x + 6)) (claim_row C (w_now W (cs_calls x)) r))
           (t_notifications d), t_logs := t_logs d @ logs\<rparr>, x',
       ps @ [\<lparr>p_id = r_id r, p_attempt = r_attempts r + 1, p_request = webhook_request (wc_webhook cfg) r, p_answer = a\<rparr>])
    \<and> map lr_event logs = [StatusProcessing, verdict a n]"
proof -
  have "attempt_row C W cfg x r = settled C a (w_now W (cs_calls x + 6)) (claim_row C (w_now W (cs_calls x)) r)"
    by (simp add: attempt_row_def Let_def a)
  with trail_process [OF assms(1-13) a n, of ctx ps] show ?thesis by metis
qed

theorem attempt_outcome_witness:
  "\<exists>d x' ps. trail plain_codec (calm (numbered_world 202)) (ProcessNotification_Execute (processUC plain_codec hook_config) [] (numbered_id 1))
     (Idle, sms_db sms_row [], calls 4 [] [], []) = (None, Idle, d, x', ps) \<and>
   map r_status (t_notifications d) = [StatusDelivered] \<and> length ps = 1"
proof -
  from attempt_outcome [OF plain_codec_ok sms_db_ready _ _ _ _ sms_db_supply [of 4 8 202] _ _ _ refl refl,
      where g = 0 and cfg = hook_config and ctx = "[]" and ps = "[]"]
  show ?thesis by (auto simp: int4_max_def verdict_def replace_row_def settled_def Let_def)
qed









text \<open>C15: In a calm world, cancelling a pending, queued or retrying notification answers with it in
  status cancelled, rewrites its row and logs the event.\<close>

theorem cancel_outcome:
  assumes "codec_ok C" and "db_ok d" and "r \<in> set (t_notifications d)" and "wf_id (r_id r)" and "r_correlation_id r \<noteq> []"
    and "parseUUID C nid = Inr (r_id r)" and "id_supply C W u 2 x d"
    and "r_status r \<in> {StatusPending, StatusQueued, StatusRetrying}"
  shows "\<exists>n l q. trail C (calm W) (CancelNotification_Execute (cancelNotif C) nid) (Idle, d, x, ps) =
      (Inr n, Idle, d\<lparr>t_notifications := replace_row q (t_notifications d), t_logs := t_logs d @ [l]\<rparr>, ticked (ticked x), ps) \<and>
    n_Status n = StatusCancelled \<and> r_id q = r_id r \<and> r_status q = StatusCancelled \<and> r_attempts q = r_attempts r \<and>
    payload q = payload r \<and> lr_event l = LogEventCancelled \<and> lr_notification_id l = r_id r"
proof -
  have "CanTransitionTo (r_status r) StatusCancelled" using assms(8) by (auto simp: CanTransitionTo_iff)
  from trail_cancel [OF assms(1-7) this refl, of ps] show ?thesis
    by (fastforce simp: moved_def payload_def)
qed

theorem cancel_outcome_witness:
  "\<exists>n d x. trail plain_codec (calm (numbered_world 202)) (CancelNotification_Execute (cancelNotif plain_codec) (numbered_id 1))
     (Idle, sms_db sms_row [], calls 4 [] [], []) = (Inr n, Idle, d, x, []) \<and> n_Status n = StatusCancelled \<and>
   map r_status (t_notifications d) = [StatusCancelled]"
proof -
  from cancel_outcome [OF plain_codec_ok sms_db_ready(1-3) _ sms_db_ready(4) sms_db_supply [of 4 2 202], of "[]"]
  show ?thesis by (fastforce simp: replace_row_def)
qed

text \<open>C16: Cancelling a notification that is processing, delivered, failed or already cancelled changes
  nothing and answers with an error, in every world: whatever the driver, the clock and the generator
  answer.\<close>

theorem cancel_refused_when_settled:
  assumes "db_ok d" and "r \<in> set (t_notifications d)" and "wf_id (r_id r)" and "parseUUID C nid = Inr (r_id r)"
    and "r_status r \<in> {StatusProcessing, StatusDelivered, StatusFailed, StatusCancelled}"
    and "trail C H (CancelNotification_Execute (cancelNotif C) nid) (Idle, d, x, ps) = (res, h', d', x', ps')"
  shows "d' = d \<and> ps' = ps \<and> (\<exists>e. res = Inl e)"
  using cancel_refused [OF assms(1-4) _ assms(6)] assms(5) by (auto simp: CanTransitionTo_iff)

theorem cancel_refused_when_settled_witness:
  "\<exists>e h x ps. trail plain_codec (calm (numbered_world 202)) (CancelNotification_Execute (cancelNotif plain_codec) (numbered_id 1))
     (Idle, sms_db (sms_row\<lparr>r_status := StatusDelivered\<rparr>) [], calls 4 [] [], []) =
     (Inl e, h, sms_db (sms_row\<lparr>r_status := StatusDelivered\<rparr>) [], x, ps)"
proof -
  let ?r = "sms_row\<lparr>r_status := StatusDelivered\<rparr>"
  obtain res h d x ps where run: "trail plain_codec (calm (numbered_world 202)) (CancelNotification_Execute (cancelNotif plain_codec) (numbered_id 1))
     (Idle, sms_db ?r [], calls 4 [] [], []) = (res, h, d, x, ps)" by (rule prod_cases5)
  with cancel_refused_when_settled [OF _ _ _ _ _ run, of ?r] sms_db_ready(3,4) show ?thesis
    by (auto simp: db_ok_def)
qed

end
